(* ===== verification/Prelude.thy ===== *)
theory Prelude
  imports Main "HOL-Library.Word" "HOL-Library.Monad_Syntax"
begin

text \<open>
  Shared vocabulary of the development: the machine integer types, the value-result type of
  \<^verbatim>\<open>include/nmc/expected.hpp\<close>, ordered maps (the model of \<^verbatim>\<open>std::map\<close>), little-endian byte
  strings, and decimal and hexadecimal printing.  The ordered map is a key-sorted association
  list, so that iteration in key order, which the planner, the index rebuild and the persistence
  encoder rely on, is ordinary list recursion; look-up is \<^const>\<open>map_of\<close>, and the laws below
  reduce every update to a function update of the look-up function.
\<close>

named_theorems om_simps \<open>look-up laws of ordered maps\<close>
named_theorems om_intros \<open>well-formedness laws of ordered maps\<close>

section \<open>Machine integers\<close>

type_synonym u8 = "8 word"
type_synonym u16 = "16 word"
type_synonym u32 = "32 word"
type_synonym u64 = "64 word"

section \<open>Value results\<close>

record Error =
  err_code :: string
  err_message :: string

type_synonym 'a Result = "Error + 'a"

definition make_error :: "string \<Rightarrow> string \<Rightarrow> Error" where
  "make_error code message = \<lparr>err_code = code, err_message = message\<rparr>"

definition error_eq :: "Error \<Rightarrow> Error \<Rightarrow> bool" where
  "error_eq a b \<longleftrightarrow> err_code a = err_code b"

definition has_value :: "'a Result \<Rightarrow> bool" where
  "has_value r = (case r of Inl _ \<Rightarrow> False | Inr _ \<Rightarrow> True)"

definition value_or :: "'a Result \<Rightarrow> 'a \<Rightarrow> 'a" where
  "value_or r fallback = (case r of Inl _ \<Rightarrow> fallback | Inr v \<Rightarrow> v)"

lemma has_value_simps [simp]:
  "has_value (Inl e) = False" "has_value (Inr v) = True"
  by (simp_all add: has_value_def)

lemma err_code_make_error [simp]: "err_code (make_error c m) = c"
  by (simp add: make_error_def)

section \<open>Conditional appends\<close>

text \<open>\<^verbatim>\<open>if (c) v.push_back(x);\<close> as the list it appends.\<close>

definition push_if :: "bool \<Rightarrow> 'a \<Rightarrow> 'a list" where
  "push_if c x = (if c then [x] else [])"

lemma push_if_simps [simp]:
  "push_if True x = [x]" "push_if False x = []"
  "push_if c x = [] \<longleftrightarrow> \<not> c" "[] = push_if c x \<longleftrightarrow> \<not> c"
  by (simp_all add: push_if_def)

lemma set_push_if [simp]: "set (push_if c x) = (if c then {x} else {})"
  by (cases c) simp_all

section \<open>Ordered maps\<close>

text \<open>\<^verbatim>\<open>std::map<K, V>\<close>: the list of its (key, value) pairs in iteration order.\<close>

type_synonym ('k, 'v) omap = "('k \<times> 'v) list"

definition om_wf :: "('k::linorder, 'v) omap \<Rightarrow> bool" where
  "om_wf m \<longleftrightarrow> sorted_wrt (<) (map fst m)"

abbreviation om_find :: "('k, 'v) omap \<Rightarrow> 'k \<Rightarrow> 'v option" where
  "om_find m k \<equiv> map_of m k"

definition om_count :: "('k, 'v) omap \<Rightarrow> 'k \<Rightarrow> bool" where
  "om_count m k \<longleftrightarrow> om_find m k \<noteq> None"

text \<open>Assignment through \<^verbatim>\<open>operator[]\<close>.\<close>

fun om_put :: "'k::linorder \<Rightarrow> 'v \<Rightarrow> ('k, 'v) omap \<Rightarrow> ('k, 'v) omap" where
  "om_put k v [] = [(k, v)]"
| "om_put k v ((k', v') # m) =
     (if k < k' then (k, v) # (k', v') # m
      else if k = k' then (k, v) # m
      else (k', v') # om_put k v m)"

definition om_erase :: "'k \<Rightarrow> ('k, 'v) omap \<Rightarrow> ('k, 'v) omap" where
  "om_erase k m = filter (\<lambda>p. fst p \<noteq> k) m"

text \<open>\<^verbatim>\<open>operator[]\<close> used as a value: the mapped value, and the map in which a missing key has been given
  the default.\<close>

definition om_ref :: "'v \<Rightarrow> 'k \<Rightarrow> ('k, 'v) omap \<Rightarrow> 'v" where
  "om_ref d k m = (case om_find m k of None \<Rightarrow> d | Some v \<Rightarrow> v)"

definition om_ensure :: "'v \<Rightarrow> 'k::linorder \<Rightarrow> ('k, 'v) omap \<Rightarrow> ('k, 'v) omap" where
  "om_ensure d k m = (case om_find m k of None \<Rightarrow> om_put k d m | Some _ \<Rightarrow> m)"

text \<open>A range-for loop that updates every mapped value in place.\<close>

definition om_for_each :: "('v \<Rightarrow> 'v) \<Rightarrow> ('k, 'v) omap \<Rightarrow> ('k, 'v) omap" where
  "om_for_each f m = map (\<lambda>(k, v). (k, f v)) m"

lemma om_find_put [simp, om_simps]: "om_find (om_put k v m) = (om_find m)(k \<mapsto> v)"
  by (induction m) (auto simp: fun_eq_iff)

lemma om_find_erase [simp, om_simps]: "om_find (om_erase k m) = (om_find m)(k := None)"
  by (induction m) (auto simp: om_erase_def fun_eq_iff)

lemma om_find_for_each [simp, om_simps]:
  "om_find (om_for_each f m) k = map_option f (om_find m k)"
  by (induction m) (auto simp: om_for_each_def)

lemma om_ref_Some [simp, om_simps]: "om_find m k = Some v \<Longrightarrow> om_ref d k m = v"
  by (simp add: om_ref_def)

lemma om_ensure_Some [simp, om_simps]: "om_find m k = Some v \<Longrightarrow> om_ensure d k m = m"
  by (simp add: om_ensure_def)

lemma om_find_ensure:
  "om_find (om_ensure d k m) = (om_find m)(k \<mapsto> om_ref d k m)"
  by (auto simp: om_ensure_def om_ref_def split: option.splits)

lemma om_keys_put: "fst ` set (om_put k v m) = insert k (fst ` set m)"
  by (induction m rule: om_put.induct [where ?P = "\<lambda>k v m. fst ` set (om_put k v m) = insert k (fst ` set m)"])
     (simp_all add: insert_commute)

lemma om_wf_Nil [simp, om_intros]: "om_wf []"
  by (simp add: om_wf_def)

lemma om_wf_Cons [simp]: "om_wf ((k, v) # m) \<longleftrightarrow> (\<forall>k' \<in> fst ` set m. k < k') \<and> om_wf m"
  by (auto simp: om_wf_def)

lemma om_wf_put [simp, om_intros]: "om_wf m \<Longrightarrow> om_wf (om_put k v m)"
proof (induction m)
  case (Cons p m)
  then show ?case
    by (cases p) (force simp: om_keys_put)
qed simp

lemma om_wf_filter [simp, om_intros]: "om_wf m \<Longrightarrow> om_wf (filter P m)"
  by (induction m) auto

lemma om_wf_erase [simp, om_intros]: "om_wf m \<Longrightarrow> om_wf (om_erase k m)"
  by (simp add: om_erase_def)

lemma om_keys_for_each [simp]: "map fst (om_for_each f m) = map fst m"
  by (induction m) (auto simp: om_for_each_def)

lemma om_wf_for_each [simp, om_intros]: "om_wf (om_for_each f m) = om_wf m"
  by (simp add: om_wf_def)

lemma om_wf_ensure [simp, om_intros]: "om_wf m \<Longrightarrow> om_wf (om_ensure d k m)"
  by (simp add: om_ensure_def split: option.splits)

lemma om_wf_distinct: "om_wf m \<Longrightarrow> distinct (map fst m)"
  by (simp add: om_wf_def strict_sorted_iff)

text \<open>Two well-formed maps with the same look-up function are the same list: a map has one
  iteration order.\<close>

lemma om_wf_ext:
  assumes "om_wf m" "om_wf n" "om_find m = om_find n"
  shows "m = n"
proof -
  have set: "set m = set n"
    using assms by (metis map_of_inject_set om_wf_distinct)
  have keys: "map fst m = map fst n"
    using assms(1,2) set
    by (intro sorted_distinct_set_unique)
       (auto simp: om_wf_def strict_sorted_iff)
  have "inj_on fst (set m \<union> set n)"
    using om_wf_distinct [OF assms(1)] set by (simp add: distinct_map)
  with keys show ?thesis
    by (rule map_inj_on)
qed

section \<open>Little-endian byte strings\<close>

text \<open>The object representation of an unsigned integer of \<open>n\<close> bytes, as \<^verbatim>\<open>std::memcpy\<close> reads
  and writes it on the little-endian target the build requires.\<close>

primrec le_bytes :: "nat \<Rightarrow> nat \<Rightarrow> u8 list" where
  "le_bytes 0 k = []"
| "le_bytes (Suc n) k = word_of_nat k # le_bytes n (k div 256)"

primrec le_val :: "u8 list \<Rightarrow> nat" where
  "le_val [] = 0"
| "le_val (b # bs) = unat b + 256 * le_val bs"

lemma length_le_bytes [simp]: "length (le_bytes n k) = n"
  by (induction n arbitrary: k) auto

lemma le_val_le_bytes: "le_val (le_bytes n k) = k mod 256 ^ n"
proof (induction n arbitrary: k)
  case (Suc n)
  have "k mod 256 + 256 * (k div 256 mod 256 ^ n) = k mod (256 * 256 ^ n)"
    by (simp add: mod_mult2_eq)
  then show ?case
    by (simp add: Suc.IH unat_of_nat take_bit_eq_mod)
qed simp

lemma unat_u8_less: "unat (b :: u8) < 256"
  using unsigned_less [of b] by simp

lemma le_val_bound: "le_val bs < 256 ^ length bs"
proof (induction bs)
  case (Cons b bs)
  have "unat b + 256 * x < 256 * y" if "x < y" for x y :: nat
    using unat_u8_less [of b] that by linarith
  from this [OF Cons.IH] show ?case by simp
qed simp

lemma le_bytes_le_val: "le_bytes (length bs) (le_val bs) = bs"
proof (induction bs)
  case (Cons b bs)
  have b: "unat b < 256"
    by (rule unat_u8_less)
  have z: "(256 :: u8) = 0" by simp
  have "word_of_nat (unat b + 256 * le_val bs) = b"
    by (simp add: z)
  moreover have "(unat b + 256 * le_val bs) div 256 = le_val bs"
    using b by simp
  ultimately show ?case
    using Cons.IH by simp
qed simp

lemma le_bytes_inj: "k < 256 ^ n \<Longrightarrow> k' < 256 ^ n \<Longrightarrow> le_bytes n k = le_bytes n k' \<Longrightarrow> k = k'"
  by (metis le_val_le_bytes mod_less)

section \<open>Bytes of strings, decimal and hexadecimal printing\<close>

text \<open>A \<^verbatim>\<open>std::string\<close> is a string of bytes; the model keeps it as \<^typ>\<open>string\<close>.\<close>

definition bytes_of_string :: "string \<Rightarrow> u8 list" where
  "bytes_of_string s = map (\<lambda>c. word_of_nat (of_char c)) s"

definition string_of_bytes :: "u8 list \<Rightarrow> string" where
  "string_of_bytes bs = map (\<lambda>b. char_of (unat b)) bs"

lemma length_bytes_of_string [simp]: "length (bytes_of_string s) = length s"
  by (simp add: bytes_of_string_def)

lemma unat_of_char_u8 [simp]: "unat (word_of_nat (of_char c) :: u8) = of_char c"
  by (simp only: unat_of_nat take_bit_eq_mod) simp

lemma string_of_bytes_of_string [simp]: "string_of_bytes (bytes_of_string s) = s"
  by (simp add: string_of_bytes_def bytes_of_string_def comp_def)

definition digit_char :: "nat \<Rightarrow> char" where
  "digit_char d = char_of (if d < 10 then 48 + d else 87 + d)"

definition char_digit :: "char \<Rightarrow> nat" where
  "char_digit c = (if of_char c < (58::nat) then of_char c - 48 else of_char c - 87)"

fun nat_to_base :: "nat \<Rightarrow> nat \<Rightarrow> string" where
  "nat_to_base b n =
     (if n < b \<or> b < 2 then [digit_char n]
      else nat_to_base b (n div b) @ [digit_char (n mod b)])"

declare nat_to_base.simps [simp del]

definition base_val :: "nat \<Rightarrow> string \<Rightarrow> nat" where
  "base_val b s = foldl (\<lambda>a c. a * b + char_digit c) 0 s"

text \<open>\<^verbatim>\<open>std::to_string\<close> on an unsigned 64-bit integer.\<close>

definition to_string_u64 :: "u64 \<Rightarrow> string" where
  "to_string_u64 v = nat_to_base 10 (unat v)"

lemma char_digit_digit_char [simp]: "d < 16 \<Longrightarrow> char_digit (digit_char d) = d"
  by (auto simp: char_digit_def digit_char_def)

lemma base_val_nat_to_base:
  assumes "2 \<le> b" "b \<le> 16"
  shows "base_val b (nat_to_base b n) = n"
  using assms
proof (induction b n rule: nat_to_base.induct)
  case (1 b n)
  show ?case
  proof (cases "n < b")
    case True
    with "1.prems" show ?thesis
      by (simp add: nat_to_base.simps [of b n] base_val_def)
  next
    case False
    have "n mod b < b"
      using "1.prems" by simp
    then have "n mod b < 16"
      using "1.prems" by linarith
    with False "1.prems" "1.IH" show ?thesis
      by (simp add: nat_to_base.simps [of b n] base_val_def)
  qed
qed

lemma base_val_pad: "base_val b (replicate k (CHR ''0'') @ s) = base_val b s"
  by (induction k) (simp_all add: base_val_def char_digit_def)

lemma base_val_to_string_u64 [simp]: "base_val 10 (to_string_u64 v) = unat v"
  unfolding to_string_u64_def by (rule base_val_nat_to_base) simp_all

lemma to_string_u64_inj: "to_string_u64 v = to_string_u64 w \<Longrightarrow> v = w"
  by (metis base_val_to_string_u64 word_unat_eq_iff)

end
