(* ===== verification/Enums.thy ===== *)
theory Enums
  imports Prelude
begin

text \<open>
  The enumerations of \<^verbatim>\<open>include/nmc/enums.hpp\<close> (and \<open>AccessSemantics\<close> of \<^verbatim>\<open>target.hpp\<close>,
  \<open>IntegrityRequirement\<close> of \<^verbatim>\<open>operation.hpp\<close>).  A scoped enumeration with a fixed underlying type
  can hold any value of that type, and the wire decoders do store unchecked integers through
  \<^verbatim>\<open>static_cast\<close>; each datatype therefore has, beside the source's enumerators, a constructor
  \<open>E_other\<close> for a stored value that names no enumerator.  For each enumeration \<open>E\<close>, \<open>E_code\<close> is
  the underlying integer, \<open>E_cast\<close> the \<^verbatim>\<open>static_cast\<close> from an integer, \<open>E_table\<close> the enumerators in
  declaration order, \<open>to_string_E\<close> and \<open>parse_E\<close> the two string conversions.  The locale
  \<open>enumeration\<close> states what the conversions promise each other; it is interpreted for every
  enumeration at the end of the theory.
\<close>

section \<open>Parsing helpers\<close>

definition parse_from_table :: "('e \<Rightarrow> string) \<Rightarrow> 'e list \<Rightarrow> string \<Rightarrow> 'e option" where
  "parse_from_table to_str table name = find (\<lambda>e. name = to_str e) table"

definition parse_range :: "(int \<Rightarrow> 'e) \<Rightarrow> ('e \<Rightarrow> string) \<Rightarrow> nat \<Rightarrow> string \<Rightarrow> 'e option" where
  "parse_range cast to_str count name =
     find (\<lambda>e. name = to_str e) (map (\<lambda>i. cast (int i)) [0..<count])"

definition contains :: "'e list \<Rightarrow> 'e \<Rightarrow> bool" where
  "contains table v \<longleftrightarrow> list_ex (\<lambda>e. e = v) table"

section \<open>The enumerations\<close>

datatype OperationClass =
    REDUCE | SUM | MIN | MAX | COUNT | FILTER | SCAN | COMPARE | CHECKSUM | HASH |
    COMPRESS | DECOMPRESS | ENCODE | DECODE | TRANSFORM | ELEMENTWISE |
    COPY_ELISION_TRANSFORM | INDEX_LOOKUP | GATHER | SCATTER | CUSTOM_REGISTERED |
    OperationClass_other int

fun OperationClass_code :: "OperationClass \<Rightarrow> int" where
  "OperationClass_code OperationClass.REDUCE = 0"
| "OperationClass_code OperationClass.SUM = 1"
| "OperationClass_code OperationClass.MIN = 2"
| "OperationClass_code OperationClass.MAX = 3"
| "OperationClass_code OperationClass.COUNT = 4"
| "OperationClass_code OperationClass.FILTER = 5"
| "OperationClass_code OperationClass.SCAN = 6"
| "OperationClass_code OperationClass.COMPARE = 7"
| "OperationClass_code OperationClass.CHECKSUM = 8"
| "OperationClass_code OperationClass.HASH = 9"
| "OperationClass_code OperationClass.COMPRESS = 10"
| "OperationClass_code OperationClass.DECOMPRESS = 11"
| "OperationClass_code OperationClass.ENCODE = 12"
| "OperationClass_code OperationClass.DECODE = 13"
| "OperationClass_code OperationClass.TRANSFORM = 14"
| "OperationClass_code OperationClass.ELEMENTWISE = 15"
| "OperationClass_code OperationClass.COPY_ELISION_TRANSFORM = 16"
| "OperationClass_code OperationClass.INDEX_LOOKUP = 17"
| "OperationClass_code OperationClass.GATHER = 18"
| "OperationClass_code OperationClass.SCATTER = 19"
| "OperationClass_code OperationClass.CUSTOM_REGISTERED = 20"
| "OperationClass_code (OperationClass_other n) = n"

definition kOperationClasses :: "OperationClass list" where
  "kOperationClasses = [
     OperationClass.REDUCE, OperationClass.SUM, OperationClass.MIN, OperationClass.MAX,
     OperationClass.COUNT, OperationClass.FILTER, OperationClass.SCAN,
     OperationClass.COMPARE, OperationClass.CHECKSUM, OperationClass.HASH,
     OperationClass.COMPRESS, OperationClass.DECOMPRESS, OperationClass.ENCODE,
     OperationClass.DECODE, OperationClass.TRANSFORM, OperationClass.ELEMENTWISE,
     OperationClass.COPY_ELISION_TRANSFORM, OperationClass.INDEX_LOOKUP,
     OperationClass.GATHER, OperationClass.SCATTER, OperationClass.CUSTOM_REGISTERED]"

definition OperationClass_names :: "string list" where
  "OperationClass_names = [
     ''REDUCE'', ''SUM'', ''MIN'', ''MAX'', ''COUNT'', ''FILTER'', ''SCAN'', ''COMPARE'',
     ''CHECKSUM'', ''HASH'', ''COMPRESS'', ''DECOMPRESS'', ''ENCODE'', ''DECODE'',
     ''TRANSFORM'', ''ELEMENTWISE'', ''COPY_ELISION_TRANSFORM'', ''INDEX_LOOKUP'',
     ''GATHER'', ''SCATTER'', ''CUSTOM_REGISTERED'']"

definition OperationClass_cast :: "int \<Rightarrow> OperationClass" where
  "OperationClass_cast n = (if 0 \<le> n \<and> n < 21 then kOperationClasses ! nat n else OperationClass_other n)"

definition to_string_OperationClass :: "OperationClass \<Rightarrow> string" where
  "to_string_OperationClass v =
     (if contains kOperationClasses v then OperationClass_names ! nat (OperationClass_code v) else ''INVALID_OPERATION_CLASS'')"

definition parse_OperationClass :: "string \<Rightarrow> OperationClass option" where
  "parse_OperationClass name = parse_from_table to_string_OperationClass kOperationClasses name"

datatype TargetKind =
    HOST_CPU_LOCAL | MEMORY_SIDE_PROCESSOR | PIM_CLASS | CXL_ADJACENT_COMPUTE |
    FABRIC_ATTACHED_COMPUTE | STORAGE_ADJACENT_COMPUTE | DPU_ADJACENT_MEMORY_SERVICE |
    ACCELERATOR_MEMORY_LOCAL | SOFTWARE_DEFINED | SYNTHETIC | UNKNOWN |
    TargetKind_other int

fun TargetKind_code :: "TargetKind \<Rightarrow> int" where
  "TargetKind_code TargetKind.HOST_CPU_LOCAL = 0"
| "TargetKind_code TargetKind.MEMORY_SIDE_PROCESSOR = 1"
| "TargetKind_code TargetKind.PIM_CLASS = 2"
| "TargetKind_code TargetKind.CXL_ADJACENT_COMPUTE = 3"
| "TargetKind_code TargetKind.FABRIC_ATTACHED_COMPUTE = 4"
| "TargetKind_code TargetKind.STORAGE_ADJACENT_COMPUTE = 5"
| "TargetKind_code TargetKind.DPU_ADJACENT_MEMORY_SERVICE = 6"
| "TargetKind_code TargetKind.ACCELERATOR_MEMORY_LOCAL = 7"
| "TargetKind_code TargetKind.SOFTWARE_DEFINED = 8"
| "TargetKind_code TargetKind.SYNTHETIC = 9"
| "TargetKind_code TargetKind.UNKNOWN = 10"
| "TargetKind_code (TargetKind_other n) = n"

definition kTargetKinds :: "TargetKind list" where
  "kTargetKinds = [
     TargetKind.HOST_CPU_LOCAL, TargetKind.MEMORY_SIDE_PROCESSOR, TargetKind.PIM_CLASS,
     TargetKind.CXL_ADJACENT_COMPUTE, TargetKind.FABRIC_ATTACHED_COMPUTE,
     TargetKind.STORAGE_ADJACENT_COMPUTE, TargetKind.DPU_ADJACENT_MEMORY_SERVICE,
     TargetKind.ACCELERATOR_MEMORY_LOCAL, TargetKind.SOFTWARE_DEFINED,
     TargetKind.SYNTHETIC, TargetKind.UNKNOWN]"

definition TargetKind_names :: "string list" where
  "TargetKind_names = [
     ''HOST_CPU_LOCAL'', ''MEMORY_SIDE_PROCESSOR'', ''PIM_CLASS'',
     ''CXL_ADJACENT_COMPUTE'', ''FABRIC_ATTACHED_COMPUTE'', ''STORAGE_ADJACENT_COMPUTE'',
     ''DPU_ADJACENT_MEMORY_SERVICE'', ''ACCELERATOR_MEMORY_LOCAL'', ''SOFTWARE_DEFINED'',
     ''SYNTHETIC'', ''UNKNOWN'']"

definition TargetKind_cast :: "int \<Rightarrow> TargetKind" where
  "TargetKind_cast n = (if 0 \<le> n \<and> n < 11 then kTargetKinds ! nat n else TargetKind_other n)"

definition to_string_TargetKind :: "TargetKind \<Rightarrow> string" where
  "to_string_TargetKind v =
     (if contains kTargetKinds v then TargetKind_names ! nat (TargetKind_code v) else ''INVALID_TARGET_KIND'')"

definition parse_TargetKind :: "string \<Rightarrow> TargetKind option" where
  "parse_TargetKind name = parse_from_table to_string_TargetKind kTargetKinds name"

datatype ProviderKind =
    REAL | SYNTHETIC | UNKNOWN | UNSUPPORTED | ProviderKind_other int

fun ProviderKind_code :: "ProviderKind \<Rightarrow> int" where
  "ProviderKind_code ProviderKind.REAL = 0"
| "ProviderKind_code ProviderKind.SYNTHETIC = 1"
| "ProviderKind_code ProviderKind.UNKNOWN = 2"
| "ProviderKind_code ProviderKind.UNSUPPORTED = 3"
| "ProviderKind_code (ProviderKind_other n) = n"

definition ProviderKind_table :: "ProviderKind list" where
  "ProviderKind_table = [
     ProviderKind.REAL, ProviderKind.SYNTHETIC, ProviderKind.UNKNOWN,
     ProviderKind.UNSUPPORTED]"

definition ProviderKind_names :: "string list" where
  "ProviderKind_names = [
     ''REAL'', ''SYNTHETIC'', ''UNKNOWN'', ''UNSUPPORTED'']"

definition ProviderKind_cast :: "int \<Rightarrow> ProviderKind" where
  "ProviderKind_cast n = (if 0 \<le> n \<and> n < 4 then ProviderKind_table ! nat n else ProviderKind_other n)"

definition to_string_ProviderKind :: "ProviderKind \<Rightarrow> string" where
  "to_string_ProviderKind v =
     (if 0 \<le> ProviderKind_code v \<and> ProviderKind_code v < 4 then ProviderKind_names ! nat (ProviderKind_code v)
      else ''INVALID_PROVIDER_KIND'')"

definition parse_ProviderKind :: "string \<Rightarrow> ProviderKind option" where
  "parse_ProviderKind name = parse_range ProviderKind_cast to_string_ProviderKind 4 name"

datatype CapabilityState =
    SUPPORTED | UNSUPPORTED | UNKNOWN | REVALIDATION_REQUIRED | CapabilityState_other int

fun CapabilityState_code :: "CapabilityState \<Rightarrow> int" where
  "CapabilityState_code CapabilityState.SUPPORTED = 0"
| "CapabilityState_code CapabilityState.UNSUPPORTED = 1"
| "CapabilityState_code CapabilityState.UNKNOWN = 2"
| "CapabilityState_code CapabilityState.REVALIDATION_REQUIRED = 3"
| "CapabilityState_code (CapabilityState_other n) = n"

definition CapabilityState_table :: "CapabilityState list" where
  "CapabilityState_table = [
     CapabilityState.SUPPORTED, CapabilityState.UNSUPPORTED, CapabilityState.UNKNOWN,
     CapabilityState.REVALIDATION_REQUIRED]"

definition CapabilityState_names :: "string list" where
  "CapabilityState_names = [
     ''SUPPORTED'', ''UNSUPPORTED'', ''UNKNOWN'', ''REVALIDATION_REQUIRED'']"

definition CapabilityState_cast :: "int \<Rightarrow> CapabilityState" where
  "CapabilityState_cast n = (if 0 \<le> n \<and> n < 4 then CapabilityState_table ! nat n else CapabilityState_other n)"

definition to_string_CapabilityState :: "CapabilityState \<Rightarrow> string" where
  "to_string_CapabilityState v =
     (if 0 \<le> CapabilityState_code v \<and> CapabilityState_code v < 4 then CapabilityState_names ! nat (CapabilityState_code v)
      else ''INVALID_CAPABILITY_STATE'')"

definition parse_CapabilityState :: "string \<Rightarrow> CapabilityState option" where
  "parse_CapabilityState name = parse_range CapabilityState_cast to_string_CapabilityState 4 name"

datatype TargetLifecycle =
    DISCOVERED | REGISTERED | PROBING | READY | BUSY | DEGRADED | DRAINING |
    REVALIDATION_REQUIRED | OFFLINE | FAILED | RETIRED | TargetLifecycle_other int

fun TargetLifecycle_code :: "TargetLifecycle \<Rightarrow> int" where
  "TargetLifecycle_code TargetLifecycle.DISCOVERED = 0"
| "TargetLifecycle_code TargetLifecycle.REGISTERED = 1"
| "TargetLifecycle_code TargetLifecycle.PROBING = 2"
| "TargetLifecycle_code TargetLifecycle.READY = 3"
| "TargetLifecycle_code TargetLifecycle.BUSY = 4"
| "TargetLifecycle_code TargetLifecycle.DEGRADED = 5"
| "TargetLifecycle_code TargetLifecycle.DRAINING = 6"
| "TargetLifecycle_code TargetLifecycle.REVALIDATION_REQUIRED = 7"
| "TargetLifecycle_code TargetLifecycle.OFFLINE = 8"
| "TargetLifecycle_code TargetLifecycle.FAILED = 9"
| "TargetLifecycle_code TargetLifecycle.RETIRED = 10"
| "TargetLifecycle_code (TargetLifecycle_other n) = n"

definition TargetLifecycle_table :: "TargetLifecycle list" where
  "TargetLifecycle_table = [
     TargetLifecycle.DISCOVERED, TargetLifecycle.REGISTERED, TargetLifecycle.PROBING,
     TargetLifecycle.READY, TargetLifecycle.BUSY, TargetLifecycle.DEGRADED,
     TargetLifecycle.DRAINING, TargetLifecycle.REVALIDATION_REQUIRED,
     TargetLifecycle.OFFLINE, TargetLifecycle.FAILED, TargetLifecycle.RETIRED]"

definition TargetLifecycle_names :: "string list" where
  "TargetLifecycle_names = [
     ''DISCOVERED'', ''REGISTERED'', ''PROBING'', ''READY'', ''BUSY'', ''DEGRADED'',
     ''DRAINING'', ''REVALIDATION_REQUIRED'', ''OFFLINE'', ''FAILED'', ''RETIRED'']"

definition TargetLifecycle_cast :: "int \<Rightarrow> TargetLifecycle" where
  "TargetLifecycle_cast n = (if 0 \<le> n \<and> n < 11 then TargetLifecycle_table ! nat n else TargetLifecycle_other n)"

definition to_string_TargetLifecycle :: "TargetLifecycle \<Rightarrow> string" where
  "to_string_TargetLifecycle v =
     (if 0 \<le> TargetLifecycle_code v \<and> TargetLifecycle_code v < 11 then TargetLifecycle_names ! nat (TargetLifecycle_code v)
      else ''INVALID_TARGET_LIFECYCLE'')"

definition parse_TargetLifecycle :: "string \<Rightarrow> TargetLifecycle option" where
  "parse_TargetLifecycle name = parse_range TargetLifecycle_cast to_string_TargetLifecycle 11 name"

datatype ExecutionLifecycle =
    PLANNED | RESERVED | DISPATCHED | RUNNING | VERIFYING | COMPLETED | COMMITTED |
    FAILED | OUTCOME_UNKNOWN | CANCELLED | FENCED | SUPERSEDED |
    ExecutionLifecycle_other int

fun ExecutionLifecycle_code :: "ExecutionLifecycle \<Rightarrow> int" where
  "ExecutionLifecycle_code ExecutionLifecycle.PLANNED = 0"
| "ExecutionLifecycle_code ExecutionLifecycle.RESERVED = 1"
| "ExecutionLifecycle_code ExecutionLifecycle.DISPATCHED = 2"
| "ExecutionLifecycle_code ExecutionLifecycle.RUNNING = 3"
| "ExecutionLifecycle_code ExecutionLifecycle.VERIFYING = 4"
| "ExecutionLifecycle_code ExecutionLifecycle.COMPLETED = 5"
| "ExecutionLifecycle_code ExecutionLifecycle.COMMITTED = 6"
| "ExecutionLifecycle_code ExecutionLifecycle.FAILED = 7"
| "ExecutionLifecycle_code ExecutionLifecycle.OUTCOME_UNKNOWN = 8"
| "ExecutionLifecycle_code ExecutionLifecycle.CANCELLED = 9"
| "ExecutionLifecycle_code ExecutionLifecycle.FENCED = 10"
| "ExecutionLifecycle_code ExecutionLifecycle.SUPERSEDED = 11"
| "ExecutionLifecycle_code (ExecutionLifecycle_other n) = n"

definition ExecutionLifecycle_table :: "ExecutionLifecycle list" where
  "ExecutionLifecycle_table = [
     ExecutionLifecycle.PLANNED, ExecutionLifecycle.RESERVED,
     ExecutionLifecycle.DISPATCHED, ExecutionLifecycle.RUNNING,
     ExecutionLifecycle.VERIFYING, ExecutionLifecycle.COMPLETED,
     ExecutionLifecycle.COMMITTED, ExecutionLifecycle.FAILED,
     ExecutionLifecycle.OUTCOME_UNKNOWN, ExecutionLifecycle.CANCELLED,
     ExecutionLifecycle.FENCED, ExecutionLifecycle.SUPERSEDED]"

definition ExecutionLifecycle_names :: "string list" where
  "ExecutionLifecycle_names = [
     ''PLANNED'', ''RESERVED'', ''DISPATCHED'', ''RUNNING'', ''VERIFYING'', ''COMPLETED'',
     ''COMMITTED'', ''FAILED'', ''OUTCOME_UNKNOWN'', ''CANCELLED'', ''FENCED'',
     ''SUPERSEDED'']"

definition ExecutionLifecycle_cast :: "int \<Rightarrow> ExecutionLifecycle" where
  "ExecutionLifecycle_cast n = (if 0 \<le> n \<and> n < 12 then ExecutionLifecycle_table ! nat n else ExecutionLifecycle_other n)"

definition to_string_ExecutionLifecycle :: "ExecutionLifecycle \<Rightarrow> string" where
  "to_string_ExecutionLifecycle v =
     (if 0 \<le> ExecutionLifecycle_code v \<and> ExecutionLifecycle_code v < 12 then ExecutionLifecycle_names ! nat (ExecutionLifecycle_code v)
      else ''INVALID_EXECUTION_LIFECYCLE'')"

definition parse_ExecutionLifecycle :: "string \<Rightarrow> ExecutionLifecycle option" where
  "parse_ExecutionLifecycle name = parse_range ExecutionLifecycle_cast to_string_ExecutionLifecycle 12 name"

datatype ProgramLifecycle =
    REGISTERED | VALIDATED | READY | REVALIDATION_REQUIRED | INVALID | RETIRED |
    ProgramLifecycle_other int

fun ProgramLifecycle_code :: "ProgramLifecycle \<Rightarrow> int" where
  "ProgramLifecycle_code ProgramLifecycle.REGISTERED = 0"
| "ProgramLifecycle_code ProgramLifecycle.VALIDATED = 1"
| "ProgramLifecycle_code ProgramLifecycle.READY = 2"
| "ProgramLifecycle_code ProgramLifecycle.REVALIDATION_REQUIRED = 3"
| "ProgramLifecycle_code ProgramLifecycle.INVALID = 4"
| "ProgramLifecycle_code ProgramLifecycle.RETIRED = 5"
| "ProgramLifecycle_code (ProgramLifecycle_other n) = n"

definition ProgramLifecycle_table :: "ProgramLifecycle list" where
  "ProgramLifecycle_table = [
     ProgramLifecycle.REGISTERED, ProgramLifecycle.VALIDATED, ProgramLifecycle.READY,
     ProgramLifecycle.REVALIDATION_REQUIRED, ProgramLifecycle.INVALID,
     ProgramLifecycle.RETIRED]"

definition ProgramLifecycle_names :: "string list" where
  "ProgramLifecycle_names = [
     ''REGISTERED'', ''VALIDATED'', ''READY'', ''REVALIDATION_REQUIRED'', ''INVALID'',
     ''RETIRED'']"

definition ProgramLifecycle_cast :: "int \<Rightarrow> ProgramLifecycle" where
  "ProgramLifecycle_cast n = (if 0 \<le> n \<and> n < 6 then ProgramLifecycle_table ! nat n else ProgramLifecycle_other n)"

definition to_string_ProgramLifecycle :: "ProgramLifecycle \<Rightarrow> string" where
  "to_string_ProgramLifecycle v =
     (if 0 \<le> ProgramLifecycle_code v \<and> ProgramLifecycle_code v < 6 then ProgramLifecycle_names ! nat (ProgramLifecycle_code v)
      else ''INVALID_PROGRAM_LIFECYCLE'')"

definition parse_ProgramLifecycle :: "string \<Rightarrow> ProgramLifecycle option" where
  "parse_ProgramLifecycle name = parse_range ProgramLifecycle_cast to_string_ProgramLifecycle 6 name"

datatype EligibilityReason =
    NONE | TARGET_OFFLINE | TARGET_DEGRADED | TARGET_UNREACHABLE |
    TARGET_REVALIDATION_REQUIRED | OPERATION_UNSUPPORTED | OPERATION_UNKNOWN |
    DATATYPE_UNSUPPORTED | LAYOUT_UNSUPPORTED | ALIGNMENT_UNSUPPORTED | DATA_STALE |
    DATA_WRONG_GENERATION | DATA_UNREACHABLE | INSUFFICIENT_WORKSPACE |
    CONCURRENCY_EXHAUSTED | POLICY_DENIED | FAILURE_DOMAIN_CONFLICT |
    PROGRAM_INCOMPATIBLE | WRONG_TARGET_GENERATION | WRONG_WORKER_BOOT | WRONG_EPOCH |
    EVIDENCE_STALE | INSUFFICIENT_CONFIDENCE | EligibilityReason_other int

fun EligibilityReason_code :: "EligibilityReason \<Rightarrow> int" where
  "EligibilityReason_code EligibilityReason.NONE = 0"
| "EligibilityReason_code EligibilityReason.TARGET_OFFLINE = 1"
| "EligibilityReason_code EligibilityReason.TARGET_DEGRADED = 2"
| "EligibilityReason_code EligibilityReason.TARGET_UNREACHABLE = 3"
| "EligibilityReason_code EligibilityReason.TARGET_REVALIDATION_REQUIRED = 4"
| "EligibilityReason_code EligibilityReason.OPERATION_UNSUPPORTED = 5"
| "EligibilityReason_code EligibilityReason.OPERATION_UNKNOWN = 6"
| "EligibilityReason_code EligibilityReason.DATATYPE_UNSUPPORTED = 7"
| "EligibilityReason_code EligibilityReason.LAYOUT_UNSUPPORTED = 8"
| "EligibilityReason_code EligibilityReason.ALIGNMENT_UNSUPPORTED = 9"
| "EligibilityReason_code EligibilityReason.DATA_STALE = 10"
| "EligibilityReason_code EligibilityReason.DATA_WRONG_GENERATION = 11"
| "EligibilityReason_code EligibilityReason.DATA_UNREACHABLE = 12"
| "EligibilityReason_code EligibilityReason.INSUFFICIENT_WORKSPACE = 13"
| "EligibilityReason_code EligibilityReason.CONCURRENCY_EXHAUSTED = 14"
| "EligibilityReason_code EligibilityReason.POLICY_DENIED = 15"
| "EligibilityReason_code EligibilityReason.FAILURE_DOMAIN_CONFLICT = 16"
| "EligibilityReason_code EligibilityReason.PROGRAM_INCOMPATIBLE = 17"
| "EligibilityReason_code EligibilityReason.WRONG_TARGET_GENERATION = 18"
| "EligibilityReason_code EligibilityReason.WRONG_WORKER_BOOT = 19"
| "EligibilityReason_code EligibilityReason.WRONG_EPOCH = 20"
| "EligibilityReason_code EligibilityReason.EVIDENCE_STALE = 21"
| "EligibilityReason_code EligibilityReason.INSUFFICIENT_CONFIDENCE = 22"
| "EligibilityReason_code (EligibilityReason_other n) = n"

definition EligibilityReason_table :: "EligibilityReason list" where
  "EligibilityReason_table = [
     EligibilityReason.NONE, EligibilityReason.TARGET_OFFLINE,
     EligibilityReason.TARGET_DEGRADED, EligibilityReason.TARGET_UNREACHABLE,
     EligibilityReason.TARGET_REVALIDATION_REQUIRED,
     EligibilityReason.OPERATION_UNSUPPORTED, EligibilityReason.OPERATION_UNKNOWN,
     EligibilityReason.DATATYPE_UNSUPPORTED, EligibilityReason.LAYOUT_UNSUPPORTED,
     EligibilityReason.ALIGNMENT_UNSUPPORTED, EligibilityReason.DATA_STALE,
     EligibilityReason.DATA_WRONG_GENERATION, EligibilityReason.DATA_UNREACHABLE,
     EligibilityReason.INSUFFICIENT_WORKSPACE, EligibilityReason.CONCURRENCY_EXHAUSTED,
     EligibilityReason.POLICY_DENIED, EligibilityReason.FAILURE_DOMAIN_CONFLICT,
     EligibilityReason.PROGRAM_INCOMPATIBLE, EligibilityReason.WRONG_TARGET_GENERATION,
     EligibilityReason.WRONG_WORKER_BOOT, EligibilityReason.WRONG_EPOCH,
     EligibilityReason.EVIDENCE_STALE, EligibilityReason.INSUFFICIENT_CONFIDENCE]"

definition EligibilityReason_names :: "string list" where
  "EligibilityReason_names = [
     ''NONE'', ''TARGET_OFFLINE'', ''TARGET_DEGRADED'', ''TARGET_UNREACHABLE'',
     ''TARGET_REVALIDATION_REQUIRED'', ''OPERATION_UNSUPPORTED'', ''OPERATION_UNKNOWN'',
     ''DATATYPE_UNSUPPORTED'', ''LAYOUT_UNSUPPORTED'', ''ALIGNMENT_UNSUPPORTED'',
     ''DATA_STALE'', ''DATA_WRONG_GENERATION'', ''DATA_UNREACHABLE'',
     ''INSUFFICIENT_WORKSPACE'', ''CONCURRENCY_EXHAUSTED'', ''POLICY_DENIED'',
     ''FAILURE_DOMAIN_CONFLICT'', ''PROGRAM_INCOMPATIBLE'', ''WRONG_TARGET_GENERATION'',
     ''WRONG_WORKER_BOOT'', ''WRONG_EPOCH'', ''EVIDENCE_STALE'',
     ''INSUFFICIENT_CONFIDENCE'']"

definition EligibilityReason_cast :: "int \<Rightarrow> EligibilityReason" where
  "EligibilityReason_cast n = (if 0 \<le> n \<and> n < 23 then EligibilityReason_table ! nat n else EligibilityReason_other n)"

definition to_string_EligibilityReason :: "EligibilityReason \<Rightarrow> string" where
  "to_string_EligibilityReason v =
     (if 0 \<le> EligibilityReason_code v \<and> EligibilityReason_code v < 23 then EligibilityReason_names ! nat (EligibilityReason_code v)
      else ''INVALID_ELIGIBILITY_REASON'')"

definition parse_EligibilityReason :: "string \<Rightarrow> EligibilityReason option" where
  "parse_EligibilityReason name = parse_range EligibilityReason_cast to_string_EligibilityReason 23 name"

datatype Decision =
    NEAR_MEMORY_SELECTED | ALTERNATE_NEAR_MEMORY_SELECTED | CONVENTIONAL_CPU_SELECTED |
    CONVENTIONAL_GPU_SELECTED | MOVEMENT_REQUIRED | DEFER | REJECT |
    REVALIDATION_REQUIRED | Decision_other int

fun Decision_code :: "Decision \<Rightarrow> int" where
  "Decision_code Decision.NEAR_MEMORY_SELECTED = 0"
| "Decision_code Decision.ALTERNATE_NEAR_MEMORY_SELECTED = 1"
| "Decision_code Decision.CONVENTIONAL_CPU_SELECTED = 2"
| "Decision_code Decision.CONVENTIONAL_GPU_SELECTED = 3"
| "Decision_code Decision.MOVEMENT_REQUIRED = 4"
| "Decision_code Decision.DEFER = 5"
| "Decision_code Decision.REJECT = 6"
| "Decision_code Decision.REVALIDATION_REQUIRED = 7"
| "Decision_code (Decision_other n) = n"

definition Decision_table :: "Decision list" where
  "Decision_table = [
     Decision.NEAR_MEMORY_SELECTED, Decision.ALTERNATE_NEAR_MEMORY_SELECTED,
     Decision.CONVENTIONAL_CPU_SELECTED, Decision.CONVENTIONAL_GPU_SELECTED,
     Decision.MOVEMENT_REQUIRED, Decision.DEFER, Decision.REJECT,
     Decision.REVALIDATION_REQUIRED]"

definition Decision_names :: "string list" where
  "Decision_names = [
     ''NEAR_MEMORY_SELECTED'', ''ALTERNATE_NEAR_MEMORY_SELECTED'',
     ''CONVENTIONAL_CPU_SELECTED'', ''CONVENTIONAL_GPU_SELECTED'', ''MOVEMENT_REQUIRED'',
     ''DEFER'', ''REJECT'', ''REVALIDATION_REQUIRED'']"

definition Decision_cast :: "int \<Rightarrow> Decision" where
  "Decision_cast n = (if 0 \<le> n \<and> n < 8 then Decision_table ! nat n else Decision_other n)"

definition to_string_Decision :: "Decision \<Rightarrow> string" where
  "to_string_Decision v =
     (if 0 \<le> Decision_code v \<and> Decision_code v < 8 then Decision_names ! nat (Decision_code v)
      else ''INVALID_DECISION'')"

definition parse_Decision :: "string \<Rightarrow> Decision option" where
  "parse_Decision name = parse_range Decision_cast to_string_Decision 8 name"

datatype RetryClass =
    REPLAY_SAFE | IDEMPOTENT | AT_MOST_ONCE_REQUIRED | NON_RETRYABLE | UNKNOWN |
    RetryClass_other int

fun RetryClass_code :: "RetryClass \<Rightarrow> int" where
  "RetryClass_code RetryClass.REPLAY_SAFE = 0"
| "RetryClass_code RetryClass.IDEMPOTENT = 1"
| "RetryClass_code RetryClass.AT_MOST_ONCE_REQUIRED = 2"
| "RetryClass_code RetryClass.NON_RETRYABLE = 3"
| "RetryClass_code RetryClass.UNKNOWN = 4"
| "RetryClass_code (RetryClass_other n) = n"

definition RetryClass_table :: "RetryClass list" where
  "RetryClass_table = [
     RetryClass.REPLAY_SAFE, RetryClass.IDEMPOTENT, RetryClass.AT_MOST_ONCE_REQUIRED,
     RetryClass.NON_RETRYABLE, RetryClass.UNKNOWN]"

definition RetryClass_names :: "string list" where
  "RetryClass_names = [
     ''REPLAY_SAFE'', ''IDEMPOTENT'', ''AT_MOST_ONCE_REQUIRED'', ''NON_RETRYABLE'',
     ''UNKNOWN'']"

definition RetryClass_cast :: "int \<Rightarrow> RetryClass" where
  "RetryClass_cast n = (if 0 \<le> n \<and> n < 5 then RetryClass_table ! nat n else RetryClass_other n)"

definition to_string_RetryClass :: "RetryClass \<Rightarrow> string" where
  "to_string_RetryClass v =
     (if 0 \<le> RetryClass_code v \<and> RetryClass_code v < 5 then RetryClass_names ! nat (RetryClass_code v)
      else ''INVALID_RETRY_CLASS'')"

definition parse_RetryClass :: "string \<Rightarrow> RetryClass option" where
  "parse_RetryClass name = parse_range RetryClass_cast to_string_RetryClass 5 name"

datatype VerifyState =
    UNVERIFIED | VERIFIED | MISMATCH | CORRUPT | UNKNOWN | VerifyState_other int

fun VerifyState_code :: "VerifyState \<Rightarrow> int" where
  "VerifyState_code VerifyState.UNVERIFIED = 0"
| "VerifyState_code VerifyState.VERIFIED = 1"
| "VerifyState_code VerifyState.MISMATCH = 2"
| "VerifyState_code VerifyState.CORRUPT = 3"
| "VerifyState_code VerifyState.UNKNOWN = 4"
| "VerifyState_code (VerifyState_other n) = n"

definition VerifyState_table :: "VerifyState list" where
  "VerifyState_table = [
     VerifyState.UNVERIFIED, VerifyState.VERIFIED, VerifyState.MISMATCH,
     VerifyState.CORRUPT, VerifyState.UNKNOWN]"

definition VerifyState_names :: "string list" where
  "VerifyState_names = [
     ''UNVERIFIED'', ''VERIFIED'', ''MISMATCH'', ''CORRUPT'', ''UNKNOWN'']"

definition VerifyState_cast :: "int \<Rightarrow> VerifyState" where
  "VerifyState_cast n = (if 0 \<le> n \<and> n < 5 then VerifyState_table ! nat n else VerifyState_other n)"

definition to_string_VerifyState :: "VerifyState \<Rightarrow> string" where
  "to_string_VerifyState v =
     (if 0 \<le> VerifyState_code v \<and> VerifyState_code v < 5 then VerifyState_names ! nat (VerifyState_code v)
      else ''INVALID_VERIFY_STATE'')"

definition parse_VerifyState :: "string \<Rightarrow> VerifyState option" where
  "parse_VerifyState name = parse_range VerifyState_cast to_string_VerifyState 5 name"

datatype DataType =
    U8 | I8 | U16 | I16 | U32 | I32 | U64 | I64 | F32 | F64 | BF16 | F16 |
    DataType_other int

fun DataType_code :: "DataType \<Rightarrow> int" where
  "DataType_code DataType.U8 = 0"
| "DataType_code DataType.I8 = 1"
| "DataType_code DataType.U16 = 2"
| "DataType_code DataType.I16 = 3"
| "DataType_code DataType.U32 = 4"
| "DataType_code DataType.I32 = 5"
| "DataType_code DataType.U64 = 6"
| "DataType_code DataType.I64 = 7"
| "DataType_code DataType.F32 = 8"
| "DataType_code DataType.F64 = 9"
| "DataType_code DataType.BF16 = 10"
| "DataType_code DataType.F16 = 11"
| "DataType_code (DataType_other n) = n"

definition DataType_table :: "DataType list" where
  "DataType_table = [
     DataType.U8, DataType.I8, DataType.U16, DataType.I16, DataType.U32, DataType.I32,
     DataType.U64, DataType.I64, DataType.F32, DataType.F64, DataType.BF16, DataType.F16]"

definition DataType_names :: "string list" where
  "DataType_names = [
     ''U8'', ''I8'', ''U16'', ''I16'', ''U32'', ''I32'', ''U64'', ''I64'', ''F32'',
     ''F64'', ''BF16'', ''F16'']"

definition DataType_cast :: "int \<Rightarrow> DataType" where
  "DataType_cast n = (if 0 \<le> n \<and> n < 12 then DataType_table ! nat n else DataType_other n)"

definition to_string_DataType :: "DataType \<Rightarrow> string" where
  "to_string_DataType v =
     (if 0 \<le> DataType_code v \<and> DataType_code v < 12 then DataType_names ! nat (DataType_code v)
      else ''INVALID_DATATYPE'')"

definition parse_DataType :: "string \<Rightarrow> DataType option" where
  "parse_DataType name = parse_range DataType_cast to_string_DataType 12 name"

datatype Layout =
    CONTIGUOUS | STRIDED | BLOCKED | COMPRESSED | SPARSE | TILED | Layout_other int

fun Layout_code :: "Layout \<Rightarrow> int" where
  "Layout_code Layout.CONTIGUOUS = 0"
| "Layout_code Layout.STRIDED = 1"
| "Layout_code Layout.BLOCKED = 2"
| "Layout_code Layout.COMPRESSED = 3"
| "Layout_code Layout.SPARSE = 4"
| "Layout_code Layout.TILED = 5"
| "Layout_code (Layout_other n) = n"

definition Layout_table :: "Layout list" where
  "Layout_table = [
     Layout.CONTIGUOUS, Layout.STRIDED, Layout.BLOCKED, Layout.COMPRESSED, Layout.SPARSE,
     Layout.TILED]"

definition Layout_names :: "string list" where
  "Layout_names = [
     ''CONTIGUOUS'', ''STRIDED'', ''BLOCKED'', ''COMPRESSED'', ''SPARSE'', ''TILED'']"

definition Layout_cast :: "int \<Rightarrow> Layout" where
  "Layout_cast n = (if 0 \<le> n \<and> n < 6 then Layout_table ! nat n else Layout_other n)"

definition to_string_Layout :: "Layout \<Rightarrow> string" where
  "to_string_Layout v =
     (if 0 \<le> Layout_code v \<and> Layout_code v < 6 then Layout_names ! nat (Layout_code v)
      else ''INVALID_LAYOUT'')"

definition parse_Layout :: "string \<Rightarrow> Layout option" where
  "parse_Layout name = parse_range Layout_cast to_string_Layout 6 name"

datatype PolicyOutcome =
    NEAR_MEMORY_REQUIRED | NEAR_MEMORY_PREFERRED | UNCONSTRAINED | PolicyOutcome_other int

fun PolicyOutcome_code :: "PolicyOutcome \<Rightarrow> int" where
  "PolicyOutcome_code PolicyOutcome.NEAR_MEMORY_REQUIRED = 0"
| "PolicyOutcome_code PolicyOutcome.NEAR_MEMORY_PREFERRED = 1"
| "PolicyOutcome_code PolicyOutcome.UNCONSTRAINED = 2"
| "PolicyOutcome_code (PolicyOutcome_other n) = n"

definition PolicyOutcome_table :: "PolicyOutcome list" where
  "PolicyOutcome_table = [
     PolicyOutcome.NEAR_MEMORY_REQUIRED, PolicyOutcome.NEAR_MEMORY_PREFERRED,
     PolicyOutcome.UNCONSTRAINED]"

definition PolicyOutcome_names :: "string list" where
  "PolicyOutcome_names = [
     ''NEAR_MEMORY_REQUIRED'', ''NEAR_MEMORY_PREFERRED'', ''UNCONSTRAINED'']"

definition PolicyOutcome_cast :: "int \<Rightarrow> PolicyOutcome" where
  "PolicyOutcome_cast n = (if 0 \<le> n \<and> n < 3 then PolicyOutcome_table ! nat n else PolicyOutcome_other n)"

definition to_string_PolicyOutcome :: "PolicyOutcome \<Rightarrow> string" where
  "to_string_PolicyOutcome v =
     (if 0 \<le> PolicyOutcome_code v \<and> PolicyOutcome_code v < 3 then PolicyOutcome_names ! nat (PolicyOutcome_code v)
      else ''INVALID_POLICY_OUTCOME'')"

definition parse_PolicyOutcome :: "string \<Rightarrow> PolicyOutcome option" where
  "parse_PolicyOutcome name = parse_range PolicyOutcome_cast to_string_PolicyOutcome 3 name"

datatype IntegrityState =
    UNKNOWN | INTACT | SUSPECT | CORRUPT | IntegrityState_other int

fun IntegrityState_code :: "IntegrityState \<Rightarrow> int" where
  "IntegrityState_code IntegrityState.UNKNOWN = 0"
| "IntegrityState_code IntegrityState.INTACT = 1"
| "IntegrityState_code IntegrityState.SUSPECT = 2"
| "IntegrityState_code IntegrityState.CORRUPT = 3"
| "IntegrityState_code (IntegrityState_other n) = n"

definition IntegrityState_table :: "IntegrityState list" where
  "IntegrityState_table = [
     IntegrityState.UNKNOWN, IntegrityState.INTACT, IntegrityState.SUSPECT,
     IntegrityState.CORRUPT]"

definition IntegrityState_names :: "string list" where
  "IntegrityState_names = [
     ''UNKNOWN'', ''INTACT'', ''SUSPECT'', ''CORRUPT'']"

definition IntegrityState_cast :: "int \<Rightarrow> IntegrityState" where
  "IntegrityState_cast n = (if 0 \<le> n \<and> n < 4 then IntegrityState_table ! nat n else IntegrityState_other n)"

definition to_string_IntegrityState :: "IntegrityState \<Rightarrow> string" where
  "to_string_IntegrityState v =
     (if 0 \<le> IntegrityState_code v \<and> IntegrityState_code v < 4 then IntegrityState_names ! nat (IntegrityState_code v)
      else ''INVALID_INTEGRITY_STATE'')"

definition parse_IntegrityState :: "string \<Rightarrow> IntegrityState option" where
  "parse_IntegrityState name = parse_range IntegrityState_cast to_string_IntegrityState 4 name"

datatype AccessSemantics =
    COHERENT | NON_COHERENT | DIRECT | STAGED | AccessSemantics_other int

fun AccessSemantics_code :: "AccessSemantics \<Rightarrow> int" where
  "AccessSemantics_code AccessSemantics.COHERENT = 0"
| "AccessSemantics_code AccessSemantics.NON_COHERENT = 1"
| "AccessSemantics_code AccessSemantics.DIRECT = 2"
| "AccessSemantics_code AccessSemantics.STAGED = 3"
| "AccessSemantics_code (AccessSemantics_other n) = n"

definition AccessSemantics_table :: "AccessSemantics list" where
  "AccessSemantics_table = [
     AccessSemantics.COHERENT, AccessSemantics.NON_COHERENT, AccessSemantics.DIRECT,
     AccessSemantics.STAGED]"

definition AccessSemantics_names :: "string list" where
  "AccessSemantics_names = [
     ''COHERENT'', ''NON_COHERENT'', ''DIRECT'', ''STAGED'']"

definition AccessSemantics_cast :: "int \<Rightarrow> AccessSemantics" where
  "AccessSemantics_cast n = (if 0 \<le> n \<and> n < 4 then AccessSemantics_table ! nat n else AccessSemantics_other n)"

definition to_string_AccessSemantics :: "AccessSemantics \<Rightarrow> string" where
  "to_string_AccessSemantics v =
     (if 0 \<le> AccessSemantics_code v \<and> AccessSemantics_code v < 4 then AccessSemantics_names ! nat (AccessSemantics_code v)
      else ''INVALID_ACCESS_SEMANTICS'')"

definition parse_AccessSemantics :: "string \<Rightarrow> AccessSemantics option" where
  "parse_AccessSemantics name = parse_range AccessSemantics_cast to_string_AccessSemantics 4 name"

datatype IntegrityRequirement =
    NONE | CHECKED | STRICT | IntegrityRequirement_other int

fun IntegrityRequirement_code :: "IntegrityRequirement \<Rightarrow> int" where
  "IntegrityRequirement_code IntegrityRequirement.NONE = 0"
| "IntegrityRequirement_code IntegrityRequirement.CHECKED = 1"
| "IntegrityRequirement_code IntegrityRequirement.STRICT = 2"
| "IntegrityRequirement_code (IntegrityRequirement_other n) = n"

definition IntegrityRequirement_table :: "IntegrityRequirement list" where
  "IntegrityRequirement_table = [
     IntegrityRequirement.NONE, IntegrityRequirement.CHECKED, IntegrityRequirement.STRICT]"

definition IntegrityRequirement_names :: "string list" where
  "IntegrityRequirement_names = [
     ''NONE'', ''CHECKED'', ''STRICT'']"

definition IntegrityRequirement_cast :: "int \<Rightarrow> IntegrityRequirement" where
  "IntegrityRequirement_cast n = (if 0 \<le> n \<and> n < 3 then IntegrityRequirement_table ! nat n else IntegrityRequirement_other n)"

definition to_string_IntegrityRequirement :: "IntegrityRequirement \<Rightarrow> string" where
  "to_string_IntegrityRequirement v =
     (if 0 \<le> IntegrityRequirement_code v \<and> IntegrityRequirement_code v < 3 then IntegrityRequirement_names ! nat (IntegrityRequirement_code v)
      else ''INVALID_INTEGRITY_REQUIREMENT'')"

definition parse_IntegrityRequirement :: "string \<Rightarrow> IntegrityRequirement option" where
  "parse_IntegrityRequirement name = parse_range IntegrityRequirement_cast to_string_IntegrityRequirement 3 name"

section \<open>What the conversions promise each other\<close>

locale enumeration =
  fixes table :: "'e list"
    and code :: "'e \<Rightarrow> int"
    and other :: "int \<Rightarrow> 'e"
    and cast :: "int \<Rightarrow> 'e"
    and to_str :: "'e \<Rightarrow> string"
    and parse :: "string \<Rightarrow> 'e option"
  assumes code_table: "map code table = map int [0..<length table]"
    and code_other: "code (other n) = n"
    and cast_eq: "cast n = (if 0 \<le> n \<and> n < int (length table) then table ! nat n else other n)"
    and names_distinct: "distinct (map to_str table)"
    and parse_eq: "parse s = find (\<lambda>e. s = to_str e) table"
begin

lemma code_nth: "i < length table \<Longrightarrow> code (table ! i) = int i"
  using code_table by (metis add.left_neutral length_map nth_map nth_upt diff_zero length_upt)

lemma code_cast: "code (cast n) = n"
  by (auto simp: cast_eq code_other code_nth)

lemma cast_code: "e \<in> set table \<Longrightarrow> cast (code e) = e"
  by (auto simp: in_set_conv_nth cast_eq code_nth)

lemma code_range: "e \<in> set table \<Longrightarrow> 0 \<le> code e \<and> code e < int (length table)"
  by (auto simp: in_set_conv_nth code_nth)

text \<open>A 16-bit wire field carries every enumerator faithfully.\<close>

lemma wire_roundtrip:
  assumes "e \<in> set table" "length table \<le> 65536"
  shows "cast (uint (word_of_int (code e) :: u16)) = e"
proof -
  have "uint (word_of_int (code e) :: u16) = code e"
    using code_range [OF assms(1)] assms(2) by (simp add: uint_word_of_int)
  then show ?thesis
    by (simp add: cast_code assms(1))
qed

lemma parse_to_str: "e \<in> set table \<Longrightarrow> parse (to_str e) = Some e"
  using names_distinct unfolding parse_eq
  by (induction table) (auto simp: image_iff)

lemma map_parse_to_str: "map (parse \<circ> to_str) table = map Some table"
  by (simp add: parse_to_str)

lemma parse_SomeD: "parse s = Some e \<Longrightarrow> e \<in> set table \<and> to_str e = s"
  by (auto simp: parse_eq find_Some_iff)

lemma parse_None: "(parse s = None) = (s \<notin> to_str ` set table)"
  by (auto simp: parse_eq find_None_iff)

end

interpretation oc: enumeration kOperationClasses OperationClass_code OperationClass_other OperationClass_cast
    to_string_OperationClass parse_OperationClass
proof unfold_locales
  show "map OperationClass_code kOperationClasses = map int [0..<length kOperationClasses]"
    by (simp add: kOperationClasses_def upt_rec)
  show "OperationClass_code (OperationClass_other n) = n" for n
    by simp
  show "OperationClass_cast n = (if 0 \<le> n \<and> n < int (length kOperationClasses) then kOperationClasses ! nat n
      else OperationClass_other n)" for n
    by (simp add: OperationClass_cast_def kOperationClasses_def)
  show "distinct (map to_string_OperationClass kOperationClasses)"
    by (simp add: to_string_OperationClass_def OperationClass_names_def kOperationClasses_def contains_def)
  show "parse_OperationClass s = find (\<lambda>e. s = to_string_OperationClass e) kOperationClasses" for s
    by (simp add: parse_OperationClass_def contains_def parse_from_table_def )
qed

interpretation tk: enumeration kTargetKinds TargetKind_code TargetKind_other TargetKind_cast
    to_string_TargetKind parse_TargetKind
proof unfold_locales
  show "map TargetKind_code kTargetKinds = map int [0..<length kTargetKinds]"
    by (simp add: kTargetKinds_def upt_rec)
  show "TargetKind_code (TargetKind_other n) = n" for n
    by simp
  show "TargetKind_cast n = (if 0 \<le> n \<and> n < int (length kTargetKinds) then kTargetKinds ! nat n
      else TargetKind_other n)" for n
    by (simp add: TargetKind_cast_def kTargetKinds_def)
  show "distinct (map to_string_TargetKind kTargetKinds)"
    by (simp add: to_string_TargetKind_def TargetKind_names_def kTargetKinds_def contains_def)
  show "parse_TargetKind s = find (\<lambda>e. s = to_string_TargetKind e) kTargetKinds" for s
    by (simp add: parse_TargetKind_def contains_def parse_from_table_def )
qed

lemma ProviderKind_map_cast: "map (\<lambda>i. ProviderKind_cast (int i)) [0..<4] = ProviderKind_table"
  by (simp add: ProviderKind_cast_def ProviderKind_table_def upt_rec)

interpretation pk: enumeration ProviderKind_table ProviderKind_code ProviderKind_other ProviderKind_cast
    to_string_ProviderKind parse_ProviderKind
proof unfold_locales
  show "map ProviderKind_code ProviderKind_table = map int [0..<length ProviderKind_table]"
    by (simp add: ProviderKind_table_def upt_rec)
  show "ProviderKind_code (ProviderKind_other n) = n" for n
    by simp
  show "ProviderKind_cast n = (if 0 \<le> n \<and> n < int (length ProviderKind_table) then ProviderKind_table ! nat n
      else ProviderKind_other n)" for n
    by (simp add: ProviderKind_cast_def ProviderKind_table_def)
  show "distinct (map to_string_ProviderKind ProviderKind_table)"
    by (simp add: to_string_ProviderKind_def ProviderKind_names_def ProviderKind_table_def)
  show "parse_ProviderKind s = find (\<lambda>e. s = to_string_ProviderKind e) ProviderKind_table" for s
    by (simp add: parse_ProviderKind_def parse_range_def ProviderKind_map_cast)
qed

lemma CapabilityState_map_cast: "map (\<lambda>i. CapabilityState_cast (int i)) [0..<4] = CapabilityState_table"
  by (simp add: CapabilityState_cast_def CapabilityState_table_def upt_rec)

interpretation cps: enumeration CapabilityState_table CapabilityState_code CapabilityState_other CapabilityState_cast
    to_string_CapabilityState parse_CapabilityState
proof unfold_locales
  show "map CapabilityState_code CapabilityState_table = map int [0..<length CapabilityState_table]"
    by (simp add: CapabilityState_table_def upt_rec)
  show "CapabilityState_code (CapabilityState_other n) = n" for n
    by simp
  show "CapabilityState_cast n = (if 0 \<le> n \<and> n < int (length CapabilityState_table) then CapabilityState_table ! nat n
      else CapabilityState_other n)" for n
    by (simp add: CapabilityState_cast_def CapabilityState_table_def)
  show "distinct (map to_string_CapabilityState CapabilityState_table)"
    by (simp add: to_string_CapabilityState_def CapabilityState_names_def CapabilityState_table_def)
  show "parse_CapabilityState s = find (\<lambda>e. s = to_string_CapabilityState e) CapabilityState_table" for s
    by (simp add: parse_CapabilityState_def parse_range_def CapabilityState_map_cast)
qed

lemma TargetLifecycle_map_cast: "map (\<lambda>i. TargetLifecycle_cast (int i)) [0..<11] = TargetLifecycle_table"
  by (simp add: TargetLifecycle_cast_def TargetLifecycle_table_def upt_rec)

interpretation tl: enumeration TargetLifecycle_table TargetLifecycle_code TargetLifecycle_other TargetLifecycle_cast
    to_string_TargetLifecycle parse_TargetLifecycle
proof unfold_locales
  show "map TargetLifecycle_code TargetLifecycle_table = map int [0..<length TargetLifecycle_table]"
    by (simp add: TargetLifecycle_table_def upt_rec)
  show "TargetLifecycle_code (TargetLifecycle_other n) = n" for n
    by simp
  show "TargetLifecycle_cast n = (if 0 \<le> n \<and> n < int (length TargetLifecycle_table) then TargetLifecycle_table ! nat n
      else TargetLifecycle_other n)" for n
    by (simp add: TargetLifecycle_cast_def TargetLifecycle_table_def)
  show "distinct (map to_string_TargetLifecycle TargetLifecycle_table)"
    by (simp add: to_string_TargetLifecycle_def TargetLifecycle_names_def TargetLifecycle_table_def)
  show "parse_TargetLifecycle s = find (\<lambda>e. s = to_string_TargetLifecycle e) TargetLifecycle_table" for s
    by (simp add: parse_TargetLifecycle_def parse_range_def TargetLifecycle_map_cast)
qed

lemma ExecutionLifecycle_map_cast: "map (\<lambda>i. ExecutionLifecycle_cast (int i)) [0..<12] = ExecutionLifecycle_table"
  by (simp add: ExecutionLifecycle_cast_def ExecutionLifecycle_table_def upt_rec)

interpretation el: enumeration ExecutionLifecycle_table ExecutionLifecycle_code ExecutionLifecycle_other ExecutionLifecycle_cast
    to_string_ExecutionLifecycle parse_ExecutionLifecycle
proof unfold_locales
  show "map ExecutionLifecycle_code ExecutionLifecycle_table = map int [0..<length ExecutionLifecycle_table]"
    by (simp add: ExecutionLifecycle_table_def upt_rec)
  show "ExecutionLifecycle_code (ExecutionLifecycle_other n) = n" for n
    by simp
  show "ExecutionLifecycle_cast n = (if 0 \<le> n \<and> n < int (length ExecutionLifecycle_table) then ExecutionLifecycle_table ! nat n
      else ExecutionLifecycle_other n)" for n
    by (simp add: ExecutionLifecycle_cast_def ExecutionLifecycle_table_def)
  show "distinct (map to_string_ExecutionLifecycle ExecutionLifecycle_table)"
    by (simp add: to_string_ExecutionLifecycle_def ExecutionLifecycle_names_def ExecutionLifecycle_table_def)
  show "parse_ExecutionLifecycle s = find (\<lambda>e. s = to_string_ExecutionLifecycle e) ExecutionLifecycle_table" for s
    by (simp add: parse_ExecutionLifecycle_def parse_range_def ExecutionLifecycle_map_cast)
qed

lemma ProgramLifecycle_map_cast: "map (\<lambda>i. ProgramLifecycle_cast (int i)) [0..<6] = ProgramLifecycle_table"
  by (simp add: ProgramLifecycle_cast_def ProgramLifecycle_table_def upt_rec)

interpretation pgl: enumeration ProgramLifecycle_table ProgramLifecycle_code ProgramLifecycle_other ProgramLifecycle_cast
    to_string_ProgramLifecycle parse_ProgramLifecycle
proof unfold_locales
  show "map ProgramLifecycle_code ProgramLifecycle_table = map int [0..<length ProgramLifecycle_table]"
    by (simp add: ProgramLifecycle_table_def upt_rec)
  show "ProgramLifecycle_code (ProgramLifecycle_other n) = n" for n
    by simp
  show "ProgramLifecycle_cast n = (if 0 \<le> n \<and> n < int (length ProgramLifecycle_table) then ProgramLifecycle_table ! nat n
      else ProgramLifecycle_other n)" for n
    by (simp add: ProgramLifecycle_cast_def ProgramLifecycle_table_def)
  show "distinct (map to_string_ProgramLifecycle ProgramLifecycle_table)"
    by (simp add: to_string_ProgramLifecycle_def ProgramLifecycle_names_def ProgramLifecycle_table_def)
  show "parse_ProgramLifecycle s = find (\<lambda>e. s = to_string_ProgramLifecycle e) ProgramLifecycle_table" for s
    by (simp add: parse_ProgramLifecycle_def parse_range_def ProgramLifecycle_map_cast)
qed

lemma EligibilityReason_map_cast: "map (\<lambda>i. EligibilityReason_cast (int i)) [0..<23] = EligibilityReason_table"
  by (simp add: EligibilityReason_cast_def EligibilityReason_table_def upt_rec)

interpretation elr: enumeration EligibilityReason_table EligibilityReason_code EligibilityReason_other EligibilityReason_cast
    to_string_EligibilityReason parse_EligibilityReason
proof unfold_locales
  show "map EligibilityReason_code EligibilityReason_table = map int [0..<length EligibilityReason_table]"
    by (simp add: EligibilityReason_table_def upt_rec)
  show "EligibilityReason_code (EligibilityReason_other n) = n" for n
    by simp
  show "EligibilityReason_cast n = (if 0 \<le> n \<and> n < int (length EligibilityReason_table) then EligibilityReason_table ! nat n
      else EligibilityReason_other n)" for n
    by (simp add: EligibilityReason_cast_def EligibilityReason_table_def)
  show "distinct (map to_string_EligibilityReason EligibilityReason_table)"
    by (simp add: to_string_EligibilityReason_def EligibilityReason_names_def EligibilityReason_table_def)
  show "parse_EligibilityReason s = find (\<lambda>e. s = to_string_EligibilityReason e) EligibilityReason_table" for s
    by (simp add: parse_EligibilityReason_def parse_range_def EligibilityReason_map_cast)
qed

lemma Decision_map_cast: "map (\<lambda>i. Decision_cast (int i)) [0..<8] = Decision_table"
  by (simp add: Decision_cast_def Decision_table_def upt_rec)

interpretation dcs: enumeration Decision_table Decision_code Decision_other Decision_cast
    to_string_Decision parse_Decision
proof unfold_locales
  show "map Decision_code Decision_table = map int [0..<length Decision_table]"
    by (simp add: Decision_table_def upt_rec)
  show "Decision_code (Decision_other n) = n" for n
    by simp
  show "Decision_cast n = (if 0 \<le> n \<and> n < int (length Decision_table) then Decision_table ! nat n
      else Decision_other n)" for n
    by (simp add: Decision_cast_def Decision_table_def)
  show "distinct (map to_string_Decision Decision_table)"
    by (simp add: to_string_Decision_def Decision_names_def Decision_table_def)
  show "parse_Decision s = find (\<lambda>e. s = to_string_Decision e) Decision_table" for s
    by (simp add: parse_Decision_def parse_range_def Decision_map_cast)
qed

lemma RetryClass_map_cast: "map (\<lambda>i. RetryClass_cast (int i)) [0..<5] = RetryClass_table"
  by (simp add: RetryClass_cast_def RetryClass_table_def upt_rec)

interpretation rtc: enumeration RetryClass_table RetryClass_code RetryClass_other RetryClass_cast
    to_string_RetryClass parse_RetryClass
proof unfold_locales
  show "map RetryClass_code RetryClass_table = map int [0..<length RetryClass_table]"
    by (simp add: RetryClass_table_def upt_rec)
  show "RetryClass_code (RetryClass_other n) = n" for n
    by simp
  show "RetryClass_cast n = (if 0 \<le> n \<and> n < int (length RetryClass_table) then RetryClass_table ! nat n
      else RetryClass_other n)" for n
    by (simp add: RetryClass_cast_def RetryClass_table_def)
  show "distinct (map to_string_RetryClass RetryClass_table)"
    by (simp add: to_string_RetryClass_def RetryClass_names_def RetryClass_table_def)
  show "parse_RetryClass s = find (\<lambda>e. s = to_string_RetryClass e) RetryClass_table" for s
    by (simp add: parse_RetryClass_def parse_range_def RetryClass_map_cast)
qed

lemma VerifyState_map_cast: "map (\<lambda>i. VerifyState_cast (int i)) [0..<5] = VerifyState_table"
  by (simp add: VerifyState_cast_def VerifyState_table_def upt_rec)

interpretation vst: enumeration VerifyState_table VerifyState_code VerifyState_other VerifyState_cast
    to_string_VerifyState parse_VerifyState
proof unfold_locales
  show "map VerifyState_code VerifyState_table = map int [0..<length VerifyState_table]"
    by (simp add: VerifyState_table_def upt_rec)
  show "VerifyState_code (VerifyState_other n) = n" for n
    by simp
  show "VerifyState_cast n = (if 0 \<le> n \<and> n < int (length VerifyState_table) then VerifyState_table ! nat n
      else VerifyState_other n)" for n
    by (simp add: VerifyState_cast_def VerifyState_table_def)
  show "distinct (map to_string_VerifyState VerifyState_table)"
    by (simp add: to_string_VerifyState_def VerifyState_names_def VerifyState_table_def)
  show "parse_VerifyState s = find (\<lambda>e. s = to_string_VerifyState e) VerifyState_table" for s
    by (simp add: parse_VerifyState_def parse_range_def VerifyState_map_cast)
qed

lemma DataType_map_cast: "map (\<lambda>i. DataType_cast (int i)) [0..<12] = DataType_table"
  by (simp add: DataType_cast_def DataType_table_def upt_rec)

interpretation dty: enumeration DataType_table DataType_code DataType_other DataType_cast
    to_string_DataType parse_DataType
proof unfold_locales
  show "map DataType_code DataType_table = map int [0..<length DataType_table]"
    by (simp add: DataType_table_def upt_rec)
  show "DataType_code (DataType_other n) = n" for n
    by simp
  show "DataType_cast n = (if 0 \<le> n \<and> n < int (length DataType_table) then DataType_table ! nat n
      else DataType_other n)" for n
    by (simp add: DataType_cast_def DataType_table_def)
  show "distinct (map to_string_DataType DataType_table)"
    by (simp add: to_string_DataType_def DataType_names_def DataType_table_def)
  show "parse_DataType s = find (\<lambda>e. s = to_string_DataType e) DataType_table" for s
    by (simp add: parse_DataType_def parse_range_def DataType_map_cast)
qed

lemma Layout_map_cast: "map (\<lambda>i. Layout_cast (int i)) [0..<6] = Layout_table"
  by (simp add: Layout_cast_def Layout_table_def upt_rec)

interpretation lay: enumeration Layout_table Layout_code Layout_other Layout_cast
    to_string_Layout parse_Layout
proof unfold_locales
  show "map Layout_code Layout_table = map int [0..<length Layout_table]"
    by (simp add: Layout_table_def upt_rec)
  show "Layout_code (Layout_other n) = n" for n
    by simp
  show "Layout_cast n = (if 0 \<le> n \<and> n < int (length Layout_table) then Layout_table ! nat n
      else Layout_other n)" for n
    by (simp add: Layout_cast_def Layout_table_def)
  show "distinct (map to_string_Layout Layout_table)"
    by (simp add: to_string_Layout_def Layout_names_def Layout_table_def)
  show "parse_Layout s = find (\<lambda>e. s = to_string_Layout e) Layout_table" for s
    by (simp add: parse_Layout_def parse_range_def Layout_map_cast)
qed

lemma PolicyOutcome_map_cast: "map (\<lambda>i. PolicyOutcome_cast (int i)) [0..<3] = PolicyOutcome_table"
  by (simp add: PolicyOutcome_cast_def PolicyOutcome_table_def upt_rec)

interpretation plo: enumeration PolicyOutcome_table PolicyOutcome_code PolicyOutcome_other PolicyOutcome_cast
    to_string_PolicyOutcome parse_PolicyOutcome
proof unfold_locales
  show "map PolicyOutcome_code PolicyOutcome_table = map int [0..<length PolicyOutcome_table]"
    by (simp add: PolicyOutcome_table_def upt_rec)
  show "PolicyOutcome_code (PolicyOutcome_other n) = n" for n
    by simp
  show "PolicyOutcome_cast n = (if 0 \<le> n \<and> n < int (length PolicyOutcome_table) then PolicyOutcome_table ! nat n
      else PolicyOutcome_other n)" for n
    by (simp add: PolicyOutcome_cast_def PolicyOutcome_table_def)
  show "distinct (map to_string_PolicyOutcome PolicyOutcome_table)"
    by (simp add: to_string_PolicyOutcome_def PolicyOutcome_names_def PolicyOutcome_table_def)
  show "parse_PolicyOutcome s = find (\<lambda>e. s = to_string_PolicyOutcome e) PolicyOutcome_table" for s
    by (simp add: parse_PolicyOutcome_def parse_range_def PolicyOutcome_map_cast)
qed

lemma IntegrityState_map_cast: "map (\<lambda>i. IntegrityState_cast (int i)) [0..<4] = IntegrityState_table"
  by (simp add: IntegrityState_cast_def IntegrityState_table_def upt_rec)

interpretation its: enumeration IntegrityState_table IntegrityState_code IntegrityState_other IntegrityState_cast
    to_string_IntegrityState parse_IntegrityState
proof unfold_locales
  show "map IntegrityState_code IntegrityState_table = map int [0..<length IntegrityState_table]"
    by (simp add: IntegrityState_table_def upt_rec)
  show "IntegrityState_code (IntegrityState_other n) = n" for n
    by simp
  show "IntegrityState_cast n = (if 0 \<le> n \<and> n < int (length IntegrityState_table) then IntegrityState_table ! nat n
      else IntegrityState_other n)" for n
    by (simp add: IntegrityState_cast_def IntegrityState_table_def)
  show "distinct (map to_string_IntegrityState IntegrityState_table)"
    by (simp add: to_string_IntegrityState_def IntegrityState_names_def IntegrityState_table_def)
  show "parse_IntegrityState s = find (\<lambda>e. s = to_string_IntegrityState e) IntegrityState_table" for s
    by (simp add: parse_IntegrityState_def parse_range_def IntegrityState_map_cast)
qed

lemma AccessSemantics_map_cast: "map (\<lambda>i. AccessSemantics_cast (int i)) [0..<4] = AccessSemantics_table"
  by (simp add: AccessSemantics_cast_def AccessSemantics_table_def upt_rec)

interpretation acs: enumeration AccessSemantics_table AccessSemantics_code AccessSemantics_other AccessSemantics_cast
    to_string_AccessSemantics parse_AccessSemantics
proof unfold_locales
  show "map AccessSemantics_code AccessSemantics_table = map int [0..<length AccessSemantics_table]"
    by (simp add: AccessSemantics_table_def upt_rec)
  show "AccessSemantics_code (AccessSemantics_other n) = n" for n
    by simp
  show "AccessSemantics_cast n = (if 0 \<le> n \<and> n < int (length AccessSemantics_table) then AccessSemantics_table ! nat n
      else AccessSemantics_other n)" for n
    by (simp add: AccessSemantics_cast_def AccessSemantics_table_def)
  show "distinct (map to_string_AccessSemantics AccessSemantics_table)"
    by (simp add: to_string_AccessSemantics_def AccessSemantics_names_def AccessSemantics_table_def)
  show "parse_AccessSemantics s = find (\<lambda>e. s = to_string_AccessSemantics e) AccessSemantics_table" for s
    by (simp add: parse_AccessSemantics_def parse_range_def AccessSemantics_map_cast)
qed

lemma IntegrityRequirement_map_cast: "map (\<lambda>i. IntegrityRequirement_cast (int i)) [0..<3] = IntegrityRequirement_table"
  by (simp add: IntegrityRequirement_cast_def IntegrityRequirement_table_def upt_rec)

interpretation irq: enumeration IntegrityRequirement_table IntegrityRequirement_code IntegrityRequirement_other IntegrityRequirement_cast
    to_string_IntegrityRequirement parse_IntegrityRequirement
proof unfold_locales
  show "map IntegrityRequirement_code IntegrityRequirement_table = map int [0..<length IntegrityRequirement_table]"
    by (simp add: IntegrityRequirement_table_def upt_rec)
  show "IntegrityRequirement_code (IntegrityRequirement_other n) = n" for n
    by simp
  show "IntegrityRequirement_cast n = (if 0 \<le> n \<and> n < int (length IntegrityRequirement_table) then IntegrityRequirement_table ! nat n
      else IntegrityRequirement_other n)" for n
    by (simp add: IntegrityRequirement_cast_def IntegrityRequirement_table_def)
  show "distinct (map to_string_IntegrityRequirement IntegrityRequirement_table)"
    by (simp add: to_string_IntegrityRequirement_def IntegrityRequirement_names_def IntegrityRequirement_table_def)
  show "parse_IntegrityRequirement s = find (\<lambda>e. s = to_string_IntegrityRequirement e) IntegrityRequirement_table" for s
    by (simp add: parse_IntegrityRequirement_def parse_range_def IntegrityRequirement_map_cast)
qed

section \<open>Properties\<close>

text \<open>C40: Printing an enumerator and parsing the name gives it back, for every enumerator of every
  enumeration.\<close>

theorem enum_names_roundtrip:
  "map (parse_OperationClass \<circ> to_string_OperationClass) kOperationClasses = map Some kOperationClasses \<and>
   map (parse_TargetKind \<circ> to_string_TargetKind) kTargetKinds = map Some kTargetKinds \<and>
   map (parse_ProviderKind \<circ> to_string_ProviderKind) ProviderKind_table = map Some ProviderKind_table \<and>
   map (parse_CapabilityState \<circ> to_string_CapabilityState) CapabilityState_table = map Some CapabilityState_table \<and>
   map (parse_TargetLifecycle \<circ> to_string_TargetLifecycle) TargetLifecycle_table = map Some TargetLifecycle_table \<and>
   map (parse_ExecutionLifecycle \<circ> to_string_ExecutionLifecycle) ExecutionLifecycle_table =
     map Some ExecutionLifecycle_table \<and>
   map (parse_ProgramLifecycle \<circ> to_string_ProgramLifecycle) ProgramLifecycle_table = map Some ProgramLifecycle_table \<and>
   map (parse_EligibilityReason \<circ> to_string_EligibilityReason) EligibilityReason_table =
     map Some EligibilityReason_table \<and>
   map (parse_Decision \<circ> to_string_Decision) Decision_table = map Some Decision_table \<and>
   map (parse_RetryClass \<circ> to_string_RetryClass) RetryClass_table = map Some RetryClass_table \<and>
   map (parse_VerifyState \<circ> to_string_VerifyState) VerifyState_table = map Some VerifyState_table \<and>
   map (parse_DataType \<circ> to_string_DataType) DataType_table = map Some DataType_table \<and>
   map (parse_Layout \<circ> to_string_Layout) Layout_table = map Some Layout_table \<and>
   map (parse_PolicyOutcome \<circ> to_string_PolicyOutcome) PolicyOutcome_table = map Some PolicyOutcome_table \<and>
   map (parse_IntegrityState \<circ> to_string_IntegrityState) IntegrityState_table = map Some IntegrityState_table \<and>
   map (parse_AccessSemantics \<circ> to_string_AccessSemantics) AccessSemantics_table = map Some AccessSemantics_table \<and>
   map (parse_IntegrityRequirement \<circ> to_string_IntegrityRequirement) IntegrityRequirement_table =
     map Some IntegrityRequirement_table"
  by (intro conjI oc.map_parse_to_str tk.map_parse_to_str pk.map_parse_to_str cps.map_parse_to_str
      tl.map_parse_to_str el.map_parse_to_str pgl.map_parse_to_str elr.map_parse_to_str dcs.map_parse_to_str
      rtc.map_parse_to_str vst.map_parse_to_str dty.map_parse_to_str lay.map_parse_to_str plo.map_parse_to_str
      its.map_parse_to_str acs.map_parse_to_str irq.map_parse_to_str)

end
