(* ===== verification/Util.thy ===== *)
theory Util
  imports Enums
begin

unbundle bit_operations_syntax

text \<open>
  Checked arithmetic and alignment (\<^verbatim>\<open>include/nmc/util.hpp\<close>), identities and generations
  (\<^verbatim>\<open>include/nmc/ids.hpp\<close>), and data shapes (\<^verbatim>\<open>include/nmc/dimension.hpp\<close>).  Identities and
  generations are \<^typ>\<open>u64\<close> values; the tags that keep them apart in the source are the type
  synonyms below.  The pseudo-random generator behind \<^verbatim>\<open>UniqueIdSource\<close> is seeded from
  \<^verbatim>\<open>std::random_device\<close>, so its output sequence is a component of the source's state.
\<close>

section \<open>Checked arithmetic\<close>

definition UINT64_MAX :: u64 where
  "UINT64_MAX = 18446744073709551615"

definition checked_add_u64 :: "u64 \<Rightarrow> u64 \<Rightarrow> u64 option" where
  "checked_add_u64 a b = (if b > UINT64_MAX - a then None else Some (a + b))"

definition checked_mul_u64 :: "u64 \<Rightarrow> u64 \<Rightarrow> u64 option" where
  "checked_mul_u64 a b = (if a \<noteq> 0 \<and> b > UINT64_MAX div a then None else Some (a * b))"

definition align_up_u64 :: "u64 \<Rightarrow> u64 \<Rightarrow> u64" where
  "align_up_u64 v alignment =
     (if alignment = 0 then v
      else let rem = v mod alignment in
        if rem = 0 then v
        else let result = v + (alignment - rem) in
          if result < v then 0 else result)"

definition is_power_of_two :: "u64 \<Rightarrow> bool" where
  "is_power_of_two v \<longleftrightarrow> v \<noteq> 0 \<and> v AND (v - 1) = 0"

section \<open>Identities and generations\<close>

type_synonym NearMemoryTargetId = u64
type_synonym NearMemoryTargetGeneration = u64
type_synonym MemoryDomainId = u64
type_synonym MemoryDomainGeneration = u64
type_synonym DatasetId = u64
type_synonym DatasetGeneration = u64
type_synonym DataRegionId = u64
type_synonym DataRegionGeneration = u64
type_synonym OperationId = u64
type_synonym OperationGeneration = u64
type_synonym KernelOrProgramId = u64
type_synonym ProgramGeneration = u64
type_synonym CapabilityId = u64
type_synonym CapabilityGeneration = u64
type_synonym ExecutionPlanId = u64
type_synonym ExecutionPlanGeneration = u64
type_synonym DispatchId = u64
type_synonym AttemptId = u64
type_synonym ResultId = u64
type_synonym ResultGeneration = u64
type_synonym PolicyId = u64
type_synonym PolicyGeneration = u64
type_synonym EvidenceId = u64
type_synonym EvidenceGeneration = u64
type_synonym WorkerId = u64
type_synonym WorkerBootId = u64
type_synonym CoordinatorId = u64
type_synonym CoordinatorEpoch = u64
type_synonym FailureDomainId = u64

definition is_null :: "u64 \<Rightarrow> bool" where
  "is_null v \<longleftrightarrow> v = 0"

text \<open>\<^verbatim>\<open>Generation::operator++\<close>: saturating.\<close>

definition generation_inc :: "u64 \<Rightarrow> u64" where
  "generation_inc v = (if v \<noteq> UINT64_MAX then v + 1 else v)"

record UniqueIdSource =
  ids_counter :: u64
  ids_prng :: "nat \<Rightarrow> u64"
  ids_drawn :: nat

text \<open>\<^verbatim>\<open>UniqueIdSource::next\<close>, which every \<^verbatim>\<open>Id::make\<close> calls.\<close>

definition make_id :: "UniqueIdSource \<Rightarrow> u64 \<times> UniqueIdSource" where
  "make_id s =
     (let counter = ids_counter s;
          r = ids_prng s (ids_drawn s) XOR (counter * 0x9E3779B97F4A7C15);
          r' = (if r = 0 then 0x9E3779B97F4A7C15 else r)
      in (r', s\<lparr>ids_counter := counter + 1, ids_drawn := ids_drawn s + 1\<rparr>))"

section \<open>Data shapes\<close>

definition bytes_per_element :: "DataType \<Rightarrow> u64" where
  "bytes_per_element dt =
     (case dt of
        DataType.U8 \<Rightarrow> 1 | DataType.I8 \<Rightarrow> 1
      | DataType.U16 \<Rightarrow> 2 | DataType.I16 \<Rightarrow> 2 | DataType.F16 \<Rightarrow> 2 | DataType.BF16 \<Rightarrow> 2
      | DataType.U32 \<Rightarrow> 4 | DataType.I32 \<Rightarrow> 4 | DataType.F32 \<Rightarrow> 4
      | DataType.U64 \<Rightarrow> 8 | DataType.I64 \<Rightarrow> 8 | DataType.F64 \<Rightarrow> 8
      | DataType_other _ \<Rightarrow> 0)"

record DataShape =
  sh_element_count :: u64
  sh_data_type :: DataType
  sh_layout :: Layout
  sh_alignment :: u64

definition element_bytes :: "DataShape \<Rightarrow> u64 option" where
  "element_bytes s =
     (let n = bytes_per_element (sh_data_type s) in
      if n = 0 then None else checked_mul_u64 (sh_element_count s) n)"

record ByteWindow =
  win_offset :: u64
  win_length :: u64

section \<open>Laws\<close>

lemma unat_UINT64_MAX [simp]: "unat UINT64_MAX = 2 ^ 64 - 1"
  by (simp add: UINT64_MAX_def)

lemma unat_u64_less: "unat (v :: u64) < 2 ^ 64"
  using unsigned_less [of v, where ?'a = nat] by simp

lemma le_UINT64_MAX [simp]: "v \<le> UINT64_MAX"
  using unat_u64_less [of v] by (simp add: word_le_nat_alt)

lemma unat_add_u64: "unat (a :: u64) + unat b < 2 ^ 64 \<Longrightarrow> unat (a + b) = unat a + unat b"
  by (simp add: unat_word_ariths)

lemma unat_mult_u64: "unat (a :: u64) * unat b < 2 ^ 64 \<Longrightarrow> unat (a * b) = unat a * unat b"
  by (simp add: unat_word_ariths)

text \<open>A checked operation succeeds exactly when the mathematical result fits in 64 bits, and
  then returns that result.\<close>

lemma checked_add_u64_Some_iff:
  "checked_add_u64 a b = Some c \<longleftrightarrow> unat a + unat b < 2 ^ 64 \<and> unat c = unat a + unat b"
proof -
  have "unat (UINT64_MAX - a) = 2 ^ 64 - 1 - unat a"
    by (simp add: unat_sub)
  then have guard: "b > UINT64_MAX - a \<longleftrightarrow> \<not> unat a + unat b < 2 ^ 64"
    using unat_u64_less [of a] unat_u64_less [of b] by (simp add: word_less_nat_alt) linarith
  show ?thesis
    unfolding checked_add_u64_def guard
    by (auto simp: unat_add_u64 word_unat_eq_iff)
qed

lemma checked_mul_u64_Some_iff:
  "checked_mul_u64 a b = Some c \<longleftrightarrow> unat a * unat b < 2 ^ 64 \<and> unat c = unat a * unat b"
proof (cases "a = 0")
  case True
  then show ?thesis
    by (auto simp: checked_mul_u64_def) (simp add: word_unat_eq_iff)
next
  case False
  then have pos: "0 < unat a"
    by (simp add: unat_gt_0)
  have "b > UINT64_MAX div a \<longleftrightarrow> (2 ^ 64 - 1) div unat a < unat b"
    by (simp add: word_less_nat_alt unat_div_distrib)
  also have "\<dots> \<longleftrightarrow> 2 ^ 64 - 1 < unat a * unat b"
    using pos by (metis div_less_iff_less_mult mult.commute)
  finally have guard: "b > UINT64_MAX div a \<longleftrightarrow> \<not> unat a * unat b < 2 ^ 64"
    by auto
  show ?thesis
    using False unfolding checked_mul_u64_def guard
    by (auto simp: unat_mult_u64 word_unat_eq_iff)
qed

lemma checked_add_u64_None_iff: "checked_add_u64 a b = None \<longleftrightarrow> 2 ^ 64 \<le> unat a + unat b"
  by (metis checked_add_u64_Some_iff linorder_not_le not_None_eq unat_add_u64)

lemma checked_mul_u64_None_iff: "checked_mul_u64 a b = None \<longleftrightarrow> 2 ^ 64 \<le> unat a * unat b"
  by (metis checked_mul_u64_Some_iff linorder_not_le not_None_eq unat_mult_u64)

text \<open>Alignment: the least multiple of the alignment that is not below the value, or 0 when that
  multiple does not fit.\<close>

lemma align_up_u64_exact:
  fixes v alignment :: u64
  assumes "alignment \<noteq> 0"
  defines "m \<equiv> (unat v + unat alignment - 1) div unat alignment * unat alignment"
  shows "unat (align_up_u64 v alignment) = (if m < 2 ^ 64 then m else 0)"
proof -
  let ?a = "unat alignment" and ?v = "unat v"
  have a: "0 < ?a"
    using assms(1) by (simp add: unat_gt_0)
  have rem: "unat (v mod alignment) = ?v mod ?a"
    by (simp add: unat_mod_distrib)
  show ?thesis
  proof (cases "?v mod ?a = 0")
    case True
    then obtain q where q: "?v = ?a * q"
      by (metis mod_0_imp_dvd dvdE)
    have "m = ?v"
      unfolding m_def q using a by (simp add: div_nat_eqI mult.commute)
    moreover have "align_up_u64 v alignment = v"
      using True rem assms(1) by (simp add: align_up_u64_def word_unat_eq_iff)
    ultimately show ?thesis
      using unat_u64_less [of v] by simp
  next
    case False
    define q where "q = ?v div ?a"
    define r where "r = ?v mod ?a"
    have v: "?v = q * ?a + r"
      by (simp add: q_def r_def)
    have r: "0 < r" "r < ?a"
      using False a by (simp_all add: r_def)
    have "(?v + ?a - 1) div ?a = Suc q"
      using r v by (intro div_nat_eqI) (auto simp: mult.commute [of q])
    then have m: "m = ?v + (?a - r)"
      using r v by (simp add: m_def)
    have "v mod alignment \<le> alignment"
      using rem r by (simp add: word_le_nat_alt r_def)
    then have add: "unat (alignment - v mod alignment) = ?a - r"
      by (simp add: unat_sub rem r_def)
    have sum: "unat (v + (alignment - v mod alignment)) = (?v + (?a - r)) mod 2 ^ 64"
      by (simp add: unat_word_ariths add)
    have al: "align_up_u64 v alignment =
        (let result = v + (alignment - v mod alignment) in if result < v then 0 else result)"
      using False rem assms(1) by (simp add: align_up_u64_def word_unat_eq_iff)
    show ?thesis
    proof (cases "m < 2 ^ 64")
      case True
      then show ?thesis
        using sum m by (simp add: al Let_def word_less_nat_alt)
    next
      case False
      have "?v + (?a - r) - 2 ^ 64 < ?v" "?v + (?a - r) < 2 * 2 ^ 64"
        using r False m unat_u64_less [of v] unat_u64_less [of alignment] by simp_all
      then have "(?v + (?a - r)) mod 2 ^ 64 < ?v"
        using False m by (simp add: mod_if)
      then show ?thesis
        using False sum by (simp add: al Let_def word_less_nat_alt)
    qed
  qed
qed

lemma round_up_ge:
  fixes a v :: nat
  assumes "0 < a"
  shows "v \<le> (v + a - 1) div a * a"
proof -
  have "v + a - 1 < ((v + a - 1) div a + 1) * a"
    using assms dividend_less_div_times [of a "v + a - 1"] by (simp add: add.commute)
  then show ?thesis
    using assms by simp
qed

lemma round_up_le:
  fixes a v m :: nat
  assumes "0 < a" "a dvd m" "v \<le> m"
  shows "(v + a - 1) div a * a \<le> m"
proof -
  obtain k where k: "m = k * a"
    using assms(2) by (metis dvdE mult.commute)
  have "(v + a - 1) div a \<le> (k * a + (a - 1)) div a"
    using assms(3) k by (intro div_le_mono) simp
  also have "\<dots> = k"
    using assms(1) by (intro div_nat_eqI) (simp_all add: mult.commute)
  finally show ?thesis
    by (simp add: k)
qed

lemma unat_generation_inc: "unat (generation_inc v) = min (unat v + 1) (2 ^ 64 - 1)"
proof (cases "v = UINT64_MAX")
  case False
  then have "unat v + 1 < 2 ^ 64"
    using unat_u64_less [of v] by (simp add: word_unat_eq_iff)
  then show ?thesis
    using False by (simp add: generation_inc_def unat_word_ariths)
qed (simp add: generation_inc_def)

text \<open>No identity the source makes is the null identity.\<close>

lemma make_id_nonnull [simp]: "fst (make_id s) \<noteq> 0"
  by (simp add: make_id_def Let_def)

lemma element_bytes_Some:
  assumes "element_bytes s = Some n"
  shows "unat n = unat (sh_element_count s) * unat (bytes_per_element (sh_data_type s))"
  using assms by (auto simp: element_bytes_def Let_def checked_mul_u64_Some_iff split: if_splits)

section \<open>Properties\<close>

text \<open>C35: The checked addition and multiplication of \<^verbatim>\<open>util.hpp\<close> return the exact sum or product when
  it fits 64 bits and nothing when it does not.\<close>

theorem checked_arithmetic_exact:
  "(case checked_add_u64 a b of None \<Rightarrow> 2 ^ 64 \<le> unat a + unat b | Some c \<Rightarrow> unat c = unat a + unat b) \<and>
   (case checked_mul_u64 a b of None \<Rightarrow> 2 ^ 64 \<le> unat a * unat b | Some c \<Rightarrow> unat c = unat a * unat b)"
  using checked_add_u64_None_iff [of a b] checked_mul_u64_None_iff [of a b]
    checked_add_u64_Some_iff [of a b] checked_mul_u64_Some_iff [of a b]
  by (auto split: option.split)

text \<open>C36: \<^verbatim>\<open>align_up_u64\<close> returns the least multiple of the alignment that is not below the value, or 0
  when that multiple does not fit 64 bits.\<close>

theorem align_up_least:
  assumes "alignment \<noteq> 0"
  shows "unat (align_up_u64 v alignment) =
    (let m = (LEAST m. unat alignment dvd m \<and> unat v \<le> m) in if m < 2 ^ 64 then m else 0)"
proof -
  let ?a = "unat alignment" and ?v = "unat v"
  have a: "0 < ?a"
    using assms by (simp add: unat_gt_0)
  have "(LEAST m. ?a dvd m \<and> ?v \<le> m) = (?v + ?a - 1) div ?a * ?a"
  proof (rule Least_equality)
    show "?a dvd (?v + ?a - 1) div ?a * ?a \<and> ?v \<le> (?v + ?a - 1) div ?a * ?a"
      using round_up_ge [OF a, of ?v] by simp
    show "(?v + ?a - 1) div ?a * ?a \<le> m" if "?a dvd m \<and> ?v \<le> m" for m
      using that round_up_le [OF a] by blast
  qed
  then show ?thesis
    using align_up_u64_exact [OF assms, of v] by (simp add: Let_def)
qed

theorem align_up_least_witness:
  "unat (align_up_u64 13 8) = (let m = (LEAST m. unat (8 :: u64) dvd m \<and> unat (13 :: u64) \<le> m) in if m < 2 ^ 64 then m else 0) \<and>
   align_up_u64 13 8 = 16"
  using align_up_least [of 8 13] by (simp add: align_up_u64_def Let_def)

end
