(* ===== verification/Checksum.thy ===== *)
theory Checksum
  imports Util
begin

unbundle bit_operations_syntax

text \<open>
  The CRC-32 integrity checksum of \<^verbatim>\<open>include/nmc/checksum.hpp\<close>, the FNV-1a content digest of
  \<^verbatim>\<open>include/nmc/digest.hpp\<close> and its hexadecimal form.  Both hashes fold a state over bytes; the
  locale \<open>byte_hash\<close> states what such a fold needs for a change of a single byte to be always
  visible in the result, and is interpreted for both.  The table-driven CRC step is proved equal
  to eight steps of the bitwise division.
\<close>

section \<open>CRC-32\<close>

definition crc_pol :: u32 where
  "crc_pol = 0xEDB88320"

definition crc_bit_step :: "u32 \<Rightarrow> u32" where
  "crc_bit_step c = (if c AND 1 \<noteq> 0 then crc_pol XOR drop_bit 1 c else drop_bit 1 c)"

definition crc_table :: "u32 list" where
  "crc_table = map (\<lambda>i. (crc_bit_step ^^ 8) (word_of_nat i)) [0..<256]"

definition crc_step :: "u32 \<Rightarrow> u8 \<Rightarrow> u32" where
  "crc_step v b = drop_bit 8 v XOR crc_table ! unat ((v XOR ucast b) AND 0xFF)"

definition crc_init :: u32 where
  "crc_init = 0xFFFFFFFF"

definition crc_update :: "u32 \<Rightarrow> u8 list \<Rightarrow> u32" where
  "crc_update v bs = foldl crc_step v bs"

definition crc_update_u16 :: "u32 \<Rightarrow> u16 \<Rightarrow> u32" where
  "crc_update_u16 v x = crc_update v (le_bytes 2 (unat x))"

definition crc_update_u32 :: "u32 \<Rightarrow> u32 \<Rightarrow> u32" where
  "crc_update_u32 v x = crc_update v (le_bytes 4 (unat x))"

definition crc_update_u64 :: "u32 \<Rightarrow> u64 \<Rightarrow> u32" where
  "crc_update_u64 v x = crc_update v (le_bytes 8 (unat x))"

definition crc32 :: "u8 list \<Rightarrow> u32" where
  "crc32 bs = crc_update crc_init bs"

section \<open>Content digest\<close>

definition fnv_prime :: u64 where
  "fnv_prime = 0x100000001b3"

definition fnv_step :: "u64 \<Rightarrow> u8 \<Rightarrow> u64" where
  "fnv_step h b = (h XOR ucast b) * fnv_prime"

definition content_digest :: "u8 list \<Rightarrow> u64" where
  "content_digest bs = foldl fnv_step 0xcbf29ce484222325 bs"

definition to_hex :: "u64 \<Rightarrow> string" where
  "to_hex d = (let s = nat_to_base 16 (unat d) in replicate (16 - length s) (CHR ''0'') @ s)"

section \<open>Hashes that fold an injective step\<close>

locale byte_hash =
  fixes step :: "'s \<Rightarrow> u8 \<Rightarrow> 's"
  assumes step_inj_state: "step s b = step s' b \<Longrightarrow> s = s'"
    and step_inj_byte: "step s b = step s b' \<Longrightarrow> b = b'"
begin

lemma fold_inj_state: "foldl step s bs = foldl step s' bs \<Longrightarrow> s = s'"
  by (induction bs arbitrary: s s') (auto dest: step_inj_state)

lemma fold_single_byte: "foldl step s (xs @ b # ys) = foldl step s (xs @ c # ys) \<Longrightarrow> b = c"
  by (auto dest: fold_inj_state step_inj_byte)

lemma fold_update:
  assumes "foldl step s (bs[j := b]) = foldl step s bs" "j < length bs"
  shows "b = bs ! j"
proof -
  have "bs = take j bs @ bs ! j # drop (Suc j) bs" "bs[j := b] = take j bs @ b # drop (Suc j) bs"
    using assms(2) by (simp_all add: id_take_nth_drop upd_conv_take_nth_drop)
  with assms(1) show ?thesis
    by (metis fold_single_byte)
qed

end

section \<open>The table-driven step is eight bitwise steps\<close>

lemma word_xor_cancel [simp]:
  fixes x y z :: "'a::len word"
  shows "x XOR z = y XOR z \<longleftrightarrow> x = y" and "z XOR x = z XOR y \<longleftrightarrow> x = y"
  by (metis xor.assoc xor.right_neutral xor_self_eq, metis xor.assoc xor.left_neutral xor_self_eq)

lemma ucast_u8_inj:
  assumes "(ucast (b :: u8) :: 'a::len word) = ucast c" "8 \<le> LENGTH('a)"
  shows "b = c"
proof (rule bit_word_eqI)
  fix n assume "n < LENGTH(8)"
  then show "bit b n = bit c n"
    using arg_cong [OF assms(1), of "\<lambda>w. bit w n"] assms(2) by (simp add: bit_simps)
qed

lemma crc_bit_step_alt:
  "crc_bit_step c = drop_bit 1 c XOR (if bit c 0 then crc_pol else 0)"
  by (simp add: crc_bit_step_def xor.commute bit_0 one_and_eq and_one_eq even_iff_mod_2_eq_zero odd_iff_mod_2_eq_one)

lemma crc_bit_step_xor: "crc_bit_step (x XOR y) = crc_bit_step x XOR crc_bit_step y"
  by (auto simp: crc_bit_step_alt bit_simps xor.assoc xor.left_commute xor.commute)

lemma crc_bit_steps_xor:
  "(crc_bit_step ^^ n) (x XOR y) = (crc_bit_step ^^ n) x XOR (crc_bit_step ^^ n) y"
  by (induction n) (simp_all add: crc_bit_step_xor)

lemma crc_bit_step_inj: "crc_bit_step x = crc_bit_step y \<Longrightarrow> x = y"
proof -
  assume eq: "crc_bit_step x = crc_bit_step y"
  have top: "bit (crc_bit_step c) 31 = bit c 0" for c
    using bit_imp_le_length [of c 32] by (auto simp: crc_bit_step_alt bit_simps crc_pol_def)
  have b0: "bit x 0 = bit y 0"
    using eq top by metis
  then have dr: "drop_bit 1 x = drop_bit 1 y"
    using eq by (auto simp: crc_bit_step_alt split: if_splits)
  show ?thesis
  proof (rule bit_word_eqI)
    fix n assume "n < LENGTH(32)"
    show "bit x n = bit y n"
    proof (cases n)
      case 0
      then show ?thesis using b0 by simp
    next
      case (Suc m)
      then show ?thesis
        using arg_cong [OF dr, of "\<lambda>w. bit w m"] by (simp add: bit_simps)
    qed
  qed
qed

lemma crc_bit_steps_inj: "(crc_bit_step ^^ n) x = (crc_bit_step ^^ n) y \<Longrightarrow> x = y"
  by (induction n) (auto dest: crc_bit_step_inj)

lemma crc_bit_steps_shift: "(\<And>i. i < n \<Longrightarrow> \<not> bit x i) \<Longrightarrow> (crc_bit_step ^^ n) x = drop_bit n x"
proof (induction n)
  case (Suc n)
  have "(crc_bit_step ^^ n) x = drop_bit n x"
    using Suc.IH Suc.prems by simp
  moreover have "\<not> bit (drop_bit n x) 0"
    using Suc.prems [of n] by (simp add: bit_simps)
  moreover have "crc_bit_step w = drop_bit 1 w" if "\<not> bit w 0" for w
    using that by (simp add: crc_bit_step_alt)
  ultimately show ?case
    by simp
qed simp

lemma crc_table_nth: "i < 256 \<Longrightarrow> crc_table ! i = (crc_bit_step ^^ 8) (word_of_nat i)"
  by (simp only: crc_table_def nth_map_upt) simp

lemma crc_table_driven:
  "(crc_bit_step ^^ 8) x = drop_bit 8 x XOR crc_table ! unat (x AND 0xFF)"
proof -
  have ff: "(0xFF :: u32) = mask 8"
    by (simp add: mask_eq_exp_minus_1)
  have low: "unat (x AND 0xFF) < 256"
  proof -
    have "x AND 0xFF \<le> 0xFF"
      by (rule word_and_le1)
    then show ?thesis
      by (simp add: word_le_nat_alt)
  qed
  have split: "x = (x AND NOT (mask 8)) XOR (x AND mask 8)"
    by (rule bit_word_eqI) (auto simp: bit_simps)
  have high: "(crc_bit_step ^^ 8) (x AND NOT (mask 8)) = drop_bit 8 (x AND NOT (mask 8))"
    by (rule crc_bit_steps_shift) (simp add: bit_simps)
  have drop: "drop_bit 8 (x AND NOT (mask 8)) = drop_bit 8 x"
    by (rule bit_word_eqI) (auto simp: bit_simps dest: bit_imp_le_length)
  have "(crc_bit_step ^^ 8) x
      = (crc_bit_step ^^ 8) (x AND NOT (mask 8)) XOR (crc_bit_step ^^ 8) (x AND mask 8)"
    by (subst split) (rule crc_bit_steps_xor)
  also have "(crc_bit_step ^^ 8) (x AND mask 8) = crc_table ! unat (x AND 0xFF)"
    using low by (simp add: crc_table_nth ff)
  finally show ?thesis
    by (simp only: high drop)
qed

lemma crc_step_bitwise: "crc_step v b = (crc_bit_step ^^ 8) (v XOR ucast b)"
proof -
  have "drop_bit 8 (v XOR ucast b) = drop_bit 8 v"
    by (rule bit_word_eqI) (auto simp: bit_simps dest: bit_imp_le_length)
  then show ?thesis
    by (simp add: crc_step_def crc_table_driven)
qed

interpretation crc: byte_hash crc_step
proof unfold_locales
  show "s = s'" if "crc_step s b = crc_step s' b" for s s' b
    using that by (auto simp: crc_step_bitwise dest!: crc_bit_steps_inj)
  show "b = b'" if "crc_step s b = crc_step s b'" for s b b'
  proof -
    from that have "(ucast b :: u32) = ucast b'"
      by (auto simp: crc_step_bitwise dest!: crc_bit_steps_inj)
    then show ?thesis
      by (rule ucast_u8_inj) simp
  qed
qed

lemma fnv_prime_inverse: "fnv_prime * 0xce965057aff6957b = 1"
  by (simp add: fnv_prime_def)

interpretation fnv: byte_hash fnv_step
proof unfold_locales
  have cancel: "x = y" if "x * fnv_prime = y * fnv_prime" for x y
    using arg_cong [OF that, of "\<lambda>w. w * 0xce965057aff6957b"]
    by (simp only: mult.assoc fnv_prime_inverse mult_1_right)
  show "s = s'" if "fnv_step s b = fnv_step s' b" for s s' b
    using cancel [of "s XOR ucast b" "s' XOR ucast b"] that by (simp add: fnv_step_def)
  show "b = b'" if "fnv_step s b = fnv_step s b'" for s b b'
  proof -
    have "(ucast b :: u64) = ucast b'"
      using cancel [of "s XOR ucast b" "s XOR ucast b'"] that by (simp add: fnv_step_def)
    then show ?thesis
      by (rule ucast_u8_inj) simp
  qed
qed

lemma crc_update_append: "crc_update v (xs @ ys) = crc_update (crc_update v xs) ys"
  by (simp add: crc_update_def)

lemma crc_update_single:
  "crc_update v (bs[j := b]) = crc_update v bs \<Longrightarrow> j < length bs \<Longrightarrow> b = bs ! j"
  unfolding crc_update_def by (rule crc.fold_update)

lemma content_digest_single:
  "content_digest (bs[j := b]) = content_digest bs \<Longrightarrow> j < length bs \<Longrightarrow> b = bs ! j"
  unfolding content_digest_def by (rule fnv.fold_update)

lemma length_nat_to_base: "1 < b \<Longrightarrow> n < b ^ Suc k \<Longrightarrow> length (nat_to_base b n) \<le> Suc k"
proof (induction k arbitrary: n)
  case (Suc k)
  from Suc.prems have "n div b < b ^ Suc k"
    by (simp add: less_mult_imp_div_less mult.commute)
  with Suc show ?case
    by (subst nat_to_base.simps) simp
qed (simp add: nat_to_base.simps)

lemma length_to_hex [simp]: "length (to_hex d) = 16"
proof -
  have "unat d < 16 ^ Suc 15"
    using unsigned_less [of d, where ?'a = nat] by simp
  then show ?thesis
    using length_nat_to_base [of 16 "unat d" 15] by (simp add: to_hex_def Let_def)
qed

lemma base_val_to_hex [simp]: "base_val 16 (to_hex d) = unat d"
  by (simp add: to_hex_def Let_def base_val_pad base_val_nat_to_base)

lemma to_hex_inject [simp]: "to_hex d = to_hex e \<longleftrightarrow> d = e"
  by (metis base_val_to_hex word_unat_eq_iff)

section \<open>Properties\<close>

text \<open>C34: The table-driven CRC of \<^verbatim>\<open>Crc32::update\<close> computes, for every start value and every byte
  string, what eight steps of the bitwise polynomial division per byte compute.\<close>

theorem crc_table_is_bitwise:
  "crc_update v bs = foldl (\<lambda>v b. (crc_bit_step ^^ 8) (v XOR ucast b)) v bs"
  unfolding crc_update_def by (induction bs arbitrary: v) (simp_all add: crc_step_bitwise)

text \<open>C33: Changing one byte of a string, whichever and however, changes both its content digest and
  its CRC.\<close>

theorem single_byte_detected:
  assumes "j < length bs" "b \<noteq> bs ! j"
  shows "content_digest (bs[j := b]) \<noteq> content_digest bs \<and> crc_update v (bs[j := b]) \<noteq> crc_update v bs"
  using assms crc_update_single [of v bs j b] content_digest_single [of bs j b] by blast

theorem single_byte_detected_witness:
  "content_digest [1, 7, 3] \<noteq> content_digest [1, 2, 3] \<and> crc_update crc_init [1, 7, 3] \<noteq> crc_update crc_init [1, 2, 3]"
  using single_byte_detected [of 1 "[1, 2, 3]" 7 crc_init] by simp

end
