(* ===== verification/Codec.thy ===== *)
theory Codec
  imports Checksum
begin

text \<open>
  The bounded binary codec of \<^verbatim>\<open>include/nmc/codec.hpp\<close>.  A \<^verbatim>\<open>ByteReader\<close> is the list of bytes
  from its position to its end (no operation looks behind the position), a \<^verbatim>\<open>ByteWriter\<close> method
  is the list of bytes it appends.  A read is \<^const>\<open>None\<close> where the method returns \<^verbatim>\<open>false\<close>.
  The locale \<open>wire_codec\<close> is the contract between an encoder and its decoder; the primitive
  codecs, the enumeration fields and the counted vectors are instances of it.
\<close>

named_theorems codec_simps \<open>a decoder reads back what its encoder wrote\<close>

section \<open>Reader\<close>

definition kMaxCodecBlobBytes :: nat where
  "kMaxCodecBlobBytes = 64 * 1024 * 1024"

type_synonym ByteReader = "u8 list"

definition remaining :: "ByteReader \<Rightarrow> nat" where
  "remaining r = length r"

definition at_end :: "ByteReader \<Rightarrow> bool" where
  "at_end r \<longleftrightarrow> r = []"

definition read_fixed :: "nat \<Rightarrow> ByteReader \<Rightarrow> (u8 list \<times> ByteReader) option" where
  "read_fixed n r = (if n > remaining r then None else Some (take n r, drop n r))"

definition read_u8 :: "ByteReader \<Rightarrow> (u8 \<times> ByteReader) option" where
  "read_u8 r = do { (bs, r) \<leftarrow> read_fixed 1 r; Some (word_of_nat (le_val bs), r) }"

definition read_u16 :: "ByteReader \<Rightarrow> (u16 \<times> ByteReader) option" where
  "read_u16 r = do { (bs, r) \<leftarrow> read_fixed 2 r; Some (word_of_nat (le_val bs), r) }"

definition read_u32 :: "ByteReader \<Rightarrow> (u32 \<times> ByteReader) option" where
  "read_u32 r = do { (bs, r) \<leftarrow> read_fixed 4 r; Some (word_of_nat (le_val bs), r) }"

definition read_u64 :: "ByteReader \<Rightarrow> (u64 \<times> ByteReader) option" where
  "read_u64 r = do { (bs, r) \<leftarrow> read_fixed 8 r; Some (word_of_nat (le_val bs), r) }"

text \<open>A \<^verbatim>\<open>double\<close> is its 64-bit object representation.\<close>

type_synonym f64 = u64

definition read_f64 :: "ByteReader \<Rightarrow> (f64 \<times> ByteReader) option" where
  "read_f64 r = do { (bs, r) \<leftarrow> read_fixed 8 r; Some (word_of_nat (le_val bs), r) }"

definition read_span :: "u64 \<Rightarrow> ByteReader \<Rightarrow> (u8 list \<times> ByteReader) option" where
  "read_span n r =
     (case checked_mul_u64 n 1 of
        None \<Rightarrow> None
      | Some _ \<Rightarrow> if unat n > remaining r then None else Some (take (unat n) r, drop (unat n) r))"

definition read_blob :: "ByteReader \<Rightarrow> (u8 list \<times> ByteReader) option" where
  "read_blob r = do {
     (len, r) \<leftarrow> read_u64 r;
     if unat len > kMaxCodecBlobBytes then None
     else if unat len > remaining r then None
     else Some (take (unat len) r, drop (unat len) r)
   }"

definition read_string :: "ByteReader \<Rightarrow> (string \<times> ByteReader) option" where
  "read_string r = do {
     (len, r) \<leftarrow> read_u64 r;
     if unat len > kMaxCodecBlobBytes then None
     else if unat len > remaining r then None
     else Some (string_of_bytes (take (unat len) r), drop (unat len) r)
   }"

definition skip :: "nat \<Rightarrow> ByteReader \<Rightarrow> ByteReader option" where
  "skip n r = (if n > remaining r then None else Some (drop n r))"

section \<open>Writer\<close>

definition write_u8 :: "u8 \<Rightarrow> u8 list" where
  "write_u8 v = [v]"

definition write_u16 :: "u16 \<Rightarrow> u8 list" where
  "write_u16 v = le_bytes 2 (unat v)"

definition write_u32 :: "u32 \<Rightarrow> u8 list" where
  "write_u32 v = le_bytes 4 (unat v)"

definition write_u64 :: "u64 \<Rightarrow> u8 list" where
  "write_u64 v = le_bytes 8 (unat v)"

definition write_f64 :: "f64 \<Rightarrow> u8 list" where
  "write_f64 v = le_bytes 8 (unat v)"

definition write_raw :: "u8 list \<Rightarrow> u8 list" where
  "write_raw bs = bs"

definition write_blob :: "u8 list \<Rightarrow> u8 list" where
  "write_blob bs = write_u64 (word_of_nat (length bs)) @ bs"

definition write_string :: "string \<Rightarrow> u8 list" where
  "write_string s = write_blob (bytes_of_string s)"

section \<open>Counted sequences\<close>

text \<open>The loop \<^verbatim>\<open>for (i = 0; i < n; ++i) { read one; push_back }\<close>.\<close>

primrec read_items ::
    "nat \<Rightarrow> (ByteReader \<Rightarrow> ('a \<times> ByteReader) option) \<Rightarrow> ByteReader \<Rightarrow> ('a list \<times> ByteReader) option"
where
  "read_items 0 dec r = Some ([], r)"
| "read_items (Suc n) dec r = do {
     (x, r) \<leftarrow> dec r;
     (xs, r) \<leftarrow> read_items n dec r;
     Some (x # xs, r)
   }"

text \<open>A 64-bit count followed by the items.  The decoders' loop bound \<^verbatim>\<open>j < n && j < cap\<close> reads at
  most \<open>cap\<close> items whatever the count says.\<close>

definition write_vec :: "('a \<Rightarrow> u8 list) \<Rightarrow> 'a list \<Rightarrow> u8 list" where
  "write_vec enc xs = write_u64 (word_of_nat (length xs)) @ concat (map enc xs)"

definition read_vec ::
    "nat \<Rightarrow> (ByteReader \<Rightarrow> ('a \<times> ByteReader) option) \<Rightarrow> ByteReader \<Rightarrow> ('a list \<times> ByteReader) option"
where
  "read_vec cap dec r = do {
     (n, r) \<leftarrow> read_u64 r;
     read_items (min (unat n) cap) dec r
   }"

section \<open>The contract between an encoder and its decoder\<close>

locale wire_codec =
  fixes enc :: "'a \<Rightarrow> u8 list"
    and dec :: "ByteReader \<Rightarrow> ('a \<times> ByteReader) option"
    and ok :: "'a \<Rightarrow> bool"
  assumes dec_enc: "ok v \<Longrightarrow> dec (enc v @ r) = Some (v, r)"
begin

lemma enc_prefix_free:
  assumes "ok v" "ok w" "enc v @ r = enc w @ s"
  shows "v = w \<and> r = s"
  using dec_enc [OF assms(1), of r] dec_enc [OF assms(2), of s]
  unfolding assms(3) by (metis option.inject prod.inject)

lemma read_items_enc:
  "list_all ok xs \<Longrightarrow> read_items (length xs) dec (concat (map enc xs) @ r) = Some (xs, r)"
  by (induction xs) (simp_all add: dec_enc)

lemma concat_enc_inj:
  assumes "list_all ok xs" "list_all ok ys" "length xs = length ys"
    and "concat (map enc xs) @ r = concat (map enc ys) @ s"
  shows "xs = ys \<and> r = s"
  using read_items_enc [OF assms(1), of r] read_items_enc [OF assms(2), of s]
  unfolding assms(3,4) by (metis option.inject prod.inject)

end

section \<open>The primitive codecs\<close>

lemma read_fixed_append [codec_simps]: "length bs = n \<Longrightarrow> read_fixed n (bs @ r) = Some (bs, r)"
  by (auto simp: read_fixed_def remaining_def)

lemma read_write_u8 [simp, codec_simps]: "read_u8 (write_u8 v @ r) = Some (v, r)"
  by (simp add: read_u8_def write_u8_def read_fixed_def remaining_def)

lemma read_write_u16 [simp, codec_simps]: "read_u16 (write_u16 v @ r) = Some (v, r)"
  using unsigned_less [of v, where ?'a = nat]
  by (simp add: read_u16_def write_u16_def read_fixed_append le_val_le_bytes)

lemma read_write_u32 [simp, codec_simps]: "read_u32 (write_u32 v @ r) = Some (v, r)"
  using unsigned_less [of v, where ?'a = nat]
  by (simp add: read_u32_def write_u32_def read_fixed_append le_val_le_bytes)

lemma read_write_u64 [simp, codec_simps]: "read_u64 (write_u64 v @ r) = Some (v, r)"
  using unsigned_less [of v, where ?'a = nat]
  by (simp add: read_u64_def write_u64_def read_fixed_append le_val_le_bytes)

lemma read_write_f64 [simp, codec_simps]: "read_f64 (write_f64 v @ r) = Some (v, r)"
  using unsigned_less [of v, where ?'a = nat]
  by (simp add: read_f64_def write_f64_def read_fixed_append le_val_le_bytes)

lemma unat_length_blob:
  "length bs \<le> kMaxCodecBlobBytes \<Longrightarrow> unat (word_of_nat (length bs) :: u64) = length bs"
  by (simp add: kMaxCodecBlobBytes_def unat_of_nat take_bit_nat_eq_self)

lemma read_write_blob [simp, codec_simps]:
  "length bs \<le> kMaxCodecBlobBytes \<Longrightarrow> read_blob (write_blob bs @ r) = Some (bs, r)"
  by (simp add: read_blob_def write_blob_def unat_length_blob remaining_def)

lemma read_write_string [simp, codec_simps]:
  "length s \<le> kMaxCodecBlobBytes \<Longrightarrow> read_string (write_string s @ r) = Some (s, r)"
  using unat_length_blob [of "bytes_of_string s"]
  by (simp add: read_string_def write_string_def write_blob_def remaining_def)

interpretation u8: wire_codec write_u8 read_u8 "\<lambda>_. True"
  by unfold_locales simp

interpretation u16: wire_codec write_u16 read_u16 "\<lambda>_. True"
  by unfold_locales simp

interpretation u32: wire_codec write_u32 read_u32 "\<lambda>_. True"
  by unfold_locales simp

interpretation u64: wire_codec write_u64 read_u64 "\<lambda>_. True"
  by unfold_locales simp

interpretation f64: wire_codec write_f64 read_f64 "\<lambda>_. True"
  by unfold_locales simp

interpretation blob: wire_codec write_blob read_blob "\<lambda>bs. length bs \<le> kMaxCodecBlobBytes"
  by unfold_locales simp

interpretation str: wire_codec write_string read_string "\<lambda>s. length s \<le> kMaxCodecBlobBytes"
  by unfold_locales simp

text \<open>A counted vector of a codec's values is again a codec, as long as its length stays within
  the reader's cap.\<close>

context wire_codec
begin

lemma read_write_vec:
  assumes "list_all ok xs" "length xs \<le> cap" "cap < 2 ^ 64"
  shows "read_vec cap dec (write_vec enc xs @ r) = Some (xs, r)"
proof -
  have "unat (word_of_nat (length xs) :: u64) = length xs"
    using assms(2,3) by (simp add: unat_of_nat take_bit_nat_eq_self)
  then show ?thesis
    using assms(1,2) by (simp add: read_vec_def write_vec_def read_items_enc min_def)
qed

end

section \<open>Sizes and consumption\<close>

lemma length_write [simp]:
  "length (write_u8 a) = 1" "length (write_u16 b) = 2" "length (write_u32 c) = 4"
  "length (write_u64 d) = 8" "length (write_f64 d) = 8"
  by (simp_all add: write_u8_def write_u16_def write_u32_def write_u64_def write_f64_def)

lemma length_write_blob [simp]: "length (write_blob bs) = 8 + length bs"
  by (simp add: write_blob_def)

lemma length_write_string [simp]: "length (write_string s) = 8 + length s"
  by (simp add: write_string_def)

text \<open>No read produces bytes that were not in front of it: what is left is a suffix.\<close>

lemma read_fixed_SomeD: "read_fixed n r = Some (bs, r') \<Longrightarrow> r = bs @ r' \<and> length bs = n"
  by (auto simp: read_fixed_def remaining_def split: if_splits)

lemma le_bytes_of_word:
  assumes "length bs = n" "8 * n = LENGTH('a::len)"
  shows "le_bytes n (unat (word_of_nat (le_val bs) :: 'a word)) = bs"
proof -
  have "256 ^ n = (2 :: nat) ^ LENGTH('a)"
    unfolding assms(2) [symmetric] power_mult by simp
  then have "le_val bs < 2 ^ LENGTH('a)"
    using le_val_bound [of bs] assms(1) by simp
  then have "unat (word_of_nat (le_val bs) :: 'a word) = le_val bs"
    by (simp add: unat_of_nat take_bit_nat_eq_self)
  then show ?thesis
    using le_bytes_le_val [of bs] assms(1) by simp
qed

lemma read_u16_SomeD: "read_u16 r = Some (v, r') \<Longrightarrow> r = write_u16 v @ r'"
  by (auto simp: read_u16_def write_u16_def bind_eq_Some_conv le_bytes_of_word dest!: read_fixed_SomeD)

lemma read_u32_SomeD: "read_u32 r = Some (v, r') \<Longrightarrow> r = write_u32 v @ r'"
  by (auto simp: read_u32_def write_u32_def bind_eq_Some_conv le_bytes_of_word dest!: read_fixed_SomeD)

lemma read_u64_SomeD: "read_u64 r = Some (v, r') \<Longrightarrow> r = write_u64 v @ r'"
  by (auto simp: read_u64_def write_u64_def bind_eq_Some_conv le_bytes_of_word dest!: read_fixed_SomeD)

lemma write_u32_inject [simp]: "write_u32 v = write_u32 w \<longleftrightarrow> v = w"
  using u32.enc_prefix_free [of v "[]" w "[]"] by auto

lemma read_blob_SomeD:
  assumes "read_blob r = Some (bs, r')"
  shows "r = write_blob bs @ r' \<and> length bs \<le> kMaxCodecBlobBytes"
proof -
  from assms obtain len r1 where r1: "read_u64 r = Some (len, r1)"
    and len: "unat len \<le> kMaxCodecBlobBytes" "unat len \<le> length r1"
    and bs: "bs = take (unat len) r1" "r' = drop (unat len) r1"
    by (auto simp: read_blob_def remaining_def bind_eq_Some_conv split: if_splits)
  have "length bs = unat len"
    using len(2) bs(1) by simp
  then have "write_blob bs @ r' = write_u64 len @ r1"
    using bs by (simp add: write_blob_def)
  then show ?thesis
    using read_u64_SomeD [OF r1] len(1) \<open>length bs = unat len\<close> by simp
qed

end
