(* ===== verification/Persistence.thy ===== *)
theory Persistence
  imports Codec
begin

text \<open>
  The persistent store of \<^verbatim>\<open>src/persistence.cpp\<close>: the envelope around a payload, the atomic save
  through a temporary file, and the verified load.  A file system maps paths to contents; whether
  each system call succeeds is an argument.  The lemmas show that a load after a save returns what
  was saved, that a save that fails leaves the original file as it was, that the loader accepts
  exactly the envelopes the saver builds, and that no change of a single byte goes unnoticed.
\<close>

section \<open>The envelope\<close>

definition kMagic :: u32 where
  "kMagic = 0x504D434E"

definition kFormatVersion :: u16 where
  "kFormatVersion = 1"

definition kMaxPayload :: nat where
  "kMaxPayload = 256 * 1024 * 1024"

definition compute_payload_crc :: "u32 \<Rightarrow> u16 \<Rightarrow> u64 \<Rightarrow> u8 list \<Rightarrow> u32" where
  "compute_payload_crc magic version len payload =
     (let c = crc_update_u32 crc_init magic;
          c = crc_update_u16 c version;
          c = crc_update_u64 c len
      in crc_update c payload)"

definition build_envelope :: "u8 list \<Rightarrow> u8 list Result" where
  "build_envelope payload =
     (if length payload > kMaxPayload then
        Inl (make_error ''E_PERSIST_OVERSIZE'' ''serialized payload exceeds maximum size'')
      else
        Inr (write_u32 kMagic @ write_u16 kFormatVersion @ write_u64 (word_of_nat (length payload)) @
          write_raw payload @
          write_u32 (compute_payload_crc kMagic kFormatVersion (word_of_nat (length payload)) payload)))"

definition parse_envelope :: "u8 list \<Rightarrow> u8 list Result" where
  "parse_envelope raw =
     (case read_u32 raw of
        None \<Rightarrow> Inl (make_error ''E_PERSIST_MAGIC'' ''truncated header'')
      | Some (magic, r) \<Rightarrow>
        if magic \<noteq> kMagic then Inl (make_error ''E_PERSIST_MAGIC'' ''bad magic'')
        else case read_u16 r of
          None \<Rightarrow> Inl (make_error ''E_PERSIST_VERSION'' ''truncated version'')
        | Some (version, r) \<Rightarrow>
          if version \<noteq> kFormatVersion then
            Inl (make_error ''E_PERSIST_VERSION'' ''unsupported format version'')
          else case read_u64 r of
            None \<Rightarrow> Inl (make_error ''E_PERSIST_LEN'' ''truncated payload length'')
          | Some (payload_len, r) \<Rightarrow>
            if unat payload_len > kMaxPayload then
              Inl (make_error ''E_PERSIST_OVERSIZE'' ''payload too large'')
            else if unat payload_len > remaining r then
              Inl (make_error ''E_PERSIST_TRUNC'' ''payload truncated'')
            else case read_span payload_len r of
              None \<Rightarrow> Inl (make_error ''E_PERSIST_TRUNC'' ''cannot read payload'')
            | Some (payload, r) \<Rightarrow>
              (case read_u32 r of
                 None \<Rightarrow> Inl (make_error ''E_PERSIST_CRC'' ''truncated checksum'')
               | Some (crc, r) \<Rightarrow>
                 if \<not> at_end r then
                   Inl (make_error ''E_PERSIST_TRAILING'' ''trailing garbage after payload'')
                 else if compute_payload_crc magic version payload_len payload \<noteq> crc then
                   Inl (make_error ''E_PERSIST_CRC'' ''checksum mismatch (corruption)'')
                 else Inr payload))"

section \<open>Files\<close>

type_synonym FileSystem = "string \<Rightarrow> u8 list option"

record SaveCalls =
  sv_create :: bool
  sv_write :: bool
  sv_written :: nat
  sv_flush :: bool
  sv_move :: bool
  sv_delete :: bool

record ReadCalls =
  rd_size :: bool
  rd_read :: bool

definition tmp_path :: "string \<Rightarrow> string" where
  "tmp_path path = path @ ''.tmp''"

definition delete_file :: "bool \<Rightarrow> string \<Rightarrow> FileSystem \<Rightarrow> FileSystem" where
  "delete_file ok path fs = (if ok then fs(path := None) else fs)"

definition save_file :: "string \<Rightarrow> u8 list \<Rightarrow> SaveCalls \<Rightarrow> FileSystem \<Rightarrow> unit Result \<times> FileSystem" where
  "save_file path payload calls fs =
     (case build_envelope payload of
        Inl e \<Rightarrow> (Inl e, fs)
      | Inr bytes \<Rightarrow>
        let tmp = tmp_path path in
        if \<not> sv_create calls then
          (Inl (make_error ''E_PERSIST_WRITE'' ''cannot create temp persistence file''), fs)
        else
          let written = (if bytes \<noteq> [] then sv_written calls else 0);
              fs = fs(tmp := Some (take written bytes));
              ok = \<not> (bytes \<noteq> [] \<and> (\<not> sv_write calls \<or> written \<noteq> length bytes));
              ok = (if ok then sv_flush calls else ok)
          in if \<not> ok then
               (Inl (make_error ''E_PERSIST_WRITE'' ''failure writing temp persistence file''),
                delete_file (sv_delete calls) tmp fs)
             else if \<not> sv_move calls then
               (Inl (make_error ''E_PERSIST_REPLACE'' ''atomic replace failed''),
                delete_file (sv_delete calls) tmp fs)
             else (Inr (), fs(path := fs tmp, tmp := None)))"

definition read_whole_file :: "string \<Rightarrow> ReadCalls \<Rightarrow> FileSystem \<Rightarrow> u8 list Result" where
  "read_whole_file path calls fs =
     (case fs path of
        None \<Rightarrow> Inl (make_error ''E_PERSIST_OPEN'' ''cannot open persistence file'')
      | Some data \<Rightarrow>
        if \<not> rd_size calls then
          Inl (make_error ''E_PERSIST_SIZE'' ''cannot determine file size'')
        else if length data > kMaxPayload + 64 then
          Inl (make_error ''E_PERSIST_OVERSIZE'' ''persistence file exceeds maximum size'')
        else if length data > 0 \<and> \<not> rd_read calls then
          Inl (make_error ''E_PERSIST_READ'' ''short read on persistence file'')
        else Inr data)"

definition load_file ::
    "string \<Rightarrow> (ByteReader \<Rightarrow> ('a \<times> ByteReader) option) \<Rightarrow> ReadCalls \<Rightarrow> FileSystem \<Rightarrow> 'a Result"
where
  "load_file path decode calls fs =
     (case read_whole_file path calls fs of
        Inl e \<Rightarrow> Inl e
      | Inr raw \<Rightarrow>
        case parse_envelope raw of
          Inl e \<Rightarrow> Inl e
        | Inr payload \<Rightarrow>
          case decode payload of
            None \<Rightarrow> Inl (make_error ''E_PERSIST_DECODE'' ''malformed persistence payload'')
          | Some (v, r) \<Rightarrow>
            if \<not> at_end r then
              Inl (make_error ''E_PERSIST_TRAILING'' ''trailing garbage inside payload'')
            else Inr v)"

section \<open>The loader accepts exactly the saver's envelopes\<close>

definition envelope_body :: "u8 list \<Rightarrow> u8 list" where
  "envelope_body payload =
     write_u32 kMagic @ write_u16 kFormatVersion @ write_u64 (word_of_nat (length payload)) @ payload"

definition envelope :: "u8 list \<Rightarrow> u8 list" where
  "envelope payload = envelope_body payload @ write_u32 (crc_update crc_init (envelope_body payload))"

lemma compute_payload_crc_body:
  "compute_payload_crc kMagic kFormatVersion (word_of_nat (length payload)) payload =
     crc_update crc_init (envelope_body payload)"
  by (simp add: compute_payload_crc_def envelope_body_def crc_update_append crc_update_u32_def
      crc_update_u16_def crc_update_u64_def write_u32_def write_u16_def write_u64_def)

lemma build_envelope_eq:
  "length payload \<le> kMaxPayload \<Longrightarrow> build_envelope payload = Inr (envelope payload)"
  by (simp add: build_envelope_def envelope_def compute_payload_crc_body) (simp add: envelope_body_def write_raw_def)

lemma length_envelope: "length (envelope payload) = 18 + length payload"
  by (simp add: envelope_def envelope_body_def)

lemma unat_length_payload:
  "length payload \<le> kMaxPayload \<Longrightarrow> unat (word_of_nat (length payload) :: u64) = length payload"
  by (simp add: kMaxPayload_def unat_of_nat take_bit_nat_eq_self)

lemma checked_mul_u64_one: "checked_mul_u64 n 1 = Some n"
  by (simp add: checked_mul_u64_Some_iff unsigned_less [where ?'a = nat and ?'b = 64, simplified])

lemma read_span_append:
  "unat n = length bs \<Longrightarrow> read_span n (bs @ r) = Some (bs, r)"
  by (simp add: read_span_def remaining_def checked_mul_u64_one)

lemma parse_envelope_envelope:
  assumes "length payload \<le> kMaxPayload"
  shows "parse_envelope (envelope payload) = Inr payload"
proof -
  have "read_u32 (write_u32 v) = Some (v, [])" for v
    using read_write_u32 [of v "[]"] by simp
  then show ?thesis
    using assms unat_length_payload [OF assms]
    by (simp add: parse_envelope_def envelope_def envelope_body_def read_span_append remaining_def
        at_end_def compute_payload_crc_body [unfolded envelope_body_def])
qed

lemma read_span_SomeD: "read_span n r = Some (bs, r') \<Longrightarrow> r = bs @ r' \<and> length bs = unat n"
  by (auto simp: read_span_def remaining_def checked_mul_u64_one split: if_splits)

lemma parse_envelope_InrD:
  assumes "parse_envelope raw = Inr payload"
  shows "raw = envelope payload \<and> length payload \<le> kMaxPayload"
proof -
  from assms obtain r1 where r1: "read_u32 raw = Some (kMagic, r1)"
    by (auto simp: parse_envelope_def split: option.split_asm if_split_asm)
  with assms obtain r2 where r2: "read_u16 r1 = Some (kFormatVersion, r2)"
    by (auto simp: parse_envelope_def split: option.split_asm if_split_asm)
  with assms r1 obtain n r3 where r3: "read_u64 r2 = Some (n, r3)" "unat n \<le> kMaxPayload"
      "unat n \<le> remaining r3"
    by (auto simp: parse_envelope_def not_less split: option.split_asm if_split_asm)
  with assms r1 r2 obtain ps r4 where r4: "read_span n r3 = Some (ps, r4)"
    by (auto simp: parse_envelope_def not_less split: option.split_asm if_split_asm)
  with assms r1 r2 r3 obtain crc where r5: "read_u32 r4 = Some (crc, [])"
      "compute_payload_crc kMagic kFormatVersion n ps = crc" "ps = payload"
    by (auto simp: parse_envelope_def not_less at_end_def split: option.split_asm if_split_asm)
  have n: "n = word_of_nat (length payload)" "length payload = unat n"
    using read_span_SomeD [OF r4] r5(3) by simp_all
  have crc: "crc = crc_update crc_init (envelope_body payload)"
    using r5(2,3) compute_payload_crc_body [of payload] n(1) by simp
  have "raw = write_u32 kMagic @ write_u16 kFormatVersion @ write_u64 n @ payload @ write_u32 crc"
    using read_u32_SomeD [OF r1] read_u16_SomeD [OF r2] read_u64_SomeD [OF r3(1)]
      read_span_SomeD [OF r4] read_u32_SomeD [OF r5(1)] r5(3) by simp
  then have "raw = envelope payload"
    unfolding envelope_def envelope_body_def crc n(1) by simp
  with n(2) r3(2) show ?thesis by simp
qed

lemma envelope_single_byte:
  assumes "envelope q = (envelope p)[i := b]" "i < length (envelope p)"
  shows "b = envelope p ! i"
proof (cases "i < length (envelope_body p)")
  case True
  let ?w = "\<lambda>p. write_u32 (crc_update crc_init (envelope_body p))"
  have "envelope_body q @ ?w q = (envelope_body p)[i := b] @ ?w p"
    using assms(1) True unfolding envelope_def list_update_append by (simp only: if_True)
  then have "envelope_body q = (envelope_body p)[i := b] \<and> ?w q = ?w p"
    by (rule iffD1 [OF append_eq_append_conv, rotated]) simp
  then have q: "envelope_body q = (envelope_body p)[i := b]" and w: "?w q = ?w p"
    by blast+
  have "crc_update crc_init ((envelope_body p)[i := b]) = crc_update crc_init (envelope_body p)"
    using w unfolding q write_u32_inject .
  from crc_update_single [OF this True] True show ?thesis
    by (simp add: envelope_def nth_append)
next
  case False
  let ?w = "\<lambda>p. write_u32 (crc_update crc_init (envelope_body p))"
  have "envelope_body q @ ?w q = envelope_body p @ (?w p)[i - length (envelope_body p) := b]"
    using assms(1) False unfolding envelope_def list_update_append by (simp only: if_False)
  then have "envelope_body q = envelope_body p"
    by (rule conjunct1 [OF iffD1 [OF append_eq_append_conv, rotated]]) simp
  then have "envelope q = envelope p"
    by (simp add: envelope_def)
  with assms show ?thesis
    by (metis nth_list_update_eq)
qed

lemma corrupted_envelope:
  assumes "i < length (envelope p)" "b \<noteq> envelope p ! i"
  shows "\<exists>e. parse_envelope ((envelope p)[i := b]) = Inl e"
proof (cases "parse_envelope ((envelope p)[i := b])")
  case (Inr q)
  from parse_envelope_InrD [OF Inr] envelope_single_byte [of q p i b] assms show ?thesis
    by metis
qed simp

text \<open>A shortened file is refused as well.\<close>

lemma envelope_length_field: "take 8 (drop 6 (envelope p)) = write_u64 (word_of_nat (length p))"
  by (simp add: envelope_def envelope_body_def)

lemma truncated_envelope:
  assumes "n < length (envelope p)" "length p \<le> kMaxPayload"
  shows "\<exists>e. parse_envelope (take n (envelope p)) = Inl e"
proof (cases "parse_envelope (take n (envelope p))")
  case (Inr q)
  then have q: "take n (envelope p) = envelope q" "length q \<le> kMaxPayload"
    using parse_envelope_InrD [OF Inr] by blast+
  have n: "n = 18 + length q"
    using arg_cong [OF q(1), of length] assms(1) unfolding length_take length_envelope by simp
  then have len: "length q < length p"
    using assms(1) by (simp add: length_envelope)
  have "take 8 (drop 6 (take n (envelope p))) = take 8 (drop 6 (envelope p))"
    using n by (simp add: drop_take min_def)
  then have "write_u64 (word_of_nat (length p)) = write_u64 (word_of_nat (length q))"
    unfolding q(1) envelope_length_field by (rule sym)
  then have "(word_of_nat (length p) :: u64) = word_of_nat (length q)"
    using u64.enc_prefix_free [of "word_of_nat (length p)" "[]" "word_of_nat (length q)" "[]"]
    by (simp only: append_Nil2 simp_thms)
  then have "length p = length q"
    using unat_length_payload [OF assms(2)] unat_length_payload [OF q(2)] by metis
  with len show ?thesis by simp
qed simp

section \<open>Saving and loading\<close>

lemma tmp_path_neq [simp]: "tmp_path path \<noteq> path" "path \<noteq> tmp_path path"
  by (simp_all add: tmp_path_def)

lemma save_file_error:
  assumes "save_file path payload calls fs = (Inl e, fs')" "p \<noteq> tmp_path path"
  shows "fs' p = fs p"
  using assms
  by (auto simp: save_file_def Let_def delete_file_def split: sum.splits if_splits)

lemma save_file_ok:
  assumes "save_file path payload calls fs = (Inr (), fs')"
  shows "length payload \<le> kMaxPayload \<and> fs' = fs(path \<mapsto> envelope payload, tmp_path path := None)"
proof -
  have "length payload \<le> kMaxPayload"
    using assms by (auto simp: save_file_def build_envelope_def split: if_splits)
  with assms show ?thesis
    by (auto simp: save_file_def build_envelope_eq Let_def fun_upd_twist split: if_splits)
qed

lemma envelope_neq_Nil [simp]: "envelope payload \<noteq> []"
  using length_envelope [of payload] by auto

lemma save_file_moves:
  assumes "length payload \<le> kMaxPayload" "sv_create calls" "sv_write calls" "sv_flush calls"
    and "sv_written calls = 18 + length payload"
  shows "\<exists>fs'. save_file path payload calls fs =
    (if sv_move calls then Inr () else Inl (make_error ''E_PERSIST_REPLACE'' ''atomic replace failed''), fs')"
  using assms by (simp add: save_file_def build_envelope_eq length_envelope Let_def)

lemma load_file_envelope:
  assumes "fs path = Some (envelope payload)" "length payload \<le> kMaxPayload" "rd_size calls" "rd_read calls"
  shows "load_file path decode calls fs =
    (case decode payload of
       None \<Rightarrow> Inl (make_error ''E_PERSIST_DECODE'' ''malformed persistence payload'')
     | Some (v, r) \<Rightarrow>
       if \<not> at_end r then Inl (make_error ''E_PERSIST_TRAILING'' ''trailing garbage inside payload'')
       else Inr v)"
  using assms by (simp add: load_file_def read_whole_file_def length_envelope parse_envelope_envelope)

lemma load_after_save:
  assumes "save_file path payload calls fs = (Inr (), fs')" "decode payload = Some (v, [])"
    and "rd_size rc" "rd_read rc"
  shows "load_file path decode rc fs' = Inr v"
proof -
  have "fs' path = Some (envelope payload)" "length payload \<le> kMaxPayload"
    using save_file_ok [OF assms(1)] by auto
  from load_file_envelope [of fs' path payload rc decode, OF this assms(3,4)] assms(2) show ?thesis
    by (simp add: at_end_def)
qed

lemma load_file_InrD:
  assumes "load_file path decode calls fs = Inr v"
  shows "\<exists>payload. fs path = Some (envelope payload) \<and> length payload \<le> kMaxPayload \<and>
    decode payload = Some (v, [])"
proof -
  from assms obtain raw where raw: "read_whole_file path calls fs = Inr raw"
    by (auto simp: load_file_def split: sum.split_asm)
  with assms obtain payload where payload: "parse_envelope raw = Inr payload"
    by (auto simp: load_file_def split: sum.split_asm)
  with assms raw have "decode payload = Some (v, [])"
    by (auto simp: load_file_def at_end_def split: option.split_asm if_split_asm)
  moreover have "fs path = Some raw"
    using raw by (auto simp: read_whole_file_def split: option.split_asm if_split_asm)
  ultimately show ?thesis
    using parse_envelope_InrD [OF payload] by auto
qed

section \<open>Properties\<close>

text \<open>C22: A save that fails, at whichever call and for whichever reason, leaves every file but its own
  temporary one as it was: the previous state is still there to load.\<close>

theorem failed_save_keeps_files:
  assumes "save_file path payload calls fs = (Inl e, fs')" "p \<noteq> tmp_path path"
  shows "fs' p = fs p"
  using assms by (rule save_file_error)

theorem failed_save_keeps_files_witness:
  "\<exists>e fs'. save_file ''s'' [1] \<lparr>sv_create = True, sv_write = True, sv_written = 19, sv_flush = True, sv_move = False,
       sv_delete = True\<rparr> [''s'' \<mapsto> [7]] = (Inl e, fs') \<and> fs' ''s'' = Some [7]"
proof -
  let ?calls = "\<lparr>sv_create = True, sv_write = True, sv_written = 19, sv_flush = True, sv_move = False, sv_delete = True\<rparr>"
  obtain e fs' where "save_file ''s'' [1] ?calls [''s'' \<mapsto> [7]] = (Inl e, fs')"
    using save_file_moves [of "[1]" ?calls "''s''" "[''s'' \<mapsto> [7]]"] by (auto simp: kMaxPayload_def)
  with failed_save_keeps_files [OF this, of "''s''"] show ?thesis
    by simp
qed

text \<open>C23: A damaged file does not load: with any one byte changed, or cut off anywhere, the envelope's magic,
  version, length or checksum gives it away.\<close>

theorem damaged_file_rejected:
  assumes "save_file path payload calls fs = (Inr (), fs')" "fs' path = Some raw"
    and "(\<exists>i b. i < length raw \<and> b \<noteq> raw ! i \<and> damaged = raw[i := b]) \<or> (\<exists>n. n < length raw \<and> damaged = take n raw)"
  shows "\<exists>e. load_file path decode rc (fs'(path \<mapsto> damaged)) = Inl e"
proof -
  have raw: "raw = envelope payload" "length payload \<le> kMaxPayload"
    using save_file_ok [OF assms(1)] assms(2) by auto
  have "damaged \<noteq> envelope q" if "length q \<le> kMaxPayload" for q
    using assms(3)
  proof (elim disjE exE conjE)
    fix i b
    assume "i < length raw" "b \<noteq> raw ! i" "damaged = raw[i := b]"
    then show ?thesis
      using envelope_single_byte [of q payload i b] by (auto simp: raw)
  next
    fix n
    assume "n < length raw" "damaged = take n raw"
    then show ?thesis
      using truncated_envelope [of n payload] raw parse_envelope_envelope [OF that] by auto
  qed
  then have "load_file path decode rc (fs'(path \<mapsto> damaged)) \<noteq> Inr v" for v
    using load_file_InrD [of path decode rc "fs'(path \<mapsto> damaged)" v] by auto
  then show ?thesis
    by (cases "load_file path decode rc (fs'(path \<mapsto> damaged))") auto
qed

theorem damaged_file_rejected_witness:
  "\<exists>fs' raw. fs' ''s'' = Some raw \<and> raw \<noteq> [] \<and>
     (\<exists>e. load_file ''s'' (\<lambda>r. Some (r, [])) \<lparr>rd_size = True, rd_read = True\<rparr> (fs'(''s'' \<mapsto> raw[14 := 9])) = Inl e) \<and>
     (\<exists>e. load_file ''s'' (\<lambda>r. Some (r, [])) \<lparr>rd_size = True, rd_read = True\<rparr> (fs'(''s'' \<mapsto> take 18 raw)) = Inl e)"
proof -
  let ?calls = "\<lparr>sv_create = True, sv_write = True, sv_written = 19, sv_flush = True, sv_move = True, sv_delete = True\<rparr>"
  obtain fs' where saved: "save_file ''s'' [1] ?calls Map.empty = (Inr (), fs')"
    using save_file_moves [of "[1]" ?calls "''s''" Map.empty] by (auto simp: kMaxPayload_def)
  then have raw: "fs' ''s'' = Some (envelope [1])"
    using save_file_ok [OF saved] by simp
  have byte: "14 < length (envelope [1])" "(9 :: u8) \<noteq> envelope [1] ! 14" "18 < length (envelope [1])"
    by (simp_all add: length_envelope envelope_def envelope_body_def nth_append)
  then have "\<exists>e. load_file ''s'' (\<lambda>r. Some (r, [])) \<lparr>rd_size = True, rd_read = True\<rparr> (fs'(''s'' \<mapsto> (envelope [1])[14 := 9])) = Inl e"
    "\<exists>e. load_file ''s'' (\<lambda>r. Some (r, [])) \<lparr>rd_size = True, rd_read = True\<rparr> (fs'(''s'' \<mapsto> take 18 (envelope [1]))) = Inl e"
    by (intro damaged_file_rejected [OF saved raw]; blast)+
  with raw byte show ?thesis
    by (intro exI [of _ fs'] exI [of _ "envelope [1]"]) auto
qed

end
