(* ===== verification/Authority.thy ===== *)
theory Authority
  imports Util
begin

text \<open>
  The authority model of \<^verbatim>\<open>include/nmc/authority.hpp\<close>: the snapshot a plan pins, the authority a
  completion carries, and the two validators.  A validator returns the list of mismatching
  dimensions in the order the source tests them; the laws say when the list is empty.
\<close>

record AuthoritySnapshot =
  snap_epoch :: CoordinatorEpoch
  snap_worker_boot :: WorkerBootId
  snap_target :: NearMemoryTargetId
  snap_target_generation :: NearMemoryTargetGeneration
  snap_memory_domain_generation :: MemoryDomainGeneration
  snap_dataset_generation :: DatasetGeneration
  snap_region_generation :: DataRegionGeneration
  snap_operation_generation :: OperationGeneration
  snap_program_generation :: "ProgramGeneration option"
  snap_capability_generation :: CapabilityGeneration
  snap_policy_generation :: PolicyGeneration
  snap_evidence_generation :: EvidenceGeneration
  snap_plan_generation :: ExecutionPlanGeneration

record PlanAuthority =
  pa_snapshot :: AuthoritySnapshot
  pa_plan :: ExecutionPlanId
  pa_plan_generation :: ExecutionPlanGeneration

record CompletionAuthority =
  ca_plan :: ExecutionPlanId
  ca_plan_generation :: ExecutionPlanGeneration
  ca_dispatch :: DispatchId
  ca_attempt :: AttemptId
  ca_target :: NearMemoryTargetId
  ca_target_generation :: NearMemoryTargetGeneration
  ca_worker_boot :: WorkerBootId
  ca_epoch :: CoordinatorEpoch
  ca_dataset_generation :: DatasetGeneration
  ca_region_generation :: DataRegionGeneration
  ca_result_generation :: ResultGeneration
  ca_operation_generation :: OperationGeneration

record StaleReason =
  sr_dimension :: string
  sr_detail :: string

abbreviation stale :: "string \<Rightarrow> string \<Rightarrow> StaleReason" where
  "stale dim det \<equiv> \<lparr>sr_dimension = dim, sr_detail = det\<rparr>"

definition validate_completion_against_plan ::
    "CompletionAuthority \<Rightarrow> PlanAuthority \<Rightarrow> StaleReason list" where
  "validate_completion_against_plan completion plan =
     (let s = pa_snapshot plan in
      push_if (ca_plan completion \<noteq> pa_plan plan)
        (stale ''plan'' ''completion plan id mismatch'') @
      push_if (ca_plan_generation completion \<noteq> pa_plan_generation plan)
        (stale ''plan_generation'' ''completion plan generation mismatch'') @
      push_if (ca_target_generation completion \<noteq> snap_target_generation s)
        (stale ''target_generation'' ''completion target generation mismatch'') @
      push_if (ca_worker_boot completion \<noteq> snap_worker_boot s)
        (stale ''worker_boot'' ''completion worker boot mismatch'') @
      push_if (ca_epoch completion \<noteq> snap_epoch s)
        (stale ''epoch'' ''completion epoch mismatch'') @
      push_if (ca_dataset_generation completion \<noteq> snap_dataset_generation s)
        (stale ''dataset_generation'' ''completion dataset generation mismatch'') @
      push_if (ca_region_generation completion \<noteq> snap_region_generation s)
        (stale ''region_generation'' ''completion region generation mismatch'') @
      push_if (ca_operation_generation completion \<noteq> snap_operation_generation s)
        (stale ''operation_generation'' ''completion operation generation mismatch''))"

definition validate_plan_against_current ::
    "PlanAuthority \<Rightarrow> AuthoritySnapshot \<Rightarrow> StaleReason list" where
  "validate_plan_against_current plan current =
     (let s = pa_snapshot plan in
      push_if (snap_epoch s \<noteq> snap_epoch current)
        (stale ''epoch'' ''coordinator epoch moved'') @
      push_if (snap_worker_boot s \<noteq> snap_worker_boot current)
        (stale ''worker_boot'' ''worker boot changed'') @
      push_if (snap_target_generation s \<noteq> snap_target_generation current)
        (stale ''target_generation'' ''target generation moved'') @
      push_if (snap_memory_domain_generation s \<noteq> snap_memory_domain_generation current)
        (stale ''memory_domain_generation'' ''memory domain generation moved'') @
      push_if (snap_dataset_generation s \<noteq> snap_dataset_generation current)
        (stale ''dataset_generation'' ''dataset generation moved'') @
      push_if (snap_region_generation s \<noteq> snap_region_generation current)
        (stale ''region_generation'' ''region generation moved'') @
      push_if (snap_operation_generation s \<noteq> snap_operation_generation current)
        (stale ''operation_generation'' ''operation generation moved'') @
      push_if (snap_program_generation s \<noteq> snap_program_generation current)
        (stale ''program_generation'' ''program generation moved'') @
      push_if (snap_capability_generation s \<noteq> snap_capability_generation current)
        (stale ''capability_generation'' ''capability generation moved'') @
      push_if (snap_policy_generation s \<noteq> snap_policy_generation current)
        (stale ''policy_generation'' ''policy generation moved'') @
      push_if (snap_evidence_generation s \<noteq> snap_evidence_generation current)
        (stale ''evidence_generation'' ''evidence generation moved''))"

section \<open>When nothing is stale\<close>

lemma validate_completion_Nil:
  "validate_completion_against_plan c p = [] \<longleftrightarrow>
     ca_plan c = pa_plan p \<and> ca_plan_generation c = pa_plan_generation p \<and>
     ca_target_generation c = snap_target_generation (pa_snapshot p) \<and>
     ca_worker_boot c = snap_worker_boot (pa_snapshot p) \<and>
     ca_epoch c = snap_epoch (pa_snapshot p) \<and>
     ca_dataset_generation c = snap_dataset_generation (pa_snapshot p) \<and>
     ca_region_generation c = snap_region_generation (pa_snapshot p) \<and>
     ca_operation_generation c = snap_operation_generation (pa_snapshot p)"
  by (simp add: validate_completion_against_plan_def Let_def)

text \<open>A plan validated against a current snapshot is authoritative exactly when the two snapshots
  agree on everything but the target identity and the plan generation.\<close>

lemma validate_plan_Nil:
  "validate_plan_against_current p c = [] \<longleftrightarrow>
     pa_snapshot p = c\<lparr>snap_target := snap_target (pa_snapshot p),
                       snap_plan_generation := snap_plan_generation (pa_snapshot p)\<rparr>"
  by (cases "pa_snapshot p"; cases c) (auto simp: validate_plan_against_current_def Let_def)

text \<open>The target identity of a completion is not one of the compared dimensions.\<close>

lemma validate_completion_ignores_target:
  "validate_completion_against_plan (c\<lparr>ca_target := t\<rparr>) p = validate_completion_against_plan c p"
  by (simp add: validate_completion_against_plan_def)

end
