(* ===== verification/Float64.thy ===== *)
theory Float64
  imports Codec Complex_Main
begin

text \<open>
  Binary floating point as the program uses it.  A \<^verbatim>\<open>double\<close> is its IEEE~754 bit pattern;
  \<^verbatim>\<open><\<close>, \<^verbatim>\<open>>\<close> and \<^verbatim>\<open>!=\<close> are defined on the pattern, so that not-a-number values, which the wire
  decoders let in, compare as they do at run time.  The build accepts the MSVC compiler only,
  where \<^verbatim>\<open>long double\<close> is the same binary64 format: the transfer-time computation of
  \<^verbatim>\<open>economics.hpp\<close> is modelled with 53-bit significands and round-to-nearest-even at every
  operation.  The operands there are non-negative and far from the exponent range's ends, so a
  value is a pair of a significand and a binary exponent.
\<close>

section \<open>Comparison of doubles\<close>

definition f64_exponent :: "f64 \<Rightarrow> nat" where
  "f64_exponent w = unat w div 2 ^ 52 mod 2048"

definition f64_fraction :: "f64 \<Rightarrow> nat" where
  "f64_fraction w = unat w mod 2 ^ 52"

definition f64_negative :: "f64 \<Rightarrow> bool" where
  "f64_negative w \<longleftrightarrow> 2 ^ 63 \<le> unat w"

definition f64_is_nan :: "f64 \<Rightarrow> bool" where
  "f64_is_nan w \<longleftrightarrow> f64_exponent w = 2047 \<and> f64_fraction w \<noteq> 0"

text \<open>The order key of a number: sign and magnitude; the two zeros have the same key.\<close>

definition f64_key :: "f64 \<Rightarrow> int" where
  "f64_key w = (if f64_negative w then - int (unat w mod 2 ^ 63) else int (unat w mod 2 ^ 63))"

definition f64_lt :: "f64 \<Rightarrow> f64 \<Rightarrow> bool" where
  "f64_lt a b \<longleftrightarrow> \<not> f64_is_nan a \<and> \<not> f64_is_nan b \<and> f64_key a < f64_key b"

definition f64_ne :: "f64 \<Rightarrow> f64 \<Rightarrow> bool" where
  "f64_ne a b \<longleftrightarrow> f64_is_nan a \<or> f64_is_nan b \<or> f64_key a \<noteq> f64_key b"

definition f64_zero :: f64 where
  "f64_zero = 0"

section \<open>Printing of doubles\<close>

text \<open>\<^verbatim>\<open>std::to_string(double)\<close>, that is \<^verbatim>\<open>%f\<close>: six decimals of the exact value, rounded to nearest
  even; the names of the non-finite values are those of the Universal C Runtime.\<close>

definition round_half_even :: "nat \<Rightarrow> nat \<Rightarrow> nat" where
  "round_half_even n d =
     (let q = n div d; r = n mod d in
      if 2 * r > d \<or> (2 * r = d \<and> odd q) then q + 1 else q)"

definition pad6 :: "nat \<Rightarrow> string" where
  "pad6 n = (let s = nat_to_base 10 n in replicate (6 - length s) (CHR ''0'') @ s)"

definition to_string_f64 :: "f64 \<Rightarrow> string" where
  "to_string_f64 w =
     (let ex = f64_exponent w; fr = f64_fraction w;
          sign = (if f64_negative w then ''-'' else '''') in
      if ex = 2047 then
        sign @ (if fr = 0 then ''inf''
                else if f64_negative w \<and> fr = 2 ^ 51 then ''nan(ind)''
                else if fr < 2 ^ 51 then ''nan(snan)'' else ''nan'')
      else
        let m = (if ex = 0 then fr else 2 ^ 52 + fr);
            e = (if ex = 0 then 1 else ex);
            scaled = (if 1075 \<le> e then m * 2 ^ (e - 1075) * 1000000
                      else round_half_even (m * 1000000) (2 ^ (1075 - e)))
        in sign @ nat_to_base 10 (scaled div 1000000) @ ''.'' @ pad6 (scaled mod 1000000))"

section \<open>Long double arithmetic\<close>

fun flog2 :: "nat \<Rightarrow> nat" where
  "flog2 n = (if n < 2 then 0 else Suc (flog2 (n div 2)))"

declare flog2.simps [simp del]

type_synonym ldouble = "nat \<times> int"

definition ld_val :: "ldouble \<Rightarrow> real" where
  "ld_val x = real (fst x) * 2 powi (snd x)"

text \<open>The exponent that puts \<open>n / d\<close> between \<open>2 ^ 52\<close> and \<open>2 ^ 53\<close>.\<close>

definition ld_exponent :: "nat \<Rightarrow> nat \<Rightarrow> int" where
  "ld_exponent n d =
     (let e = int (flog2 n) - int (flog2 d) - 52 in
      if (if 0 \<le> e then 2 ^ 52 * d * 2 ^ nat e \<le> n else 2 ^ 52 * d \<le> n * 2 ^ nat (- e))
      then e else e - 1)"

text \<open>The nearest 53-bit value of the fraction \<open>n / d\<close>.\<close>

definition ld_round :: "nat \<Rightarrow> nat \<Rightarrow> ldouble" where
  "ld_round n d =
     (if n = 0 then (0, 0)
      else let e = ld_exponent n d in
        (if 0 \<le> e then round_half_even n (d * 2 ^ nat e)
         else round_half_even (n * 2 ^ nat (- e)) d, e))"

definition ld_num :: "ldouble \<Rightarrow> nat" where
  "ld_num x = (if 0 \<le> snd x then fst x * 2 ^ nat (snd x) else fst x)"

definition ld_den :: "ldouble \<Rightarrow> nat" where
  "ld_den x = (if 0 \<le> snd x then 1 else 2 ^ nat (- snd x))"

definition ld_of_u64 :: "u64 \<Rightarrow> ldouble" where
  "ld_of_u64 v = ld_round (unat v) 1"

definition ld_mult :: "ldouble \<Rightarrow> ldouble \<Rightarrow> ldouble" where
  "ld_mult x y = ld_round (ld_num x * ld_num y) (ld_den x * ld_den y)"

definition ld_divide :: "ldouble \<Rightarrow> ldouble \<Rightarrow> ldouble" where
  "ld_divide x y = ld_round (ld_num x * ld_den y) (ld_den x * ld_num y)"

text \<open>\<^verbatim>\<open>static_cast<std::uint64_t>\<close>: truncation, undefined (\<^const>\<open>None\<close>) when the truncated value
  does not fit.\<close>

definition ld_to_u64 :: "ldouble \<Rightarrow> u64 option" where
  "ld_to_u64 x =
     (let t = ld_num x div ld_den x in if t < 2 ^ 64 then Some (word_of_nat t) else None)"

section \<open>Laws of the comparison\<close>

lemma f64_key_zero [simp]: "f64_key 0 = 0"
  by (simp add: f64_key_def f64_negative_def)

lemma f64_lt_irrefl [simp]: "\<not> f64_lt a a"
  by (simp add: f64_lt_def)

lemma f64_ne_no_nan: "\<not> f64_is_nan a \<Longrightarrow> \<not> f64_is_nan b \<Longrightarrow> f64_ne a b \<longleftrightarrow> f64_key a \<noteq> f64_key b"
  by (simp add: f64_ne_def)

lemma f64_lt_no_nan: "\<not> f64_is_nan a \<Longrightarrow> \<not> f64_is_nan b \<Longrightarrow> f64_lt a b \<longleftrightarrow> f64_key a < f64_key b"
  by (simp add: f64_lt_def)

text \<open>A not-a-number is below nothing: a threshold test \<open>c < t\<close> lets it pass.\<close>

lemma f64_lt_nan [simp]: "f64_is_nan a \<Longrightarrow> \<not> f64_lt a b" "f64_is_nan b \<Longrightarrow> \<not> f64_lt a b"
  by (simp_all add: f64_lt_def)

section \<open>Laws of the rounding\<close>

lemma flog2_bounds: "0 < n \<Longrightarrow> 2 ^ flog2 n \<le> n \<and> n < 2 ^ Suc (flog2 n)"
proof (induction n rule: flog2.induct)
  case (1 n)
  show ?case
  proof (cases "n < 2")
    case True
    with "1.prems" show ?thesis by (simp add: flog2.simps)
  next
    case False
    with "1.IH" have "2 ^ flog2 (n div 2) \<le> n div 2 \<and> n div 2 < 2 ^ Suc (flog2 (n div 2))"
      by simp
    then have "2 * 2 ^ flog2 (n div 2) \<le> n \<and> n < 2 * 2 ^ Suc (flog2 (n div 2))"
      by linarith
    with False show ?thesis by (simp add: flog2.simps [of n])
  qed
qed

lemma round_half_even_error:
  assumes "0 < d"
  shows "\<bar>real (round_half_even n d) - real n / real d\<bar> \<le> 1 / 2"
proof -
  define q r where "q = n div d" and "r = n mod d"
  have n: "real n = real q * real d + real r"
    unfolding q_def r_def by (metis div_mult_mod_eq of_nat_add of_nat_mult)
  have r: "r < d"
    using assms by (simp add: r_def)
  have frac: "real n / real d = real q + real r / real d"
    using assms n by (simp add: field_simps)
  have le1: "real r / real d \<le> 1 / 2" if "2 * r \<le> d"
    using that assms by (simp add: field_simps)
  have ge1: "1 / 2 \<le> real r / real d" if "d \<le> 2 * r"
    using that assms by (simp add: field_simps)
  have lt1: "real r / real d < 1"
    using r assms by (simp add: field_simps)
  have ge0: "0 \<le> real r / real d"
    by simp
  show ?thesis
  proof (cases "2 * r > d \<or> (2 * r = d \<and> odd q)")
    case True
    then have "round_half_even n d = q + 1"
      by (simp add: round_half_even_def q_def r_def Let_def)
    moreover have "1 / 2 \<le> real r / real d"
      using True by (intro ge1) auto
    ultimately show ?thesis
      using frac lt1 by simp
  next
    case False
    then have "round_half_even n d = q"
      by (auto simp: round_half_even_def q_def r_def Let_def)
    moreover have "real r / real d \<le> 1 / 2"
      using False by (intro le1) auto
    ultimately show ?thesis
      using frac ge0 by simp
  qed
qed

lemma powi_2_pos [simp]: "(0::real) < 2 powi e"
  by (simp add: zero_less_power_int)

lemma powi_2_minus_one: "2 * (2 :: real) powi (e - 1) = 2 powi e"
  using power_int_add [of "2 :: real" 1 "e - 1"] by simp

lemma powi_2_nonneg_nat: "0 \<le> e \<Longrightarrow> (2 :: real) powi e = 2 ^ nat e"
  by (simp add: power_int_def)

lemma powi_2_neg_nat: "e < 0 \<Longrightarrow> (2 :: real) powi e = 1 / 2 ^ nat (- e)"
  by (simp add: power_int_def inverse_eq_divide power_one_over)

lemma real_flog2_bounds: "0 < n \<Longrightarrow> 2 ^ flog2 n \<le> real n" "0 < n \<Longrightarrow> real n < 2 * 2 ^ flog2 n"
proof -
  assume "0 < n"
  then have "real (2 ^ flog2 n) \<le> real n" "real n < real (2 ^ Suc (flog2 n))"
    using flog2_bounds [of n] by (simp_all only: of_nat_le_iff of_nat_less_iff)
  then show "2 ^ flog2 n \<le> real n" "real n < 2 * 2 ^ flog2 n"
    by simp_all
qed

lemma flog2_quotient_bounds:
  assumes "0 < n" "0 < d"
  defines "x \<equiv> real n / real d" and "e \<equiv> int (flog2 n) - int (flog2 d) - 52"
  shows "2 ^ 51 * 2 powi e < x" "x < 2 ^ 53 * 2 powi e"
proof -
  let ?a = "flog2 n" and ?b = "flog2 d"
  have p: "(2 :: real) powi e * 2 ^ 52 * 2 ^ ?b = 2 ^ ?a"
  proof -
    have "(2 :: real) powi e * 2 powi 52 * 2 powi int ?b = 2 powi (e + 52 + int ?b)"
      by (simp add: power_int_add)
    then show ?thesis
      by (simp add: e_def)
  qed
  have n: "2 ^ ?a \<le> real n" "real n < 2 * 2 ^ ?a" and d: "2 ^ ?b \<le> real d" "real d < 2 * 2 ^ ?b"
    by (rule real_flog2_bounds [OF assms(1)] real_flog2_bounds [OF assms(2)])+
  have d0: "0 < real d"
    using assms(2) by simp
  have "2 ^ 51 * 2 powi e * real d < 2 ^ 51 * 2 powi e * (2 * 2 ^ ?b)"
    using d(2) by (intro mult_strict_left_mono) auto
  also have "\<dots> = 2 ^ ?a"
    using p by (simp add: algebra_simps)
  also have "\<dots> \<le> real n"
    by (rule n(1))
  finally show "2 ^ 51 * 2 powi e < x"
    using d0 by (simp add: x_def field_simps)
  have "real n < 2 * (2 powi e * 2 ^ 52 * 2 ^ ?b)"
    using n(2) p by simp
  also have "\<dots> \<le> 2 * (2 powi e * 2 ^ 52 * real d)"
    using d(1) by (intro mult_left_mono) auto
  finally show "x < 2 ^ 53 * 2 powi e"
    using d0 by (simp add: x_def field_simps)
qed

lemma ld_exponent_test:
  assumes "0 < d"
  shows "(if 0 \<le> e then 2 ^ 52 * d * 2 ^ nat e \<le> n else 2 ^ 52 * d \<le> n * 2 ^ nat (- e))
    \<longleftrightarrow> 2 ^ 52 * 2 powi e \<le> real n / real d"
proof (cases "0 \<le> e")
  case True
  have "2 ^ 52 * 2 powi e \<le> real n / real d \<longleftrightarrow> real (2 ^ 52 * d * 2 ^ nat e) \<le> real n"
    using assms True by (simp add: powi_2_nonneg_nat field_simps)
  then show ?thesis
    using True by (simp only: if_True of_nat_le_iff)
next
  case False
  then have "2 ^ 52 * 2 powi e \<le> real n / real d \<longleftrightarrow> real (2 ^ 52 * d) \<le> real (n * 2 ^ nat (- e))"
    using assms by (simp add: powi_2_neg_nat field_simps)
  then show ?thesis
    using False by (simp only: if_False of_nat_le_iff)
qed

lemma ld_exponent_bounds:
  assumes "0 < n" "0 < d"
  shows "2 ^ 52 * 2 powi ld_exponent n d \<le> real n / real d"
    and "real n / real d < 2 ^ 53 * 2 powi ld_exponent n d"
proof -
  let ?e = "int (flog2 n) - int (flog2 d) - 52"
  have e: "ld_exponent n d = (if 2 ^ 52 * 2 powi ?e \<le> real n / real d then ?e else ?e - 1)"
    unfolding ld_exponent_def Let_def ld_exponent_test [OF assms(2)] by (rule refl)
  note q = flog2_quotient_bounds [OF assms]
  show "2 ^ 52 * 2 powi ld_exponent n d \<le> real n / real d"
    using q(1) powi_2_minus_one [of ?e] by (auto simp: e)
  show "real n / real d < 2 ^ 53 * 2 powi ld_exponent n d"
    using q(2) powi_2_minus_one [of ?e] by (auto simp: e)
qed

lemma abs_diff_scale:
  fixes a x p :: real
  assumes "0 < p"
  shows "\<bar>a - x / p\<bar> * p = \<bar>a * p - x\<bar>"
proof -
  have "(a - x / p) * p = a * p - x"
    using assms by (simp add: left_diff_distrib)
  then show ?thesis
    using assms by (metis abs_mult abs_of_pos)
qed

lemma ld_val_round_nonzero:
  assumes "0 < n" "0 < d"
  shows "\<bar>ld_val (ld_round n d) - real n / real d\<bar> \<le> 2 powi ld_exponent n d / 2"
proof -
  let ?e = "ld_exponent n d" and ?x = "real n / real d"
  have "\<bar>real (fst (ld_round n d)) - ?x / 2 powi ?e\<bar> \<le> 1 / 2"
  proof (cases "0 \<le> ?e")
    case True
    then have "?x / 2 powi ?e = real n / real (d * 2 ^ nat ?e)"
      by (simp add: powi_2_nonneg_nat field_simps)
    then show ?thesis
      using True assms round_half_even_error [of "d * 2 ^ nat ?e" n]
      by (simp add: ld_round_def Let_def)
  next
    case False
    then have "?x / 2 powi ?e = real (n * 2 ^ nat (- ?e)) / real d"
      by (simp add: powi_2_neg_nat field_simps)
    then show ?thesis
      using False assms round_half_even_error [of d "n * 2 ^ nat (- ?e)"]
      by (simp add: ld_round_def Let_def)
  qed
  then have "\<bar>real (fst (ld_round n d)) - ?x / 2 powi ?e\<bar> * 2 powi ?e \<le> 1 / 2 * 2 powi ?e"
    by (rule mult_right_mono) simp
  then have "\<bar>real (fst (ld_round n d)) * 2 powi ?e - ?x\<bar> \<le> 1 / 2 * 2 powi ?e"
    unfolding abs_diff_scale [OF powi_2_pos] .
  moreover have "snd (ld_round n d) = ?e"
    using assms by (simp add: ld_round_def Let_def)
  ultimately show ?thesis
    unfolding ld_val_def by simp
qed

text \<open>Every operation is within half a unit of the last of 53 bits of the exact result.\<close>

lemma ld_round_relative_error:
  assumes "0 < d"
  shows "\<bar>ld_val (ld_round n d) - real n / real d\<bar> \<le> real n / real d / 2 ^ 53"
proof (cases "n = 0")
  case True
  then show ?thesis by (simp add: ld_round_def ld_val_def)
next
  case False
  then have "0 < n" by simp
  from ld_val_round_nonzero [OF this assms] ld_exponent_bounds(1) [OF this assms]
  show ?thesis by simp
qed

lemma ld_den_pos [simp]: "0 < ld_den x"
  by (simp add: ld_den_def)

lemma ld_num_den: "ld_val x = real (ld_num x) / real (ld_den x)"
  by (simp add: ld_val_def ld_num_def ld_den_def powi_2_nonneg_nat powi_2_neg_nat)

lemma ld_val_nonneg [simp]: "0 \<le> ld_val x"
  by (simp add: ld_num_den)

lemma ld_to_u64_floor:
  "ld_to_u64 x = (if ld_val x < 2 ^ 64 then Some (word_of_nat (nat \<lfloor>ld_val x\<rfloor>)) else None)"
proof -
  have fl: "nat \<lfloor>ld_val x\<rfloor> = ld_num x div ld_den x"
    by (simp add: ld_num_den floor_divide_of_nat_eq)
  have "ld_num x div ld_den x < 2 ^ 64 \<longleftrightarrow> ld_num x < 2 ^ 64 * ld_den x"
    by (simp add: div_less_iff_less_mult)
  also have "\<dots> \<longleftrightarrow> real (ld_num x) < real (2 ^ 64 * ld_den x)"
    by (simp only: of_nat_less_iff)
  also have "\<dots> \<longleftrightarrow> ld_val x < 2 ^ 64"
    by (simp add: ld_num_den pos_divide_less_eq)
  finally show ?thesis
    by (simp add: ld_to_u64_def fl Let_def)
qed

end
