(* ===== verification/Entities.thy ===== *)
theory Entities
  imports Authority Float64
begin

text \<open>
  The data model: targets (\<^verbatim>\<open>target.hpp\<close>), operations (\<^verbatim>\<open>operation.hpp\<close>), memory domains, datasets,
  regions and their evidence (\<^verbatim>\<open>dataset.hpp\<close>), programs, policies, capabilities, plans and
  results.  Every structure is a record with the source's members; \<open>X_default\<close> is the value the
  default member initialisers give.
\<close>

section \<open>Targets\<close>

record PerfEstimate =
  perf_latency_ns :: u64
  perf_throughput_bps :: u64
  perf_setup_ns :: u64
  perf_confidence :: f64
  perf_measured :: bool

definition PerfEstimate_default :: PerfEstimate where
  "PerfEstimate_default =
     \<lparr>perf_latency_ns = 0, perf_throughput_bps = 0, perf_setup_ns = 0,
      perf_confidence = f64_zero, perf_measured = False\<rparr>"

record TargetDefinition =
  td_id :: NearMemoryTargetId
  td_generation :: NearMemoryTargetGeneration
  td_provider :: ProviderKind
  td_kind :: TargetKind
  td_name :: string
  td_description :: string
  td_failure_domain :: FailureDomainId
  td_memory_domains :: "MemoryDomainId list"
  td_supported_ops :: "OperationClass list"
  td_supported_data_types :: "DataType list"
  td_supported_layouts :: "Layout list"
  td_max_input_bytes :: u64
  td_alignment_constraint :: u64
  td_concurrency_capacity :: u32
  td_queue_depth :: u64
  td_workspace_bytes :: u64
  td_access_semantics :: AccessSemantics
  td_requires_staging :: bool
  td_synthetic :: bool
  td_supports_verification :: bool
  td_supports_cancellation :: bool
  td_supports_drain :: bool
  td_authority_owner :: string

definition TargetDefinition_default :: TargetDefinition where
  "TargetDefinition_default =
     \<lparr>td_id = 0, td_generation = 0, td_provider = ProviderKind.UNKNOWN,
      td_kind = TargetKind.UNKNOWN, td_name = '''', td_description = '''',
      td_failure_domain = 0, td_memory_domains = [], td_supported_ops = [],
      td_supported_data_types = [], td_supported_layouts = [], td_max_input_bytes = 0,
      td_alignment_constraint = 1, td_concurrency_capacity = 1, td_queue_depth = 1,
      td_workspace_bytes = 0, td_access_semantics = AccessSemantics.DIRECT,
      td_requires_staging = False, td_synthetic = True, td_supports_verification = False,
      td_supports_cancellation = False, td_supports_drain = False, td_authority_owner = ''''\<rparr>"

definition is_synthetic :: "TargetDefinition \<Rightarrow> bool" where
  "is_synthetic d \<longleftrightarrow> td_synthetic d \<or> td_kind d = TargetKind.SYNTHETIC"

record TargetRuntime =
  rt_lifecycle :: TargetLifecycle
  rt_id :: NearMemoryTargetId
  rt_owner_boot :: WorkerBootId
  rt_evidence_id :: EvidenceId
  rt_evidence_generation :: EvidenceGeneration
  rt_reachable :: bool
  rt_concurrency_in_use :: u64
  rt_workspace_in_use :: u64
  rt_current_queue_depth :: u64
  rt_performance :: PerfEstimate
  rt_dynamic_current :: bool
  rt_queued :: u32

definition TargetRuntime_default :: TargetRuntime where
  "TargetRuntime_default =
     \<lparr>rt_lifecycle = TargetLifecycle.DISCOVERED, rt_id = 0, rt_owner_boot = 0,
      rt_evidence_id = 0, rt_evidence_generation = 0, rt_reachable = False,
      rt_concurrency_in_use = 0, rt_workspace_in_use = 0, rt_current_queue_depth = 0,
      rt_performance = PerfEstimate_default, rt_dynamic_current = False, rt_queued = 0\<rparr>"

definition classification_label :: "TargetDefinition \<Rightarrow> TargetRuntime \<Rightarrow> string" where
  "classification_label def run =
     (if td_synthetic def then ''SYNTHETIC''
      else if rt_reachable run \<and> rt_dynamic_current run then ''REAL''
      else if td_kind def = TargetKind.HOST_CPU_LOCAL then ''REAL''
      else ''UNKNOWN'')"

section \<open>Operations\<close>

record OperationSpec =
  op_id :: OperationId
  op_generation :: OperationGeneration
  op_op_class :: OperationClass
  op_dataset :: DatasetId
  op_dataset_generation :: DatasetGeneration
  op_region :: DataRegionId
  op_region_generation :: DataRegionGeneration
  op_shape :: DataShape
  op_input_bytes :: u64
  op_output_bytes :: u64
  op_workspace_bytes :: u64
  op_output_data_type :: DataType
  op_determinism_required :: bool
  op_max_tolerated_latency_ns :: u64
  op_required_throughput_bps :: u64
  op_integrity :: IntegrityRequirement
  op_retry_class :: RetryClass
  op_policy :: PolicyId
  op_policy_generation :: PolicyGeneration
  op_program :: "KernelOrProgramId option"
  op_program_generation :: "ProgramGeneration option"
  op_description :: string

section \<open>Data\<close>

record MemoryDomainDescriptor =
  md_id :: MemoryDomainId
  md_generation :: MemoryDomainGeneration
  md_name :: string
  md_durable :: bool

record DatasetDescriptor =
  ds_id :: DatasetId
  ds_generation :: DatasetGeneration
  ds_name :: string
  ds_producer :: string
  ds_durable :: bool

record DataRegionDescriptor =
  rg_id :: DataRegionId
  rg_generation :: DataRegionGeneration
  rg_dataset :: DatasetId
  rg_dataset_generation :: DatasetGeneration
  rg_memory_domain :: MemoryDomainId
  rg_window :: ByteWindow
  rg_shape :: DataShape
  rg_integrity :: IntegrityState
  rg_durable :: bool

record DataEvidence =
  ev_region :: DataRegionId
  ev_region_generation :: DataRegionGeneration
  ev_dataset_generation :: DatasetGeneration
  ev_memory_domain :: MemoryDomainId
  ev_memory_domain_generation :: MemoryDomainGeneration
  ev_present :: bool
  ev_current :: bool
  ev_reachable :: bool
  ev_integrity :: IntegrityState
  ev_mutable :: bool
  ev_dynamic_current :: bool
  ev_evidence_id :: EvidenceId
  ev_evidence_generation :: EvidenceGeneration
  ev_publisher :: WorkerBootId
  ev_location_note :: string

section \<open>Programs and policies\<close>

record Program =
  pg_id :: KernelOrProgramId
  pg_generation :: ProgramGeneration
  pg_name :: string
  pg_op_class :: OperationClass
  pg_target_kind :: TargetKind
  pg_digest :: string
  pg_data_types :: "DataType list"
  pg_layouts :: "Layout list"
  pg_workspace_bytes :: u64
  pg_lifecycle :: ProgramLifecycle
  pg_predefined :: bool
  pg_validated :: bool

record Policy =
  pol_id :: PolicyId
  pol_generation :: PolicyGeneration
  pol_name :: string
  pol_outcome :: PolicyOutcome
  pol_permitted_fallbacks :: "Decision list"
  pol_required_confidence :: f64
  pol_near_memory_bias :: f64
  pol_reject_on_stale :: bool
  pol_max_near_memory_input_bytes :: u64
  pol_require_verification :: bool

definition Policy_default :: Policy where
  "Policy_default =
     \<lparr>pol_id = 0, pol_generation = 0, pol_name = '''', pol_outcome = PolicyOutcome.UNCONSTRAINED,
      pol_permitted_fallbacks = [], pol_required_confidence = f64_zero,
      pol_near_memory_bias = f64_zero, pol_reject_on_stale = True,
      pol_max_near_memory_input_bytes = 0, pol_require_verification = False\<rparr>"

section \<open>Capabilities\<close>

text \<open>\<open>cs_entries\<close> is a \<^verbatim>\<open>std::map<std::string, CapabilityEntry>\<close> that is only ever written through
  \<^verbatim>\<open>operator[]\<close> and read through \<^verbatim>\<open>find\<close>; its iteration order is never observed, so it is a map.\<close>

record CapabilityEntry =
  ce_id :: CapabilityId
  ce_generation :: CapabilityGeneration
  ce_target :: NearMemoryTargetId
  ce_key :: string
  ce_state :: CapabilityState
  ce_required_for_execution :: bool
  ce_detail :: string

record CapabilitySet =
  cs_target :: NearMemoryTargetId
  cs_target_generation :: NearMemoryTargetGeneration
  cs_generation :: CapabilityGeneration
  cs_entries :: "string \<rightharpoonup> CapabilityEntry"
  cs_evidence_id :: EvidenceId
  cs_evidence_generation :: EvidenceGeneration
  cs_publisher :: WorkerBootId
  cs_dynamic_current :: bool

definition state_of :: "CapabilitySet \<Rightarrow> string \<Rightarrow> CapabilityState" where
  "state_of cs key =
     (case cs_entries cs key of
        None \<Rightarrow> CapabilityState.UNKNOWN
      | Some en \<Rightarrow> ce_state en)"

section \<open>Plans and results\<close>

record ExecutionPlan =
  plan_id :: ExecutionPlanId
  plan_generation :: ExecutionPlanGeneration
  plan_authority :: PlanAuthority
  plan_target :: NearMemoryTargetId
  plan_target_generation :: NearMemoryTargetGeneration
  plan_operation :: OperationId
  plan_op_class :: OperationClass
  plan_dataset :: DatasetId
  plan_dataset_generation :: DatasetGeneration
  plan_region :: DataRegionId
  plan_region_generation :: DataRegionGeneration
  plan_lifecycle :: ExecutionLifecycle
  plan_reserved_slots :: u64
  plan_reserved_workspace :: u64
  plan_dispatch_id :: "DispatchId option"
  plan_attempt_id :: "AttemptId option"
  plan_retry_class :: RetryClass
  plan_decision :: Decision
  plan_notes :: "string list"

text \<open>A default-constructed plan: null identities, the enumerators of the member initialisers.\<close>

definition ExecutionPlan_default :: ExecutionPlan where
  "ExecutionPlan_default =
     \<lparr>plan_id = 0, plan_generation = 0,
      plan_authority =
        \<lparr>pa_snapshot =
           \<lparr>snap_epoch = 0, snap_worker_boot = 0, snap_target = 0, snap_target_generation = 0,
            snap_memory_domain_generation = 0, snap_dataset_generation = 0,
            snap_region_generation = 0, snap_operation_generation = 0,
            snap_program_generation = None, snap_capability_generation = 0,
            snap_policy_generation = 0, snap_evidence_generation = 0, snap_plan_generation = 0\<rparr>,
         pa_plan = 0, pa_plan_generation = 0\<rparr>,
      plan_target = 0, plan_target_generation = 0, plan_operation = 0,
      plan_op_class = OperationClass.SUM, plan_dataset = 0, plan_dataset_generation = 0,
      plan_region = 0, plan_region_generation = 0, plan_lifecycle = ExecutionLifecycle.PLANNED,
      plan_reserved_slots = 0, plan_reserved_workspace = 0, plan_dispatch_id = None,
      plan_attempt_id = None, plan_retry_class = RetryClass.NON_RETRYABLE,
      plan_decision = Decision.MOVEMENT_REQUIRED, plan_notes = []\<rparr>"

record ExecutionResult =
  res_id :: ResultId
  res_generation :: ResultGeneration
  res_plan :: ExecutionPlanId
  res_plan_generation :: ExecutionPlanGeneration
  res_dispatch :: DispatchId
  res_attempt :: AttemptId
  res_target :: NearMemoryTargetId
  res_target_generation :: NearMemoryTargetGeneration
  res_worker_boot :: WorkerBootId
  res_epoch :: CoordinatorEpoch
  res_dataset_generation :: DatasetGeneration
  res_region_generation :: DataRegionGeneration
  res_operation_generation :: OperationGeneration
  res_verification :: VerifyState
  res_output_digest :: string
  res_output_bytes :: u64
  res_committed :: bool
  res_ambiguous :: bool
  res_note :: string

definition ExecutionResult_default :: ExecutionResult where
  "ExecutionResult_default =
     \<lparr>res_id = 0, res_generation = 0, res_plan = 0, res_plan_generation = 0, res_dispatch = 0,
      res_attempt = 0, res_target = 0, res_target_generation = 0, res_worker_boot = 0,
      res_epoch = 0, res_dataset_generation = 0, res_region_generation = 0,
      res_operation_generation = 0, res_verification = VerifyState.UNVERIFIED,
      res_output_digest = '''', res_output_bytes = 0, res_committed = False,
      res_ambiguous = False, res_note = ''''\<rparr>"

end
