(* ===== verification/Economics.thy ===== *)
theory Economics
  imports Entities
begin

text \<open>
  Movement against compute, \<^verbatim>\<open>include/nmc/economics.hpp\<close>.  The totals are sums of 64-bit words and
  wrap around as in the source; the two transfer times are computed in \<^verbatim>\<open>long double\<close> and cast
  back, and a cast out of range, undefined in C++, makes the model's result \<^const>\<open>None\<close>.  The laws give
  the accuracy of the transfer time, a bandwidth from which on no cast is out of range, and the
  exact comparison that decides the path.
\<close>

record TransferEstimate =
  tr_bytes_to_move :: u64
  tr_bandwidth_bps :: u64
  tr_latency_ns :: u64
  tr_staging_cost_ns :: u64
  tr_serialization_cost_ns :: u64
  tr_registration_cost_ns :: u64

definition TransferEstimate_default :: TransferEstimate where
  "TransferEstimate_default =
     \<lparr>tr_bytes_to_move = 0, tr_bandwidth_bps = 0, tr_latency_ns = 0, tr_staging_cost_ns = 0,
      tr_serialization_cost_ns = 0, tr_registration_cost_ns = 0\<rparr>"

record ComputeCostEstimate =
  cc_execution_ns :: u64
  cc_setup_ns :: u64
  cc_queue_delay_ns :: u64
  cc_result_return_bytes :: u64
  cc_confidence :: f64

definition ComputeCostEstimate_default :: ComputeCostEstimate where
  "ComputeCostEstimate_default =
     \<lparr>cc_execution_ns = 0, cc_setup_ns = 0, cc_queue_delay_ns = 0, cc_result_return_bytes = 0,
      cc_confidence = f64_zero\<rparr>"

record EconomicTerms =
  et_data_bytes_to_move :: u64
  et_transfer_latency_ns :: u64
  et_transfer_bytes_time_ns :: u64
  et_staging_ns :: u64
  et_serialization_ns :: u64
  et_registration_ns :: u64
  et_near_setup_ns :: u64
  et_near_execution_ns :: u64
  et_near_queue_delay_ns :: u64
  et_conventional_execution_ns :: u64
  et_result_bytes :: u64
  et_result_transfer_ns :: u64
  et_workspace_ns :: u64
  et_confidence :: f64

record EconomicsResult =
  er_decision :: Decision
  er_near_total_ns :: u64
  er_conventional_total_ns :: u64
  er_movement_avoided_bytes :: u64
  er_near_memory_judged_beneficial :: bool
  er_explanation :: "string list"
  er_terms :: "string list"

text \<open>\<^verbatim>\<open>bytes * 1'000'000'000.0L / bps\<close>, the expression both transfer times use.\<close>

definition transfer_time_ns :: "u64 \<Rightarrow> u64 \<Rightarrow> u64 option" where
  "transfer_time_ns bytes bandwidth =
     ld_to_u64 (ld_divide (ld_mult (ld_of_u64 bytes) (ld_round 1000000000 1)) (ld_of_u64 bandwidth))"

definition evaluate_terms ::
    "TransferEstimate \<Rightarrow> ComputeCostEstimate \<Rightarrow> ComputeCostEstimate \<Rightarrow> EconomicTerms option" where
  "evaluate_terms tr conv near = do {
     bytes_time \<leftarrow> (if tr_bandwidth_bps tr > 0
                    then transfer_time_ns (tr_bytes_to_move tr) (tr_bandwidth_bps tr)
                    else Some 0);
     result_time \<leftarrow> (if tr_bandwidth_bps tr > 0 \<and> cc_result_return_bytes near > 0
                     then transfer_time_ns (cc_result_return_bytes near) (tr_bandwidth_bps tr)
                     else Some 0);
     Some
       \<lparr>et_data_bytes_to_move = tr_bytes_to_move tr,
        et_transfer_latency_ns = tr_latency_ns tr,
        et_transfer_bytes_time_ns = bytes_time,
        et_staging_ns = tr_staging_cost_ns tr,
        et_serialization_ns = tr_serialization_cost_ns tr,
        et_registration_ns = tr_registration_cost_ns tr,
        et_near_setup_ns = cc_setup_ns near,
        et_near_execution_ns = cc_execution_ns near,
        et_near_queue_delay_ns = cc_queue_delay_ns near,
        et_conventional_execution_ns = cc_execution_ns conv,
        et_result_bytes = cc_result_return_bytes near,
        et_result_transfer_ns = result_time,
        et_workspace_ns = 0,
        et_confidence = cc_confidence near\<rparr>
   }"

definition kSynthesisPenaltyNs :: u64 where
  "kSynthesisPenaltyNs = 1000000"

definition conventional_total :: "TransferEstimate \<Rightarrow> EconomicTerms \<Rightarrow> u64" where
  "conventional_total tr t =
     (let conv_total = 0;
          conv_total = conv_total + (et_staging_ns t + et_serialization_ns t + et_registration_ns t);
          conv_total = conv_total + et_conventional_execution_ns t
      in if tr_bandwidth_bps tr > 0
         then conv_total + et_transfer_latency_ns t + et_transfer_bytes_time_ns t
         else conv_total + kSynthesisPenaltyNs)"

definition near_memory_total :: "EconomicTerms \<Rightarrow> u64" where
  "near_memory_total t =
     et_near_setup_ns t + et_near_execution_ns t + et_near_queue_delay_ns t + et_result_transfer_ns t"

definition explain_path :: "u64 \<Rightarrow> u64 \<Rightarrow> bool \<Rightarrow> string list" where
  "explain_path near_total conv_total near_beneficial =
     [''near-memory compute: '' @ to_string_u64 near_total @ '' ns'',
      ''conventional compute (move data): '' @ to_string_u64 conv_total @ '' ns'',
      (if near_beneficial
       then ''selection: NEAR_MEMORY_SELECTED because near-memory path is not more expensive than moving data.''
       else ''selection: CONVENTIONAL_COMPUTE_SELECTED because the movement path is not more expensive than near-memory setup/execution.'')]"

definition term_lines :: "EconomicTerms \<Rightarrow> string list" where
  "term_lines t =
     [''data_bytes_to_move='' @ to_string_u64 (et_data_bytes_to_move t) @ '' B'',
      ''transfer_latency='' @ to_string_u64 (et_transfer_latency_ns t) @ '' ns'',
      ''transfer_bytes_time='' @ to_string_u64 (et_transfer_bytes_time_ns t) @ '' ns'',
      ''near_setup='' @ to_string_u64 (et_near_setup_ns t) @ '' ns'',
      ''near_execution='' @ to_string_u64 (et_near_execution_ns t) @ '' ns'',
      ''near_queue_delay='' @ to_string_u64 (et_near_queue_delay_ns t) @ '' ns'',
      ''conventional_execution='' @ to_string_u64 (et_conventional_execution_ns t) @ '' ns'',
      ''result_return_bytes='' @ to_string_u64 (et_result_bytes t) @ '' B'',
      ''result_transfer='' @ to_string_u64 (et_result_transfer_ns t) @ '' ns'',
      ''confidence='' @ to_string_f64 (et_confidence t)]"

definition choose_path ::
    "TransferEstimate \<Rightarrow> ComputeCostEstimate \<Rightarrow> ComputeCostEstimate \<Rightarrow> EconomicsResult option" where
  "choose_path tr conv near = do {
     t \<leftarrow> evaluate_terms tr conv near;
     let conv_total = conventional_total tr t;
         near_total = near_memory_total t;
         near_beneficial = (near_total \<le> conv_total)
     in Some
       \<lparr>er_decision = (if near_beneficial then Decision.NEAR_MEMORY_SELECTED
                       else Decision.CONVENTIONAL_CPU_SELECTED),
        er_near_total_ns = near_total,
        er_conventional_total_ns = conv_total,
        er_movement_avoided_bytes = et_data_bytes_to_move t,
        er_near_memory_judged_beneficial = near_beneficial,
        er_explanation = explain_path near_total conv_total near_beneficial,
        er_terms = term_lines t\<rparr>
   }"

section \<open>Accuracy of the transfer time\<close>

text \<open>\<open>x\<close> is \<open>y\<close> up to a factor \<open>c\<close> in either direction.\<close>

definition close_to :: "real \<Rightarrow> real \<Rightarrow> real \<Rightarrow> bool" where
  "close_to c x y \<longleftrightarrow> 0 \<le> x \<and> 0 \<le> y \<and> y \<le> c * x \<and> x \<le> c * y"

lemma close_pos: "close_to c x y \<Longrightarrow> 0 < y \<Longrightarrow> 0 < x"
  by (cases "x = 0") (auto simp: close_to_def)

lemma close_mult:
  assumes "close_to c x y" "close_to d x' y'" "0 \<le> c" "0 \<le> d"
  shows "close_to (c * d) (x * x') (y * y')"
proof -
  have "y * y' \<le> (c * x) * (d * x')" "x * x' \<le> (c * y) * (d * y')"
    using assms by (auto simp: close_to_def intro!: mult_mono)
  then show ?thesis
    using assms by (simp add: close_to_def ac_simps)
qed

lemma close_inverse:
  assumes "close_to c x y" "0 < x" "0 < y"
  shows "close_to c (1 / x) (1 / y)"
  using assms by (simp add: close_to_def field_simps)

lemma close_trans:
  assumes "close_to c x y" "close_to d y z" "0 \<le> c" "0 \<le> d"
  shows "close_to (c * d) x z"
proof -
  have "x \<le> c * (d * z)" "z \<le> d * (c * x)"
    using assms by (auto simp: close_to_def elim!: order_trans intro!: mult_left_mono)
  then show ?thesis
    using assms by (simp add: close_to_def ac_simps)
qed

definition ld_slack :: real where
  "ld_slack = 1 + 1 / 2 ^ 52"

lemma ld_slack_nonneg [simp]: "0 \<le> ld_slack" "0 < ld_slack" "0 \<le> ld_slack * ld_slack"
  by (simp_all add: ld_slack_def)

lemma ld_round_close: "0 < d \<Longrightarrow> close_to ld_slack (ld_val (ld_round n d)) (real n / real d)"
proof -
  assume d: "0 < d"
  define q where "q = real n / real d"
  have q: "0 \<le> q" by (simp add: q_def)
  have "\<bar>ld_val (ld_round n d) - q\<bar> \<le> q / 2 ^ 53"
    unfolding q_def using d by (rule ld_round_relative_error)
  then have lo: "q * (1 - 1 / 2 ^ 53) \<le> ld_val (ld_round n d)"
    and hi: "ld_val (ld_round n d) \<le> q * (1 + 1 / 2 ^ 53)"
    unfolding abs_le_iff by (simp_all add: field_simps)
  have "q \<le> ld_slack * (q * (1 - 1 / 2 ^ 53))"
    using q by (simp add: ld_slack_def algebra_simps)
  also have "\<dots> \<le> ld_slack * ld_val (ld_round n d)"
    using lo by (rule mult_left_mono) simp
  finally have "q \<le> ld_slack * ld_val (ld_round n d)" .
  moreover have "ld_val (ld_round n d) \<le> ld_slack * q"
    by (rule order_trans [OF hi]) (use q in \<open>simp add: ld_slack_def algebra_simps\<close>)
  ultimately show ?thesis
    using q by (simp add: close_to_def q_def)
qed

lemma ld_num_pos_iff: "0 < ld_num x \<longleftrightarrow> 0 < ld_val x"
  by (simp add: ld_num_den zero_less_divide_iff)

lemma ld_mult_close: "close_to ld_slack (ld_val (ld_mult x y)) (ld_val x * ld_val y)"
  using ld_round_close [of "ld_den x * ld_den y" "ld_num x * ld_num y"]
  by (simp add: ld_mult_def ld_num_den)

lemma ld_divide_close:
  "0 < ld_val y \<Longrightarrow> close_to ld_slack (ld_val (ld_divide x y)) (ld_val x / ld_val y)"
  using ld_round_close [of "ld_den x * ld_num y" "ld_num x * ld_den y"]
  by (simp add: ld_divide_def ld_num_den zero_less_divide_iff)

lemma ld_of_u64_close: "close_to ld_slack (ld_val (ld_of_u64 v)) (real (unat v))"
  using ld_round_close [of 1 "unat v"] by (simp add: ld_of_u64_def)

definition transfer_slack :: real where
  "transfer_slack = ld_slack * (ld_slack * (ld_slack * ld_slack) * ld_slack)"

lemma transfer_quotient_close:
  assumes "0 < bandwidth"
  shows "close_to transfer_slack
           (ld_val (ld_divide (ld_mult (ld_of_u64 bytes) (ld_round 1000000000 1)) (ld_of_u64 bandwidth)))
           (real (unat bytes) * 1000000000 / real (unat bandwidth))"
proof -
  let ?b = "ld_val (ld_of_u64 bytes)" and ?w = "ld_val (ld_of_u64 bandwidth)"
    and ?g = "ld_val (ld_round 1000000000 1)"
  have bw: "0 < real (unat bandwidth)"
    using assms by (simp only: of_nat_0_less_iff unat_gt_0 word_greater_zero_iff not_False_eq_True)
  have w: "close_to ld_slack ?w (real (unat bandwidth))"
    by (rule ld_of_u64_close)
  then have wpos: "0 < ?w"
    using bw by (rule close_pos)
  have g: "close_to ld_slack ?g 1000000000"
    using ld_round_close [of 1 1000000000] by simp
  have prod: "close_to (ld_slack * (ld_slack * ld_slack))
      (ld_val (ld_mult (ld_of_u64 bytes) (ld_round 1000000000 1))) (real (unat bytes) * 1000000000)"
    by (rule close_trans [OF ld_mult_close close_mult [OF ld_of_u64_close g]]) simp_all
  have quot: "close_to (ld_slack * (ld_slack * ld_slack) * ld_slack)
      (ld_val (ld_mult (ld_of_u64 bytes) (ld_round 1000000000 1)) * (1 / ?w))
      (real (unat bytes) * 1000000000 * (1 / real (unat bandwidth)))"
    by (rule close_mult [OF prod close_inverse [OF w wpos bw]]) simp_all
  show ?thesis
    unfolding transfer_slack_def
    by (rule close_trans [OF ld_divide_close [OF wpos]]) (use quot in simp_all)
qed

lemma transfer_slack_bounds: "1 \<le> transfer_slack" "transfer_slack \<le> 1 + 1 / 2 ^ 49"
  by (simp_all add: transfer_slack_def ld_slack_def)

text \<open>The computed time is the exact quotient up to a relative error of \<open>2 ^ -49\<close> and the truncation.\<close>

lemma transfer_time_accuracy:
  assumes "0 < bandwidth" "transfer_time_ns bytes bandwidth = Some t"
  defines "exact \<equiv> real (unat bytes) * 1000000000 / real (unat bandwidth)"
  shows "\<bar>real (unat t) - exact\<bar> \<le> exact / 2 ^ 49 + 1"
proof -
  define q where "q = ld_val (ld_divide (ld_mult (ld_of_u64 bytes) (ld_round 1000000000 1)) (ld_of_u64 bandwidth))"
  have q: "close_to transfer_slack q exact"
    unfolding q_def exact_def using assms(1) by (rule transfer_quotient_close)
  from assms(2) have lt: "q < 2 ^ 64" and t: "t = word_of_nat (nat \<lfloor>q\<rfloor>)"
    by (auto simp: transfer_time_ns_def ld_to_u64_floor q_def split: if_splits)
  have q0: "0 \<le> q" "0 \<le> exact"
    using q by (simp_all add: close_to_def)
  have "nat \<lfloor>q\<rfloor> < 2 ^ 64"
    using lt q0 by (simp add: nat_less_iff floor_less_iff)
  then have "unat t = nat \<lfloor>q\<rfloor>"
    unfolding t by (simp only: unat_of_nat len_of_numeral_defs) simp
  then have unat_t: "real (unat t) = of_int \<lfloor>q\<rfloor>"
    using q0 by (simp only: of_nat_nat zero_le_floor)
  have "q \<le> (1 + 1 / 2 ^ 49) * exact"
    using q q0 transfer_slack_bounds(2) mult_right_mono [of transfer_slack "1 + 1 / 2 ^ 49" exact]
    by (simp only: close_to_def) linarith
  moreover have "exact \<le> (1 + 1 / 2 ^ 49) * q"
    using q q0 transfer_slack_bounds(2) mult_right_mono [of transfer_slack "1 + 1 / 2 ^ 49" q]
    by (simp only: close_to_def) linarith
  then have "exact - exact / 2 ^ 49 \<le> q"
    using q0 by (simp add: field_simps)
  ultimately show ?thesis
    unfolding unat_t abs_le_iff using floor_correct [of q] by (simp add: field_simps) linarith
qed

text \<open>From two bytes per nanosecond on, the cast of the transfer time is always in range.\<close>

lemma transfer_time_defined:
  assumes "2000000000 \<le> bandwidth"
  shows "\<exists>t. transfer_time_ns bytes bandwidth = Some t"
proof -
  let ?q = "ld_val (ld_divide (ld_mult (ld_of_u64 bytes) (ld_round 1000000000 1)) (ld_of_u64 bandwidth))"
  let ?e = "real (unat bytes) * 1000000000 / real (unat bandwidth)"
  have "unat (2000000000 :: u64) \<le> unat bandwidth"
    using assms by (simp only: word_le_nat_alt)
  then have "real (unat (2000000000 :: u64)) \<le> real (unat bandwidth)"
    by (simp only: of_nat_le_iff)
  then have bw: "2000000000 \<le> real (unat bandwidth)"
    by simp
  then have "0 < bandwidth"
    by (auto simp: word_greater_zero_iff)
  then have "?q \<le> transfer_slack * ?e" and e0: "0 \<le> ?e"
    using transfer_quotient_close [of bandwidth bytes] by (simp_all add: close_to_def)
  moreover have "transfer_slack * ?e \<le> (1 + 1 / 2 ^ 49) * ?e"
    using transfer_slack_bounds(2) e0 by (rule mult_right_mono)
  moreover have "real (unat bytes) < real (2 ^ 64)"
    using unat_u64_less [of bytes] by (simp only: of_nat_less_iff)
  then have "?e \<le> 2 ^ 64 * 1000000000 / 2000000000"
    using bw by (intro frac_le mult_right_mono) simp_all
  then have "(1 + 1 / 2 ^ 49) * ?e < 2 ^ 64"
    by simp
  ultimately have "?q < 2 ^ 64"
    by linarith
  then show ?thesis
    by (simp add: transfer_time_ns_def ld_to_u64_floor)
qed

section \<open>The decision\<close>

lemma evaluate_terms_defined:
  "2000000000 \<le> tr_bandwidth_bps tr \<Longrightarrow> \<exists>t. evaluate_terms tr conv near = Some t"
  using transfer_time_defined [of "tr_bandwidth_bps tr" "tr_bytes_to_move tr"]
    transfer_time_defined [of "tr_bandwidth_bps tr" "cc_result_return_bytes near"]
  by (auto simp: evaluate_terms_def)

lemma choose_path_defined:
  "2000000000 \<le> tr_bandwidth_bps tr \<Longrightarrow> \<exists>r. choose_path tr conv near = Some r"
  using evaluate_terms_defined [of tr conv near] by (auto simp: choose_path_def Let_def)

lemma choose_path_beneficial_iff:
  assumes "choose_path tr conv near = Some r"
  shows "er_near_memory_judged_beneficial r \<longleftrightarrow> er_near_total_ns r \<le> er_conventional_total_ns r"
    and "er_decision r = (if er_near_memory_judged_beneficial r then Decision.NEAR_MEMORY_SELECTED
                          else Decision.CONVENTIONAL_CPU_SELECTED)"
    and "er_movement_avoided_bytes r = tr_bytes_to_move tr"
  using assms by (auto simp: choose_path_def evaluate_terms_def Let_def bind_eq_Some_conv)

text \<open>An unknown link is charged the fixed penalty and no transfer time.\<close>

lemma choose_path_unknown_link:
  assumes "tr_bandwidth_bps tr = 0"
  shows "\<exists>r. choose_path tr conv near = Some r \<and>
           er_conventional_total_ns r = tr_staging_cost_ns tr + tr_serialization_cost_ns tr +
             tr_registration_cost_ns tr + cc_execution_ns conv + kSynthesisPenaltyNs \<and>
           er_near_total_ns r = cc_setup_ns near + cc_execution_ns near + cc_queue_delay_ns near"
  using assms
  by (simp add: choose_path_def evaluate_terms_def conventional_total_def near_memory_total_def Let_def)

section \<open>Properties\<close>

text \<open>C32: The transfer time computed in \<^verbatim>\<open>long double\<close> is the exact quotient of bytes and bandwidth up to
  a relative error of 2^-49 and the truncation to whole nanoseconds.\<close>

theorem transfer_time_error:
  assumes "0 < bandwidth" "transfer_time_ns bytes bandwidth = Some t"
  shows "\<bar>real (unat t) - real (unat bytes) * 1000000000 / real (unat bandwidth)\<bar>
    \<le> real (unat bytes) * 1000000000 / real (unat bandwidth) / 2 ^ 49 + 1"
  using assms by (rule transfer_time_accuracy)

theorem transfer_time_error_witness:
  "transfer_time_ns 1000000 40000000000 = Some 25000 \<and>
   \<bar>real (unat (25000 :: u64)) - real (unat (1000000 :: u64)) * 1000000000 / real (unat (40000000000 :: u64))\<bar>
     \<le> real (unat (1000000 :: u64)) * 1000000000 / real (unat (40000000000 :: u64)) / 2 ^ 49 + 1"
proof -
  have "transfer_time_ns 1000000 40000000000 = Some 25000"
    by (simp add: transfer_time_ns_def ld_to_u64_def ld_divide_def ld_mult_def ld_of_u64_def ld_round_def
        ld_exponent_def flog2.simps ld_num_def ld_den_def round_half_even_def Let_def)
  with transfer_time_error [of 40000000000 1000000 25000] show ?thesis by simp
qed

end
