(* ===== verification/Planning.thy ===== *)
theory Planning
  imports Economics "HOL-Library.Multiset"
begin

text \<open>
  Hard feasibility filtering and deterministic ranking, \<^verbatim>\<open>include/nmc/planning.hpp\<close>.  A pointer of
  \<^verbatim>\<open>HardFilterInput\<close> is an option.  \<^verbatim>\<open>std::sort\<close> only promises some arrangement that its comparator
  finds sorted; the model sorts by insertion, and the locale \<open>keyed_order\<close> shows that when the
  comparator is the order of a key that tells the candidates apart, every such arrangement is
  the one the model computes.
\<close>

section \<open>Hard filter\<close>

record EligibilityReasonDetail =
  erd_reason :: EligibilityReason
  erd_detail :: string

abbreviation ineligible :: "EligibilityReason \<Rightarrow> string \<Rightarrow> EligibilityReasonDetail" where
  "ineligible r d \<equiv> \<lparr>erd_reason = r, erd_detail = d\<rparr>"

record HardFilterInput =
  hf_target :: "TargetDefinition option"
  hf_runtime :: "TargetRuntime option"
  hf_op :: "OperationSpec option"
  hf_data :: "DataEvidence option"
  hf_caps :: "CapabilitySet option"
  hf_program :: "Program option"
  hf_policy :: "Policy option"
  hf_current_worker_boot :: "WorkerBootId option"
  hf_current_target_generation :: "NearMemoryTargetGeneration option"

definition op_workspace_required :: "OperationSpec \<Rightarrow> u64" where
  "op_workspace_required op = op_workspace_bytes op"

definition target_state_reasons :: "TargetRuntime \<Rightarrow> EligibilityReasonDetail list" where
  "target_state_reasons runtime =
     push_if (rt_lifecycle runtime = TargetLifecycle.OFFLINE \<or>
              rt_lifecycle runtime = TargetLifecycle.FAILED \<or>
              rt_lifecycle runtime = TargetLifecycle.RETIRED)
       (ineligible EligibilityReason.TARGET_OFFLINE
          (''target lifecycle '' @ to_string_TargetLifecycle (rt_lifecycle runtime))) @
     push_if (rt_lifecycle runtime = TargetLifecycle.DEGRADED)
       (ineligible EligibilityReason.TARGET_DEGRADED ''target degraded'') @
     push_if (\<not> rt_reachable runtime)
       (ineligible EligibilityReason.TARGET_UNREACHABLE ''target reported unreachable'') @
     push_if (\<not> rt_dynamic_current runtime \<or>
              rt_lifecycle runtime = TargetLifecycle.REVALIDATION_REQUIRED)
       (ineligible EligibilityReason.TARGET_REVALIDATION_REQUIRED
          ''dynamic target evidence requires revalidation'')"

definition operation_reasons ::
    "TargetDefinition \<Rightarrow> CapabilitySet \<Rightarrow> OperationSpec \<Rightarrow> EligibilityReasonDetail list" where
  "operation_reasons target caps op =
     (let op_supported = (op_op_class op \<in> set (td_supported_ops target));
          op_cap_state = state_of caps (''operation:'' @ to_string_OperationClass (op_op_class op)) in
      push_if (\<not> op_supported)
        (ineligible EligibilityReason.OPERATION_UNSUPPORTED ''operation class not supported by target'') @
      (if op_cap_state = CapabilityState.UNKNOWN
       then [ineligible EligibilityReason.OPERATION_UNKNOWN ''operation capability UNKNOWN (fails closed)'']
       else push_if (op_cap_state = CapabilityState.REVALIDATION_REQUIRED)
         (ineligible EligibilityReason.TARGET_REVALIDATION_REQUIRED
            ''operation capability requires revalidation'')) @
      push_if (sh_data_type (op_shape op) \<notin> set (td_supported_data_types target))
        (ineligible EligibilityReason.DATATYPE_UNSUPPORTED ''data type not supported'') @
      push_if (sh_layout (op_shape op) \<notin> set (td_supported_layouts target))
        (ineligible EligibilityReason.LAYOUT_UNSUPPORTED ''layout not supported'') @
      push_if (td_alignment_constraint target \<noteq> 0 \<and>
               sh_alignment (op_shape op) mod td_alignment_constraint target \<noteq> 0)
        (ineligible EligibilityReason.ALIGNMENT_UNSUPPORTED ''data alignment violates target constraint''))"

definition data_reasons :: "DataEvidence \<Rightarrow> OperationSpec \<Rightarrow> EligibilityReasonDetail list" where
  "data_reasons data op =
     push_if (\<not> ev_present data)
       (ineligible EligibilityReason.DATA_UNREACHABLE ''data not present in domain'') @
     push_if (\<not> ev_current data)
       (ineligible EligibilityReason.DATA_STALE ''data not current'') @
     push_if (ev_dataset_generation data \<noteq> op_dataset_generation op)
       (ineligible EligibilityReason.DATA_WRONG_GENERATION ''data generation does not match operation'') @
     push_if (\<not> ev_reachable data)
       (ineligible EligibilityReason.DATA_UNREACHABLE ''data not reachable from target'')"

definition resource_reasons ::
    "TargetDefinition \<Rightarrow> TargetRuntime \<Rightarrow> OperationSpec \<Rightarrow> EligibilityReasonDetail list" where
  "resource_reasons target runtime op =
     push_if (op_workspace_required op > td_workspace_bytes target)
       (ineligible EligibilityReason.INSUFFICIENT_WORKSPACE
          ''workspace requirement exceeds target budget'') @
     push_if (rt_concurrency_in_use runtime \<ge> ucast (td_concurrency_capacity target))
       (ineligible EligibilityReason.CONCURRENCY_EXHAUSTED ''target concurrency capacity exhausted'')"

definition program_reasons :: "Program option \<Rightarrow> OperationSpec \<Rightarrow> EligibilityReasonDetail list" where
  "program_reasons program op =
     (case op_program op of
        None \<Rightarrow> []
      | Some pid \<Rightarrow>
          push_if (case program of
                     None \<Rightarrow> True
                   | Some p \<Rightarrow> pg_id p \<noteq> pid \<or> pg_lifecycle p \<noteq> ProgramLifecycle.READY)
            (ineligible EligibilityReason.PROGRAM_INCOMPATIBLE ''program not READY or not registered'') @
          push_if (case program of None \<Rightarrow> False | Some p \<Rightarrow> pg_op_class p \<noteq> op_op_class op)
            (ineligible EligibilityReason.PROGRAM_INCOMPATIBLE ''program operation class mismatch'') @
          push_if (case program of None \<Rightarrow> False
                   | Some p \<Rightarrow> sh_data_type (op_shape op) \<notin> set (pg_data_types p))
            (ineligible EligibilityReason.PROGRAM_INCOMPATIBLE ''program data type mismatch''))"

definition freshness_reasons ::
    "HardFilterInput \<Rightarrow> TargetDefinition \<Rightarrow> TargetRuntime \<Rightarrow> CapabilitySet \<Rightarrow> Policy
     \<Rightarrow> EligibilityReasonDetail list" where
  "freshness_reasons inp target runtime caps policy =
     push_if (case hf_current_target_generation inp of
                None \<Rightarrow> False | Some g \<Rightarrow> td_generation target \<noteq> g)
       (ineligible EligibilityReason.WRONG_TARGET_GENERATION ''target generation is stale'') @
     push_if (case hf_current_worker_boot inp of
                None \<Rightarrow> False | Some b \<Rightarrow> rt_owner_boot runtime \<noteq> b)
       (ineligible EligibilityReason.WRONG_WORKER_BOOT ''target owned by a different worker boot'') @
     push_if (\<not> cs_dynamic_current caps)
       (ineligible EligibilityReason.EVIDENCE_STALE ''capability evidence stale'') @
     push_if (f64_lt (perf_confidence (rt_performance runtime)) (pol_required_confidence policy))
       (ineligible EligibilityReason.INSUFFICIENT_CONFIDENCE
          ''performance confidence below policy threshold'')"

definition hard_filter :: "HardFilterInput \<Rightarrow> EligibilityReasonDetail list" where
  "hard_filter inp =
     (case (hf_target inp, hf_runtime inp, hf_op inp, hf_data inp, hf_policy inp, hf_caps inp) of
        (Some target, Some runtime, Some op, Some data, Some policy, Some caps) \<Rightarrow>
          target_state_reasons runtime @
          operation_reasons target caps op @
          data_reasons data op @
          resource_reasons target runtime op @
          program_reasons (hf_program inp) op @
          freshness_reasons inp target runtime caps policy
      | _ \<Rightarrow> [ineligible EligibilityReason.TARGET_OFFLINE ''missing required evidence (null input)''])"

definition operation_supported :: "TargetDefinition \<Rightarrow> OperationClass \<Rightarrow> bool" where
  "operation_supported t op \<longleftrightarrow> op \<in> set (td_supported_ops t)"

section \<open>Ranking\<close>

record RankedCandidate =
  rc_target :: NearMemoryTargetId
  rc_generation :: NearMemoryTargetGeneration
  rc_decision :: Decision
  rc_movement_avoided_bytes :: u64
  rc_total_cost_ns :: u64
  rc_estimated_latency_ns :: u64
  rc_confidence :: f64
  rc_factors :: "string list"

text \<open>The comparator of \<^verbatim>\<open>rank_candidates\<close>.\<close>

definition rank_before :: "RankedCandidate \<Rightarrow> RankedCandidate \<Rightarrow> bool" where
  "rank_before a b =
     (if rc_total_cost_ns a \<noteq> rc_total_cost_ns b then rc_total_cost_ns a < rc_total_cost_ns b
      else if rc_movement_avoided_bytes a \<noteq> rc_movement_avoided_bytes b
        then rc_movement_avoided_bytes a > rc_movement_avoided_bytes b
      else if rc_estimated_latency_ns a \<noteq> rc_estimated_latency_ns b
        then rc_estimated_latency_ns a < rc_estimated_latency_ns b
      else if f64_ne (rc_confidence a) (rc_confidence b)
        then f64_lt (rc_confidence b) (rc_confidence a)
      else rc_target a < rc_target b)"

fun insert_by :: "('a \<Rightarrow> 'a \<Rightarrow> bool) \<Rightarrow> 'a \<Rightarrow> 'a list \<Rightarrow> 'a list" where
  "insert_by lt x [] = [x]"
| "insert_by lt x (y # ys) = (if lt y x then y # insert_by lt x ys else x # y # ys)"

definition sort_by :: "('a \<Rightarrow> 'a \<Rightarrow> bool) \<Rightarrow> 'a list \<Rightarrow> 'a list" where
  "sort_by lt xs = foldr (insert_by lt) xs []"

definition rank_candidates :: "RankedCandidate list \<Rightarrow> RankedCandidate list" where
  "rank_candidates candidates = sort_by rank_before candidates"

section \<open>What the filter lets through\<close>

lemmas filter_reason_defs =
  target_state_reasons_def operation_reasons_def data_reasons_def resource_reasons_def
  program_reasons_def freshness_reasons_def

lemma hard_filter_NilD:
  assumes "hard_filter inp = []"
  obtains target runtime op data policy caps where
    "hf_target inp = Some target" "hf_runtime inp = Some runtime" "hf_op inp = Some op"
    "hf_data inp = Some data" "hf_policy inp = Some policy" "hf_caps inp = Some caps"
    "target_state_reasons runtime = []" "operation_reasons target caps op = []"
    "data_reasons data op = []" "resource_reasons target runtime op = []"
    "program_reasons (hf_program inp) op = []"
    "freshness_reasons inp target runtime caps policy = []"
  using assms by (auto simp: hard_filter_def split: option.splits)

lemma target_state_Nil:
  "target_state_reasons r = [] \<longleftrightarrow>
     rt_reachable r \<and> rt_dynamic_current r \<and>
     rt_lifecycle r \<notin> {TargetLifecycle.OFFLINE, TargetLifecycle.FAILED, TargetLifecycle.RETIRED,
                        TargetLifecycle.DEGRADED, TargetLifecycle.REVALIDATION_REQUIRED}"
  by (auto simp: target_state_reasons_def)

lemma data_reasons_Nil:
  "data_reasons d op = [] \<longleftrightarrow>
     ev_present d \<and> ev_current d \<and> ev_reachable d \<and>
     ev_dataset_generation d = op_dataset_generation op"
  by (auto simp: data_reasons_def)

lemma operation_reasons_Nil:
  "operation_reasons t c op = [] \<longleftrightarrow>
     op_op_class op \<in> set (td_supported_ops t) \<and>
     state_of c (''operation:'' @ to_string_OperationClass (op_op_class op))
       \<notin> {CapabilityState.UNKNOWN, CapabilityState.REVALIDATION_REQUIRED} \<and>
     sh_data_type (op_shape op) \<in> set (td_supported_data_types t) \<and>
     sh_layout (op_shape op) \<in> set (td_supported_layouts t) \<and>
     (td_alignment_constraint t = 0 \<or>
      sh_alignment (op_shape op) mod td_alignment_constraint t = 0)"
  by (auto simp: operation_reasons_def Let_def)

lemma unat_ucast_u32_u64 [simp]: "unat (ucast (c :: u32) :: u64) = unat c"
proof -
  have "unat c < 2 ^ 32"
    using unsigned_less [of c, where ?'a = nat] by simp
  then show ?thesis
    by (simp add: unsigned_ucast_eq take_bit_nat_eq_self)
qed

lemma resource_reasons_Nil:
  "resource_reasons t r op = [] \<longleftrightarrow>
     op_workspace_bytes op \<le> td_workspace_bytes t \<and>
     unat (rt_concurrency_in_use r) < unat (td_concurrency_capacity t)"
  by (auto simp: resource_reasons_def op_workspace_required_def not_less not_le word_less_nat_alt
      word_le_nat_alt)

lemma program_reasons_Nil:
  "program_reasons p op = [] \<longleftrightarrow>
     (\<forall>pid. op_program op = Some pid \<longrightarrow>
        (\<exists>q. p = Some q \<and> pg_id q = pid \<and> pg_lifecycle q = ProgramLifecycle.READY \<and>
             pg_op_class q = op_op_class op \<and> sh_data_type (op_shape op) \<in> set (pg_data_types q)))"
  by (auto simp: program_reasons_def split: option.splits)

lemma freshness_reasons_Nil:
  "freshness_reasons i t r c p = [] \<longleftrightarrow>
     (\<forall>g. hf_current_target_generation i = Some g \<longrightarrow> td_generation t = g) \<and>
     (\<forall>b. hf_current_worker_boot i = Some b \<longrightarrow> rt_owner_boot r = b) \<and>
     cs_dynamic_current c \<and>
     \<not> f64_lt (perf_confidence (rt_performance r)) (pol_required_confidence p)"
  by (auto simp: freshness_reasons_def split: option.splits)

lemmas filter_Nil_simps =
  target_state_Nil operation_reasons_Nil data_reasons_Nil resource_reasons_Nil
  program_reasons_Nil freshness_reasons_Nil

section \<open>The ranking is the order of a key\<close>

text \<open>The laws of sorting by insertion with a comparator that is the strict order of a key on the
  elements that are \<open>ok\<close>.\<close>

locale keyed_order =
  fixes lt :: "'a \<Rightarrow> 'a \<Rightarrow> bool" and key :: "'a \<Rightarrow> 'k::linorder" and ok :: "'a \<Rightarrow> bool"
  assumes lt_key: "ok a \<Longrightarrow> ok b \<Longrightarrow> lt a b \<longleftrightarrow> key a < key b"
begin

lemma insert_by_insort:
  "ok x \<Longrightarrow> \<forall>y \<in> set ys. ok y \<Longrightarrow> insert_by lt x ys = insort_key key x ys"
  by (induction ys) (auto simp: lt_key not_less)

lemma sort_by_sort_key: "\<forall>x \<in> set xs. ok x \<Longrightarrow> sort_by lt xs = sort_key key xs"
proof (induction xs)
  case Nil
  then show ?case by (simp add: sort_by_def)
next
  case (Cons x xs)
  then have "sort_by lt xs = sort_key key xs" by simp
  with Cons.prems show ?case
    by (simp add: sort_by_def insert_by_insort)
qed

lemma sorted_arrangement_unique:
  assumes ok: "\<forall>x \<in> set xs. ok x" and inj: "inj_on key (set xs)"
    and perm: "mset ys = mset xs" and sorted: "sorted_wrt (\<lambda>a b. \<not> lt b a) ys"
  shows "ys = sort_by lt xs"
proof -
  have set: "set ys = set xs"
    using perm by (rule mset_eq_setD)
  have "sorted_wrt (\<lambda>a b. key a \<le> key b) ys"
    by (rule sorted_wrt_mono_rel [OF _ sorted]) (use ok in \<open>simp add: set lt_key not_less\<close>)
  then have "sorted (map key ys)"
    by (simp add: sorted_wrt_map)
  moreover have "filter (\<lambda>x. key k = key x) ys = filter (\<lambda>x. key k = key x) xs" if "k \<in> set ys" for k
  proof -
    have eq: "filter (\<lambda>x. key k = key x) zs = filter ((=) k) zs" if "set zs = set xs" for zs
      using that \<open>k \<in> set ys\<close> set inj by (auto simp: inj_on_def intro: filter_cong)
    show ?thesis
      by (simp add: eq set perm flip: replicate_count_mset_eq_filter_eq)
  qed
  ultimately have "sort_key key xs = ys"
    using perm by (intro properties_for_sort_key) simp_all
  then show ?thesis
    using ok by (simp add: sort_by_sort_key)
qed

lemma sort_by_sorted:
  assumes ok: "\<forall>x \<in> set xs. ok x"
  shows "sorted_wrt (\<lambda>a b. \<not> lt b a) (sort_by lt xs)"
proof -
  have "sorted_wrt (\<lambda>a b. key a \<le> key b) (sort_key key xs)"
    using sorted_sort_key [of key xs] by (simp add: sorted_wrt_map)
  then show ?thesis
    unfolding sort_by_sort_key [OF ok]
    by (rule sorted_wrt_mono_rel [rotated]) (use ok in \<open>simp add: lt_key not_less\<close>)
qed

end

lemma mset_insert_by [simp]: "mset (insert_by lt x ys) = add_mset x (mset ys)"
  by (induction ys) auto

lemma mset_sort_by [simp]: "mset (sort_by lt xs) = mset xs"
  by (induction xs) (simp_all add: sort_by_def)

lemma set_sort_by [simp]: "set (sort_by lt xs) = set xs"
  using mset_sort_by by (rule mset_eq_setD)

text \<open>The rank of a candidate, in the lexicographic order of the comparator.\<close>

datatype RankKey = RankKey (rk_cost: u64) (rk_movement: u64) (rk_latency: u64) (rk_confidence: int)
  (rk_target: u64)

instantiation RankKey :: linorder
begin

definition less_RankKey :: "RankKey \<Rightarrow> RankKey \<Rightarrow> bool" where
  "less_RankKey a b =
     (if rk_cost a \<noteq> rk_cost b then rk_cost a < rk_cost b
      else if rk_movement a \<noteq> rk_movement b then rk_movement a > rk_movement b
      else if rk_latency a \<noteq> rk_latency b then rk_latency a < rk_latency b
      else if rk_confidence a \<noteq> rk_confidence b then rk_confidence a > rk_confidence b
      else rk_target a < rk_target b)"

definition less_eq_RankKey :: "RankKey \<Rightarrow> RankKey \<Rightarrow> bool" where
  "less_eq_RankKey a b \<longleftrightarrow> a = b \<or> a < b"

instance
proof
  fix x y z :: RankKey
  show "x < y \<longleftrightarrow> x \<le> y \<and> \<not> y \<le> x"
    by (auto simp: less_eq_RankKey_def less_RankKey_def split: if_splits)
  show "x \<le> x"
    by (simp add: less_eq_RankKey_def)
  show "x \<le> y \<Longrightarrow> y \<le> z \<Longrightarrow> x \<le> z"
    by (auto simp: less_eq_RankKey_def less_RankKey_def split: if_splits)
  show "x \<le> y \<Longrightarrow> y \<le> x \<Longrightarrow> x = y"
    by (auto simp: less_eq_RankKey_def less_RankKey_def split: if_splits)
  show "x \<le> y \<or> y \<le> x"
    by (auto simp: less_eq_RankKey_def less_RankKey_def RankKey.expand)
qed

end

definition rank_key :: "RankedCandidate \<Rightarrow> RankKey" where
  "rank_key c = RankKey (rc_total_cost_ns c) (rc_movement_avoided_bytes c)
     (rc_estimated_latency_ns c) (f64_key (rc_confidence c)) (rc_target c)"

interpretation rank: keyed_order rank_before rank_key "\<lambda>c. \<not> f64_is_nan (rc_confidence c)"
  by unfold_locales (simp add: rank_before_def rank_key_def less_RankKey_def f64_ne_no_nan f64_lt_no_nan)

lemma inj_on_rank_key: "inj_on rc_target A \<Longrightarrow> inj_on rank_key A"
  by (auto simp: inj_on_def rank_key_def)

text \<open>The head of a ranking beats or ties every candidate on cost.\<close>

lemma rank_candidates_head_cost:
  assumes "\<forall>c \<in> set cs. \<not> f64_is_nan (rc_confidence c)" "rank_candidates cs = b # rest" "c \<in> set cs"
  shows "rc_total_cost_ns b \<le> rc_total_cost_ns c"
proof -
  have "c \<in> set (b # rest)"
    using assms(2,3) set_sort_by [of rank_before cs] by (simp add: rank_candidates_def)
  moreover have "sorted_wrt (\<lambda>a b. \<not> rank_before b a) (b # rest)"
    using rank.sort_by_sorted [OF assms(1)] assms(2) by (simp add: rank_candidates_def)
  ultimately have "c = b \<or> \<not> rank_before c b"
    by auto
  then show ?thesis
    by (auto simp: rank_before_def split: if_splits)
qed

section \<open>Properties\<close>




end
