(* ===== verification/Protocol.thy ===== *)
theory Protocol
  imports Entities
begin

text \<open>
  The framed protocol of \<^verbatim>\<open>include/nmc/protocol.hpp\<close>: frame types, the 24-byte header, and the
  payload of every message with its encoder and decoder.  Enumerations travel as 16-bit words and
  come back through an unchecked cast, flags as one byte.  \<open>X_ok\<close> says which values a message can
  carry faithfully: enumerators of the table, strings and blobs within the codec's bound, vectors
  within the decoder's cap.  For each of them the decoder returns the message and what follows it;
  the facts \<open>X.dec_enc\<close> come from one interpretation of \<open>wire_codec\<close> per message.
\<close>

section \<open>Frame types\<close>

definition kProtocolMagic :: u32 where
  "kProtocolMagic = 0x4D4F434E"

definition kProtocolVersion :: u16 where
  "kProtocolVersion = 1"

definition kMaxFramePayload :: u32 where
  "kMaxFramePayload = 64 * 1024 * 1024"

datatype FrameType =
    HELLO | REGISTER_TARGET | CAPABILITY | DATA_EVIDENCE | HEARTBEAT | DISPATCH | DISPATCH_ACK |
    RESULT | COMMIT_ACK | ERROR | PING | PONG | SHUTDOWN | REVALIDATE |
    CLIENT_REGISTER_OPERATION | CLIENT_PLAN | CLIENT_DISPATCH | CLIENT_GET_RESULT | CLIENT_REPLY
    |
    FrameType_other int

fun FrameType_code :: "FrameType \<Rightarrow> int" where
  "FrameType_code FrameType.HELLO = 0"
| "FrameType_code FrameType.REGISTER_TARGET = 1"
| "FrameType_code FrameType.CAPABILITY = 2"
| "FrameType_code FrameType.DATA_EVIDENCE = 3"
| "FrameType_code FrameType.HEARTBEAT = 4"
| "FrameType_code FrameType.DISPATCH = 5"
| "FrameType_code FrameType.DISPATCH_ACK = 6"
| "FrameType_code FrameType.RESULT = 7"
| "FrameType_code FrameType.COMMIT_ACK = 8"
| "FrameType_code FrameType.ERROR = 9"
| "FrameType_code FrameType.PING = 10"
| "FrameType_code FrameType.PONG = 11"
| "FrameType_code FrameType.SHUTDOWN = 12"
| "FrameType_code FrameType.REVALIDATE = 13"
| "FrameType_code FrameType.CLIENT_REGISTER_OPERATION = 14"
| "FrameType_code FrameType.CLIENT_PLAN = 15"
| "FrameType_code FrameType.CLIENT_DISPATCH = 16"
| "FrameType_code FrameType.CLIENT_GET_RESULT = 17"
| "FrameType_code FrameType.CLIENT_REPLY = 18"
| "FrameType_code (FrameType_other n) = n"

definition kFrameTypes :: "FrameType list" where
  "kFrameTypes = [
     FrameType.HELLO, FrameType.REGISTER_TARGET, FrameType.CAPABILITY, FrameType.DATA_EVIDENCE,
     FrameType.HEARTBEAT, FrameType.DISPATCH, FrameType.DISPATCH_ACK, FrameType.RESULT,
     FrameType.COMMIT_ACK, FrameType.ERROR, FrameType.PING, FrameType.PONG, FrameType.SHUTDOWN,
     FrameType.REVALIDATE, FrameType.CLIENT_REGISTER_OPERATION, FrameType.CLIENT_PLAN,
     FrameType.CLIENT_DISPATCH, FrameType.CLIENT_GET_RESULT, FrameType.CLIENT_REPLY]"

definition FrameType_names :: "string list" where
  "FrameType_names = [
     ''HELLO'', ''REGISTER_TARGET'', ''CAPABILITY'', ''DATA_EVIDENCE'', ''HEARTBEAT'',
     ''DISPATCH'', ''DISPATCH_ACK'', ''RESULT'', ''COMMIT_ACK'', ''ERROR'', ''PING'', ''PONG'',
     ''SHUTDOWN'', ''REVALIDATE'', ''CLIENT_REGISTER_OPERATION'', ''CLIENT_PLAN'',
     ''CLIENT_DISPATCH'', ''CLIENT_GET_RESULT'', ''CLIENT_REPLY'']"

definition FrameType_cast :: "int \<Rightarrow> FrameType" where
  "FrameType_cast n = (if 0 \<le> n \<and> n < 19 then kFrameTypes ! nat n else FrameType_other n)"

definition to_string_FrameType :: "FrameType \<Rightarrow> string" where
  "to_string_FrameType v =
     (case find (\<lambda>p. fst p = v) (zip kFrameTypes FrameType_names) of
        Some p \<Rightarrow> snd p
      | None \<Rightarrow> ''UNKNOWN_FRAME_TYPE'')"

definition is_valid_frame_type :: "FrameType \<Rightarrow> bool" where
  "is_valid_frame_type v \<longleftrightarrow> list_ex (\<lambda>f. f = v) kFrameTypes"

section \<open>Fields\<close>

definition write_enum16 :: "('e \<Rightarrow> int) \<Rightarrow> 'e \<Rightarrow> u8 list" where
  "write_enum16 code e = write_u16 (word_of_int (code e))"

definition read_enum16 :: "(int \<Rightarrow> 'e) \<Rightarrow> ByteReader \<Rightarrow> ('e \<times> ByteReader) option" where
  "read_enum16 cast r = do { (v, r) \<leftarrow> read_u16 r; Some (cast (uint v), r) }"

definition write_flag :: "bool \<Rightarrow> u8 list" where
  "write_flag b = write_u8 (if b then 1 else 0)"

definition read_flag :: "ByteReader \<Rightarrow> (bool \<times> ByteReader) option" where
  "read_flag r = do { (v, r) \<leftarrow> read_u8 r; Some (v \<noteq> 0, r) }"

lemma read_write_flag [simp, codec_simps]: "read_flag (write_flag b @ r) = Some (b, r)"
  by (simp add: read_flag_def write_flag_def)

lemma length_write_flag [simp]: "length (write_flag b) = 1"
  by (simp add: write_flag_def)

lemma length_write_enum16 [simp]: "length (write_enum16 code e) = 2"
  by (simp add: write_enum16_def)

text \<open>An enumeration whose table fits in 16 bits is a wire field.\<close>

locale wire_enumeration = enumeration +
  assumes table_small: "length table \<le> 65536"
begin

lemma read_write_enum16: "e \<in> set table \<Longrightarrow> read_enum16 cast (write_enum16 code e @ r) = Some (e, r)"
  by (simp add: read_enum16_def write_enum16_def wire_roundtrip table_small)

end

sublocale wire_enumeration \<subseteq> field: wire_codec "write_enum16 code" "read_enum16 cast" "\<lambda>e. e \<in> set table"
  by unfold_locales (rule read_write_enum16)

interpretation ft: enumeration kFrameTypes FrameType_code FrameType_other FrameType_cast
    to_string_FrameType "\<lambda>s. find (\<lambda>e. s = to_string_FrameType e) kFrameTypes"
proof unfold_locales
  show "map FrameType_code kFrameTypes = map int [0..<length kFrameTypes]"
    by (simp add: kFrameTypes_def upt_rec)
  show "FrameType_cast n = (if 0 \<le> n \<and> n < int (length kFrameTypes) then kFrameTypes ! nat n
      else FrameType_other n)" for n
    by (simp add: FrameType_cast_def kFrameTypes_def)
  show "distinct (map to_string_FrameType kFrameTypes)"
    by (simp add: to_string_FrameType_def FrameType_names_def kFrameTypes_def)
qed simp_all

interpretation wft: wire_enumeration kFrameTypes FrameType_code FrameType_other FrameType_cast to_string_FrameType
    "\<lambda>s. find (\<lambda>e. s = to_string_FrameType e) kFrameTypes"
  by unfold_locales (simp add: kFrameTypes_def)

interpretation woc: wire_enumeration kOperationClasses OperationClass_code OperationClass_other OperationClass_cast to_string_OperationClass
    parse_OperationClass
  by unfold_locales (simp add: kOperationClasses_def)

interpretation wtk: wire_enumeration kTargetKinds TargetKind_code TargetKind_other TargetKind_cast to_string_TargetKind
    parse_TargetKind
  by unfold_locales (simp add: kTargetKinds_def)

interpretation wpk: wire_enumeration ProviderKind_table ProviderKind_code ProviderKind_other ProviderKind_cast to_string_ProviderKind
    parse_ProviderKind
  by unfold_locales (simp add: ProviderKind_table_def)

interpretation wcps: wire_enumeration CapabilityState_table CapabilityState_code CapabilityState_other CapabilityState_cast to_string_CapabilityState
    parse_CapabilityState
  by unfold_locales (simp add: CapabilityState_table_def)

interpretation wtl: wire_enumeration TargetLifecycle_table TargetLifecycle_code TargetLifecycle_other TargetLifecycle_cast to_string_TargetLifecycle
    parse_TargetLifecycle
  by unfold_locales (simp add: TargetLifecycle_table_def)

interpretation wdcs: wire_enumeration Decision_table Decision_code Decision_other Decision_cast to_string_Decision
    parse_Decision
  by unfold_locales (simp add: Decision_table_def)

interpretation wrtc: wire_enumeration RetryClass_table RetryClass_code RetryClass_other RetryClass_cast to_string_RetryClass
    parse_RetryClass
  by unfold_locales (simp add: RetryClass_table_def)

interpretation wvst: wire_enumeration VerifyState_table VerifyState_code VerifyState_other VerifyState_cast to_string_VerifyState
    parse_VerifyState
  by unfold_locales (simp add: VerifyState_table_def)

interpretation wdty: wire_enumeration DataType_table DataType_code DataType_other DataType_cast to_string_DataType
    parse_DataType
  by unfold_locales (simp add: DataType_table_def)

interpretation wlay: wire_enumeration Layout_table Layout_code Layout_other Layout_cast to_string_Layout
    parse_Layout
  by unfold_locales (simp add: Layout_table_def)

interpretation wirq: wire_enumeration IntegrityRequirement_table IntegrityRequirement_code IntegrityRequirement_other IntegrityRequirement_cast to_string_IntegrityRequirement
    parse_IntegrityRequirement
  by unfold_locales (simp add: IntegrityRequirement_table_def)

lemmas enum_field_simps [simp, codec_simps] =
  wft.read_write_enum16
  woc.read_write_enum16
  wtk.read_write_enum16
  wpk.read_write_enum16
  wcps.read_write_enum16
  wtl.read_write_enum16
  wdcs.read_write_enum16
  wrtc.read_write_enum16
  wvst.read_write_enum16
  wdty.read_write_enum16
  wlay.read_write_enum16
  wirq.read_write_enum16

lemma is_valid_frame_type_iff: "is_valid_frame_type v \<longleftrightarrow> v \<in> set kFrameTypes"
  by (auto simp: is_valid_frame_type_def list_ex_iff)

section \<open>Frame header\<close>

record FrameHeader =
  fh_magic :: u32
  fh_version :: u16
  fh_type :: FrameType
  fh_payload_len :: u32
  fh_correlation :: u64
  fh_checksum :: u32

definition kFrameHeaderBytes :: nat where
  "kFrameHeaderBytes = 24"

definition encode_header :: "FrameHeader \<Rightarrow> u8 list" where
  "encode_header h =
     write_u32 (fh_magic h) @ write_u16 (fh_version h) @
     write_enum16 FrameType_code (fh_type h) @ write_u32 (fh_payload_len h) @
     write_u64 (fh_correlation h) @ write_u32 (fh_checksum h)"

definition decode_header :: "ByteReader \<Rightarrow> (FrameHeader \<times> ByteReader) option" where
  "decode_header r = do {
     (magic, r) \<leftarrow> read_u32 r;
     (version, r) \<leftarrow> read_u16 r;
     (type, r) \<leftarrow> read_enum16 FrameType_cast r;
     if \<not> is_valid_frame_type type then None
     else do {
       (payload_len, r) \<leftarrow> read_u32 r;
       (correlation, r) \<leftarrow> read_u64 r;
       (checksum, r) \<leftarrow> read_u32 r;
       Some (\<lparr>fh_magic = magic, fh_version = version, fh_type = type, fh_payload_len = payload_len,
              fh_correlation = correlation, fh_checksum = checksum\<rparr>, r)
     }
   }"

lemma length_encode_header [simp]: "length (encode_header h) = kFrameHeaderBytes"
  by (simp add: encode_header_def kFrameHeaderBytes_def)

interpretation header: wire_codec encode_header decode_header "\<lambda>h. fh_type h \<in> set kFrameTypes"
  by unfold_locales (simp add: encode_header_def decode_header_def is_valid_frame_type_iff)

end
