(* ===== verification/Messages.thy ===== *)
theory Messages
  imports Protocol
begin

text \<open>
  The message payloads of \<^verbatim>\<open>include/nmc/protocol.hpp\<close>, in the order of the source: the worker
  messages, the dispatch and result messages, and the controller messages.  Each record is the
  source's structure; each interpretation proves that the decoder inverts the encoder.
\<close>

lemmas vector_simps =
  woc.field.read_write_vec wdty.field.read_write_vec wlay.field.read_write_vec

section \<open>Worker messages\<close>

record HelloMsg =
  hm_worker :: WorkerId
  hm_worker_boot :: WorkerBootId
  hm_name :: string

definition encode_hello :: "HelloMsg \<Rightarrow> u8 list" where
  "encode_hello m =
     write_u64 (hm_worker m) @ write_u64 (hm_worker_boot m) @ write_string (hm_name m)"

definition decode_hello :: "ByteReader \<Rightarrow> (HelloMsg \<times> ByteReader) option" where
  "decode_hello r = do {
     (worker, r) \<leftarrow> read_u64 r;
     (worker_boot, r) \<leftarrow> read_u64 r;
     (name, r) \<leftarrow> read_string r;
     Some (\<lparr>hm_worker = worker, hm_worker_boot = worker_boot, hm_name = name\<rparr>, r)
   }"

definition hello_ok :: "HelloMsg \<Rightarrow> bool" where
  "hello_ok m \<longleftrightarrow>
     length (hm_name m) \<le> kMaxCodecBlobBytes"

interpretation hello: wire_codec encode_hello decode_hello hello_ok
  by unfold_locales (simp add: encode_hello_def decode_hello_def hello_ok_def)

record RegisterTargetMsg =
  rm_target :: NearMemoryTargetId
  rm_generation :: NearMemoryTargetGeneration
  rm_provider :: ProviderKind
  rm_kind :: TargetKind
  rm_synthetic :: bool
  rm_name :: string
  rm_ops :: "OperationClass list"
  rm_data_types :: "DataType list"
  rm_layouts :: "Layout list"
  rm_max_input_bytes :: u64
  rm_alignment :: u64
  rm_concurrency :: u32
  rm_workspace :: u64
  rm_owner_boot :: WorkerBootId

definition encode_register_target :: "RegisterTargetMsg \<Rightarrow> u8 list" where
  "encode_register_target m =
     write_u64 (rm_target m) @ write_u64 (rm_generation m) @
     write_enum16 ProviderKind_code (rm_provider m) @ write_enum16 TargetKind_code (rm_kind m) @
     write_flag (rm_synthetic m) @ write_string (rm_name m) @
     write_vec (write_enum16 OperationClass_code) (rm_ops m) @
     write_vec (write_enum16 DataType_code) (rm_data_types m) @
     write_vec (write_enum16 Layout_code) (rm_layouts m) @ write_u64 (rm_max_input_bytes m) @
     write_u64 (rm_alignment m) @ write_u32 (rm_concurrency m) @ write_u64 (rm_workspace m) @
     write_u64 (rm_owner_boot m)"

definition decode_register_target :: "ByteReader \<Rightarrow> (RegisterTargetMsg \<times> ByteReader) option" where
  "decode_register_target r = do {
     (target, r) \<leftarrow> read_u64 r;
     (generation, r) \<leftarrow> read_u64 r;
     (provider, r) \<leftarrow> read_enum16 ProviderKind_cast r;
     (kind, r) \<leftarrow> read_enum16 TargetKind_cast r;
     (synthetic, r) \<leftarrow> read_flag r;
     (name, r) \<leftarrow> read_string r;
     (ops, r) \<leftarrow> read_vec 64 (read_enum16 OperationClass_cast) r;
     (data_types, r) \<leftarrow> read_vec 64 (read_enum16 DataType_cast) r;
     (layouts, r) \<leftarrow> read_vec 64 (read_enum16 Layout_cast) r;
     (max_input_bytes, r) \<leftarrow> read_u64 r;
     (alignment, r) \<leftarrow> read_u64 r;
     (concurrency, r) \<leftarrow> read_u32 r;
     (workspace, r) \<leftarrow> read_u64 r;
     (owner_boot, r) \<leftarrow> read_u64 r;
     Some (\<lparr>rm_target = target, rm_generation = generation, rm_provider = provider,
            rm_kind = kind, rm_synthetic = synthetic, rm_name = name, rm_ops = ops,
            rm_data_types = data_types, rm_layouts = layouts, rm_max_input_bytes = max_input_bytes,
            rm_alignment = alignment, rm_concurrency = concurrency, rm_workspace = workspace,
            rm_owner_boot = owner_boot\<rparr>, r)
   }"

definition register_target_ok :: "RegisterTargetMsg \<Rightarrow> bool" where
  "register_target_ok m \<longleftrightarrow>
     rm_provider m \<in> set ProviderKind_table \<and>
     rm_kind m \<in> set kTargetKinds \<and>
     length (rm_name m) \<le> kMaxCodecBlobBytes \<and>
     list_all (\<lambda>e. e \<in> set kOperationClasses) (rm_ops m) \<and> length (rm_ops m) \<le> 64 \<and>
     list_all (\<lambda>e. e \<in> set DataType_table) (rm_data_types m) \<and> length (rm_data_types m) \<le> 64 \<and>
     list_all (\<lambda>e. e \<in> set Layout_table) (rm_layouts m) \<and> length (rm_layouts m) \<le> 64"

interpretation register_target: wire_codec encode_register_target decode_register_target register_target_ok
  by unfold_locales (simp add: encode_register_target_def decode_register_target_def register_target_ok_def vector_simps)

text \<open>One entry of the capability loop.\<close>

record CapabilityEntryWire =
  cw_key :: string
  cw_state :: CapabilityState

definition encode_capability_entry :: "CapabilityEntryWire \<Rightarrow> u8 list" where
  "encode_capability_entry m =
     write_string (cw_key m) @ write_enum16 CapabilityState_code (cw_state m)"

definition decode_capability_entry :: "ByteReader \<Rightarrow> (CapabilityEntryWire \<times> ByteReader) option" where
  "decode_capability_entry r = do {
     (key, r) \<leftarrow> read_string r;
     (state, r) \<leftarrow> read_enum16 CapabilityState_cast r;
     Some (\<lparr>cw_key = key, cw_state = state\<rparr>, r)
   }"

definition capability_entry_ok :: "CapabilityEntryWire \<Rightarrow> bool" where
  "capability_entry_ok m \<longleftrightarrow>
     length (cw_key m) \<le> kMaxCodecBlobBytes \<and>
     cw_state m \<in> set CapabilityState_table"

interpretation capability_entry: wire_codec encode_capability_entry decode_capability_entry capability_entry_ok
  by unfold_locales (simp add: encode_capability_entry_def decode_capability_entry_def capability_entry_ok_def)

record CapabilityMsg =
  cm_target :: NearMemoryTargetId
  cm_generation :: CapabilityGeneration
  cm_entries :: "CapabilityEntryWire list"
  cm_evidence_generation :: EvidenceGeneration
  cm_publisher :: WorkerBootId

definition encode_capability :: "CapabilityMsg \<Rightarrow> u8 list" where
  "encode_capability m =
     write_u64 (cm_target m) @ write_u64 (cm_generation m) @
     write_vec encode_capability_entry (cm_entries m) @ write_u64 (cm_evidence_generation m) @
     write_u64 (cm_publisher m)"

definition decode_capability :: "ByteReader \<Rightarrow> (CapabilityMsg \<times> ByteReader) option" where
  "decode_capability r = do {
     (target, r) \<leftarrow> read_u64 r;
     (generation, r) \<leftarrow> read_u64 r;
     (entries, r) \<leftarrow> read_vec 1024 decode_capability_entry r;
     (evidence_generation, r) \<leftarrow> read_u64 r;
     (publisher, r) \<leftarrow> read_u64 r;
     Some (\<lparr>cm_target = target, cm_generation = generation, cm_entries = entries,
            cm_evidence_generation = evidence_generation, cm_publisher = publisher\<rparr>, r)
   }"

definition capability_ok :: "CapabilityMsg \<Rightarrow> bool" where
  "capability_ok m \<longleftrightarrow>
     list_all capability_entry_ok (cm_entries m) \<and> length (cm_entries m) \<le> 1024"

interpretation capability: wire_codec encode_capability decode_capability capability_ok
  by unfold_locales (simp add: encode_capability_def decode_capability_def capability_ok_def capability_entry.read_write_vec)

record DataEvidenceMsg =
  dm_region :: DataRegionId
  dm_region_generation :: DataRegionGeneration
  dm_dataset :: DatasetId
  dm_dataset_generation :: DatasetGeneration
  dm_memory_domain :: MemoryDomainId
  dm_memory_domain_generation :: MemoryDomainGeneration
  dm_present :: bool
  dm_current :: bool
  dm_reachable :: bool
  dm_publisher :: WorkerBootId

definition encode_data_evidence :: "DataEvidenceMsg \<Rightarrow> u8 list" where
  "encode_data_evidence m =
     write_u64 (dm_region m) @ write_u64 (dm_region_generation m) @ write_u64 (dm_dataset m) @
     write_u64 (dm_dataset_generation m) @ write_u64 (dm_memory_domain m) @
     write_u64 (dm_memory_domain_generation m) @ write_flag (dm_present m) @
     write_flag (dm_current m) @ write_flag (dm_reachable m) @ write_u64 (dm_publisher m)"

definition decode_data_evidence :: "ByteReader \<Rightarrow> (DataEvidenceMsg \<times> ByteReader) option" where
  "decode_data_evidence r = do {
     (region, r) \<leftarrow> read_u64 r;
     (region_generation, r) \<leftarrow> read_u64 r;
     (dataset, r) \<leftarrow> read_u64 r;
     (dataset_generation, r) \<leftarrow> read_u64 r;
     (memory_domain, r) \<leftarrow> read_u64 r;
     (memory_domain_generation, r) \<leftarrow> read_u64 r;
     (present, r) \<leftarrow> read_flag r;
     (current, r) \<leftarrow> read_flag r;
     (reachable, r) \<leftarrow> read_flag r;
     (publisher, r) \<leftarrow> read_u64 r;
     Some (\<lparr>dm_region = region, dm_region_generation = region_generation,
            dm_dataset = dataset, dm_dataset_generation = dataset_generation,
            dm_memory_domain = memory_domain,
            dm_memory_domain_generation = memory_domain_generation, dm_present = present,
            dm_current = current, dm_reachable = reachable, dm_publisher = publisher\<rparr>, r)
   }"

interpretation data_evidence: wire_codec encode_data_evidence decode_data_evidence "\<lambda>_. True"
  by unfold_locales (simp add: encode_data_evidence_def decode_data_evidence_def)

record HeartbeatMsg =
  bm_target :: NearMemoryTargetId
  bm_lifecycle :: TargetLifecycle
  bm_reachable :: bool
  bm_queue_depth :: u64
  bm_latency_ns :: u64
  bm_throughput_bps :: u64
  bm_confidence :: f64

definition encode_heartbeat :: "HeartbeatMsg \<Rightarrow> u8 list" where
  "encode_heartbeat m =
     write_u64 (bm_target m) @ write_enum16 TargetLifecycle_code (bm_lifecycle m) @
     write_flag (bm_reachable m) @ write_u64 (bm_queue_depth m) @ write_u64 (bm_latency_ns m) @
     write_u64 (bm_throughput_bps m) @ write_f64 (bm_confidence m)"

definition decode_heartbeat :: "ByteReader \<Rightarrow> (HeartbeatMsg \<times> ByteReader) option" where
  "decode_heartbeat r = do {
     (target, r) \<leftarrow> read_u64 r;
     (lifecycle, r) \<leftarrow> read_enum16 TargetLifecycle_cast r;
     (reachable, r) \<leftarrow> read_flag r;
     (queue_depth, r) \<leftarrow> read_u64 r;
     (latency_ns, r) \<leftarrow> read_u64 r;
     (throughput_bps, r) \<leftarrow> read_u64 r;
     (confidence, r) \<leftarrow> read_f64 r;
     Some (\<lparr>bm_target = target, bm_lifecycle = lifecycle, bm_reachable = reachable,
            bm_queue_depth = queue_depth, bm_latency_ns = latency_ns,
            bm_throughput_bps = throughput_bps, bm_confidence = confidence\<rparr>, r)
   }"

definition heartbeat_ok :: "HeartbeatMsg \<Rightarrow> bool" where
  "heartbeat_ok m \<longleftrightarrow>
     bm_lifecycle m \<in> set TargetLifecycle_table"

interpretation heartbeat: wire_codec encode_heartbeat decode_heartbeat heartbeat_ok
  by unfold_locales (simp add: encode_heartbeat_def decode_heartbeat_def heartbeat_ok_def)

section \<open>Dispatch and result\<close>

record DispatchMsg =
  dp_plan :: ExecutionPlanId
  dp_plan_gen :: ExecutionPlanGeneration
  dp_dispatch :: DispatchId
  dp_attempt :: AttemptId
  dp_target :: NearMemoryTargetId
  dp_target_gen :: NearMemoryTargetGeneration
  dp_worker_boot :: WorkerBootId
  dp_epoch :: CoordinatorEpoch
  dp_dataset_gen :: DatasetGeneration
  dp_region_gen :: DataRegionGeneration
  dp_operation_gen :: OperationGeneration
  dp_has_program :: bool
  dp_program_gen :: ProgramGeneration
  dp_op_class :: OperationClass
  dp_data_type :: DataType
  dp_retry_class :: RetryClass
  dp_idempotent :: bool
  dp_require_verification :: bool
  dp_payload :: "u8 list"

definition encode_dispatch :: "DispatchMsg \<Rightarrow> u8 list" where
  "encode_dispatch m =
     write_u64 (dp_plan m) @ write_u64 (dp_plan_gen m) @ write_u64 (dp_dispatch m) @
     write_u64 (dp_attempt m) @ write_u64 (dp_target m) @ write_u64 (dp_target_gen m) @
     write_u64 (dp_worker_boot m) @ write_u64 (dp_epoch m) @ write_u64 (dp_dataset_gen m) @
     write_u64 (dp_region_gen m) @ write_u64 (dp_operation_gen m) @ write_flag (dp_has_program m) @
     (if dp_has_program m then write_u64 (dp_program_gen m) else []) @ write_enum16 OperationClass_code (dp_op_class m) @
     write_enum16 DataType_code (dp_data_type m) @
     write_enum16 RetryClass_code (dp_retry_class m) @ write_flag (dp_idempotent m) @
     write_flag (dp_require_verification m) @ write_blob (dp_payload m)"

definition decode_dispatch :: "ByteReader \<Rightarrow> (DispatchMsg \<times> ByteReader) option" where
  "decode_dispatch r = do {
     (plan, r) \<leftarrow> read_u64 r;
     (plan_gen, r) \<leftarrow> read_u64 r;
     (dispatch, r) \<leftarrow> read_u64 r;
     (attempt, r) \<leftarrow> read_u64 r;
     (target, r) \<leftarrow> read_u64 r;
     (target_gen, r) \<leftarrow> read_u64 r;
     (worker_boot, r) \<leftarrow> read_u64 r;
     (epoch, r) \<leftarrow> read_u64 r;
     (dataset_gen, r) \<leftarrow> read_u64 r;
     (region_gen, r) \<leftarrow> read_u64 r;
     (operation_gen, r) \<leftarrow> read_u64 r;
     (has_program, r) \<leftarrow> read_flag r;
     (program_gen, r) \<leftarrow> (if has_program then read_u64 r else Some (0, r));
     (op_class, r) \<leftarrow> read_enum16 OperationClass_cast r;
     (data_type, r) \<leftarrow> read_enum16 DataType_cast r;
     (retry_class, r) \<leftarrow> read_enum16 RetryClass_cast r;
     (idempotent, r) \<leftarrow> read_flag r;
     (require_verification, r) \<leftarrow> read_flag r;
     (payload, r) \<leftarrow> read_blob r;
     Some (\<lparr>dp_plan = plan, dp_plan_gen = plan_gen, dp_dispatch = dispatch,
            dp_attempt = attempt, dp_target = target, dp_target_gen = target_gen,
            dp_worker_boot = worker_boot, dp_epoch = epoch, dp_dataset_gen = dataset_gen,
            dp_region_gen = region_gen, dp_operation_gen = operation_gen,
            dp_has_program = has_program, dp_program_gen = program_gen, dp_op_class = op_class,
            dp_data_type = data_type, dp_retry_class = retry_class, dp_idempotent = idempotent,
            dp_require_verification = require_verification, dp_payload = payload\<rparr>, r)
   }"

text \<open>Without a program the generation does not travel; its default is 0.\<close>

definition dispatch_ok :: "DispatchMsg \<Rightarrow> bool" where
  "dispatch_ok m \<longleftrightarrow>
     (dp_has_program m \<or> dp_program_gen m = 0) \<and>
     dp_op_class m \<in> set kOperationClasses \<and>
     dp_data_type m \<in> set DataType_table \<and>
     dp_retry_class m \<in> set RetryClass_table \<and>
     length (dp_payload m) \<le> kMaxCodecBlobBytes"

interpretation dispatch: wire_codec encode_dispatch decode_dispatch dispatch_ok
  by unfold_locales (auto simp: encode_dispatch_def decode_dispatch_def dispatch_ok_def)

record DispatchAckMsg =
  am_dispatch :: DispatchId
  am_accepted :: bool
  am_note :: string

definition encode_dispatch_ack :: "DispatchAckMsg \<Rightarrow> u8 list" where
  "encode_dispatch_ack m =
     write_u64 (am_dispatch m) @ write_flag (am_accepted m) @ write_string (am_note m)"

definition decode_dispatch_ack :: "ByteReader \<Rightarrow> (DispatchAckMsg \<times> ByteReader) option" where
  "decode_dispatch_ack r = do {
     (dispatch, r) \<leftarrow> read_u64 r;
     (accepted, r) \<leftarrow> read_flag r;
     (note, r) \<leftarrow> read_string r;
     Some (\<lparr>am_dispatch = dispatch, am_accepted = accepted, am_note = note\<rparr>, r)
   }"

definition dispatch_ack_ok :: "DispatchAckMsg \<Rightarrow> bool" where
  "dispatch_ack_ok m \<longleftrightarrow>
     length (am_note m) \<le> kMaxCodecBlobBytes"

interpretation dispatch_ack: wire_codec encode_dispatch_ack decode_dispatch_ack dispatch_ack_ok
  by unfold_locales (simp add: encode_dispatch_ack_def decode_dispatch_ack_def dispatch_ack_ok_def)

record ResultMsg =
  rs_plan :: ExecutionPlanId
  rs_plan_gen :: ExecutionPlanGeneration
  rs_dispatch :: DispatchId
  rs_attempt :: AttemptId
  rs_target :: NearMemoryTargetId
  rs_target_gen :: NearMemoryTargetGeneration
  rs_worker_boot :: WorkerBootId
  rs_epoch :: CoordinatorEpoch
  rs_dataset_gen :: DatasetGeneration
  rs_region_gen :: DataRegionGeneration
  rs_operation_gen :: OperationGeneration
  rs_result_gen :: ResultGeneration
  rs_output :: "u8 list"
  rs_output_digest :: string
  rs_unknown :: bool
  rs_note :: string

definition encode_result :: "ResultMsg \<Rightarrow> u8 list" where
  "encode_result m =
     write_u64 (rs_plan m) @ write_u64 (rs_plan_gen m) @ write_u64 (rs_dispatch m) @
     write_u64 (rs_attempt m) @ write_u64 (rs_target m) @ write_u64 (rs_target_gen m) @
     write_u64 (rs_worker_boot m) @ write_u64 (rs_epoch m) @ write_u64 (rs_dataset_gen m) @
     write_u64 (rs_region_gen m) @ write_u64 (rs_operation_gen m) @ write_u64 (rs_result_gen m) @
     write_blob (rs_output m) @ write_string (rs_output_digest m) @ write_flag (rs_unknown m) @
     write_string (rs_note m)"

definition decode_result :: "ByteReader \<Rightarrow> (ResultMsg \<times> ByteReader) option" where
  "decode_result r = do {
     (plan, r) \<leftarrow> read_u64 r;
     (plan_gen, r) \<leftarrow> read_u64 r;
     (dispatch, r) \<leftarrow> read_u64 r;
     (attempt, r) \<leftarrow> read_u64 r;
     (target, r) \<leftarrow> read_u64 r;
     (target_gen, r) \<leftarrow> read_u64 r;
     (worker_boot, r) \<leftarrow> read_u64 r;
     (epoch, r) \<leftarrow> read_u64 r;
     (dataset_gen, r) \<leftarrow> read_u64 r;
     (region_gen, r) \<leftarrow> read_u64 r;
     (operation_gen, r) \<leftarrow> read_u64 r;
     (result_gen, r) \<leftarrow> read_u64 r;
     (output, r) \<leftarrow> read_blob r;
     (output_digest, r) \<leftarrow> read_string r;
     (unknown, r) \<leftarrow> read_flag r;
     (note, r) \<leftarrow> read_string r;
     Some (\<lparr>rs_plan = plan, rs_plan_gen = plan_gen, rs_dispatch = dispatch,
            rs_attempt = attempt, rs_target = target, rs_target_gen = target_gen,
            rs_worker_boot = worker_boot, rs_epoch = epoch, rs_dataset_gen = dataset_gen,
            rs_region_gen = region_gen, rs_operation_gen = operation_gen,
            rs_result_gen = result_gen, rs_output = output, rs_output_digest = output_digest,
            rs_unknown = unknown, rs_note = note\<rparr>, r)
   }"

definition result_ok :: "ResultMsg \<Rightarrow> bool" where
  "result_ok m \<longleftrightarrow>
     length (rs_output m) \<le> kMaxCodecBlobBytes \<and>
     length (rs_output_digest m) \<le> kMaxCodecBlobBytes \<and>
     length (rs_note m) \<le> kMaxCodecBlobBytes"

interpretation result: wire_codec encode_result decode_result result_ok
  by unfold_locales (simp add: encode_result_def decode_result_def result_ok_def)

record CommitAckMsg =
  ck_plan :: ExecutionPlanId
  ck_dispatch :: DispatchId
  ck_committed :: bool
  ck_note :: string

definition encode_commit_ack :: "CommitAckMsg \<Rightarrow> u8 list" where
  "encode_commit_ack m =
     write_u64 (ck_plan m) @ write_u64 (ck_dispatch m) @ write_flag (ck_committed m) @
     write_string (ck_note m)"

definition decode_commit_ack :: "ByteReader \<Rightarrow> (CommitAckMsg \<times> ByteReader) option" where
  "decode_commit_ack r = do {
     (plan, r) \<leftarrow> read_u64 r;
     (dispatch, r) \<leftarrow> read_u64 r;
     (committed, r) \<leftarrow> read_flag r;
     (note, r) \<leftarrow> read_string r;
     Some (\<lparr>ck_plan = plan, ck_dispatch = dispatch, ck_committed = committed, ck_note = note\<rparr>, r)
   }"

definition commit_ack_ok :: "CommitAckMsg \<Rightarrow> bool" where
  "commit_ack_ok m \<longleftrightarrow>
     length (ck_note m) \<le> kMaxCodecBlobBytes"

interpretation commit_ack: wire_codec encode_commit_ack decode_commit_ack commit_ack_ok
  by unfold_locales (simp add: encode_commit_ack_def decode_commit_ack_def commit_ack_ok_def)

record ErrorMsg =
  em_code :: string
  em_message :: string

definition encode_error :: "ErrorMsg \<Rightarrow> u8 list" where
  "encode_error m =
     write_string (em_code m) @ write_string (em_message m)"

definition decode_error :: "ByteReader \<Rightarrow> (ErrorMsg \<times> ByteReader) option" where
  "decode_error r = do {
     (code, r) \<leftarrow> read_string r;
     (message, r) \<leftarrow> read_string r;
     Some (\<lparr>em_code = code, em_message = message\<rparr>, r)
   }"

definition error_ok :: "ErrorMsg \<Rightarrow> bool" where
  "error_ok m \<longleftrightarrow>
     length (em_code m) \<le> kMaxCodecBlobBytes \<and>
     length (em_message m) \<le> kMaxCodecBlobBytes"

interpretation error: wire_codec encode_error decode_error error_ok
  by unfold_locales (simp add: encode_error_def decode_error_def error_ok_def)

record ShutdownMsg =
  sm_reason :: string

definition encode_shutdown :: "ShutdownMsg \<Rightarrow> u8 list" where
  "encode_shutdown m =
     write_string (sm_reason m)"

definition decode_shutdown :: "ByteReader \<Rightarrow> (ShutdownMsg \<times> ByteReader) option" where
  "decode_shutdown r = do {
     (reason, r) \<leftarrow> read_string r;
     Some (\<lparr>sm_reason = reason\<rparr>, r)
   }"

definition shutdown_ok :: "ShutdownMsg \<Rightarrow> bool" where
  "shutdown_ok m \<longleftrightarrow>
     length (sm_reason m) \<le> kMaxCodecBlobBytes"

interpretation shutdown: wire_codec encode_shutdown decode_shutdown shutdown_ok
  by unfold_locales (simp add: encode_shutdown_def decode_shutdown_def shutdown_ok_def)

record RevalidateMsg =
  vm_target :: NearMemoryTargetId

definition encode_revalidate :: "RevalidateMsg \<Rightarrow> u8 list" where
  "encode_revalidate m =
     write_u64 (vm_target m)"

definition decode_revalidate :: "ByteReader \<Rightarrow> (RevalidateMsg \<times> ByteReader) option" where
  "decode_revalidate r = do {
     (target, r) \<leftarrow> read_u64 r;
     Some (\<lparr>vm_target = target\<rparr>, r)
   }"

interpretation revalidate: wire_codec encode_revalidate decode_revalidate "\<lambda>_. True"
  by unfold_locales (simp add: encode_revalidate_def decode_revalidate_def)

section \<open>Controller messages\<close>

text \<open>A register-operation message is an operation.\<close>

definition encode_operation_fields :: "OperationSpec \<Rightarrow> u8 list" where
  "encode_operation_fields op =
     write_u64 (op_id op) @ write_u64 (op_generation op) @
     write_enum16 OperationClass_code (op_op_class op) @
     write_u64 (op_dataset op) @ write_u64 (op_dataset_generation op) @
     write_u64 (op_region op) @ write_u64 (op_region_generation op) @
     write_u64 (sh_element_count (op_shape op)) @
     write_enum16 DataType_code (sh_data_type (op_shape op)) @
     write_enum16 Layout_code (sh_layout (op_shape op)) @ write_u64 (sh_alignment (op_shape op)) @
     write_u64 (op_input_bytes op) @ write_u64 (op_output_bytes op) @
     write_u64 (op_workspace_bytes op) @
     write_enum16 DataType_code (op_output_data_type op) @
     write_flag (op_determinism_required op) @
     write_u64 (op_max_tolerated_latency_ns op) @ write_u64 (op_required_throughput_bps op) @
     write_enum16 IntegrityRequirement_code (op_integrity op) @
     write_enum16 RetryClass_code (op_retry_class op) @
     write_u64 (op_policy op) @ write_u64 (op_policy_generation op) @
     write_flag (op_program op \<noteq> None) @
     (case op_program op of
        None \<Rightarrow> []
      | Some p \<Rightarrow> write_u64 p @
          write_u64 (case op_program_generation op of None \<Rightarrow> 1 | Some g \<Rightarrow> g)) @
     write_string (op_description op)"

definition decode_operation_fields :: "ByteReader \<Rightarrow> (OperationSpec \<times> ByteReader) option" where
  "decode_operation_fields r = do {
     (oid, r) \<leftarrow> read_u64 r;
     (gen, r) \<leftarrow> read_u64 r;
     (oc, r) \<leftarrow> read_enum16 OperationClass_cast r;
     (dataset, r) \<leftarrow> read_u64 r;
     (dataset_gen, r) \<leftarrow> read_u64 r;
     (region, r) \<leftarrow> read_u64 r;
     (region_gen, r) \<leftarrow> read_u64 r;
     (element_count, r) \<leftarrow> read_u64 r;
     (dt, r) \<leftarrow> read_enum16 DataType_cast r;
     (ly, r) \<leftarrow> read_enum16 Layout_cast r;
     (alignment, r) \<leftarrow> read_u64 r;
     (input_bytes, r) \<leftarrow> read_u64 r;
     (output_bytes, r) \<leftarrow> read_u64 r;
     (workspace_bytes, r) \<leftarrow> read_u64 r;
     (odt, r) \<leftarrow> read_enum16 DataType_cast r;
     (det, r) \<leftarrow> read_flag r;
     (max_latency, r) \<leftarrow> read_u64 r;
     (throughput, r) \<leftarrow> read_u64 r;
     (ig, r) \<leftarrow> read_enum16 IntegrityRequirement_cast r;
     (rc, r) \<leftarrow> read_enum16 RetryClass_cast r;
     (policy, r) \<leftarrow> read_u64 r;
     (policy_gen, r) \<leftarrow> read_u64 r;
     (hp, r) \<leftarrow> read_flag r;
     ((program, program_gen), r) \<leftarrow>
       (if hp then do { (p, r) \<leftarrow> read_u64 r; (g, r) \<leftarrow> read_u64 r; Some ((Some p, Some g), r) }
        else Some ((None, None), r));
     (description, r) \<leftarrow> read_string r;
     Some
       (\<lparr>op_id = oid, op_generation = gen, op_op_class = oc,
         op_dataset = dataset, op_dataset_generation = dataset_gen,
         op_region = region, op_region_generation = region_gen,
         op_shape = \<lparr>sh_element_count = element_count, sh_data_type = dt, sh_layout = ly,
                     sh_alignment = alignment\<rparr>,
         op_input_bytes = input_bytes, op_output_bytes = output_bytes,
         op_workspace_bytes = workspace_bytes, op_output_data_type = odt,
         op_determinism_required = det, op_max_tolerated_latency_ns = max_latency,
         op_required_throughput_bps = throughput, op_integrity = ig, op_retry_class = rc,
         op_policy = policy, op_policy_generation = policy_gen,
         op_program = program, op_program_generation = program_gen,
         op_description = description\<rparr>, r)
   }"

text \<open>A program and its generation travel together: both or neither.\<close>

definition operation_fields_ok :: "OperationSpec \<Rightarrow> bool" where
  "operation_fields_ok op \<longleftrightarrow>
     (op_program op = None \<longleftrightarrow> op_program_generation op = None) \<and>
     op_op_class op \<in> set kOperationClasses \<and>
     sh_data_type (op_shape op) \<in> set DataType_table \<and>
     sh_layout (op_shape op) \<in> set Layout_table \<and>
     op_output_data_type op \<in> set DataType_table \<and>
     op_integrity op \<in> set IntegrityRequirement_table \<and>
     op_retry_class op \<in> set RetryClass_table \<and>
     length (op_description op) \<le> kMaxCodecBlobBytes"

interpretation operation_fields: wire_codec encode_operation_fields decode_operation_fields
    operation_fields_ok
proof unfold_locales
  fix op r
  assume ok: "operation_fields_ok op"
  then consider (none) "op_program op = None" "op_program_generation op = None"
    | (some) p g where "op_program op = Some p" "op_program_generation op = Some g"
    by (auto simp: operation_fields_ok_def)
  then show "decode_operation_fields (encode_operation_fields op @ r) = Some (op, r)"
  proof cases
    case none
    with ok have "decode_operation_fields (encode_operation_fields op @ r) =
        Some (op\<lparr>op_program := None, op_program_generation := None\<rparr>, r)"
      by (simp add: encode_operation_fields_def decode_operation_fields_def operation_fields_ok_def)
    with none show ?thesis by (cases op) simp
  next
    case some
    with ok have "decode_operation_fields (encode_operation_fields op @ r) =
        Some (op\<lparr>op_program := Some p, op_program_generation := Some g\<rparr>, r)"
      by (simp add: encode_operation_fields_def decode_operation_fields_def operation_fields_ok_def)
    with some show ?thesis by (cases op) simp
  qed
qed

record ClientPlanMsg =
  cp_op :: OperationId

definition encode_client_plan :: "ClientPlanMsg \<Rightarrow> u8 list" where
  "encode_client_plan m =
     write_u64 (cp_op m)"

definition decode_client_plan :: "ByteReader \<Rightarrow> (ClientPlanMsg \<times> ByteReader) option" where
  "decode_client_plan r = do {
     (op, r) \<leftarrow> read_u64 r;
     Some (\<lparr>cp_op = op\<rparr>, r)
   }"

interpretation client_plan: wire_codec encode_client_plan decode_client_plan "\<lambda>_. True"
  by unfold_locales (simp add: encode_client_plan_def decode_client_plan_def)

record ClientDispatchMsg =
  cd_plan :: ExecutionPlanId

definition encode_client_dispatch :: "ClientDispatchMsg \<Rightarrow> u8 list" where
  "encode_client_dispatch m =
     write_u64 (cd_plan m)"

definition decode_client_dispatch :: "ByteReader \<Rightarrow> (ClientDispatchMsg \<times> ByteReader) option" where
  "decode_client_dispatch r = do {
     (plan, r) \<leftarrow> read_u64 r;
     Some (\<lparr>cd_plan = plan\<rparr>, r)
   }"

interpretation client_dispatch: wire_codec encode_client_dispatch decode_client_dispatch "\<lambda>_. True"
  by unfold_locales (simp add: encode_client_dispatch_def decode_client_dispatch_def)

record ClientGetResultMsg =
  cg_plan :: ExecutionPlanId

definition encode_client_get_result :: "ClientGetResultMsg \<Rightarrow> u8 list" where
  "encode_client_get_result m =
     write_u64 (cg_plan m)"

definition decode_client_get_result :: "ByteReader \<Rightarrow> (ClientGetResultMsg \<times> ByteReader) option" where
  "decode_client_get_result r = do {
     (plan, r) \<leftarrow> read_u64 r;
     Some (\<lparr>cg_plan = plan\<rparr>, r)
   }"

interpretation client_get_result: wire_codec encode_client_get_result decode_client_get_result "\<lambda>_. True"
  by unfold_locales (simp add: encode_client_get_result_def decode_client_get_result_def)

record ClientReplyMsg =
  cr_ok :: bool
  cr_plan :: ExecutionPlanId
  cr_decision :: Decision
  cr_created :: bool
  cr_committed :: bool
  cr_ambiguous :: bool
  cr_verification :: VerifyState
  cr_output_bytes :: u64
  cr_output_digest :: string
  cr_note :: string

definition encode_client_reply :: "ClientReplyMsg \<Rightarrow> u8 list" where
  "encode_client_reply m =
     write_flag (cr_ok m) @ write_u64 (cr_plan m) @ write_enum16 Decision_code (cr_decision m) @
     write_flag (cr_created m) @ write_flag (cr_committed m) @ write_flag (cr_ambiguous m) @
     write_enum16 VerifyState_code (cr_verification m) @ write_u64 (cr_output_bytes m) @
     write_string (cr_output_digest m) @ write_string (cr_note m)"

definition decode_client_reply :: "ByteReader \<Rightarrow> (ClientReplyMsg \<times> ByteReader) option" where
  "decode_client_reply r = do {
     (ok, r) \<leftarrow> read_flag r;
     (plan, r) \<leftarrow> read_u64 r;
     (decision, r) \<leftarrow> read_enum16 Decision_cast r;
     (created, r) \<leftarrow> read_flag r;
     (committed, r) \<leftarrow> read_flag r;
     (ambiguous, r) \<leftarrow> read_flag r;
     (verification, r) \<leftarrow> read_enum16 VerifyState_cast r;
     (output_bytes, r) \<leftarrow> read_u64 r;
     (output_digest, r) \<leftarrow> read_string r;
     (note, r) \<leftarrow> read_string r;
     Some (\<lparr>cr_ok = ok, cr_plan = plan, cr_decision = decision, cr_created = created,
            cr_committed = committed, cr_ambiguous = ambiguous, cr_verification = verification,
            cr_output_bytes = output_bytes, cr_output_digest = output_digest, cr_note = note\<rparr>, r)
   }"

definition client_reply_ok :: "ClientReplyMsg \<Rightarrow> bool" where
  "client_reply_ok m \<longleftrightarrow>
     cr_decision m \<in> set Decision_table \<and>
     cr_verification m \<in> set VerifyState_table \<and>
     length (cr_output_digest m) \<le> kMaxCodecBlobBytes \<and>
     length (cr_note m) \<le> kMaxCodecBlobBytes"

interpretation client_reply: wire_codec encode_client_reply decode_client_reply client_reply_ok
  by unfold_locales (simp add: encode_client_reply_def decode_client_reply_def client_reply_ok_def)

section \<open>Properties\<close>



end
