(* ===== verification/Coordinator.thy ===== *)
theory Coordinator
  imports Planning Messages
begin

text \<open>
  The control plane, \<^verbatim>\<open>include/nmc/coordinator.hpp\<close> and \<^verbatim>\<open>src/coordinator.cpp\<close>.  Every public method
  holds the one lock for its whole body, so it is a function from the state to its result and the
  new state; where it draws identities, the identity source is threaded through as well.  The
  methods follow in the order of the source.
\<close>

section \<open>State\<close>

record ReservationState =
  rv_reserved_slots :: u64
  rv_reserved_workspace :: u64

definition ReservationState_default :: ReservationState where
  "ReservationState_default = \<lparr>rv_reserved_slots = 0, rv_reserved_workspace = 0\<rparr>"

record WorkerSession =
  ws_worker :: WorkerId
  ws_boot :: WorkerBootId
  ws_name :: string
  ws_connected :: bool

record RuntimeState =
  st_coordinator_id :: CoordinatorId
  st_epoch :: CoordinatorEpoch
  st_memory_domains :: "(MemoryDomainId, MemoryDomainDescriptor) omap"
  st_datasets :: "(DatasetId, DatasetDescriptor) omap"
  st_regions :: "(DataRegionId, DataRegionDescriptor) omap"
  st_data_evidence :: "(DataRegionId, DataEvidence) omap"
  st_targets :: "(NearMemoryTargetId, TargetDefinition) omap"
  st_target_runtime :: "(NearMemoryTargetId, TargetRuntime) omap"
  st_capabilities :: "(NearMemoryTargetId, CapabilitySet) omap"
  st_operations :: "(OperationId, OperationSpec) omap"
  st_programs :: "(KernelOrProgramId, Program) omap"
  st_policies :: "(PolicyId, Policy) omap"
  st_plans :: "(ExecutionPlanId, ExecutionPlan) omap"
  st_active_plans :: "(OperationId, ExecutionPlanId) omap"
  st_results :: "(ResultId, ExecutionResult) omap"
  st_reservations :: "(NearMemoryTargetId, ReservationState) omap"
  st_workers :: "(WorkerId, WorkerSession) omap"

definition RuntimeState_default :: RuntimeState where
  "RuntimeState_default =
     \<lparr>st_coordinator_id = 0, st_epoch = 0, st_memory_domains = [], st_datasets = [],
      st_regions = [], st_data_evidence = [], st_targets = [], st_target_runtime = [],
      st_capabilities = [], st_operations = [], st_programs = [], st_policies = [],
      st_plans = [], st_active_plans = [], st_results = [], st_reservations = [],
      st_workers = []\<rparr>"

section \<open>Representative payload\<close>

definition kDefaultConventionalBandwidthBps :: u64 where
  "kDefaultConventionalBandwidthBps = 40000000000"

definition kDefaultConventionalLatencyNs :: u64 where
  "kDefaultConventionalLatencyNs = 50000"

definition kMaxSamplePayload :: u64 where
  "kMaxSamplePayload = 16 * 1024"

primrec sample_bytes :: "nat \<Rightarrow> u64 \<Rightarrow> u8 list" where
  "sample_bytes 0 state = []"
| "sample_bytes (Suc n) state =
     (let state = state * 6364136223846793005 + 1442695040888963407
      in ucast (drop_bit 33 state AND 0xFF) # sample_bytes n state)"

definition build_sample_payload :: "OperationSpec \<Rightarrow> u8 list" where
  "build_sample_payload op =
     (let n = min (op_input_bytes op) kMaxSamplePayload
      in sample_bytes (unat n) (op_id op XOR 0x9E3779B97F4A7C15))"

section \<open>Construction and epochs\<close>

definition default_policy :: Policy where
  "default_policy = Policy_default\<lparr>pol_id := 1, pol_generation := 1, pol_name := ''default'',
     pol_outcome := PolicyOutcome.UNCONSTRAINED\<rparr>"

definition Coordinator_new :: "UniqueIdSource \<Rightarrow> RuntimeState \<times> UniqueIdSource" where
  "Coordinator_new ids =
     (let (cid, ids) = make_id ids
      in (RuntimeState_default\<lparr>st_coordinator_id := cid, st_epoch := 1,
            st_policies := om_put (pol_id default_policy) default_policy []\<rparr>, ids))"

definition attach_coordinator :: "CoordinatorId \<Rightarrow> RuntimeState \<Rightarrow> unit Result \<times> RuntimeState" where
  "attach_coordinator cid st = (Inr (), st\<lparr>st_coordinator_id := cid\<rparr>)"

definition current_epoch :: "RuntimeState \<Rightarrow> CoordinatorEpoch" where
  "current_epoch st = st_epoch st"

text \<open>The three in-flight lifecycles that a fence or a new epoch turns into \<open>OUTCOME_UNKNOWN\<close>, and
  the five terminal ones that the fences and the active index skip.\<close>

definition executing :: "ExecutionLifecycle \<Rightarrow> bool" where
  "executing l \<longleftrightarrow> l = ExecutionLifecycle.DISPATCHED \<or> l = ExecutionLifecycle.RUNNING \<or>
     l = ExecutionLifecycle.VERIFYING"

definition terminal :: "ExecutionLifecycle \<Rightarrow> bool" where
  "terminal l \<longleftrightarrow> l = ExecutionLifecycle.COMMITTED \<or> l = ExecutionLifecycle.FAILED \<or>
     l = ExecutionLifecycle.CANCELLED \<or> l = ExecutionLifecycle.SUPERSEDED \<or>
     l = ExecutionLifecycle.FENCED"

definition rebuild_active_plans :: "RuntimeState \<Rightarrow> RuntimeState" where
  "rebuild_active_plans st =
     st\<lparr>st_active_plans :=
         foldl (\<lambda>act (_, plan).
                  if terminal (plan_lifecycle plan) then act
                  else om_put (plan_operation plan) (plan_id plan) act)
           [] (st_plans st)\<rparr>"

definition revalidate_runtime :: "TargetRuntime \<Rightarrow> TargetRuntime" where
  "revalidate_runtime rt = rt\<lparr>rt_dynamic_current := False, rt_reachable := False,
     rt_lifecycle := TargetLifecycle.REVALIDATION_REQUIRED\<rparr>"

definition supersede_plan :: "ExecutionPlan \<Rightarrow> ExecutionPlan" where
  "supersede_plan plan =
     (if plan_lifecycle plan \<noteq> ExecutionLifecycle.COMMITTED
      then plan\<lparr>plan_lifecycle :=
             (if executing (plan_lifecycle plan) then ExecutionLifecycle.OUTCOME_UNKNOWN
              else ExecutionLifecycle.SUPERSEDED)\<rparr>
      else plan)"

text \<open>The body shared by \<^verbatim>\<open>advance_epoch\<close> and the recovery in \<^verbatim>\<open>load\<close>.\<close>

definition advance_epoch :: "RuntimeState \<Rightarrow> RuntimeState" where
  "advance_epoch st =
     rebuild_active_plans
       (st\<lparr>st_epoch := st_epoch st + 1,
           st_target_runtime := om_for_each revalidate_runtime (st_target_runtime st),
           st_capabilities := om_for_each (\<lambda>cs. cs\<lparr>cs_dynamic_current := False\<rparr>) (st_capabilities st),
           st_data_evidence := om_for_each (\<lambda>ev. ev\<lparr>ev_dynamic_current := False\<rparr>) (st_data_evidence st),
           st_plans := om_for_each supersede_plan (st_plans st)\<rparr>)"

section \<open>Registration\<close>

definition register_memory_domain ::
    "MemoryDomainDescriptor \<Rightarrow> RuntimeState \<Rightarrow> unit Result \<times> RuntimeState" where
  "register_memory_domain md st =
     (if is_null (md_id md) \<or> is_null (md_generation md)
      then (Inl (make_error ''E_ID_NULL'' ''null memory-domain identity''), st)
      else if om_count (st_memory_domains st) (md_id md)
      then (Inl (make_error ''E_DUP'' ''duplicate memory domain id''), st)
      else (Inr (), st\<lparr>st_memory_domains := om_put (md_id md) md (st_memory_domains st)\<rparr>))"

definition register_dataset :: "DatasetDescriptor \<Rightarrow> RuntimeState \<Rightarrow> unit Result \<times> RuntimeState" where
  "register_dataset ds st =
     (if is_null (ds_id ds) \<or> is_null (ds_generation ds)
      then (Inl (make_error ''E_ID_NULL'' ''null dataset identity''), st)
      else if om_count (st_datasets st) (ds_id ds)
      then (Inl (make_error ''E_DUP'' ''duplicate dataset id''), st)
      else (Inr (), st\<lparr>st_datasets := om_put (ds_id ds) ds (st_datasets st)\<rparr>))"

definition register_region :: "DataRegionDescriptor \<Rightarrow> RuntimeState \<Rightarrow> unit Result \<times> RuntimeState" where
  "register_region rg st =
     (if is_null (rg_id rg) \<or> is_null (rg_generation rg)
      then (Inl (make_error ''E_ID_NULL'' ''null region identity''), st)
      else if om_count (st_regions st) (rg_id rg)
      then (Inl (make_error ''E_DUP'' ''duplicate region id''), st)
      else (Inr (), st\<lparr>st_regions := om_put (rg_id rg) rg (st_regions st)\<rparr>))"

definition register_program :: "Program \<Rightarrow> RuntimeState \<Rightarrow> unit Result \<times> RuntimeState" where
  "register_program pg st =
     (if is_null (pg_id pg) \<or> is_null (pg_generation pg)
      then (Inl (make_error ''E_ID_NULL'' ''null program identity''), st)
      else if om_count (st_programs st) (pg_id pg)
      then (Inl (make_error ''E_DUP'' ''duplicate program id''), st)
      else (Inr (), st\<lparr>st_programs := om_put (pg_id pg) pg (st_programs st)\<rparr>))"

definition register_policy :: "Policy \<Rightarrow> RuntimeState \<Rightarrow> unit Result \<times> RuntimeState" where
  "register_policy pl st =
     (if is_null (pol_id pl) \<or> is_null (pol_generation pl)
      then (Inl (make_error ''E_ID_NULL'' ''null policy identity''), st)
      else if pol_id pl = 1
      then (Inl (make_error ''E_RESERVED'' ''policy id 1 is the built-in default''), st)
      else if om_count (st_policies st) (pol_id pl)
      then (Inl (make_error ''E_DUP'' ''duplicate policy id''), st)
      else (Inr (), st\<lparr>st_policies := om_put (pol_id pl) pl (st_policies st)\<rparr>))"

definition create_operation :: "OperationSpec \<Rightarrow> RuntimeState \<Rightarrow> unit Result \<times> RuntimeState" where
  "create_operation op st =
     (if is_null (op_id op) \<or> is_null (op_generation op)
      then (Inl (make_error ''E_ID_NULL'' ''null operation identity''), st)
      else if om_count (st_operations st) (op_id op)
      then (Inl (make_error ''E_DUP'' ''duplicate operation id''), st)
      else (Inr (), st\<lparr>st_operations := om_put (op_id op) op (st_operations st)\<rparr>))"

section \<open>Worker evidence\<close>

definition bind_worker_session ::
    "WorkerId \<Rightarrow> WorkerBootId \<Rightarrow> string \<Rightarrow> RuntimeState \<Rightarrow> unit Result \<times> RuntimeState" where
  "bind_worker_session w boot name st =
     (Inr (), st\<lparr>st_workers := om_put w
        \<lparr>ws_worker = w, ws_boot = boot, ws_name = name, ws_connected = True\<rparr> (st_workers st)\<rparr>)"

definition apply_register_target :: "RegisterTargetMsg \<Rightarrow> RuntimeState \<Rightarrow> unit Result \<times> RuntimeState" where
  "apply_register_target msg st =
     (if is_null (rm_target msg) \<or> is_null (rm_generation msg)
      then (Inl (make_error ''E_ID_NULL'' ''null target identity''), st)
      else
        let def = TargetDefinition_default
              \<lparr>td_id := rm_target msg, td_generation := rm_generation msg,
               td_provider := rm_provider msg, td_kind := rm_kind msg, td_name := rm_name msg,
               td_synthetic := rm_synthetic msg, td_supported_ops := rm_ops msg,
               td_supported_data_types := rm_data_types msg,
               td_supported_layouts := rm_layouts msg,
               td_max_input_bytes := rm_max_input_bytes msg,
               td_alignment_constraint := rm_alignment msg,
               td_concurrency_capacity := rm_concurrency msg,
               td_workspace_bytes := rm_workspace msg, td_authority_owner := ''worker''\<rparr>;
            rt = TargetRuntime_default
              \<lparr>rt_id := rm_target msg, rt_owner_boot := rm_owner_boot msg,
               rt_lifecycle := TargetLifecycle.REGISTERED, rt_reachable := False,
               rt_dynamic_current := False\<rparr>
        in (Inr (), st\<lparr>st_targets := om_put (rm_target msg) def (st_targets st),
                      st_target_runtime := om_put (rm_target msg) rt (st_target_runtime st)\<rparr>))"

text \<open>The loop over the entries of a capability message draws one identity per entry.\<close>

primrec capability_entries ::
    "NearMemoryTargetId \<Rightarrow> CapabilityEntryWire list \<Rightarrow> (string \<rightharpoonup> CapabilityEntry) \<Rightarrow> UniqueIdSource
     \<Rightarrow> (string \<rightharpoonup> CapabilityEntry) \<times> UniqueIdSource" where
  "capability_entries target [] m ids = (m, ids)"
| "capability_entries target (e # es) m ids =
     (let (cid, ids) = make_id ids;
          en = \<lparr>ce_id = cid, ce_generation = 1, ce_target = target, ce_key = cw_key e,
                ce_state = cw_state e, ce_required_for_execution = True, ce_detail = ''''\<rparr>
      in capability_entries target es (m(cw_key e \<mapsto> en)) ids)"

definition apply_capability ::
    "CapabilityMsg \<Rightarrow> RuntimeState \<Rightarrow> UniqueIdSource \<Rightarrow> unit Result \<times> RuntimeState \<times> UniqueIdSource" where
  "apply_capability msg st ids =
     (if is_null (cm_target msg) then (Inl (make_error ''E_ID_NULL'' ''null target id''), st, ids)
      else case om_find (st_targets st) (cm_target msg) of
        None \<Rightarrow> (Inl (make_error ''E_TARGET_UNKNOWN'' ''target not registered''), st, ids)
      | Some tdef \<Rightarrow>
          let (eid, ids) = make_id ids;
              (entries, ids) = capability_entries (cm_target msg) (cm_entries msg) Map.empty ids;
              cs = \<lparr>cs_target = cm_target msg, cs_target_generation = td_generation tdef,
                    cs_generation = cm_generation msg, cs_entries = entries, cs_evidence_id = eid,
                    cs_evidence_generation = cm_evidence_generation msg,
                    cs_publisher = cm_publisher msg, cs_dynamic_current = True\<rparr>
          in (Inr (), st\<lparr>st_capabilities := om_put (cm_target msg) cs (st_capabilities st)\<rparr>, ids))"

definition apply_data_evidence :: "DataEvidenceMsg \<Rightarrow> RuntimeState \<Rightarrow> unit Result \<times> RuntimeState" where
  "apply_data_evidence msg st =
     (if is_null (dm_region msg) then (Inl (make_error ''E_ID_NULL'' ''null region id''), st)
      else
        let ev = \<lparr>ev_region = dm_region msg, ev_region_generation = dm_region_generation msg,
                  ev_dataset_generation = dm_dataset_generation msg,
                  ev_memory_domain = dm_memory_domain msg,
                  ev_memory_domain_generation = dm_memory_domain_generation msg,
                  ev_present = dm_present msg, ev_current = dm_current msg,
                  ev_reachable = dm_reachable msg, ev_integrity = IntegrityState.UNKNOWN,
                  ev_mutable = False, ev_dynamic_current = True, ev_evidence_id = 0,
                  ev_evidence_generation = 0, ev_publisher = dm_publisher msg,
                  ev_location_note = ''''\<rparr>
        in (Inr (), st\<lparr>st_data_evidence := om_put (dm_region msg) ev (st_data_evidence st)\<rparr>))"

definition apply_heartbeat :: "HeartbeatMsg \<Rightarrow> RuntimeState \<Rightarrow> unit Result \<times> RuntimeState" where
  "apply_heartbeat msg st =
     (case om_find (st_target_runtime st) (bm_target msg) of
        None \<Rightarrow> (Inl (make_error ''E_TARGET_UNKNOWN'' ''target runtime not found''), st)
      | Some rt \<Rightarrow>
          if rt_lifecycle rt = TargetLifecycle.RETIRED \<or> rt_lifecycle rt = TargetLifecycle.FAILED
          then (Inl (make_error ''E_TARGET_TERMINAL'' ''target is terminal; heartbeat ignored''), st)
          else
            let rt' = rt\<lparr>rt_lifecycle := bm_lifecycle msg, rt_reachable := bm_reachable msg,
                        rt_current_queue_depth := bm_queue_depth msg,
                        rt_performance := (rt_performance rt)
                          \<lparr>perf_latency_ns := bm_latency_ns msg,
                           perf_throughput_bps := bm_throughput_bps msg,
                           perf_confidence := bm_confidence msg, perf_measured := False\<rparr>,
                        rt_dynamic_current := True\<rparr>
            in (Inr (), st\<lparr>st_target_runtime := om_put (bm_target msg) rt' (st_target_runtime st)\<rparr>))"

section \<open>Staleness\<close>

text \<open>\<open>moved m k differs\<close>: the key is present and its value fails the comparison; an absent entry
  never makes a plan stale.\<close>

definition moved :: "('k, 'v) omap \<Rightarrow> 'k \<Rightarrow> ('v \<Rightarrow> bool) \<Rightarrow> bool" where
  "moved m k differs \<longleftrightarrow> (case om_find m k of None \<Rightarrow> False | Some v \<Rightarrow> differs v)"

definition staleness :: "RuntimeState \<Rightarrow> ExecutionPlan \<Rightarrow> StaleReason list" where
  "staleness st plan =
     (let s = pa_snapshot (plan_authority plan);
          oit = om_find (st_operations st) (plan_operation plan) in
      push_if (st_epoch st \<noteq> snap_epoch s) (stale ''epoch'' ''coordinator epoch moved'') @
      push_if (moved (st_target_runtime st) (plan_target plan) (\<lambda>rt. rt_owner_boot rt \<noteq> snap_worker_boot s))
        (stale ''worker_boot'' ''target owned by a different worker boot'') @
      push_if (moved (st_targets st) (plan_target plan) (\<lambda>d. td_generation d \<noteq> snap_target_generation s))
        (stale ''target_generation'' ''target generation moved'') @
      push_if (moved (st_datasets st) (plan_dataset plan) (\<lambda>d. ds_generation d \<noteq> snap_dataset_generation s))
        (stale ''dataset_generation'' ''dataset generation moved'') @
      push_if (moved (st_regions st) (plan_region plan) (\<lambda>r. rg_generation r \<noteq> snap_region_generation s))
        (stale ''region_generation'' ''region generation moved'') @
      push_if (case oit of None \<Rightarrow> False | Some op \<Rightarrow> op_generation op \<noteq> snap_operation_generation s)
        (stale ''operation_generation'' ''operation generation moved'') @
      push_if (moved (st_capabilities st) (plan_target plan) (\<lambda>c. cs_generation c \<noteq> snap_capability_generation s))
        (stale ''capability_generation'' ''capability generation moved'') @
      push_if (case (snap_program_generation s, oit) of
                 (Some g, Some op) \<Rightarrow>
                   (case op_program op of
                      None \<Rightarrow> False
                    | Some pid \<Rightarrow> moved (st_programs st) pid (\<lambda>pg. pg_generation pg \<noteq> g))
               | _ \<Rightarrow> False)
        (stale ''program_generation'' ''program generation moved'') @
      push_if (case oit of
                 None \<Rightarrow> False
               | Some op \<Rightarrow> moved (st_policies st) (op_policy op) (\<lambda>pl. pol_generation pl \<noteq> snap_policy_generation s))
        (stale ''policy_generation'' ''policy generation moved'') @
      push_if (moved (st_capabilities st) (plan_target plan) (\<lambda>c. cs_evidence_generation c \<noteq> snap_evidence_generation s))
        (stale ''evidence_generation'' ''evidence generation moved'') @
      push_if (moved (st_target_runtime st) (plan_target plan) (\<lambda>rt. \<not> rt_dynamic_current rt))
        (stale ''target_dynamic'' ''target dynamic evidence requires revalidation'') @
      push_if (moved (st_capabilities st) (plan_target plan) (\<lambda>c. \<not> cs_dynamic_current c))
        (stale ''capability_dynamic'' ''capability evidence requires revalidation'') @
      push_if (moved (st_data_evidence st) (plan_region plan) (\<lambda>ev. \<not> ev_dynamic_current ev))
        (stale ''data_dynamic'' ''data evidence requires revalidation'') @
      push_if (moved (st_data_evidence st) (plan_region plan) (\<lambda>ev. ev_dataset_generation ev \<noteq> snap_dataset_generation s))
        (stale ''dataset_generation'' ''data current/observed generation mismatch''))"

section \<open>Planning\<close>

record PlanOutput =
  po_plan :: ExecutionPlan
  po_decision :: Decision
  po_rejected :: "EligibilityReasonDetail list"
  po_ranked :: "RankedCandidate list"
  po_explanation :: "string list"
  po_created :: bool

definition PlanOutput_default :: PlanOutput where
  "PlanOutput_default =
     \<lparr>po_plan = ExecutionPlan_default, po_decision = Decision.REJECT, po_rejected = [],
      po_ranked = [], po_explanation = [], po_created = False\<rparr>"

definition filter_input ::
    "RuntimeState \<Rightarrow> OperationSpec \<Rightarrow> Policy \<Rightarrow> NearMemoryTargetId \<Rightarrow> TargetDefinition \<Rightarrow> TargetRuntime
     \<Rightarrow> CapabilitySet \<Rightarrow> HardFilterInput" where
  "filter_input st op policy tid tdef rt cs =
     \<lparr>hf_target = Some tdef, hf_runtime = Some rt, hf_op = Some op,
      hf_data = om_find (st_data_evidence st) (op_region op), hf_caps = Some cs,
      hf_program = (case op_program op of None \<Rightarrow> None | Some pid \<Rightarrow> om_find (st_programs st) pid),
      hf_policy = Some policy, hf_current_worker_boot = Some (rt_owner_boot rt),
      hf_current_target_generation =
        Some (td_generation (om_ref TargetDefinition_default tid (st_targets st)))\<rparr>"

definition transfer_estimate :: "OperationSpec \<Rightarrow> TransferEstimate" where
  "transfer_estimate op =
     TransferEstimate_default
       \<lparr>tr_bytes_to_move := op_input_bytes op,
        tr_bandwidth_bps := kDefaultConventionalBandwidthBps,
        tr_latency_ns := kDefaultConventionalLatencyNs,
        tr_staging_cost_ns := 0, tr_serialization_cost_ns := 0, tr_registration_cost_ns := 0\<rparr>"

definition conventional_cost :: "OperationSpec \<Rightarrow> ComputeCostEstimate" where
  "conventional_cost op =
     ComputeCostEstimate_default
       \<lparr>cc_execution_ns := op_input_bytes op, cc_setup_ns := 0, cc_queue_delay_ns := 0,
        cc_result_return_bytes := op_output_bytes op\<rparr>"

definition near_cost :: "OperationSpec \<Rightarrow> PerfEstimate \<Rightarrow> ComputeCostEstimate" where
  "near_cost op perf =
     ComputeCostEstimate_default
       \<lparr>cc_execution_ns := perf_latency_ns perf, cc_setup_ns := perf_setup_ns perf,
        cc_queue_delay_ns := perf_latency_ns perf, cc_result_return_bytes := op_output_bytes op,
        cc_confidence := perf_confidence perf\<rparr>"

text \<open>The economics of a candidate are always defined: at the default bandwidth no cast is out of
  range (\<open>economics_defined\<close>).\<close>

definition candidate_economics :: "OperationSpec \<Rightarrow> TargetRuntime \<Rightarrow> EconomicsResult" where
  "candidate_economics op rt =
     the (choose_path (transfer_estimate op) (conventional_cost op) (near_cost op (rt_performance rt)))"

lemma economics_defined:
  "choose_path (transfer_estimate op) (conventional_cost op) (near_cost op (rt_performance rt)) =
     Some (candidate_economics op rt)"
proof -
  have "2000000000 \<le> tr_bandwidth_bps (transfer_estimate op)"
    by (simp add: transfer_estimate_def kDefaultConventionalBandwidthBps_def)
  from choose_path_defined [OF this] show ?thesis
    by (auto simp: candidate_economics_def)
qed

definition make_candidate ::
    "NearMemoryTargetId \<Rightarrow> TargetDefinition \<Rightarrow> TargetRuntime \<Rightarrow> OperationSpec \<Rightarrow> RankedCandidate" where
  "make_candidate tid tdef rt op =
     (let perf = rt_performance rt; near = near_cost op perf; econ = candidate_economics op rt in
      \<lparr>rc_target = tid, rc_generation = td_generation tdef, rc_decision = er_decision econ,
       rc_movement_avoided_bytes = er_movement_avoided_bytes econ,
       rc_total_cost_ns = er_near_total_ns econ,
       rc_estimated_latency_ns = cc_execution_ns near + cc_setup_ns near + cc_queue_delay_ns near,
       rc_confidence = perf_confidence perf, rc_factors = er_explanation econ\<rparr>)"

text \<open>One iteration of the candidate loop.\<close>

definition consider_target ::
    "RuntimeState \<Rightarrow> OperationSpec \<Rightarrow> Policy \<Rightarrow> PlanOutput \<Rightarrow> NearMemoryTargetId \<times> TargetDefinition
     \<Rightarrow> PlanOutput" where
  "consider_target st op policy out p =
     (case p of (tid, tdef) \<Rightarrow>
      case om_find (st_target_runtime st) tid of
        None \<Rightarrow> out
      | Some rt \<Rightarrow>
      case om_find (st_capabilities st) tid of
        None \<Rightarrow> out
      | Some cs \<Rightarrow>
        let reasons = hard_filter (filter_input st op policy tid tdef rt cs) in
        if reasons \<noteq> [] then
          out\<lparr>po_rejected := po_rejected out @ reasons,
              po_explanation := po_explanation out @
                [''target '' @ to_string_u64 tid @ '' rejected: '' @
                 to_string_EligibilityReason (erd_reason (hd reasons))]\<rparr>
        else out\<lparr>po_ranked := po_ranked out @ [make_candidate tid tdef rt op]\<rparr>)"

definition bind_authority ::
    "RuntimeState \<Rightarrow> OperationSpec \<Rightarrow> NearMemoryTargetId \<Rightarrow> TargetDefinition \<Rightarrow> TargetRuntime \<Rightarrow> CapabilitySet
     \<Rightarrow> AuthoritySnapshot" where
  "bind_authority st op target tdef trt cit =
     \<lparr>snap_epoch = st_epoch st, snap_worker_boot = rt_owner_boot trt, snap_target = target,
      snap_target_generation = td_generation tdef,
      snap_memory_domain_generation =
        (case om_find (st_data_evidence st) (op_region op) of
           None \<Rightarrow> 1 | Some data \<Rightarrow> ev_memory_domain_generation data),
      snap_dataset_generation = op_dataset_generation op,
      snap_region_generation = op_region_generation op,
      snap_operation_generation = op_generation op,
      snap_program_generation = op_program_generation op,
      snap_capability_generation = cs_generation cit,
      snap_policy_generation = op_policy_generation op,
      snap_evidence_generation = cs_evidence_generation cit,
      snap_plan_generation = 1\<rparr>"

definition new_plan ::
    "ExecutionPlanId \<Rightarrow> OperationSpec \<Rightarrow> NearMemoryTargetId \<Rightarrow> TargetDefinition \<Rightarrow> AuthoritySnapshot
     \<Rightarrow> ExecutionPlan" where
  "new_plan pid op target tdef snap =
     ExecutionPlan_default
       \<lparr>plan_id := pid, plan_generation := 1, plan_target := target,
        plan_target_generation := td_generation tdef, plan_operation := op_id op,
        plan_op_class := op_op_class op, plan_dataset := op_dataset op,
        plan_dataset_generation := op_dataset_generation op, plan_region := op_region op,
        plan_region_generation := op_region_generation op,
        plan_lifecycle := ExecutionLifecycle.PLANNED, plan_retry_class := op_retry_class op,
        plan_decision := Decision.NEAR_MEMORY_SELECTED,
        plan_authority := \<lparr>pa_snapshot = snap, pa_plan = pid, pa_plan_generation = 1\<rparr>\<rparr>"

text \<open>\<^verbatim>\<open>CapabilitySet{}\<close>, what \<^verbatim>\<open>st_.capabilities[...]\<close> would create for a missing key; the best
  candidate comes from the loop, so the three lookups after the ranking find their keys and
  insert nothing.\<close>

definition CapabilitySet_default :: CapabilitySet where
  "CapabilitySet_default =
     \<lparr>cs_target = 0, cs_target_generation = 0, cs_generation = 0, cs_entries = Map.empty,
      cs_evidence_id = 0, cs_evidence_generation = 0, cs_publisher = 0,
      cs_dynamic_current = False\<rparr>"

definition plan_candidates :: "RuntimeState \<Rightarrow> OperationSpec \<Rightarrow> Policy \<Rightarrow> PlanOutput" where
  "plan_candidates st op policy =
     (let out = foldl (consider_target st op policy) PlanOutput_default (st_targets st)
      in out\<lparr>po_ranked := rank_candidates (po_ranked out)\<rparr>)"

definition plan_op ::
    "OperationId \<Rightarrow> RuntimeState \<Rightarrow> UniqueIdSource \<Rightarrow> PlanOutput Result \<times> RuntimeState \<times> UniqueIdSource" where
  "plan_op oid st ids =
     (case om_find (st_operations st) oid of
        None \<Rightarrow> (Inl (make_error ''E_PLAN_OP'' ''operation not registered''), st, ids)
      | Some op \<Rightarrow>
      case om_find (st_policies st) (op_policy op) of
        None \<Rightarrow> (Inl (make_error ''E_PLAN_POLICY'' ''operation references a missing policy''), st, ids)
      | Some policy \<Rightarrow>
        if om_count (st_active_plans st) (op_id op)
        then (Inl (make_error ''E_PLAN_ACTIVE'' ''an active plan already exists for this operation''), st, ids)
        else
          let out = plan_candidates st op policy in
          case po_ranked out of
            [] \<Rightarrow>
              let d = (if pol_outcome policy = PolicyOutcome.NEAR_MEMORY_REQUIRED
                       then Decision.REJECT else Decision.MOVEMENT_REQUIRED)
              in (Inr (out\<lparr>po_decision := d,
                           po_explanation := po_explanation out @
                             [''no eligible near-memory target; '' @ to_string_Decision d]\<rparr>), st, ids)
          | best # _ \<Rightarrow>
              if rc_decision best \<noteq> Decision.NEAR_MEMORY_SELECTED
              then (Inr (out\<lparr>po_decision := rc_decision best,
                             po_explanation := po_explanation out @
                               [''best eligible candidate still not economically justified; '' @
                                to_string_Decision (rc_decision best)]\<rparr>), st, ids)
              else
                let target = rc_target best;
                    trt = om_ref TargetRuntime_default target (st_target_runtime st);
                    tdef = om_ref TargetDefinition_default target (st_targets st);
                    cit = om_ref CapabilitySet_default target (st_capabilities st);
                    (pid, ids) = make_id ids;
                    plan = new_plan pid op target tdef (bind_authority st op target tdef trt cit)
                in (Inr (out\<lparr>po_plan := plan, po_decision := Decision.NEAR_MEMORY_SELECTED,
                             po_created := True,
                             po_explanation := po_explanation out @
                               [''selected target '' @ to_string_u64 target @ '' ('' @ td_name tdef @ '')'']\<rparr>),
                    st\<lparr>st_plans := om_put pid plan (st_plans st),
                       st_active_plans := om_put (op_id op) pid (st_active_plans st)\<rparr>, ids))"

section \<open>Reservation and dispatch\<close>

text \<open>\<^verbatim>\<open>ExecutionPlan& plan = pit->second\<close>: writing through the reference.\<close>

definition set_plan :: "ExecutionPlanId \<Rightarrow> ExecutionPlan \<Rightarrow> RuntimeState \<Rightarrow> RuntimeState" where
  "set_plan pid plan st = st\<lparr>st_plans := om_put pid plan (st_plans st)\<rparr>"

text \<open>\<^verbatim>\<open>st_.targets[...]\<close> and \<^verbatim>\<open>st_.reservations[...]\<close> create missing entries, also on the error paths
  that follow them.\<close>

definition reserve :: "ExecutionPlanId \<Rightarrow> RuntimeState \<Rightarrow> unit Result \<times> RuntimeState" where
  "reserve pid st =
     (case om_find (st_plans st) pid of
        None \<Rightarrow> (Inl (make_error ''E_PLAN_NOT_FOUND'' ''plan not found''), st)
      | Some plan \<Rightarrow>
      if plan_lifecycle plan \<noteq> ExecutionLifecycle.PLANNED
      then (Inl (make_error ''E_PLAN_STATE'' ''plan not in PLANNED state for reservation''), st)
      else case om_find (st_target_runtime st) (plan_target plan) of
        None \<Rightarrow> (Inl (make_error ''E_TARGET_UNKNOWN'' ''target runtime missing''), st)
      | Some trt \<Rightarrow>
        let t = plan_target plan;
            tdef = om_ref TargetDefinition_default t (st_targets st);
            rs = om_ref ReservationState_default t (st_reservations st);
            st = st\<lparr>st_targets := om_ensure TargetDefinition_default t (st_targets st),
                    st_reservations := om_ensure ReservationState_default t (st_reservations st)\<rparr>
        in
        if rv_reserved_slots rs \<ge> ucast (td_concurrency_capacity tdef)
        then (Inl (make_error ''E_CONCURRENCY'' ''target concurrency capacity exhausted''), st)
        else if rv_reserved_workspace rs > td_workspace_bytes tdef
        then (Inl (make_error ''E_WORKSPACE'' ''target workspace exhausted''), st)
        else if rt_lifecycle trt = TargetLifecycle.DRAINING \<or>
                rt_lifecycle trt = TargetLifecycle.DEGRADED \<or>
                rt_lifecycle trt = TargetLifecycle.REVALIDATION_REQUIRED
        then (Inl (make_error ''E_DRAIN'' ''target not accepting new admission''), st)
        else
          let op_ws = (case om_find (st_operations st) (plan_operation plan) of
                         None \<Rightarrow> 0 | Some op \<Rightarrow> op_workspace_bytes op) in
          if rv_reserved_workspace rs + op_ws > td_workspace_bytes tdef
          then (Inl (make_error ''E_WORKSPACE'' ''target workspace budget exceeded''), st)
          else
            let rs' = \<lparr>rv_reserved_slots = rv_reserved_slots rs + 1,
                       rv_reserved_workspace = rv_reserved_workspace rs + op_ws\<rparr>;
                plan' = plan\<lparr>plan_reserved_slots := 1, plan_reserved_workspace := op_ws,
                            plan_lifecycle := ExecutionLifecycle.RESERVED\<rparr>
            in (Inr (), set_plan pid plan'
                  (st\<lparr>st_reservations := om_put t rs' (st_reservations st)\<rparr>)))"

record DispatchOutput =
  dout_ready :: bool
  dout_message :: DispatchMsg
  dout_worker :: WorkerId

definition stale_summary :: "StaleReason list \<Rightarrow> string" where
  "stale_summary reasons = concat (map (\<lambda>s. sr_dimension s @ ''; '') reasons)"

definition dispatch_message ::
    "RuntimeState \<Rightarrow> ExecutionPlan \<Rightarrow> OperationSpec \<Rightarrow> WorkerBootId \<Rightarrow> DispatchId \<Rightarrow> AttemptId \<Rightarrow> DispatchMsg" where
  "dispatch_message st plan op boot did aid =
     \<lparr>dp_plan = plan_id plan, dp_plan_gen = plan_generation plan, dp_dispatch = did,
      dp_attempt = aid, dp_target = plan_target plan, dp_target_gen = plan_target_generation plan,
      dp_worker_boot = boot, dp_epoch = st_epoch st,
      dp_dataset_gen = plan_dataset_generation plan, dp_region_gen = plan_region_generation plan,
      dp_operation_gen = op_generation op, dp_has_program = (op_program op \<noteq> None),
      dp_program_gen = (if op_program op \<noteq> None
                        then (case op_program_generation op of None \<Rightarrow> 1 | Some g \<Rightarrow> g) else 0),
      dp_op_class = op_op_class op, dp_data_type = sh_data_type (op_shape op),
      dp_retry_class = op_retry_class op,
      dp_idempotent = (op_retry_class op = RetryClass.IDEMPOTENT \<or>
                       op_retry_class op = RetryClass.REPLAY_SAFE),
      dp_require_verification = (op_integrity op = IntegrityRequirement.CHECKED \<or>
                                 op_integrity op = IntegrityRequirement.STRICT),
      dp_payload = build_sample_payload op\<rparr>"

definition prepare_dispatch ::
    "ExecutionPlanId \<Rightarrow> DispatchId \<Rightarrow> AttemptId \<Rightarrow> RuntimeState \<Rightarrow> DispatchOutput Result \<times> RuntimeState" where
  "prepare_dispatch pid did aid st =
     (case om_find (st_plans st) pid of
        None \<Rightarrow> (Inl (make_error ''E_PLAN_NOT_FOUND'' ''plan not found''), st)
      | Some plan \<Rightarrow>
      if plan_lifecycle plan \<noteq> ExecutionLifecycle.RESERVED
      then (Inl (make_error ''E_PLAN_STATE'' ''plan must be RESERVED before dispatch''), st)
      else
        let stale = staleness st plan in
        if stale \<noteq> []
        then (Inl (make_error ''E_STALE_PLAN'' (''plan stale before dispatch: '' @ stale_summary stale)),
              set_plan pid (plan\<lparr>plan_lifecycle := ExecutionLifecycle.SUPERSEDED\<rparr>) st)
        else case om_find (st_operations st) (plan_operation plan) of
          None \<Rightarrow> (Inl (make_error ''E_PLAN_OP'' ''operation missing at dispatch''), st)
        | Some op \<Rightarrow>
        case om_find (st_target_runtime st) (plan_target plan) of
          None \<Rightarrow> (Inl (make_error ''E_TARGET_UNKNOWN'' ''target runtime missing''), st)
        | Some trt \<Rightarrow>
          let boot = rt_owner_boot trt in
          case find (\<lambda>(wid, ws). ws_boot ws = boot) (st_workers st) of
            None \<Rightarrow> (Inl (make_error ''E_WORKER_UNKNOWN'' ''no worker session bound to target boot''), st)
          | Some (worker, _) \<Rightarrow>
              (Inr \<lparr>dout_ready = True, dout_message = dispatch_message st plan op boot did aid,
                    dout_worker = worker\<rparr>,
               set_plan pid (plan\<lparr>plan_dispatch_id := Some did, plan_attempt_id := Some aid\<rparr>) st))"

definition confirm_dispatched ::
    "ExecutionPlanId \<Rightarrow> DispatchId \<Rightarrow> RuntimeState \<Rightarrow> unit Result \<times> RuntimeState" where
  "confirm_dispatched pid did st =
     (case om_find (st_plans st) pid of
        None \<Rightarrow> (Inl (make_error ''E_PLAN_NOT_FOUND'' ''plan not found''), st)
      | Some plan \<Rightarrow>
      if plan_dispatch_id plan \<noteq> Some did
      then (Inl (make_error ''E_DISPATCH_MISMATCH'' ''dispatch id mismatch''), st)
      else if plan_lifecycle plan \<noteq> ExecutionLifecycle.RESERVED
      then (Inl (make_error ''E_PLAN_STATE'' ''plan not in RESERVED state''), st)
      else (Inr (), set_plan pid (plan\<lparr>plan_lifecycle := ExecutionLifecycle.DISPATCHED\<rparr>) st))"

section \<open>Completion\<close>

definition completion_authority :: "ResultMsg \<Rightarrow> CompletionAuthority" where
  "completion_authority msg =
     \<lparr>ca_plan = rs_plan msg, ca_plan_generation = rs_plan_gen msg, ca_dispatch = rs_dispatch msg,
      ca_attempt = rs_attempt msg, ca_target = rs_target msg,
      ca_target_generation = rs_target_gen msg, ca_worker_boot = rs_worker_boot msg,
      ca_epoch = rs_epoch msg, ca_dataset_generation = rs_dataset_gen msg,
      ca_region_generation = rs_region_gen msg, ca_result_generation = rs_result_gen msg,
      ca_operation_generation = rs_operation_gen msg\<rparr>"

text \<open>The tests of \<^verbatim>\<open>apply_result\<close> that come before any mutation: the error they return, if any.\<close>

definition result_rejected :: "ResultMsg \<Rightarrow> ExecutionPlan \<Rightarrow> RuntimeState \<Rightarrow> Error option" where
  "result_rejected msg plan st =
     (if plan_lifecycle plan = ExecutionLifecycle.COMMITTED
      then Some (make_error ''E_RESULT_DUP'' ''plan already committed (duplicate completion)'')
      else if plan_lifecycle plan = ExecutionLifecycle.CANCELLED \<or>
              plan_lifecycle plan = ExecutionLifecycle.FENCED \<or>
              plan_lifecycle plan = ExecutionLifecycle.SUPERSEDED
      then Some (make_error ''E_RESULT_STALE'' ''completion after cancellation/supersession'')
      else if \<not> executing (plan_lifecycle plan)
      then Some (make_error ''E_RESULT_STATE'' ''completion in unexpected plan state'')
      else if rs_epoch msg \<noteq> st_epoch st
      then Some (make_error ''E_RESULT_STALE'' ''completion carries a stale coordinator epoch'')
      else if moved (st_targets st) (rs_target msg) (\<lambda>d. td_generation d \<noteq> rs_target_gen msg)
      then Some (make_error ''E_RESULT_STALE'' ''completion carries a stale target generation'')
      else if moved (st_target_runtime st) (rs_target msg) (\<lambda>rt. rt_owner_boot rt \<noteq> rs_worker_boot msg)
      then Some (make_error ''E_RESULT_STALE'' ''completion carries a stale worker boot'')
      else
        let stale = validate_completion_against_plan (completion_authority msg) (plan_authority plan) in
        if stale \<noteq> []
        then Some (make_error ''E_RESULT_STALE'' (''stale completion authority: '' @ stale_summary stale))
        else if plan_dispatch_id plan \<noteq> Some (rs_dispatch msg)
        then Some (make_error ''E_DISPATCH_MISMATCH'' ''dispatch id mismatch'')
        else if plan_attempt_id plan \<noteq> Some (rs_attempt msg)
        then Some (make_error ''E_ATTEMPT_MISMATCH'' ''attempt id mismatch'')
        else None)"

definition result_record :: "ResultId \<Rightarrow> ResultMsg \<Rightarrow> ExecutionResult" where
  "result_record rid msg =
     ExecutionResult_default
       \<lparr>res_id := rid, res_generation := rs_result_gen msg, res_plan := rs_plan msg,
        res_plan_generation := rs_plan_gen msg, res_dispatch := rs_dispatch msg,
        res_attempt := rs_attempt msg, res_target := rs_target msg,
        res_target_generation := rs_target_gen msg, res_worker_boot := rs_worker_boot msg,
        res_epoch := rs_epoch msg, res_dataset_generation := rs_dataset_gen msg,
        res_region_generation := rs_region_gen msg,
        res_operation_generation := rs_operation_gen msg,
        res_output_bytes := word_of_nat (length (rs_output msg)), res_note := rs_note msg\<rparr>"

text \<open>Recording a completion: the plan's new lifecycle, its operation leaves the active index, the
  result is stored.\<close>

definition finish_plan ::
    "ExecutionPlanId \<Rightarrow> ExecutionPlan \<Rightarrow> ExecutionLifecycle \<Rightarrow> ExecutionResult \<Rightarrow> RuntimeState \<Rightarrow> RuntimeState" where
  "finish_plan pid plan l res st =
     (set_plan pid (plan\<lparr>plan_lifecycle := l\<rparr>) st)
       \<lparr>st_active_plans := om_erase (plan_operation plan) (st_active_plans st),
        st_results := om_put (res_id res) res (st_results st)\<rparr>"

definition release_reservation :: "ExecutionPlan \<Rightarrow> RuntimeState \<Rightarrow> RuntimeState" where
  "release_reservation plan st =
     (case om_find (st_reservations st) (plan_target plan) of
        None \<Rightarrow> st
      | Some rs \<Rightarrow>
          let slots = (if rv_reserved_slots rs > 0 then rv_reserved_slots rs - 1 else rv_reserved_slots rs);
              wsp = (if rv_reserved_workspace rs \<ge> plan_reserved_workspace plan
                     then rv_reserved_workspace rs - plan_reserved_workspace plan
                     else rv_reserved_workspace rs)
          in st\<lparr>st_reservations := om_put (plan_target plan)
                 \<lparr>rv_reserved_slots = slots, rv_reserved_workspace = wsp\<rparr> (st_reservations st)\<rparr>)"

definition apply_result ::
    "ResultMsg \<Rightarrow> RuntimeState \<Rightarrow> UniqueIdSource \<Rightarrow> ExecutionResult Result \<times> RuntimeState \<times> UniqueIdSource" where
  "apply_result msg st ids =
     (case om_find (st_plans st) (rs_plan msg) of
        None \<Rightarrow> (Inl (make_error ''E_RESULT_PLAN'' ''result references unknown plan''), st, ids)
      | Some plan \<Rightarrow>
      case result_rejected msg plan st of
        Some e \<Rightarrow> (Inl e, st, ids)
      | None \<Rightarrow>
        let (rid, ids) = make_id ids; res = result_record rid msg in
        if rs_unknown msg then
          let res = res\<lparr>res_ambiguous := True, res_verification := VerifyState.UNKNOWN\<rparr>
          in (Inr res, finish_plan (rs_plan msg) plan ExecutionLifecycle.OUTCOME_UNKNOWN res st, ids)
        else if to_hex (content_digest (rs_output msg)) \<noteq> rs_output_digest msg then
          let res = res\<lparr>res_verification := VerifyState.MISMATCH,
                        res_output_digest := rs_output_digest msg\<rparr>
          in (Inr res, finish_plan (rs_plan msg) plan ExecutionLifecycle.FAILED res st, ids)
        else
          let res = res\<lparr>res_verification := VerifyState.VERIFIED,
                        res_output_digest := rs_output_digest msg, res_committed := True\<rparr>
          in (Inr res,
              release_reservation plan
                (finish_plan (rs_plan msg) plan ExecutionLifecycle.COMMITTED res st), ids))"

section \<open>Drain, cancellation and failure\<close>

definition begin_drain :: "NearMemoryTargetId \<Rightarrow> RuntimeState \<Rightarrow> unit Result \<times> RuntimeState" where
  "begin_drain target st =
     (case om_find (st_target_runtime st) target of
        None \<Rightarrow> (Inl (make_error ''E_TARGET_UNKNOWN'' ''target runtime not found''), st)
      | Some rt \<Rightarrow>
          if rt_lifecycle rt = TargetLifecycle.RETIRED \<or> rt_lifecycle rt = TargetLifecycle.FAILED
          then (Inl (make_error ''E_TARGET_STATE'' ''target is terminal''), st)
          else (Inr (), st\<lparr>st_target_runtime :=
                 om_put target (rt\<lparr>rt_lifecycle := TargetLifecycle.DRAINING\<rparr>) (st_target_runtime st)\<rparr>))"

definition cancel_plan :: "ExecutionPlanId \<Rightarrow> RuntimeState \<Rightarrow> unit Result \<times> RuntimeState" where
  "cancel_plan pid st =
     (case om_find (st_plans st) pid of
        None \<Rightarrow> (Inl (make_error ''E_PLAN_NOT_FOUND'' ''plan not found''), st)
      | Some plan \<Rightarrow>
          if terminal (plan_lifecycle plan)
          then (Inl (make_error ''E_PLAN_STATE'' ''plan is terminal; cannot cancel''), st)
          else
            let st = release_reservation plan st;
                st = set_plan pid (plan\<lparr>plan_lifecycle := ExecutionLifecycle.CANCELLED\<rparr>) st
            in (Inr (), st\<lparr>st_active_plans := om_erase (plan_operation plan) (st_active_plans st)\<rparr>))"

definition fence_plan :: "WorkerBootId \<Rightarrow> ExecutionPlan \<Rightarrow> ExecutionPlan" where
  "fence_plan boot plan =
     (if snap_worker_boot (pa_snapshot (plan_authority plan)) = boot \<and>
         \<not> terminal (plan_lifecycle plan)
      then plan\<lparr>plan_lifecycle :=
             (if executing (plan_lifecycle plan) then ExecutionLifecycle.OUTCOME_UNKNOWN
              else ExecutionLifecycle.FENCED)\<rparr>
      else plan)"

text \<open>\<^verbatim>\<open>on_worker_disconnected\<close> repeats the body of \<^verbatim>\<open>fence_worker\<close>.\<close>

definition fence_body :: "WorkerBootId \<Rightarrow> RuntimeState \<Rightarrow> RuntimeState" where
  "fence_body boot st =
     rebuild_active_plans
       (st\<lparr>st_target_runtime :=
             om_for_each (\<lambda>rt. if rt_owner_boot rt = boot then revalidate_runtime rt else rt)
               (st_target_runtime st),
           st_capabilities :=
             om_for_each (\<lambda>cs. if cs_publisher cs = boot then cs\<lparr>cs_dynamic_current := False\<rparr> else cs)
               (st_capabilities st),
           st_data_evidence :=
             om_for_each (\<lambda>ev. if ev_publisher ev = boot then ev\<lparr>ev_dynamic_current := False\<rparr> else ev)
               (st_data_evidence st),
           st_plans := om_for_each (fence_plan boot) (st_plans st)\<rparr>)"

definition fence_worker :: "WorkerBootId \<Rightarrow> RuntimeState \<Rightarrow> unit Result \<times> RuntimeState" where
  "fence_worker boot st = (Inr (), fence_body boot st)"

definition on_worker_disconnected :: "WorkerBootId \<Rightarrow> RuntimeState \<Rightarrow> unit Result \<times> RuntimeState" where
  "on_worker_disconnected boot st =
     (Inr (), fence_body boot
        (st\<lparr>st_workers := om_for_each (\<lambda>ws. if ws_boot ws = boot then ws\<lparr>ws_connected := False\<rparr> else ws)
              (st_workers st)\<rparr>))"

definition retire_plan :: "NearMemoryTargetId \<Rightarrow> ExecutionPlan \<Rightarrow> ExecutionPlan" where
  "retire_plan target plan =
     (if plan_target plan = target \<and> \<not> terminal (plan_lifecycle plan)
      then plan\<lparr>plan_lifecycle := ExecutionLifecycle.FENCED\<rparr> else plan)"

definition retire_target :: "NearMemoryTargetId \<Rightarrow> RuntimeState \<Rightarrow> unit Result \<times> RuntimeState" where
  "retire_target target st =
     (case om_find (st_target_runtime st) target of
        None \<Rightarrow> (Inl (make_error ''E_TARGET_UNKNOWN'' ''target runtime not found''), st)
      | Some rt \<Rightarrow>
          (Inr (), rebuild_active_plans
             (st\<lparr>st_target_runtime :=
                   om_put target (rt\<lparr>rt_lifecycle := TargetLifecycle.RETIRED, rt_reachable := False,
                                     rt_dynamic_current := False\<rparr>) (st_target_runtime st),
                 st_plans := om_for_each (retire_plan target) (st_plans st)\<rparr>)))"

section \<open>Queries\<close>

definition has_target :: "NearMemoryTargetId \<Rightarrow> RuntimeState \<Rightarrow> bool" where
  "has_target t st \<longleftrightarrow> om_count (st_targets st) t"

definition has_operation :: "OperationId \<Rightarrow> RuntimeState \<Rightarrow> bool" where
  "has_operation op st \<longleftrightarrow> om_count (st_operations st) op"

definition has_plan :: "ExecutionPlanId \<Rightarrow> RuntimeState \<Rightarrow> bool" where
  "has_plan p st \<longleftrightarrow> om_count (st_plans st) p"

definition has_result :: "ExecutionPlanId \<Rightarrow> RuntimeState \<Rightarrow> bool" where
  "has_result p st \<longleftrightarrow> list_ex (\<lambda>(_, r). res_plan r = p) (st_results st)"

definition result_of :: "ExecutionPlanId \<Rightarrow> RuntimeState \<Rightarrow> ExecutionResult" where
  "result_of p st =
     (case find (\<lambda>(_, r). res_plan r = p) (st_results st) of
        Some (_, r) \<Rightarrow> r
      | None \<Rightarrow> ExecutionResult_default)"

definition lifecycle_of :: "ExecutionPlanId \<Rightarrow> RuntimeState \<Rightarrow> ExecutionLifecycle" where
  "lifecycle_of p st =
     (case om_find (st_plans st) p of
        None \<Rightarrow> ExecutionLifecycle.PLANNED
      | Some plan \<Rightarrow> plan_lifecycle plan)"

definition target_generation :: "NearMemoryTargetId \<Rightarrow> RuntimeState \<Rightarrow> NearMemoryTargetGeneration" where
  "target_generation t st =
     (case om_find (st_targets st) t of None \<Rightarrow> 0 | Some d \<Rightarrow> td_generation d)"

text \<open>The plain-text state dump; the line break is the character \<open>CHR 0x0A\<close>.\<close>

definition inspect_target :: "RuntimeState \<Rightarrow> NearMemoryTargetId \<times> TargetDefinition \<Rightarrow> string" where
  "inspect_target st p =
     (case p of (tid, def) \<Rightarrow>
      let rt = om_ref TargetRuntime_default tid (st_target_runtime st);
          cls = (if td_synthetic def then ''SYNTHETIC''
                 else if rt_dynamic_current rt \<and> rt_reachable rt then ''REAL''
                 else if td_kind def = TargetKind.HOST_CPU_LOCAL then ''REAL''
                 else ''UNKNOWN'')
      in ''  target '' @ to_string_u64 tid @ '' gen='' @ to_string_u64 (td_generation def) @
         '' kind='' @ to_string_TargetKind (td_kind def) @
         '' provider='' @ to_string_ProviderKind (td_provider def) @ '' class='' @ cls @
         '' lifecycle='' @ to_string_TargetLifecycle (rt_lifecycle rt) @
         '' reachable='' @ (if rt_reachable rt then ''yes'' else ''no'') @ [CHR 0x0A])"

definition inspect_text :: "RuntimeState \<Rightarrow> string" where
  "inspect_text st =
     ''coordinator='' @ to_string_u64 (st_coordinator_id st) @
     '' epoch='' @ to_string_u64 (st_epoch st) @ [CHR 0x0A] @
     ''memory_domains='' @ nat_to_base 10 (length (st_memory_domains st)) @
     '' datasets='' @ nat_to_base 10 (length (st_datasets st)) @
     '' regions='' @ nat_to_base 10 (length (st_regions st)) @
     '' targets='' @ nat_to_base 10 (length (st_targets st)) @
     '' operations='' @ nat_to_base 10 (length (st_operations st)) @
     '' plans='' @ nat_to_base 10 (length (st_plans st)) @
     '' results='' @ nat_to_base 10 (length (st_results st)) @ [CHR 0x0A] @
     concat (map (inspect_target st) (st_targets st))"

end
