(* ===== verification/Net.thy ===== *)
theory Net
  imports Messages
begin

text \<open>
  Framed transport: \<^verbatim>\<open>TcpSocket::send_all\<close>, \<^verbatim>\<open>TcpSocket::recv_all\<close>, \<^verbatim>\<open>send_frame\<close> and
  \<^verbatim>\<open>recv_frame\<close> of \<^verbatim>\<open>src/net.cpp\<close>.  The operating system's \<^verbatim>\<open>send\<close> and \<^verbatim>\<open>recv\<close> are a
  parameter: the list of outcomes of the successive calls.  A loop that still waits when the list is
  used up is \<^const>\<open>None\<close>.  The lemmas show that the loops do not depend on how the bytes are cut
  into segments, that a frame sent is the frame received, that an accepted frame is exactly the
  bytes on the wire, and that a corrupted byte is noticed.
\<close>

section \<open>Socket loops\<close>

definition WSAEINTR :: int where
  "WSAEINTR = 10004"

definition WSAECONNABORTED :: int where
  "WSAECONNABORTED = 10053"

definition WSAECONNRESET :: int where
  "WSAECONNRESET = 10054"

definition to_string_int :: "int \<Rightarrow> string" where
  "to_string_int n = (if n < 0 then ''-'' else []) @ nat_to_base 10 (nat \<bar>n\<bar>)"

datatype SendCall = Sent nat | SendError int

datatype RecvCall = Received "u8 list" | RecvError int

text \<open>Besides the result, the bytes handed to the operating system.\<close>

fun send_loop :: "u8 list \<Rightarrow> SendCall list \<Rightarrow> (unit Result \<times> u8 list) option" where
  "send_loop [] calls = Some (Inr (), [])"
| "send_loop (b # bs) [] = None"
| "send_loop (b # bs) (SendError e # calls) =
     (if e = WSAEINTR then send_loop (b # bs) calls
      else Some (Inl (make_error ''E_NET_SEND'' (''send failed: '' @ to_string_int e)), []))"
| "send_loop (b # bs) (Sent r # calls) =
     (if r = 0 then Some (Inl (make_error ''E_NET_SEND'' ''send returned 0 (connection closed)''), [])
      else map_option (map_prod id (\<lambda>out. take r (b # bs) @ out)) (send_loop (drop r (b # bs)) calls))"

definition send_all :: "bool \<Rightarrow> u8 list \<Rightarrow> SendCall list \<Rightarrow> (unit Result \<times> u8 list) option" where
  "send_all valid data calls =
     (if \<not> valid then Some (Inl (make_error ''E_NET_SEND'' ''socket not valid''), [])
      else send_loop data calls)"

text \<open>The result, \<^verbatim>\<open>peer_closed\<close>, the bytes written to the caller's buffer and the calls not used.\<close>

type_synonym RecvOutcome = "unit Result \<times> bool \<times> u8 list \<times> RecvCall list"

fun recv_loop :: "nat \<Rightarrow> u8 list \<Rightarrow> RecvCall list \<Rightarrow> RecvOutcome option" where
  "recv_loop n buf [] = (if length buf < n then None else Some (Inr (), False, buf, []))"
| "recv_loop n buf (call # calls) =
     (if \<not> length buf < n then Some (Inr (), False, buf, call # calls)
      else (case call of
          Received bs \<Rightarrow>
            if bs = [] then Some (Inl (make_error ''E_NET_EOF'' ''peer closed''), True, buf, calls)
            else recv_loop n (buf @ bs) calls
        | RecvError e \<Rightarrow>
            if e = WSAEINTR then recv_loop n buf calls
            else if e = WSAECONNRESET \<or> e = WSAECONNABORTED then
              Some (Inl (make_error ''E_NET_EOF'' ''connection reset''), True, buf, calls)
            else
              Some (Inl (make_error ''E_NET_RECV'' (''recv failed: '' @ to_string_int e)), False,
                    buf, calls)))"

definition recv_all :: "bool \<Rightarrow> nat \<Rightarrow> RecvCall list \<Rightarrow> RecvOutcome option" where
  "recv_all valid n calls =
     (if \<not> valid then Some (Inl (make_error ''E_NET_RECV'' ''socket not valid''), False, [], calls)
      else recv_loop n [] calls)"

section \<open>Frames\<close>

definition frame_crc :: "FrameHeader \<Rightarrow> u8 list \<Rightarrow> u32" where
  "frame_crc h payload =
     (let c = crc_init;
          c = crc_update_u32 c (fh_magic h);
          c = crc_update_u16 c (fh_version h);
          c = crc_update_u16 c (word_of_int (FrameType_code (fh_type h)));
          c = crc_update_u32 c (fh_payload_len h);
          c = crc_update_u64 c (fh_correlation h)
      in crc_update c payload)"

definition frame_header :: "FrameType \<Rightarrow> u8 list \<Rightarrow> u64 \<Rightarrow> FrameHeader" where
  "frame_header type payload correlation =
     (let h = \<lparr>fh_magic = kProtocolMagic, fh_version = kProtocolVersion, fh_type = type,
               fh_payload_len = word_of_nat (length payload), fh_correlation = correlation,
               fh_checksum = 0\<rparr>
      in h\<lparr>fh_checksum := frame_crc h payload\<rparr>)"

definition frame_wire :: "FrameType \<Rightarrow> u8 list \<Rightarrow> u64 \<Rightarrow> u8 list" where
  "frame_wire type payload correlation =
     encode_header (frame_header type payload correlation) @ write_raw payload"

definition send_frame ::
    "bool \<Rightarrow> FrameType \<Rightarrow> u8 list \<Rightarrow> u64 \<Rightarrow> SendCall list \<Rightarrow> (unit Result \<times> u8 list) option"
where
  "send_frame valid type payload correlation calls =
     (if length payload > unat kMaxFramePayload then
        Some (Inl (make_error ''E_FRAME_OVERSIZE'' ''payload exceeds frame maximum''), [])
      else send_all valid (frame_wire type payload correlation) calls)"

datatype FrameStatus = Ok | Disconnect | Malformed | Truncated | Oversized

record FrameReceive =
  fr_status :: FrameStatus
  fr_header :: FrameHeader
  fr_payload :: "u8 list"

definition FrameHeader_default :: FrameHeader where
  "FrameHeader_default = \<lparr>fh_magic = 0, fh_version = 0, fh_type = FrameType.PING,
     fh_payload_len = 0, fh_correlation = 0, fh_checksum = 0\<rparr>"

definition FrameReceive_default :: FrameReceive where
  "FrameReceive_default = \<lparr>fr_status = FrameStatus.Ok, fr_header = FrameHeader_default, fr_payload = []\<rparr>"

definition check_frame :: "FrameHeader \<Rightarrow> u8 list \<Rightarrow> FrameReceive" where
  "check_frame h payload =
     \<lparr>fr_status = (if frame_crc h payload \<noteq> fh_checksum h then FrameStatus.Malformed else FrameStatus.Ok),
      fr_header = h, fr_payload = payload\<rparr>"

text \<open>The buffer of a truncated payload keeps the zeros of \<^verbatim>\<open>resize\<close> where nothing arrived.\<close>

definition recv_payload :: "bool \<Rightarrow> FrameHeader \<Rightarrow> RecvCall list \<Rightarrow> (FrameReceive \<times> RecvCall list) option" where
  "recv_payload valid h calls =
     (if fh_payload_len h > 0 then do {
        let n = unat (fh_payload_len h);
        (rr, pc, buf, calls) \<leftarrow> recv_all valid n calls;
        if pc \<or> \<not> has_value rr then
          Some (\<lparr>fr_status = FrameStatus.Truncated, fr_header = h,
                 fr_payload = buf @ replicate (n - length buf) 0\<rparr>, calls)
        else Some (check_frame h buf, calls)
      }
      else Some (check_frame h [], calls))"

definition recv_frame :: "bool \<Rightarrow> RecvCall list \<Rightarrow> (FrameReceive \<times> RecvCall list) option" where
  "recv_frame valid calls = do {
     let out = FrameReceive_default;
     (r, peer_closed, hdr, calls) \<leftarrow> recv_all valid kFrameHeaderBytes calls;
     if peer_closed \<or> \<not> has_value r then Some (out\<lparr>fr_status := FrameStatus.Disconnect\<rparr>, calls)
     else case decode_header hdr of
       None \<Rightarrow> Some (out\<lparr>fr_status := FrameStatus.Malformed\<rparr>, calls)
     | Some (h, _) \<Rightarrow>
         if fh_magic h \<noteq> kProtocolMagic then Some (out\<lparr>fr_status := FrameStatus.Malformed\<rparr>, calls)
         else if fh_version h \<noteq> kProtocolVersion then
           Some (out\<lparr>fr_status := FrameStatus.Malformed\<rparr>, calls)
         else if fh_payload_len h > kMaxFramePayload then
           Some (out\<lparr>fr_status := FrameStatus.Oversized\<rparr>, calls)
         else recv_payload valid h calls
   }"

section \<open>The loops do not depend on the segmentation\<close>

text \<open>Calls that deliver data or are interrupted, and the data they deliver.\<close>

fun clean :: "RecvCall \<Rightarrow> bool" where
  "clean (Received bs) \<longleftrightarrow> bs \<noteq> []"
| "clean (RecvError e) \<longleftrightarrow> e = WSAEINTR"

fun received :: "RecvCall \<Rightarrow> u8 list" where
  "received (Received bs) = bs"
| "received (RecvError e) = []"

abbreviation interrupted :: "RecvCall \<Rightarrow> bool" where
  "interrupted call \<equiv> call = RecvError WSAEINTR"

definition delivers :: "RecvCall list \<Rightarrow> u8 list \<Rightarrow> bool" where
  "delivers calls bs \<longleftrightarrow> list_all clean calls \<and> concat (map received calls) = bs"

lemma delivers_Nil: "delivers calls [] \<Longrightarrow> list_all interrupted calls"
  by (induction calls) (auto simp: delivers_def elim!: clean.elims)

lemma delivers_interrupted: "list_all interrupted intr \<Longrightarrow> delivers calls bs \<Longrightarrow> delivers (intr @ calls) bs"
  by (induction intr) (auto simp: delivers_def)

lemma recv_loop_full [simp]:
  "n \<le> length buf \<Longrightarrow> recv_loop n buf calls = Some (Inr (), False, buf, calls)"
  by (cases calls) auto

lemma delivers_Cons:
  "delivers (call # calls) bs \<longleftrightarrow> clean call \<and> (\<exists>ds. bs = received call @ ds \<and> delivers calls ds)"
  by (auto simp: delivers_def)

lemma recv_loop_clean:
  "length buf < n \<Longrightarrow> clean call \<Longrightarrow>
     recv_loop n buf (call # calls) = recv_loop n (buf @ received call) calls"
  by (cases call) simp_all

lemma recv_loop_delivers:
  assumes "delivers calls bs" "length buf + length bs = n"
  shows "\<exists>intr. list_all interrupted intr \<and>
      recv_loop n buf (calls @ rest) = Some (Inr (), False, buf @ bs, intr @ rest)"
  using assms
proof (induction calls arbitrary: buf bs)
  case Nil
  then show ?case
    by (intro exI [of _ "[]"]) (simp add: delivers_def)
next
  case (Cons call calls)
  show ?case
  proof (cases "bs = []")
    case True
    with Cons.prems show ?thesis
      using delivers_Nil [of "call # calls"] by (intro exI [of _ "call # calls"]) simp
  next
    case False
    from Cons.prems(1) obtain ds where ds: "clean call" "bs = received call @ ds" "delivers calls ds"
      unfolding delivers_Cons by blast
    from False Cons.prems(2) have "length buf < n" by (cases bs) auto
    with ds(1) have "recv_loop n buf ((call # calls) @ rest) = recv_loop n (buf @ received call) (calls @ rest)"
      using recv_loop_clean by simp
    moreover have "\<exists>intr. list_all interrupted intr \<and> recv_loop n (buf @ received call) (calls @ rest) =
        Some (Inr (), False, (buf @ received call) @ ds, intr @ rest)"
      by (rule Cons.IH [OF ds(3)]) (use Cons.prems(2) ds(2) in simp)
    ultimately show ?thesis
      unfolding ds(2) append.assoc by (simp only:)
  qed
qed

lemma recv_all_delivers:
  assumes "delivers calls bs" "length bs = n"
  shows "\<exists>intr. list_all interrupted intr \<and>
      recv_all True n (calls @ rest) = Some (Inr (), False, bs, intr @ rest)"
  using recv_loop_delivers [OF assms(1), of "[]" n rest] assms(2) by (simp add: recv_all_def)

lemma recv_loop_SomeD:
  assumes "recv_loop n buf calls = Some (Inr (), pc, out, rest)"
  shows "\<exists>used. calls = used @ rest \<and> list_all clean used \<and>
      out = buf @ concat (map received used) \<and> n \<le> length out \<and> \<not> pc"
  using assms
proof (induction n buf calls rule: recv_loop.induct)
  case (1 n buf)
  then show ?case by (auto split: if_splits)
next
  case (2 n buf call calls)
  show ?case
  proof (cases "length buf < n")
    case False
    with "2.prems" show ?thesis by auto
  next
    case True
    then obtain buf' where rec: "recv_loop n buf' calls = Some (Inr (), pc, out, rest)"
        and call: "clean call" "buf' = buf @ received call"
      using "2.prems" by (auto split: RecvCall.splits if_splits)
    from True rec call obtain used where "calls = used @ rest" "list_all clean used"
        "out = buf' @ concat (map received used)" "n \<le> length out" "\<not> pc"
      using "2.IH" by (cases call) auto
    with call show ?thesis
      by (intro exI [of _ "call # used"]) auto
  qed
qed

text \<open>Whatever the operating system accepts per call, a successful send hands over every byte once
  and in order; a failed one hands over a prefix.\<close>

lemma send_loop_prefix:
  "send_loop data calls = Some (res, out) \<Longrightarrow>
     (\<exists>more. data = out @ more) \<and> (res = Inr () \<longrightarrow> out = data)"
proof (induction data calls arbitrary: out rule: send_loop.induct)
  case (4 b bs r calls)
  show ?case
  proof (cases "r = 0")
    case False
    with "4.prems" obtain out' where out': "send_loop (drop r (b # bs)) calls = Some (res, out')"
        "out = take r (b # bs) @ out'"
      by auto
    from "4.IH" [OF False out'(1)] show ?thesis
      unfolding out'(2) by (metis append.assoc append_take_drop_id)
  qed (use "4.prems" in auto)
qed (auto split: if_splits)

lemma send_loop_short: "send_loop data calls = Some (Inl e, out) \<Longrightarrow> length out < length data"
proof (induction data calls arbitrary: out rule: send_loop.induct)
  case (4 b bs r calls)
  show ?case
  proof (cases "r = 0")
    case False
    with "4.prems" obtain out' where out': "send_loop (drop r (b # bs)) calls = Some (Inl e, out')"
        "out = take r (b # bs) @ out'"
      by auto
    from "4.IH" [OF False out'(1)] show ?thesis
      unfolding out'(2) by simp
  qed (use "4.prems" in auto)
qed (auto split: if_splits)

lemma send_loop_success:
  assumes "send_loop data calls = Some (res, out)"
  shows "has_value res \<longleftrightarrow> out = data"
  using assms send_loop_prefix [of data calls res out] send_loop_short [of data calls _ out]
  by (cases res) (auto simp: has_value_def)

lemma send_loop_returns:
  "length data \<le> length (filter (\<lambda>c. c \<noteq> SendError WSAEINTR) calls) \<Longrightarrow>
     \<exists>r. send_loop data calls = Some r"
proof (induction data calls rule: send_loop.induct)
  case (4 b bs r calls)
  then show ?case
    by (cases "r = 0") (fastforce simp: drop_Cons' split: if_splits)+
qed (auto split: if_splits)

section \<open>An accepted header is exactly its bytes\<close>

lemma encode_header_neq_Nil [simp]: "encode_header h \<noteq> []"
proof
  assume "encode_header h = []"
  then have "length (encode_header h) = 0" by simp
  then show False by (simp add: kFrameHeaderBytes_def)
qed

lemma decode_header_SomeD:
  assumes "decode_header r = Some (h, r')"
  shows "r = encode_header h @ r' \<and> fh_type h \<in> set kFrameTypes"
  using assms
  by (auto simp: decode_header_def encode_header_def read_enum16_def write_enum16_def
      bind_eq_Some_conv is_valid_frame_type_iff ft.code_cast split: if_splits
      dest!: read_u16_SomeD read_u32_SomeD read_u64_SomeD)

section \<open>Frames arrive as they were sent, and corrupted ones are refused\<close>

definition header_ok :: "FrameHeader \<Rightarrow> bool" where
  "header_ok h \<longleftrightarrow> fh_magic h = kProtocolMagic \<and> fh_version h = kProtocolVersion \<and>
     fh_type h \<in> set kFrameTypes \<and> fh_payload_len h \<le> kMaxFramePayload"

lemma recv_payload_delivers:
  assumes "delivers calls payload" "length payload = unat (fh_payload_len h)"
  shows "\<exists>intr. list_all interrupted intr \<and>
      recv_payload True h (calls @ rest) = Some (check_frame h payload, intr @ rest)"
proof (cases "fh_payload_len h = 0")
  case True
  with assms have "payload = []" "list_all interrupted calls"
    using delivers_Nil by auto
  with True show ?thesis
    by (auto simp: recv_payload_def)
next
  case False
  then have "fh_payload_len h > 0" by (simp add: word_gt_0)
  with recv_all_delivers [OF assms, of rest] show ?thesis
    by (auto simp: recv_payload_def has_value_def)
qed

lemma recv_frame_header:
  assumes "delivers calls hdr" "length hdr = kFrameHeaderBytes"
  shows "\<exists>intr. list_all interrupted intr \<and> recv_frame True (calls @ rest) =
      (case decode_header hdr of
         None \<Rightarrow> Some (FrameReceive_default\<lparr>fr_status := FrameStatus.Malformed\<rparr>, intr @ rest)
       | Some (h, _) \<Rightarrow>
           if fh_magic h \<noteq> kProtocolMagic \<or> fh_version h \<noteq> kProtocolVersion then
             Some (FrameReceive_default\<lparr>fr_status := FrameStatus.Malformed\<rparr>, intr @ rest)
           else if fh_payload_len h > kMaxFramePayload then
             Some (FrameReceive_default\<lparr>fr_status := FrameStatus.Oversized\<rparr>, intr @ rest)
           else recv_payload True h (intr @ rest))"
proof -
  obtain intr where "list_all interrupted intr"
      "recv_all True kFrameHeaderBytes (calls @ rest) = Some (Inr (), False, hdr, intr @ rest)"
    using recv_all_delivers [OF assms] by blast
  then show ?thesis
    by (intro exI [of _ intr]) (simp add: recv_frame_def has_value_def split: option.split)
qed

lemma recv_frame_delivers:
  assumes "delivers hc (encode_header h)" "header_ok h"
    and "delivers pc payload" "length payload = unat (fh_payload_len h)"
  shows "\<exists>intr. list_all interrupted intr \<and>
      recv_frame True (hc @ pc @ rest) = Some (check_frame h payload, intr @ rest)"
proof -
  have dec: "decode_header (encode_header h) = Some (h, [])"
    using header.dec_enc [of h "[]"] assms(2) by (simp add: header_ok_def)
  obtain intr where intr: "list_all interrupted intr"
      "recv_frame True (hc @ pc @ rest) = recv_payload True h (intr @ pc @ rest)"
    using recv_frame_header [OF assms(1), of "pc @ rest"] assms(2) unfolding dec
    by (auto simp: header_ok_def not_less [symmetric])
  from recv_payload_delivers [OF delivers_interrupted [OF intr(1) assms(3)] assms(4), of rest]
  show ?thesis
    unfolding intr(2) append.assoc .
qed

lemma unat_payload_len:
  "length payload \<le> unat kMaxFramePayload \<Longrightarrow> unat (word_of_nat (length payload) :: u32) = length payload"
  by (simp add: kMaxFramePayload_def unat_of_nat take_bit_nat_eq_self)

lemma frame_header_simps [simp]:
  "fh_magic (frame_header t p c) = kProtocolMagic" "fh_version (frame_header t p c) = kProtocolVersion"
  "fh_type (frame_header t p c) = t" "fh_payload_len (frame_header t p c) = word_of_nat (length p)"
  "fh_correlation (frame_header t p c) = c"
  by (simp_all add: frame_header_def)

lemma fh_checksum_frame_header: "fh_checksum (frame_header t p c) = frame_crc (frame_header t p c) p"
  by (simp add: frame_header_def frame_crc_def)

lemma check_frame_header [simp]:
  "check_frame (frame_header t p c) p =
     \<lparr>fr_status = FrameStatus.Ok, fr_header = frame_header t p c, fr_payload = p\<rparr>"
  by (simp add: check_frame_def fh_checksum_frame_header)

lemma header_ok_frame_header:
  assumes "t \<in> set kFrameTypes" "length p \<le> unat kMaxFramePayload"
  shows "header_ok (frame_header t p c)"
  using assms unat_payload_len [OF assms(2)] by (simp add: header_ok_def word_le_nat_alt)

lemma encode_header_split:
  "encode_header h = (write_u32 (fh_magic h) @ write_u16 (fh_version h) @
     write_enum16 FrameType_code (fh_type h) @ write_u32 (fh_payload_len h) @
     write_u64 (fh_correlation h)) @ write_u32 (fh_checksum h)"
  by (simp add: encode_header_def)

text \<open>The checksum covers the wire bytes before it and the payload after it.\<close>

lemma frame_crc_bytes: "frame_crc h payload = crc_update crc_init (take 20 (encode_header h) @ payload)"
  unfolding encode_header_split
  by (simp add: frame_crc_def Let_def crc_update_append crc_update_u32_def crc_update_u16_def
      crc_update_u64_def write_u32_def write_u16_def write_u64_def write_enum16_def)

lemma checksum_bytes: "write_u32 (fh_checksum h) = drop 20 (encode_header h)"
  unfolding encode_header_split by (simp add: write_enum16_def)

lemma payload_len_bytes: "write_u32 (fh_payload_len h) = take 4 (drop 8 (encode_header h))"
  by (simp add: encode_header_def write_enum16_def)

text \<open>Two byte strings of a header and its payload whose checksums are right do not differ in a
  single byte.\<close>

lemma checksum_single_byte:
  assumes h: "fh_checksum h = frame_crc h p" and h': "fh_checksum h' = frame_crc h' p'"
    and w: "encode_header h' @ p' = (encode_header h @ p)[i := b]"
    and i: "i < length (encode_header h @ p)"
  shows "b = (encode_header h @ p) ! i"
proof -
  define w0 where "w0 = encode_header h @ p"
  let ?f = "\<lambda>w. take 20 w @ drop 24 w" and ?g = "\<lambda>w. take 4 (drop 20 w)"
  have crc: "fh_checksum h = crc_update crc_init (?f w0)" "fh_checksum h' = crc_update crc_init (?f (w0[i := b]))"
    unfolding h h' frame_crc_bytes w0_def w [symmetric] by (simp_all add: kFrameHeaderBytes_def)
  have sum: "write_u32 (fh_checksum h) = ?g w0" "write_u32 (fh_checksum h') = ?g (w0[i := b])"
    unfolding checksum_bytes w0_def w [symmetric] by (simp_all add: kFrameHeaderBytes_def)
  have len: "24 \<le> length w0" "i < length w0"
    using i by (simp_all add: w0_def kFrameHeaderBytes_def)
  consider (before) "i < 20" | (inside) "20 \<le> i" "i < 24" | (after) "24 \<le> i" by linarith
  then have "b = w0 ! i"
  proof cases
    case before
    have "?g (w0[i := b]) = ?g w0"
      using before by simp
    then have eq: "crc_update crc_init (?f (w0[i := b])) = crc_update crc_init (?f w0)"
      using crc sum write_u32_inject by metis
    have f: "?f (w0[i := b]) = (?f w0)[i := b]"
      using before len by (simp add: list_update_append take_update_swap)
    have "b = ?f w0 ! i"
      by (rule crc_update_single [OF eq [unfolded f]]) (use before len in simp)
    then show ?thesis using before len by (simp add: nth_append)
  next
    case inside
    then have "?f (w0[i := b]) = ?f w0"
      using len by simp
    then have "?g (w0[i := b]) = ?g w0"
      using crc sum write_u32_inject by metis
    then have "?g (w0[i := b]) ! (i - 20) = ?g w0 ! (i - 20)"
      by simp
    then show ?thesis using inside len by simp
  next
    case after
    have "?g (w0[i := b]) = ?g w0"
      using after by (simp add: drop_update_swap)
    then have eq: "crc_update crc_init (?f (w0[i := b])) = crc_update crc_init (?f w0)"
      using crc sum write_u32_inject by metis
    have i4: "\<not> i - 4 < 20" "i - 4 - 20 = i - 24"
      using after by linarith+
    then have f: "?f (w0[i := b]) = (?f w0)[i - 4 := b]"
      using after len by (simp add: list_update_append drop_update_swap)
    have "b = ?f w0 ! (i - 4)"
      by (rule crc_update_single [OF eq [unfolded f]]) (use after len in simp)
    then show ?thesis using after len i4 by (simp add: nth_append)
  qed
  then show ?thesis by (simp add: w0_def)
qed

lemma corrupted_frame:
  assumes "t \<in> set kFrameTypes" "length p \<le> unat kMaxFramePayload"
    and w: "w = frame_wire t p c" and i: "i < length w" "i < 8 \<or> 12 \<le> i" "b \<noteq> w ! i"
    and "delivers hc (take kFrameHeaderBytes (w[i := b]))"
    and "delivers pc (drop kFrameHeaderBytes (w[i := b]))"
  shows "\<exists>out left. recv_frame True (hc @ pc @ rest) = Some (out, left) \<and> fr_status out = FrameStatus.Malformed"
proof -
  let ?h = "frame_header t p c"
  let ?hdr = "take kFrameHeaderBytes (w[i := b])" and ?p = "drop kFrameHeaderBytes (w[i := b])"
  have w0: "w = encode_header ?h @ p"
    by (simp add: w frame_wire_def write_raw_def)
  have len: "length ?hdr = kFrameHeaderBytes" "length ?p = length p"
    by (simp_all add: w0)
  from recv_frame_header [OF assms(7) len(1), of "pc @ rest"] obtain intr where
      intr: "list_all interrupted intr" and out: "recv_frame True (hc @ pc @ rest) =
      (case decode_header ?hdr of
         None \<Rightarrow> Some (FrameReceive_default\<lparr>fr_status := FrameStatus.Malformed\<rparr>, intr @ pc @ rest)
       | Some (h, _) \<Rightarrow>
           if fh_magic h \<noteq> kProtocolMagic \<or> fh_version h \<noteq> kProtocolVersion then
             Some (FrameReceive_default\<lparr>fr_status := FrameStatus.Malformed\<rparr>, intr @ pc @ rest)
           else if fh_payload_len h > kMaxFramePayload then
             Some (FrameReceive_default\<lparr>fr_status := FrameStatus.Oversized\<rparr>, intr @ pc @ rest)
           else recv_payload True h (intr @ pc @ rest))"
    by blast
  show ?thesis
  proof (cases "decode_header ?hdr")
    case None
    then show ?thesis by (simp add: out)
  next
    case (Some a)
    obtain h r where a: "a = (h, r)" by fastforce
    have hdr: "?hdr = encode_header h"
      using decode_header_SomeD [of ?hdr h r] Some a len(1) by simp
    have w': "encode_header h @ ?p = w[i := b]"
      unfolding hdr [symmetric] by simp
    have "take 4 (drop 8 (w[i := b])) = take 4 (drop 8 w)"
      using i(2) by (auto simp: drop_update_swap)
    then have "take 4 (drop 8 (encode_header h @ ?p)) = take 4 (drop 8 (encode_header ?h @ p))"
      using w' w0 by simp
    then have "write_u32 (fh_payload_len h) = write_u32 (fh_payload_len ?h)"
      unfolding payload_len_bytes by (simp add: kFrameHeaderBytes_def)
    then have plen: "fh_payload_len h = word_of_nat (length p)"
      by simp
    then have n: "unat (fh_payload_len h) = length p"
      using unat_payload_len [OF assms(2)] by simp
    have bad: "fh_checksum h \<noteq> frame_crc h ?p"
    proof
      assume "fh_checksum h = frame_crc h ?p"
      from checksum_single_byte [OF fh_checksum_frame_header this] show False
        using i w' unfolding w0 by blast
    qed
    obtain intr' where rp: "recv_payload True h (intr @ pc @ rest) = Some (check_frame h ?p, intr' @ rest)"
      using recv_payload_delivers [OF delivers_interrupted [OF intr assms(8)], of h rest] n len(2)
      by auto
    have "\<not> kMaxFramePayload < fh_payload_len h"
      using n assms(2) by (simp add: word_less_nat_alt)
    then show ?thesis
      using bad by (simp add: out Some a rp check_frame_def)
  qed
qed

text \<open>What the receiver accepts.\<close>

lemma recv_payload_OkD:
  assumes "recv_payload valid h calls = Some (out, rest)" "fr_status out = FrameStatus.Ok"
  shows "fr_header out = h \<and> fh_checksum h = frame_crc h (fr_payload out)"
  using assms
  by (auto simp: recv_payload_def check_frame_def bind_eq_Some_conv Let_def split: if_splits)

lemma recv_frame_OkD:
  assumes "recv_frame valid calls = Some (out, rest)" "fr_status out = FrameStatus.Ok"
  shows "header_ok (fr_header out) \<and> fh_checksum (fr_header out) = frame_crc (fr_header out) (fr_payload out)"
proof -
  obtain r pcl hdr calls' where ra: "recv_all valid kFrameHeaderBytes calls = Some (r, pcl, hdr, calls')"
    using assms(1) by (cases "recv_all valid kFrameHeaderBytes calls") (auto simp: recv_frame_def)
  have ok: "\<not> (pcl \<or> \<not> has_value r)"
    using assms by (rule_tac notI) (auto simp: recv_frame_def ra)
  obtain h r' where h: "decode_header hdr = Some (h, r')"
    using assms ok by (cases "decode_header hdr") (auto simp: recv_frame_def ra)
  have m: "fh_magic h = kProtocolMagic"
    using assms ok h by (rule_tac ccontr) (auto simp: recv_frame_def ra)
  have v: "fh_version h = kProtocolVersion"
    using assms ok h m by (rule_tac ccontr) (auto simp: recv_frame_def ra)
  have l: "\<not> kMaxFramePayload < fh_payload_len h"
    using assms ok h m v by (rule_tac notI) (auto simp: recv_frame_def ra)
  have rp: "recv_payload valid h calls' = Some (out, rest)"
    using assms(1) ok h m v l by (simp add: recv_frame_def ra)
  from decode_header_SomeD [OF h] recv_payload_OkD [OF rp assms(2)] m v l show ?thesis
    by (simp add: header_ok_def not_less)
qed

section \<open>Properties\<close>

text \<open>C19: A frame that was sent is the frame that is received, however the operating system cut it into
  calls on either side: when the sender reports success and the receiver's calls deliver those
  bytes, \<^verbatim>\<open>recv_frame\<close> returns \<open>Ok\<close> with the header and the payload that were sent.\<close>

theorem frame_roundtrip:
  assumes "t \<in> set kFrameTypes" "send_frame True t p c calls = Some (Inr (), out)"
    and "delivers hc (take kFrameHeaderBytes out)" "delivers pc (drop kFrameHeaderBytes out)"
  shows "\<exists>intr. list_all interrupted intr \<and> recv_frame True (hc @ pc @ rest) =
    Some (\<lparr>fr_status = FrameStatus.Ok, fr_header = frame_header t p c, fr_payload = p\<rparr>, intr @ rest)"
proof -
  have len: "length p \<le> unat kMaxFramePayload" and out: "out = frame_wire t p c"
    using assms(2) send_loop_prefix [of "frame_wire t p c" calls "Inr ()" out]
    by (auto simp: send_frame_def send_all_def split: if_splits)
  have "delivers hc (encode_header (frame_header t p c))" "delivers pc p"
    using assms(3,4) by (simp_all add: out frame_wire_def write_raw_def)
  moreover have "length p = unat (fh_payload_len (frame_header t p c))"
    using len by (simp add: unat_payload_len)
  ultimately show ?thesis
    using recv_frame_delivers [OF _ header_ok_frame_header [OF assms(1) len], of hc c pc p rest] by simp
qed

theorem frame_roundtrip_witness:
  "\<exists>out. send_frame True FrameType.PING [5] 1 [SendError WSAEINTR, Sent 25] = Some (Inr (), out) \<and>
     (\<exists>intr. list_all interrupted intr \<and>
        recv_frame True ([RecvError WSAEINTR, Received (take kFrameHeaderBytes out)] @ [Received [5]] @ []) =
        Some (\<lparr>fr_status = FrameStatus.Ok, fr_header = frame_header FrameType.PING [5] 1, fr_payload = [5]\<rparr>, intr @ []))"
proof -
  let ?w = "frame_wire FrameType.PING [5] 1"
  have w: "?w = encode_header (frame_header FrameType.PING [5] 1) @ [5]"
    by (simp add: frame_wire_def write_raw_def)
  have len: "length (encode_header (frame_header FrameType.PING [5] 1)) = 24"
    by (simp add: kFrameHeaderBytes_def)
  have "length ?w = 25"
    by (simp add: w kFrameHeaderBytes_def)
  moreover obtain b bs where "?w = b # bs"
    by (cases ?w) (simp_all add: w)
  ultimately have wb: "?w = b # bs" "length ?w = 25"
    by simp_all
  have sent: "send_frame True FrameType.PING [5] 1 [SendError WSAEINTR, Sent 25] = Some (Inr (), ?w)"
    using wb by (simp add: send_frame_def send_all_def kMaxFramePayload_def)
  have "delivers [RecvError WSAEINTR, Received (take kFrameHeaderBytes ?w)] (take kFrameHeaderBytes ?w)"
    "delivers [Received [5]] (drop kFrameHeaderBytes ?w)"
    using len by (simp_all add: delivers_def w kFrameHeaderBytes_def)
  from frame_roundtrip [OF _ sent this, of "[]"] sent show ?thesis
    by (intro exI [of _ ?w]) (simp add: kFrameTypes_def)
qed

text \<open>C20: A frame with any one byte changed, the four bytes of the payload length apart, is received as
  \<open>Malformed\<close>: never as another frame.\<close>

theorem corrupted_frame_malformed:
  assumes "t \<in> set kFrameTypes" "length p \<le> unat kMaxFramePayload"
    and "i < length (frame_wire t p c)" "i < 8 \<or> 12 \<le> i" "b \<noteq> frame_wire t p c ! i"
    and "delivers hc (take kFrameHeaderBytes ((frame_wire t p c)[i := b]))"
    and "delivers pc (drop kFrameHeaderBytes ((frame_wire t p c)[i := b]))"
  shows "\<exists>out left. recv_frame True (hc @ pc @ rest) = Some (out, left) \<and> fr_status out = FrameStatus.Malformed"
  using assms by (intro corrupted_frame [where w = "frame_wire t p c"]) simp_all

theorem corrupted_frame_malformed_witness:
  "\<exists>out left. recv_frame True ([Received (encode_header (frame_header FrameType.PING [5] 1))] @ [Received [6]] @ []) =
     Some (out, left) \<and> fr_status out = FrameStatus.Malformed"
proof -
  let ?h = "encode_header (frame_header FrameType.PING [5] 1)"
  have len: "length ?h = 24"
    by (simp add: kFrameHeaderBytes_def)
  have w: "frame_wire FrameType.PING [5] 1 = ?h @ [5]"
    by (simp add: frame_wire_def write_raw_def)
  have upd: "(frame_wire FrameType.PING [5] 1)[24 := 6] = ?h @ [6]"
    using len by (simp add: w list_update_append)
  have "delivers [Received ?h] (take kFrameHeaderBytes ((frame_wire FrameType.PING [5] 1)[24 := 6]))"
    "delivers [Received [6]] (drop kFrameHeaderBytes ((frame_wire FrameType.PING [5] 1)[24 := 6]))"
    unfolding upd using len by (simp_all add: delivers_def kFrameHeaderBytes_def)
  from corrupted_frame_malformed [OF _ _ _ _ _ this, of "[]"] show ?thesis
    using len by (simp add: kFrameTypes_def kMaxFramePayload_def w nth_append)
qed

text \<open>C18: A frame received as \<open>Ok\<close> has the protocol's magic and version, a known type, a payload within the
  bound, and a checksum that matches its own header and payload.\<close>

theorem received_frame_sound:
  assumes "recv_frame valid calls = Some (out, rest)" "fr_status out = FrameStatus.Ok"
  shows "fh_magic (fr_header out) = kProtocolMagic \<and> fh_version (fr_header out) = kProtocolVersion \<and>
    fh_type (fr_header out) \<in> set kFrameTypes \<and> fh_payload_len (fr_header out) \<le> kMaxFramePayload \<and>
    fh_checksum (fr_header out) = frame_crc (fr_header out) (fr_payload out)"
  using recv_frame_OkD [OF assms] by (simp add: header_ok_def)

theorem received_frame_sound_witness:
  "\<exists>out rest. recv_frame True [Received (encode_header (frame_header FrameType.PING [] 1))] = Some (out, rest) \<and>
     fr_status out = FrameStatus.Ok \<and> fh_checksum (fr_header out) = frame_crc (fr_header out) (fr_payload out)"
proof -
  let ?h = "frame_header FrameType.PING [] 1"
  have len: "length (encode_header ?h) = 24"
    by (simp add: kFrameHeaderBytes_def)
  have "delivers [Received (encode_header ?h)] (encode_header ?h)" "delivers [] []"
    using len by (simp_all add: delivers_def)
  moreover have "header_ok ?h" "length [] = unat (fh_payload_len ?h)"
    by (simp_all add: header_ok_def kFrameTypes_def)
  ultimately obtain intr where "recv_frame True ([Received (encode_header ?h)] @ [] @ []) = Some (check_frame ?h [], intr @ [])"
    using recv_frame_delivers [of "[Received (encode_header ?h)]" ?h "[]" "[]" "[]"] by blast
  then have "recv_frame True [Received (encode_header ?h)] =
      Some (\<lparr>fr_status = FrameStatus.Ok, fr_header = ?h, fr_payload = []\<rparr>, intr)"
    by simp
  with received_frame_sound [OF this] show ?thesis
    by simp
qed

text \<open>C21: Sending ends: once the operating system has made as many calls that are not interruptions as
  there are bytes, \<^verbatim>\<open>send_all\<close> has returned; and if it reports success, exactly the bytes of the
  frame were handed over, in order.\<close>

theorem send_all_returns:
  assumes "length bs \<le> length (filter (\<lambda>call. call \<noteq> SendError WSAEINTR) calls)"
  shows "\<exists>res out. send_all True bs calls = Some (res, out) \<and> take (length out) bs = out \<and>
    (has_value res \<longleftrightarrow> out = bs)"
proof -
  obtain res out where r: "send_loop bs calls = Some (res, out)"
    using send_loop_returns [OF assms] by force
  obtain more where "bs = out @ more"
    using send_loop_prefix [OF r] by blast
  moreover have "has_value res \<longleftrightarrow> out = bs"
    using r send_loop_success [OF r] by simp
  ultimately show ?thesis
    using r by (intro exI [of _ res] exI [of _ out]) (simp add: send_all_def)
qed

theorem send_all_returns_witness:
  "\<exists>res out. send_all True [1, 2, 3] [Sent 1, SendError WSAEINTR, Sent 2, Sent 0] = Some (res, out) \<and>
     take (length out) [1, 2, 3] = out \<and> (has_value res \<longleftrightarrow> out = [1, 2, 3])"
  by (rule send_all_returns) simp

end
