(* ===== verification/Backend.thy ===== *)
theory Backend
  imports Codec Enums
begin

unbundle bit_operations_syntax

text \<open>
  The execution backends of \<^verbatim>\<open>src/backend.cpp\<close>: the byte reductions, the synthetic engine and the
  host-local engine.  The time a host-local run takes on the steady clock is an argument.  The
  lemmas give the value of every reduction, the two engines' agreement on the operations both
  support, and what a refused request returns.
\<close>

section \<open>Reductions\<close>

definition byte_min :: "u8 list \<Rightarrow> u8" where
  "byte_min p = foldl (\<lambda>m x. if x < m then x else m) 0xFF p"

definition byte_max :: "u8 list \<Rightarrow> u8" where
  "byte_max p = foldl (\<lambda>m x. if m < x then x else m) 0 p"

definition byte_sum :: "u8 list \<Rightarrow> u64" where
  "byte_sum p = foldl (\<lambda>s x. s + ucast x) 0 p"

definition filter_count :: "u8 list \<Rightarrow> u64" where
  "filter_count p = foldl (\<lambda>cnt x. if x \<ge> 128 then cnt + 1 else cnt) 0 p"

text \<open>The loop that stores a 64-bit value in eight bytes, the low byte first.\<close>

definition output_u64 :: "u64 \<Rightarrow> u8 list" where
  "output_u64 s = map (\<lambda>i. ucast (drop_bit (i * 8) s AND 0xFF)) [0..<8]"

section \<open>Engines\<close>

record BackendRequest =
  bq_op_class :: OperationClass
  bq_data_type :: DataType
  bq_input :: "u8 list"
  bq_input_bytes :: u64

record BackendResult =
  bk_ok :: bool
  bk_output :: "u8 list"
  bk_digest :: u64
  bk_execution_ns :: u64
  bk_note :: string

definition BackendResult_default :: BackendResult where
  "BackendResult_default =
     \<lparr>bk_ok = False, bk_output = [], bk_digest = 0, bk_execution_ns = 0, bk_note = []\<rparr>"

text \<open>A span with a null pointer is empty, so the first guard of the code, a null pointer with a
  declared size that is not zero, is part of the second.\<close>

definition size_mismatch :: "BackendRequest \<Rightarrow> bool" where
  "size_mismatch req \<longleftrightarrow> unat (bq_input_bytes req) \<noteq> length (bq_input req)"

definition synthetic_output :: "BackendRequest \<Rightarrow> u8 list option" where
  "synthetic_output req =
     (let p = bq_input req in case bq_op_class req of
        OperationClass.SUM \<Rightarrow> Some (output_u64 (byte_sum p))
      | OperationClass.REDUCE \<Rightarrow> Some (output_u64 (byte_sum p))
      | OperationClass.COUNT \<Rightarrow> Some (output_u64 (bq_input_bytes req))
      | OperationClass.MIN \<Rightarrow> Some [byte_min p]
      | OperationClass.MAX \<Rightarrow> Some [byte_max p]
      | OperationClass.CHECKSUM \<Rightarrow> Some (output_u64 (byte_sum p))
      | OperationClass.HASH \<Rightarrow> Some (output_u64 (content_digest p))
      | OperationClass.FILTER \<Rightarrow> Some (output_u64 (filter_count p))
      | OperationClass.ELEMENTWISE \<Rightarrow> Some p
      | OperationClass.TRANSFORM \<Rightarrow> Some p
      | _ \<Rightarrow> None)"

definition synthetic_execute :: "BackendRequest \<Rightarrow> BackendResult" where
  "synthetic_execute req =
     (let r = BackendResult_default in
      if size_mismatch req then r\<lparr>bk_note := ''input size mismatch''\<rparr>
      else case synthetic_output req of
        None \<Rightarrow> r\<lparr>bk_note := ''operation not supported by synthetic engine''\<rparr>
      | Some out \<Rightarrow> r\<lparr>bk_output := out, bk_digest := content_digest out, bk_ok := True,
          bk_note := (if bq_input_bytes req = 0 then ''empty input'' else ''synthetic result'')\<rparr>)"

definition host_local_output :: "BackendRequest \<Rightarrow> u8 list option" where
  "host_local_output req =
     (let p = bq_input req in case bq_op_class req of
        OperationClass.SUM \<Rightarrow> Some (output_u64 (byte_sum p))
      | OperationClass.REDUCE \<Rightarrow> Some (output_u64 (byte_sum p))
      | OperationClass.COUNT \<Rightarrow> Some (output_u64 (bq_input_bytes req))
      | OperationClass.MIN \<Rightarrow> Some [byte_min p]
      | OperationClass.MAX \<Rightarrow> Some [byte_max p]
      | OperationClass.FILTER \<Rightarrow> Some (output_u64 (filter_count p))
      | _ \<Rightarrow> None)"

definition host_local_execute :: "u64 \<Rightarrow> BackendRequest \<Rightarrow> BackendResult" where
  "host_local_execute elapsed req =
     (let r = BackendResult_default in
      if size_mismatch req then r\<lparr>bk_note := ''input size mismatch''\<rparr>
      else case host_local_output req of
        None \<Rightarrow> r\<lparr>bk_note := ''operation not supported by host-local engine''\<rparr>
      | Some out \<Rightarrow> r\<lparr>bk_output := out, bk_execution_ns := elapsed, bk_digest := content_digest out,
          bk_ok := True, bk_note := ''real host-local result''\<rparr>)"

section \<open>What the reductions compute\<close>

lemma foldl_min:
  "foldl (\<lambda>m x. if x < m then x else m) m p = Min (insert m (set (p :: 'a::linorder list)))"
proof (induction p arbitrary: m)
  case (Cons x p)
  have "(if x < m then x else m) = min m x" by (auto simp: min_def)
  then show ?case
    by (cases "p = []") (simp_all add: Cons.IH insert_commute min.assoc)
qed simp

lemma foldl_max:
  "foldl (\<lambda>m x. if m < x then x else m) m p = Max (insert m (set (p :: 'a::linorder list)))"
proof (induction p arbitrary: m)
  case (Cons x p)
  have "(if m < x then x else m) = max m x" by (auto simp: max_def)
  then show ?case
    by (cases "p = []") (simp_all add: Cons.IH insert_commute max.assoc)
qed simp

lemma u8_le_255: "(x :: u8) \<le> 255"
  using unat_u8_less [of x] by (simp add: word_le_nat_alt)

lemma byte_min_Min: "p \<noteq> [] \<Longrightarrow> byte_min p = Min (set p)"
proof -
  assume "p \<noteq> []"
  then have "byte_min p = min 255 (Min (set p))"
    by (simp add: byte_min_def foldl_min)
  then show ?thesis
    by (simp add: min_absorb2 u8_le_255)
qed

lemma byte_max_Max: "p \<noteq> [] \<Longrightarrow> byte_max p = Max (set p)"
  by (simp add: byte_max_def foldl_max max_def)

lemma byte_sum_mod: "unat (foldl (\<lambda>s x. s + ucast x) s p) = (unat (s :: u64) + sum_list (map unat (p :: u8 list))) mod 2 ^ 64"
proof (induction p arbitrary: s)
  case Nil
  show ?case using unsigned_less [of s, where ?'a = nat] by simp
next
  case (Cons x p)
  have x: "unat (ucast x :: u64) = unat x"
    by (simp add: unsigned_ucast_eq take_bit_nat_eq_self unat_u8_less less_trans [OF unat_u8_less])
  have "(unat (s + ucast x) + S) mod 2 ^ 64 = (unat s + (unat x + S)) mod 2 ^ 64" for S
    by (simp add: unat_word_ariths x mod_add_left_eq add.assoc del: unsigned_ucast_eq)
  then show ?case by (simp add: Cons.IH)
qed

lemma sum_unat_bound: "sum_list (map unat (p :: u8 list)) \<le> 255 * length p"
proof (induction p)
  case (Cons x p)
  with unat_u8_less [of x] show ?case by simp
qed simp

lemma byte_sum_exact:
  assumes "length p < 2 ^ 56"
  shows "unat (byte_sum p) = sum_list (map unat p)"
proof -
  have "sum_list (map unat p) < 2 ^ 64"
    using sum_unat_bound [of p] assms by simp
  then show ?thesis
    by (simp add: byte_sum_def byte_sum_mod)
qed

lemma filter_count_mod: "foldl (\<lambda>cnt x. if x \<ge> 128 then cnt + 1 else cnt) c p = c + word_of_nat (length (filter (\<lambda>x. x \<ge> 128) p))"
  by (induction p arbitrary: c) simp_all

lemma filter_count_eq: "filter_count p = word_of_nat (length (filter (\<lambda>x. x \<ge> 128) p))"
  by (simp add: filter_count_def filter_count_mod)

lemma le_bytes_map: "le_bytes n k = map (\<lambda>i. word_of_nat (k div 256 ^ i)) [0..<n]"
proof (induction n arbitrary: k)
  case (Suc n)
  have "[0..<Suc n] = 0 # map Suc [0..<n]"
    unfolding map_Suc_upt by (rule upt_conv_Cons) simp
  then show ?case
    by (simp add: Suc.IH div_mult2_eq del: upt_Suc)
qed simp

lemma output_u64_le_bytes: "output_u64 s = write_u64 s"
proof -
  have "ucast (drop_bit (i * 8) s AND 0xFF) = (word_of_nat (unat s div 256 ^ i) :: u8)" for i
  proof -
    have "unat (drop_bit (i * 8) s) = unat s div 256 ^ i"
      unfolding unat_drop_bit_eq drop_bit_eq_div [of _ "unat s"]
      by (simp add: mult.commute [of i] power_mult)
    moreover have "(ucast (w AND 0xFF) :: u8) = ucast w" for w :: u64
    proof (rule bit_word_eqI)
      have m: "(0xFF :: u64) = mask 8" by (simp add: mask_eq_exp_minus_1)
      show "bit (ucast (w AND 0xFF) :: u8) n = bit (ucast w :: u8) n" if "n < LENGTH(8)" for n
        unfolding m using that by (simp add: bit_simps)
    qed
    ultimately show ?thesis
      by (metis of_nat_unat)
  qed
  then show ?thesis
    by (simp only: output_u64_def write_u64_def le_bytes_map)
qed

section \<open>The engines\<close>

lemma host_synthetic_output:
  "host_local_output req = Some out \<Longrightarrow> synthetic_output req = Some out"
  by (auto simp: host_local_output_def synthetic_output_def Let_def split: OperationClass.splits)

lemma synthetic_execute_ok:
  "bk_ok (synthetic_execute req) \<longleftrightarrow> \<not> size_mismatch req \<and> synthetic_output req \<noteq> None"
  by (simp add: synthetic_execute_def Let_def BackendResult_default_def split: option.split)

lemma host_local_execute_ok:
  "bk_ok (host_local_execute t req) \<longleftrightarrow> \<not> size_mismatch req \<and> host_local_output req \<noteq> None"
  by (simp add: host_local_execute_def Let_def BackendResult_default_def split: option.split)

lemma synthetic_execute_output:
  "bk_ok (synthetic_execute req) \<Longrightarrow>
     synthetic_output req = Some (bk_output (synthetic_execute req)) \<and>
     bk_digest (synthetic_execute req) = content_digest (bk_output (synthetic_execute req))"
  by (auto simp: synthetic_execute_def Let_def BackendResult_default_def split: option.splits if_splits)

lemma host_local_execute_output:
  "bk_ok (host_local_execute t req) \<Longrightarrow>
     host_local_output req = Some (bk_output (host_local_execute t req)) \<and>
     bk_digest (host_local_execute t req) = content_digest (bk_output (host_local_execute t req))"
  by (auto simp: host_local_execute_def Let_def BackendResult_default_def split: option.splits if_splits)

lemma engines_agree:
  assumes "bk_ok (host_local_execute t req)"
  shows "bk_ok (synthetic_execute req)"
    and "bk_output (synthetic_execute req) = bk_output (host_local_execute t req)"
    and "bk_digest (synthetic_execute req) = bk_digest (host_local_execute t req)"
proof -
  note host = host_local_execute_output [OF assms]
  have out: "synthetic_output req = Some (bk_output (host_local_execute t req))"
    using host host_synthetic_output by blast
  with assms show ok: "bk_ok (synthetic_execute req)"
    by (simp add: synthetic_execute_ok host_local_execute_ok)
  from synthetic_execute_output [OF ok] out host
  show "bk_output (synthetic_execute req) = bk_output (host_local_execute t req)"
    and "bk_digest (synthetic_execute req) = bk_digest (host_local_execute t req)"
    by simp_all
qed

text \<open>The outputs fit in the frame that carries them back when the input did.\<close>

lemma length_synthetic_output:
  "synthetic_output req = Some out \<Longrightarrow> length out \<le> max 8 (length (bq_input req))"
  by (auto simp: synthetic_output_def output_u64_def Let_def split: OperationClass.splits)

section \<open>Properties\<close>

text \<open>C30: The reductions of the synthetic engine are the mathematical ones: for a non-empty input below
  2^56 bytes the sum, the count, the number of bytes from 128 on (each in eight little-endian
  bytes), and the minimum and maximum byte.\<close>

theorem reductions_correct:
  assumes "bq_input req \<noteq> []" "length (bq_input req) < 2 ^ 56"
  shows "synthetic_output (req\<lparr>bq_op_class := OperationClass.SUM\<rparr>) =
      Some (write_u64 (word_of_nat (sum_list (map unat (bq_input req))))) \<and>
    synthetic_output (req\<lparr>bq_op_class := OperationClass.COUNT, bq_input_bytes := word_of_nat (length (bq_input req))\<rparr>) =
      Some (write_u64 (word_of_nat (length (bq_input req)))) \<and>
    synthetic_output (req\<lparr>bq_op_class := OperationClass.FILTER\<rparr>) =
      Some (write_u64 (word_of_nat (length (filter (\<lambda>b. 128 \<le> b) (bq_input req))))) \<and>
    synthetic_output (req\<lparr>bq_op_class := OperationClass.MIN\<rparr>) = Some [Min (set (bq_input req))] \<and>
    synthetic_output (req\<lparr>bq_op_class := OperationClass.MAX\<rparr>) = Some [Max (set (bq_input req))]"
proof -
  have "byte_sum (bq_input req) = word_of_nat (sum_list (map unat (bq_input req)))"
    unfolding byte_sum_exact [OF assms(2), symmetric] by simp
  then show ?thesis
    using assms(1)
    by (simp add: synthetic_output_def output_u64_le_bytes byte_min_Min byte_max_Max filter_count_eq Let_def)
qed

theorem reductions_correct_witness:
  "synthetic_output \<lparr>bq_op_class = OperationClass.SUM, bq_data_type = DataType.U8, bq_input = [3, 1, 200], bq_input_bytes = 3\<rparr> =
     Some (write_u64 204) \<and>
   synthetic_output \<lparr>bq_op_class = OperationClass.MIN, bq_data_type = DataType.U8, bq_input = [3, 1, 200], bq_input_bytes = 3\<rparr> =
     Some [1]"
  using reductions_correct [of "\<lparr>bq_op_class = OperationClass.SUM, bq_data_type = DataType.U8,
      bq_input = [3, 1, 200], bq_input_bytes = 3\<rparr>"]
  by simp

text \<open>C29: Where the host-local engine runs an operation, the synthetic engine runs it with the same
  output and the same digest, whatever time it took.\<close>

theorem engines_same_result:
  assumes "bk_ok (host_local_execute elapsed req)"
  shows "bk_ok (synthetic_execute req) \<and>
    bk_output (synthetic_execute req) = bk_output (host_local_execute elapsed req) \<and>
    bk_digest (synthetic_execute req) = bk_digest (host_local_execute elapsed req)"
  using engines_agree [OF assms] by simp

theorem engines_same_result_witness:
  "bk_output (synthetic_execute \<lparr>bq_op_class = OperationClass.MAX, bq_data_type = DataType.U8,
      bq_input = [3, 1, 200], bq_input_bytes = 3\<rparr>) = [200]"
proof -
  let ?req = "\<lparr>bq_op_class = OperationClass.MAX, bq_data_type = DataType.U8, bq_input = [3, 1, 200], bq_input_bytes = 3\<rparr>"
  have "bk_ok (host_local_execute 5 ?req)" "bk_output (host_local_execute 5 ?req) = [200]"
    by (simp_all add: host_local_execute_def host_local_output_def size_mismatch_def byte_max_def
        BackendResult_default_def Let_def)
  with engines_same_result [of 5 ?req] show ?thesis by simp
qed

end
