(* ===== verification/Worker.thy ===== *)
theory Worker
  imports Coordinator Net Backend
begin

text \<open>
  The worker process, \<^verbatim>\<open>apps/nmc_worker.cpp\<close>: its command line, the five messages it registers
  with, and the loop that answers pings, runs dispatches on a backend and returns their results.
  What a run draws from outside (identities, the clock, whether a send succeeds) is an argument.
  The lemmas give what a worker sends for a dispatch and that its result carries the dispatch's
  authority and the digest of its own output.
\<close>

section \<open>Command line\<close>

definition starts_option :: "string \<Rightarrow> bool" where
  "starts_option s \<longleftrightarrow> take 2 s = ''--''"

type_synonym Args = "string \<rightharpoonup> string"

fun parse_arg_list :: "string list \<Rightarrow> Args \<Rightarrow> Args" where
  "parse_arg_list [] a = a"
| "parse_arg_list (s # rest) a =
     (if starts_option s then
        let key = drop 2 s in
        case rest of
          [] \<Rightarrow> a(key \<mapsto> ''1'')
        | v # rest' \<Rightarrow>
            if \<not> starts_option v then parse_arg_list rest' (a(key \<mapsto> v))
            else parse_arg_list rest (a(key \<mapsto> ''1''))
      else parse_arg_list rest a)"

definition parse_args :: "string list \<Rightarrow> Args" where
  "parse_args argv = parse_arg_list (tl argv) Map.empty"

text \<open>\<^verbatim>\<open>std::stoull\<close> and \<^verbatim>\<open>std::stoi\<close>: white space, a sign, the longest run of digits; \<^const>\<open>None\<close> where
  they throw.\<close>

definition is_space :: "char \<Rightarrow> bool" where
  "is_space c \<longleftrightarrow> of_char c = (32 :: nat) \<or> 9 \<le> (of_char c :: nat) \<and> (of_char c :: nat) \<le> 13"

definition is_digit :: "char \<Rightarrow> bool" where
  "is_digit c \<longleftrightarrow> 48 \<le> (of_char c :: nat) \<and> (of_char c :: nat) \<le> 57"

definition scan_integer :: "string \<Rightarrow> (bool \<times> nat) option" where
  "scan_integer s =
     (let s = dropWhile is_space s;
          neg = (take 1 s = ''-'');
          s = (if take 1 s = ''-'' \<or> take 1 s = ''+'' then drop 1 s else s);
          ds = takeWhile is_digit s
      in if ds = [] then None else Some (neg, base_val 10 ds))"

definition stoull :: "string \<Rightarrow> u64 option" where
  "stoull s = do {
     (neg, n) \<leftarrow> scan_integer s;
     if n \<ge> 2 ^ 64 then None
     else Some (if neg then - word_of_nat n else word_of_nat n)
   }"

definition stoi :: "string \<Rightarrow> int option" where
  "stoi s = do {
     (neg, n) \<leftarrow> scan_integer s;
     let v = (if neg then - int n else int n);
     if - (2 ^ 31) \<le> v \<and> v < 2 ^ 31 then Some v else None
   }"

definition parse_u64 :: "string \<Rightarrow> u64 \<Rightarrow> u64 option" where
  "parse_u64 s dflt = (if s = [] then Some dflt else stoull s)"

definition arg_or :: "Args \<Rightarrow> string \<Rightarrow> string \<Rightarrow> string" where
  "arg_or args key dflt = (case args key of None \<Rightarrow> dflt | Some v \<Rightarrow> v)"

text \<open>\<^verbatim>\<open>host:port\<close>, split at the last colon.\<close>

definition split_address :: "string \<Rightarrow> (string \<times> u16) option" where
  "split_address coord =
     (if CHR '':'' \<in> set coord then do {
        let tail = takeWhile (\<lambda>c. c \<noteq> CHR '':'') (rev coord);
        port \<leftarrow> stoi (rev tail);
        Some (take (length coord - length tail - 1) coord, word_of_int port)
      }
      else Some (coord, 0))"

record WorkerConfig =
  wk_host :: string
  wk_port :: u16
  wk_name :: string
  wk_target_name :: string
  wk_synthetic :: bool
  wk_hold_result :: bool
  wk_latency :: u64
  wk_throughput :: u64
  wk_dataset_id :: u64
  wk_region_id :: u64
  wk_domain_id :: u64
  wk_concurrency :: u32

definition worker_config :: "Args \<Rightarrow> WorkerConfig option" where
  "worker_config args = do {
     (host, port) \<leftarrow> split_address (arg_or args ''coordinator'' ''127.0.0.1:0'');
     latency \<leftarrow> parse_u64 (arg_or args ''latency'' '''') 12000000;
     throughput \<leftarrow> parse_u64 (arg_or args ''throughput'' '''') (push_bit 30 100);
     dataset_id \<leftarrow> parse_u64 (arg_or args ''dataset-id'' '''') 1000;
     region_id \<leftarrow> parse_u64 (arg_or args ''region-id'' '''') 1001;
     domain_id \<leftarrow> parse_u64 (arg_or args ''domain-id'' '''') 2000;
     concurrency \<leftarrow> parse_u64 (arg_or args ''concurrency'' '''') 4;
     Some \<lparr>wk_host = host, wk_port = port, wk_name = arg_or args ''name'' ''worker'',
           wk_target_name = arg_or args ''target'' ''nm-target'',
           wk_synthetic = (args ''synthetic'' \<noteq> None), wk_hold_result = (args ''hold-result'' \<noteq> None),
           wk_latency = latency, wk_throughput = throughput, wk_dataset_id = dataset_id,
           wk_region_id = region_id, wk_domain_id = domain_id, wk_concurrency = ucast concurrency\<rparr>
   }"

section \<open>Registration\<close>

record WorkerIdentity =
  wi_worker :: WorkerId
  wi_boot :: WorkerBootId
  wi_target :: NearMemoryTargetId

definition worker_identity :: "UniqueIdSource \<Rightarrow> WorkerIdentity \<times> UniqueIdSource" where
  "worker_identity ids =
     (let (wid, ids) = make_id ids;
          (boot, ids) = make_id ids;
          (target, ids) = make_id ids
      in (\<lparr>wi_worker = wid, wi_boot = boot, wi_target = target\<rparr>, ids))"

definition worker_hello :: "WorkerConfig \<Rightarrow> WorkerIdentity \<Rightarrow> HelloMsg" where
  "worker_hello cfg me = \<lparr>hm_worker = wi_worker me, hm_worker_boot = wi_boot me, hm_name = wk_name cfg\<rparr>"

definition worker_register_target :: "WorkerConfig \<Rightarrow> WorkerIdentity \<Rightarrow> RegisterTargetMsg" where
  "worker_register_target cfg me =
     \<lparr>rm_target = wi_target me, rm_generation = 1,
      rm_provider = (if wk_synthetic cfg then ProviderKind.SYNTHETIC else ProviderKind.REAL),
      rm_kind = (if wk_synthetic cfg then TargetKind.SYNTHETIC else TargetKind.HOST_CPU_LOCAL),
      rm_synthetic = wk_synthetic cfg, rm_name = wk_target_name cfg,
      rm_ops = [OperationClass.SUM, OperationClass.MIN, OperationClass.COUNT, OperationClass.MAX,
                OperationClass.FILTER, OperationClass.CHECKSUM, OperationClass.HASH],
      rm_data_types = [DataType.U8], rm_layouts = [Layout.CONTIGUOUS],
      rm_max_input_bytes = push_bit 30 8, rm_alignment = 1, rm_concurrency = wk_concurrency cfg,
      rm_workspace = push_bit 20 1, rm_owner_boot = wi_boot me\<rparr>"

definition worker_capability :: "WorkerIdentity \<Rightarrow> CapabilityMsg" where
  "worker_capability me =
     \<lparr>cm_target = wi_target me, cm_generation = 1,
      cm_entries = map (\<lambda>k. \<lparr>cw_key = k, cw_state = CapabilityState.SUPPORTED\<rparr>)
        [''operation:SUM'', ''operation:MIN'', ''operation:MAX'', ''operation:COUNT'',
         ''operation:FILTER'', ''operation:CHECKSUM'', ''operation:HASH''],
      cm_evidence_generation = 1, cm_publisher = wi_boot me\<rparr>"

definition worker_data_evidence :: "WorkerConfig \<Rightarrow> WorkerIdentity \<Rightarrow> DataEvidenceMsg" where
  "worker_data_evidence cfg me =
     \<lparr>dm_region = wk_region_id cfg, dm_region_generation = 1, dm_dataset = wk_dataset_id cfg,
      dm_dataset_generation = 1, dm_memory_domain = wk_domain_id cfg,
      dm_memory_domain_generation = 1, dm_present = True, dm_current = True, dm_reachable = True,
      dm_publisher = wi_boot me\<rparr>"

text \<open>The bits of the \<^verbatim>\<open>double\<close> 0.95.\<close>

definition worker_confidence :: f64 where
  "worker_confidence = 0x3FEE666666666666"

definition worker_heartbeat :: "WorkerConfig \<Rightarrow> WorkerIdentity \<Rightarrow> HeartbeatMsg" where
  "worker_heartbeat cfg me =
     \<lparr>bm_target = wi_target me, bm_lifecycle = TargetLifecycle.READY, bm_reachable = True,
      bm_queue_depth = 0, bm_latency_ns = wk_latency cfg, bm_throughput_bps = wk_throughput cfg,
      bm_confidence = worker_confidence\<rparr>"

text \<open>A frame to send: its type, payload and correlation.\<close>

type_synonym OutFrame = "FrameType \<times> u8 list \<times> u64"

definition worker_startup :: "WorkerConfig \<Rightarrow> WorkerIdentity \<Rightarrow> OutFrame list" where
  "worker_startup cfg me =
     [(FrameType.HELLO, encode_hello (worker_hello cfg me), 1),
      (FrameType.REGISTER_TARGET, encode_register_target (worker_register_target cfg me), 2),
      (FrameType.CAPABILITY, encode_capability (worker_capability me), 3),
      (FrameType.DATA_EVIDENCE, encode_data_evidence (worker_data_evidence cfg me), 4),
      (FrameType.HEARTBEAT, encode_heartbeat (worker_heartbeat cfg me), 5)]"

section \<open>The dispatch loop\<close>

definition worker_request :: "DispatchMsg \<Rightarrow> BackendRequest" where
  "worker_request dm =
     \<lparr>bq_op_class = dp_op_class dm, bq_data_type = dp_data_type dm, bq_input = dp_payload dm,
      bq_input_bytes = word_of_nat (length (dp_payload dm))\<rparr>"

definition worker_execute :: "bool \<Rightarrow> u64 \<Rightarrow> DispatchMsg \<Rightarrow> BackendResult" where
  "worker_execute synthetic elapsed dm =
     (if synthetic then synthetic_execute (worker_request dm)
      else host_local_execute elapsed (worker_request dm))"

definition worker_result :: "DispatchMsg \<Rightarrow> BackendResult \<Rightarrow> ResultMsg" where
  "worker_result dm r =
     \<lparr>rs_plan = dp_plan dm, rs_plan_gen = dp_plan_gen dm, rs_dispatch = dp_dispatch dm,
      rs_attempt = dp_attempt dm, rs_target = dp_target dm, rs_target_gen = dp_target_gen dm,
      rs_worker_boot = dp_worker_boot dm, rs_epoch = dp_epoch dm,
      rs_dataset_gen = dp_dataset_gen dm, rs_region_gen = dp_region_gen dm,
      rs_operation_gen = dp_operation_gen dm, rs_result_gen = 1, rs_output = bk_output r,
      rs_output_digest = to_hex (bk_digest r), rs_unknown = (\<not> bk_ok r), rs_note = bk_note r\<rparr>"

text \<open>One round of the loop: the frame sent, if any, the next correlation, and the exit code when the
  process leaves the loop.  A failed send of a result ends the process, a failed pong does not.\<close>

datatype Round = Continue u64 | Exit nat

definition worker_round ::
    "WorkerConfig \<Rightarrow> u64 \<Rightarrow> bool \<Rightarrow> u64 \<Rightarrow> FrameReceive \<Rightarrow> OutFrame option \<times> Round" where
  "worker_round cfg elapsed send_ok corr fr =
     (if fr_status fr \<noteq> FrameStatus.Ok then (None, Exit 0)
      else case fh_type (fr_header fr) of
        FrameType.PING \<Rightarrow> (Some (FrameType.PONG, [], fh_correlation (fr_header fr)), Continue corr)
      | FrameType.DISPATCH \<Rightarrow>
          (case decode_dispatch (fr_payload fr) of
             None \<Rightarrow> (None, Continue corr)
           | Some (dm, _) \<Rightarrow>
               let r = worker_execute (wk_synthetic cfg) elapsed dm in
               if wk_hold_result cfg then (None, Continue corr)
               else (Some (FrameType.RESULT, encode_result (worker_result dm r), corr),
                     if send_ok then Continue (corr + 1) else Exit 1))
      | FrameType.SHUTDOWN \<Rightarrow> (None, Exit 0)
      | _ \<Rightarrow> (None, Continue corr))"

section \<open>What a worker answers\<close>

lemma worker_execute_digest:
  "bk_ok (worker_execute synthetic elapsed dm) \<Longrightarrow>
     bk_digest (worker_execute synthetic elapsed dm) =
       content_digest (bk_output (worker_execute synthetic elapsed dm))"
  using synthetic_execute_output host_local_execute_output
  by (cases synthetic) (simp_all add: worker_execute_def)

lemma worker_request_matches:
  "length (dp_payload dm) < 2 ^ 64 \<Longrightarrow> \<not> size_mismatch (worker_request dm)"
  by (simp add: worker_request_def size_mismatch_def unat_of_nat take_bit_nat_eq_self)

lemma length_sample_bytes [simp]: "length (sample_bytes n s) = n"
  by (induction n arbitrary: s) (simp_all add: Let_def)

lemma length_build_sample_payload: "length (build_sample_payload op) \<le> 16384"
proof -
  have "min (op_input_bytes op) kMaxSamplePayload \<le> kMaxSamplePayload" by simp
  then show ?thesis
    by (simp add: build_sample_payload_def Let_def word_le_nat_alt kMaxSamplePayload_def)
qed

definition synthetic_class :: "OperationClass \<Rightarrow> bool" where
  "synthetic_class c \<longleftrightarrow> c \<in> {OperationClass.SUM, OperationClass.REDUCE, OperationClass.COUNT,
     OperationClass.MIN, OperationClass.MAX, OperationClass.CHECKSUM, OperationClass.HASH,
     OperationClass.FILTER, OperationClass.ELEMENTWISE, OperationClass.TRANSFORM}"

lemma synthetic_output_class: "synthetic_output req \<noteq> None \<longleftrightarrow> synthetic_class (bq_op_class req)"
  by (auto simp: synthetic_output_def synthetic_class_def Let_def split: OperationClass.splits)

text \<open>A synthetic worker runs every dispatch of the operations it can run.\<close>

lemma synthetic_worker_ok:
  "length (dp_payload dm) < 2 ^ 64 \<Longrightarrow> synthetic_class (dp_op_class dm) \<Longrightarrow>
     bk_ok (worker_execute True elapsed dm)"
  using worker_request_matches [of dm] synthetic_output_class [of "worker_request dm"]
  by (simp add: worker_execute_def synthetic_execute_ok worker_request_def)

end
