(* ===== verification/Transition.thy ===== *)
theory Transition
  imports Main
begin

text \<open>
  Guarded transition systems and their invariants.  A system has initial states, commands and a
  function that executes a command; a guard says which command may come in which state.
  Reachability is an inductive predicate, a run is a list of commands, and the locale
  \<open>inductive_invariant\<close> gives what an invariant needs to hold in every reachable state.
\<close>

inductive reachable ::
    "('s \<Rightarrow> bool) \<Rightarrow> ('c \<Rightarrow> 's \<Rightarrow> bool) \<Rightarrow> ('c \<Rightarrow> 's \<Rightarrow> 's) \<Rightarrow> 's \<Rightarrow> bool"
  for initial guard exec where
  initial: "initial s \<Longrightarrow> reachable initial guard exec s"
| step: "reachable initial guard exec s \<Longrightarrow> guard c s \<Longrightarrow> reachable initial guard exec (exec c s)"

primrec run :: "('c \<Rightarrow> 's \<Rightarrow> 's) \<Rightarrow> 'c list \<Rightarrow> 's \<Rightarrow> 's" where
  "run exec [] s = s"
| "run exec (c # cs) s = run exec cs (exec c s)"

primrec admissible :: "('c \<Rightarrow> 's \<Rightarrow> bool) \<Rightarrow> ('c \<Rightarrow> 's \<Rightarrow> 's) \<Rightarrow> 'c list \<Rightarrow> 's \<Rightarrow> bool" where
  "admissible guard exec [] s \<longleftrightarrow> True"
| "admissible guard exec (c # cs) s \<longleftrightarrow> guard c s \<and> admissible guard exec cs (exec c s)"

lemma reachable_run:
  "reachable initial guard exec s \<Longrightarrow> admissible guard exec cs s \<Longrightarrow>
   reachable initial guard exec (run exec cs s)"
  by (induction cs arbitrary: s) (auto intro: reachable.step)

lemma reachable_mono:
  assumes "reachable initial guard exec s" "\<And>c s. guard c s \<Longrightarrow> guard' c s"
  shows "reachable initial guard' exec s"
  using assms by (induction) (auto intro: reachable.intros)

locale inductive_invariant =
  fixes initial :: "'s \<Rightarrow> bool" and guard :: "'c \<Rightarrow> 's \<Rightarrow> bool" and exec :: "'c \<Rightarrow> 's \<Rightarrow> 's"
    and inv :: "'s \<Rightarrow> bool"
  assumes inv_initial: "initial s \<Longrightarrow> inv s"
    and inv_step: "inv s \<Longrightarrow> guard c s \<Longrightarrow> inv (exec c s)"
begin

lemma inv_reachable: "reachable initial guard exec s \<Longrightarrow> inv s"
  by (induction rule: reachable.induct) (auto intro: inv_initial inv_step)

lemma inv_run: "inv s \<Longrightarrow> admissible guard exec cs s \<Longrightarrow> inv (run exec cs s)"
  by (induction cs arbitrary: s) (auto intro: inv_step)

end

end
