(* ===== verification/Ledger.thy ===== *)
theory Ledger
  imports Coordinator Transition
begin

text \<open>
  The abstract contract of the coordinator's plan bookkeeping.  A ledger keeps the epoch, the
  plans, the operations with an active plan, the recorded results, and per target the admission
  slots in use and the capacity.  The step relation has one rule per kind of bookkeeping event
  and says nothing about planning, messages or evidence.  Two parameters restrict the events:
  which plans may be cancelled, and whether a target's capacity may shrink.  The invariants that
  follow from the rules are proved here by cases on the relation; the theory \<open>Refinement\<close> shows
  that every method of the coordinator is a step of its ledger.
\<close>

record Ledger =
  lg_epoch :: CoordinatorEpoch
  lg_plans :: "ExecutionPlanId \<rightharpoonup> ExecutionPlan"
  lg_active :: "OperationId \<rightharpoonup> ExecutionPlanId"
  lg_results :: "ResultId \<rightharpoonup> ExecutionResult"
  lg_slots :: "NearMemoryTargetId \<Rightarrow> u64"
  lg_capacity :: "NearMemoryTargetId \<Rightarrow> u32"

definition in_flight :: "ExecutionLifecycle \<Rightarrow> bool" where
  "in_flight l \<longleftrightarrow> l = ExecutionLifecycle.PLANNED \<or> l = ExecutionLifecycle.RESERVED \<or> executing l"

text \<open>What a fence, a retirement or a new epoch may do to a plan.\<close>

definition swept :: "ExecutionPlan \<Rightarrow> ExecutionPlan \<Rightarrow> bool" where
  "swept p p' \<longleftrightarrow> p' = p \<or>
     plan_lifecycle p \<noteq> ExecutionLifecycle.COMMITTED \<and>
     (\<not> terminal (plan_lifecycle p) \<and> p' = p\<lparr>plan_lifecycle := ExecutionLifecycle.FENCED\<rparr> \<or>
      \<not> executing (plan_lifecycle p) \<and> p' = p\<lparr>plan_lifecycle := ExecutionLifecycle.SUPERSEDED\<rparr> \<or>
      executing (plan_lifecycle p) \<and> p' = p\<lparr>plan_lifecycle := ExecutionLifecycle.OUTCOME_UNKNOWN\<rparr>)"

text \<open>Every plan that can still change is in the index of active operations.\<close>

definition indexed :: "(ExecutionPlanId \<rightharpoonup> ExecutionPlan) \<Rightarrow> (OperationId \<rightharpoonup> ExecutionPlanId) \<Rightarrow> bool" where
  "indexed plans active \<longleftrightarrow>
     (\<forall>pid p. plans pid = Some p \<longrightarrow> \<not> terminal (plan_lifecycle p) \<longrightarrow> active (plan_operation p) \<noteq> None)"

text \<open>Releasing a slot: the count goes down unless it is zero.\<close>

definition release :: "NearMemoryTargetId \<Rightarrow> (NearMemoryTargetId \<Rightarrow> u64) \<Rightarrow> (NearMemoryTargetId \<Rightarrow> u64)" where
  "release t slots = slots(t := if slots t > 0 then slots t - 1 else slots t)"

text \<open>A completion record for a plan.\<close>

definition records :: "ExecutionPlanId \<Rightarrow> ExecutionPlan \<Rightarrow> CoordinatorEpoch \<Rightarrow> ExecutionResult \<Rightarrow> bool" where
  "records pid p epoch r \<longleftrightarrow>
     res_plan r = pid \<and> res_epoch r = epoch \<and>
     Some (res_dispatch r) = plan_dispatch_id p \<and> Some (res_attempt r) = plan_attempt_id p \<and>
     res_worker_boot r = snap_worker_boot (pa_snapshot (plan_authority p)) \<and>
     res_target_generation r = snap_target_generation (pa_snapshot (plan_authority p)) \<and>
     res_dataset_generation r = snap_dataset_generation (pa_snapshot (plan_authority p)) \<and>
     res_region_generation r = snap_region_generation (pa_snapshot (plan_authority p)) \<and>
     res_operation_generation r = snap_operation_generation (pa_snapshot (plan_authority p))"

inductive ledger_step ::
    "(ExecutionPlan \<Rightarrow> bool) \<Rightarrow> bool \<Rightarrow> Ledger \<Rightarrow> Ledger \<Rightarrow> bool"
  for may_cancel keep_capacity where
  idle: "(\<And>t. keep_capacity \<Longrightarrow> lg_capacity L t \<le> cap t) \<Longrightarrow>
    ledger_step may_cancel keep_capacity L (L\<lparr>lg_capacity := cap\<rparr>)"
| create: "lg_active L (plan_operation p) = None \<Longrightarrow> lg_plans L pid = None \<Longrightarrow>
    plan_id p = pid \<Longrightarrow> pa_plan (plan_authority p) = pid \<Longrightarrow>
    plan_lifecycle p = ExecutionLifecycle.PLANNED \<Longrightarrow> plan_reserved_slots p = 0 \<Longrightarrow>
    snap_epoch (pa_snapshot (plan_authority p)) = lg_epoch L \<Longrightarrow>
    ledger_step may_cancel keep_capacity L
      (L\<lparr>lg_plans := (lg_plans L)(pid \<mapsto> p), lg_active := (lg_active L)(plan_operation p \<mapsto> pid)\<rparr>)"
| admit: "lg_plans L pid = Some p \<Longrightarrow> plan_lifecycle p = ExecutionLifecycle.PLANNED \<Longrightarrow>
    lg_slots L (plan_target p) < ucast (lg_capacity L (plan_target p)) \<Longrightarrow>
    ledger_step may_cancel keep_capacity L
      (L\<lparr>lg_plans := (lg_plans L)(pid \<mapsto> p\<lparr>plan_reserved_slots := 1, plan_reserved_workspace := w,
           plan_lifecycle := ExecutionLifecycle.RESERVED\<rparr>),
         lg_slots := (lg_slots L)(plan_target p := lg_slots L (plan_target p) + 1)\<rparr>)"
| bind: "lg_plans L pid = Some p \<Longrightarrow> plan_lifecycle p = ExecutionLifecycle.RESERVED \<Longrightarrow>
    ledger_step may_cancel keep_capacity L
      (L\<lparr>lg_plans := (lg_plans L)(pid \<mapsto> p\<lparr>plan_dispatch_id := Some d, plan_attempt_id := Some a\<rparr>)\<rparr>)"
| outdate: "lg_plans L pid = Some p \<Longrightarrow> plan_lifecycle p = ExecutionLifecycle.RESERVED \<Longrightarrow>
    ledger_step may_cancel keep_capacity L
      (L\<lparr>lg_plans := (lg_plans L)(pid \<mapsto> p\<lparr>plan_lifecycle := ExecutionLifecycle.SUPERSEDED\<rparr>)\<rparr>)"
| dispatch: "lg_plans L pid = Some p \<Longrightarrow> plan_lifecycle p = ExecutionLifecycle.RESERVED \<Longrightarrow>
    plan_dispatch_id p \<noteq> None \<Longrightarrow>
    ledger_step may_cancel keep_capacity L
      (L\<lparr>lg_plans := (lg_plans L)(pid \<mapsto> p\<lparr>plan_lifecycle := ExecutionLifecycle.DISPATCHED\<rparr>)\<rparr>)"
| finish: "lg_plans L pid = Some p \<Longrightarrow> executing (plan_lifecycle p) \<Longrightarrow>
    l = ExecutionLifecycle.OUTCOME_UNKNOWN \<or> l = ExecutionLifecycle.FAILED \<Longrightarrow>
    records pid p (lg_epoch L) r \<Longrightarrow> \<not> res_committed r \<Longrightarrow> lg_results L rid = None \<Longrightarrow>
    ledger_step may_cancel keep_capacity L
      (L\<lparr>lg_plans := (lg_plans L)(pid \<mapsto> p\<lparr>plan_lifecycle := l\<rparr>),
         lg_active := (lg_active L)(plan_operation p := None),
         lg_results := (lg_results L)(rid \<mapsto> r)\<rparr>)"
| commit: "lg_plans L pid = Some p \<Longrightarrow> executing (plan_lifecycle p) \<Longrightarrow>
    records pid p (lg_epoch L) r \<Longrightarrow> res_committed r \<Longrightarrow> lg_results L rid = None \<Longrightarrow>
    ledger_step may_cancel keep_capacity L
      (L\<lparr>lg_plans := (lg_plans L)(pid \<mapsto> p\<lparr>plan_lifecycle := ExecutionLifecycle.COMMITTED\<rparr>),
         lg_active := (lg_active L)(plan_operation p := None),
         lg_results := (lg_results L)(rid \<mapsto> r),
         lg_slots := release (plan_target p) (lg_slots L)\<rparr>)"
| cancel: "lg_plans L pid = Some p \<Longrightarrow> \<not> terminal (plan_lifecycle p) \<Longrightarrow> may_cancel p \<Longrightarrow>
    ledger_step may_cancel keep_capacity L
      (L\<lparr>lg_plans := (lg_plans L)(pid \<mapsto> p\<lparr>plan_lifecycle := ExecutionLifecycle.CANCELLED\<rparr>),
         lg_active := (lg_active L)(plan_operation p := None),
         lg_slots := release (plan_target p) (lg_slots L)\<rparr>)"
| sweep: "(\<And>p. swept p (f p)) \<Longrightarrow> indexed (map_option f \<circ> lg_plans L) active \<Longrightarrow>
    epoch = lg_epoch L \<or> (\<forall>p. \<not> in_flight (plan_lifecycle (f p))) \<Longrightarrow>
    ledger_step may_cancel keep_capacity L
      (L\<lparr>lg_plans := map_option f \<circ> lg_plans L, lg_active := active, lg_epoch := epoch\<rparr>)"

section \<open>Invariants of the ledger\<close>

text \<open>Well-formed plans: identities agree, the lifecycle is one the bookkeeping produces, a plan in
  flight belongs to the current epoch, a plan holds a slot exactly once it has been admitted, and
  an executing plan carries its dispatch and attempt.\<close>

definition plan_wf :: "CoordinatorEpoch \<Rightarrow> ExecutionPlanId \<Rightarrow> ExecutionPlan \<Rightarrow> bool" where
  "plan_wf epoch pid p \<longleftrightarrow>
     plan_id p = pid \<and> pa_plan (plan_authority p) = pid \<and>
     (in_flight (plan_lifecycle p) \<or> terminal (plan_lifecycle p) \<or>
      plan_lifecycle p = ExecutionLifecycle.OUTCOME_UNKNOWN) \<and>
     (in_flight (plan_lifecycle p) \<longrightarrow> snap_epoch (pa_snapshot (plan_authority p)) = epoch) \<and>
     (plan_lifecycle p = ExecutionLifecycle.PLANNED \<longrightarrow> plan_reserved_slots p = 0) \<and>
     (plan_lifecycle p = ExecutionLifecycle.RESERVED \<or> executing (plan_lifecycle p) \<longrightarrow>
        plan_reserved_slots p = 1) \<and>
     (executing (plan_lifecycle p) \<longrightarrow> plan_dispatch_id p \<noteq> None)"

definition plans_wf :: "Ledger \<Rightarrow> bool" where
  "plans_wf L \<longleftrightarrow> finite (dom (lg_plans L)) \<and>
     (\<forall>pid p. lg_plans L pid = Some p \<longrightarrow> plan_wf (lg_epoch L) pid p)"

text \<open>The results: at most one per plan, only for plans whose execution is over; a committed result
  exactly for the committed plans, and it carries the authority its plan was dispatched under.\<close>

definition results_wf :: "Ledger \<Rightarrow> bool" where
  "results_wf L \<longleftrightarrow>
     (\<forall>rid r. lg_results L rid = Some r \<longrightarrow>
        (\<exists>p. lg_plans L (res_plan r) = Some p \<and> \<not> in_flight (plan_lifecycle p) \<and>
             records (res_plan r) p (snap_epoch (pa_snapshot (plan_authority p))) r \<and>
             (res_committed r \<longleftrightarrow> plan_lifecycle p = ExecutionLifecycle.COMMITTED))) \<and>
     (\<forall>rid r rid' r'. lg_results L rid = Some r \<longrightarrow> lg_results L rid' = Some r' \<longrightarrow>
        res_plan r = res_plan r' \<longrightarrow> rid = rid') \<and>
     (\<forall>pid p. lg_plans L pid = Some p \<longrightarrow> plan_lifecycle p = ExecutionLifecycle.COMMITTED \<longrightarrow>
        (\<exists>rid r. lg_results L rid = Some r \<and> res_plan r = pid))"

text \<open>At most one plan in flight per operation, and its operation is in the index.\<close>

definition exclusive :: "Ledger \<Rightarrow> bool" where
  "exclusive L \<longleftrightarrow>
     (\<forall>pid p. lg_plans L pid = Some p \<longrightarrow> in_flight (plan_lifecycle p) \<longrightarrow>
        lg_active L (plan_operation p) \<noteq> None) \<and>
     (\<forall>pid p pid' p'. lg_plans L pid = Some p \<longrightarrow> lg_plans L pid' = Some p' \<longrightarrow>
        in_flight (plan_lifecycle p) \<longrightarrow> in_flight (plan_lifecycle p') \<longrightarrow>
        plan_operation p = plan_operation p' \<longrightarrow> pid = pid')"

text \<open>The plans that hold an admission slot of a target, and the bound on the slots in use.\<close>

definition holds_slot :: "ExecutionPlan \<Rightarrow> bool" where
  "holds_slot p \<longleftrightarrow> plan_reserved_slots p = 1 \<and>
     (plan_lifecycle p = ExecutionLifecycle.RESERVED \<or> executing (plan_lifecycle p) \<or>
      plan_lifecycle p = ExecutionLifecycle.OUTCOME_UNKNOWN)"

definition holders :: "Ledger \<Rightarrow> NearMemoryTargetId \<Rightarrow> ExecutionPlanId set" where
  "holders L t = {pid. \<exists>p. lg_plans L pid = Some p \<and> plan_target p = t \<and> holds_slot p}"

definition slots_wf :: "Ledger \<Rightarrow> bool" where
  "slots_wf L \<longleftrightarrow> (\<forall>t. card (holders L t) \<le> unat (lg_slots L t))"

definition slots_bounded :: "Ledger \<Rightarrow> bool" where
  "slots_bounded L \<longleftrightarrow> (\<forall>t. unat (lg_slots L t) \<le> unat (lg_capacity L t))"

lemmas lifecycle_defs = in_flight_def executing_def terminal_def

lemma plans_wfD: "plans_wf L \<Longrightarrow> lg_plans L pid = Some p \<Longrightarrow> plan_wf (lg_epoch L) pid p"
  by (simp add: plans_wf_def)

lemma plans_wf_update:
  assumes "plans_wf L" "plan_wf (lg_epoch L) pid p"
    and "lg_plans L' = (lg_plans L)(pid \<mapsto> p)" "lg_epoch L' = lg_epoch L"
  shows "plans_wf L'"
  using assms by (simp add: plans_wf_def)

lemma plan_wf_lifecycle:
  "plan_wf e pid p \<Longrightarrow> terminal l \<or> l = ExecutionLifecycle.OUTCOME_UNKNOWN \<Longrightarrow>
   plan_wf e pid (p\<lparr>plan_lifecycle := l\<rparr>)"
  unfolding plan_wf_def lifecycle_defs by (elim conjE disjE) simp_all

lemma swept_lifecycle:
  "swept p p' \<Longrightarrow> p' = p \<or> plan_lifecycle p \<noteq> ExecutionLifecycle.COMMITTED \<and>
     (\<exists>l. (terminal l \<or> l = ExecutionLifecycle.OUTCOME_UNKNOWN \<and> executing (plan_lifecycle p)) \<and>
        l \<noteq> ExecutionLifecycle.COMMITTED \<and> p' = p\<lparr>plan_lifecycle := l\<rparr>)"
  unfolding swept_def terminal_def by blast

lemma plan_wf_swept: "plan_wf e pid p \<Longrightarrow> swept p p' \<Longrightarrow> plan_wf e pid p'"
  using swept_lifecycle [of p p'] plan_wf_lifecycle [of e pid p] by blast

lemma plan_wf_epoch:
  "plan_wf e pid p \<Longrightarrow> e' = e \<or> \<not> in_flight (plan_lifecycle p) \<Longrightarrow> plan_wf e' pid p"
  unfolding plan_wf_def by blast

lemma plans_wf_step:
  assumes step: "ledger_step mc kc L L'" and wf: "plans_wf L"
  shows "plans_wf L'"
  using step
proof (cases rule: ledger_step.cases)
  case (idle cap)
  with wf show ?thesis by (simp add: plans_wf_def)
next
  case (create p pid)
  with wf show ?thesis
    by (intro plans_wf_update [OF wf, of pid p]) (simp_all add: plan_wf_def lifecycle_defs)
next
  case (admit pid p w)
  with plans_wfD [OF wf admit(2)] show ?thesis
    by (intro plans_wf_update [OF wf]) (simp_all add: plan_wf_def lifecycle_defs)
next
  case (bind pid p d a)
  with plans_wfD [OF wf bind(2)] show ?thesis
    by (intro plans_wf_update [OF wf]) (simp_all add: plan_wf_def lifecycle_defs)
next
  case (outdate pid p)
  with plans_wfD [OF wf outdate(2)] show ?thesis
    by (intro plans_wf_update [OF wf]) (simp_all add: plan_wf_lifecycle terminal_def)
next
  case (dispatch pid p)
  with plans_wfD [OF wf dispatch(2)] show ?thesis
    by (intro plans_wf_update [OF wf]) (simp_all add: plan_wf_def lifecycle_defs)
next
  case (finish pid p l r rid)
  with plans_wfD [OF wf finish(2)] show ?thesis
    by (intro plans_wf_update [OF wf]) (auto intro!: plan_wf_lifecycle simp: terminal_def)
next
  case (commit pid p r rid)
  with plans_wfD [OF wf commit(2)] show ?thesis
    by (intro plans_wf_update [OF wf]) (simp_all add: plan_wf_lifecycle terminal_def)
next
  case (cancel pid p)
  with plans_wfD [OF wf cancel(2)] show ?thesis
    by (intro plans_wf_update [OF wf]) (simp_all add: plan_wf_lifecycle terminal_def)
next
  case (sweep f active epoch)
  have "plan_wf epoch pid (f p)" if "lg_plans L pid = Some p" for pid p
    using plan_wf_swept [OF plans_wfD [OF wf that] sweep(2)] sweep(4) by (auto intro: plan_wf_epoch)
  moreover have "dom (map_option f \<circ> lg_plans L) = dom (lg_plans L)"
    by (auto simp: dom_def)
  ultimately show ?thesis
    using wf sweep(1) by (auto simp: plans_wf_def)
qed

text \<open>A step that records nothing keeps the results well-formed when it leaves every settled plan
  settled, as committed or uncommitted as before, and commits no plan.\<close>

definition committed :: "ExecutionPlan \<Rightarrow> bool" where
  "committed p \<longleftrightarrow> plan_lifecycle p = ExecutionLifecycle.COMMITTED"

definition settles :: "ExecutionPlan \<Rightarrow> ExecutionPlan \<Rightarrow> bool" where
  "settles p p' \<longleftrightarrow> \<not> in_flight (plan_lifecycle p') \<and> (committed p' \<longleftrightarrow> committed p) \<and>
     plan_authority p' = plan_authority p \<and> plan_dispatch_id p' = plan_dispatch_id p \<and>
     plan_attempt_id p' = plan_attempt_id p"

lemma records_settles: "settles p p' \<Longrightarrow> records pid p' e r = records pid p e r"
  by (simp add: settles_def records_def)

lemma settles_lifecycle:
  "\<not> in_flight l \<Longrightarrow> (l = ExecutionLifecycle.COMMITTED \<longleftrightarrow> committed p) \<Longrightarrow> settles p (p\<lparr>plan_lifecycle := l\<rparr>)"
  by (simp add: settles_def committed_def)

lemma terminal_not_in_flight: "terminal l \<Longrightarrow> \<not> in_flight l"
  by (auto simp: lifecycle_defs)

lemma swept_settles: "swept p p' \<Longrightarrow> \<not> in_flight (plan_lifecycle p) \<Longrightarrow> settles p p'"
  using swept_lifecycle [of p p']
  by (auto simp: committed_def executing_def in_flight_def settles_def dest: terminal_not_in_flight)

definition entry_ok :: "Ledger \<Rightarrow> ExecutionResult \<Rightarrow> bool" where
  "entry_ok L r \<longleftrightarrow>
     (\<exists>p. lg_plans L (res_plan r) = Some p \<and> \<not> in_flight (plan_lifecycle p) \<and>
        records (res_plan r) p (snap_epoch (pa_snapshot (plan_authority p))) r \<and>
        (res_committed r \<longleftrightarrow> committed p))"

lemma results_wfI:
  assumes "\<And>rid r. lg_results L rid = Some r \<Longrightarrow> entry_ok L r"
    and "\<And>rid r rid' r'. lg_results L rid = Some r \<Longrightarrow> lg_results L rid' = Some r' \<Longrightarrow>
      res_plan r = res_plan r' \<Longrightarrow> rid = rid'"
    and "\<And>pid p. lg_plans L pid = Some p \<Longrightarrow> committed p \<Longrightarrow>
      \<exists>rid r. lg_results L rid = Some r \<and> res_plan r = pid"
  shows "results_wf L"
  unfolding results_wf_def using assms unfolding entry_ok_def committed_def by blast

lemma results_wfD:
  assumes "results_wf L"
  shows "lg_results L rid = Some r \<Longrightarrow> entry_ok L r"
    and "lg_results L rid = Some r \<Longrightarrow> lg_results L rid' = Some r' \<Longrightarrow>
      res_plan r = res_plan r' \<Longrightarrow> rid = rid'"
    and "lg_plans L pid = Some p \<Longrightarrow> committed p \<Longrightarrow> \<exists>rid r. lg_results L rid = Some r \<and> res_plan r = pid"
  using assms unfolding results_wf_def entry_ok_def committed_def by blast+

lemma entry_ok_settles:
  assumes "entry_ok L r"
    and "\<And>pid p. lg_plans L pid = Some p \<Longrightarrow> \<not> in_flight (plan_lifecycle p) \<Longrightarrow>
      \<exists>p'. lg_plans L' pid = Some p' \<and> settles p p'"
  shows "entry_ok L' r"
proof -
  from assms(1) obtain p where p: "lg_plans L (res_plan r) = Some p" "\<not> in_flight (plan_lifecycle p)"
    "records (res_plan r) p (snap_epoch (pa_snapshot (plan_authority p))) r"
    "res_committed r \<longleftrightarrow> committed p"
    unfolding entry_ok_def by blast
  from assms(2) [OF p(1,2)] obtain p' where p': "lg_plans L' (res_plan r) = Some p'" "settles p p'"
    by blast
  have "records (res_plan r) p' (snap_epoch (pa_snapshot (plan_authority p'))) r"
    using p(3) p'(2) records_settles [OF p'(2)] by (simp add: settles_def)
  with p p' show ?thesis
    unfolding entry_ok_def settles_def by auto
qed

lemma results_wf_plans:
  assumes wf: "results_wf L" and res: "lg_results L' = lg_results L"
    and keep: "\<And>pid p. lg_plans L pid = Some p \<Longrightarrow> \<not> in_flight (plan_lifecycle p) \<Longrightarrow>
      \<exists>p'. lg_plans L' pid = Some p' \<and> settles p p'"
    and prev: "\<And>pid p'. lg_plans L' pid = Some p' \<Longrightarrow> committed p' \<Longrightarrow>
      \<exists>p. lg_plans L pid = Some p \<and> committed p"
  shows "results_wf L'"
proof (rule results_wfI, unfold res)
  show "entry_ok L' r" if "lg_results L rid = Some r" for rid r
    using results_wfD(1) [OF wf that] keep by (rule entry_ok_settles)
  show "rid = rid'" if "lg_results L rid = Some r" "lg_results L rid' = Some r'"
    "res_plan r = res_plan r'" for rid r rid' r'
    using that by (rule results_wfD(2) [OF wf])
  show "\<exists>rid r. lg_results L rid = Some r \<and> res_plan r = pid"
    if "lg_plans L' pid = Some p'" "committed p'" for pid p'
    using prev [OF that] results_wfD(3) [OF wf] by blast
qed

lemma results_wf_in_flight:
  assumes "results_wf L" "lg_results L' = lg_results L"
    and "lg_plans L pid = None \<or> (\<exists>p. lg_plans L pid = Some p \<and> in_flight (plan_lifecycle p))"
    and "lg_plans L' = (lg_plans L)(pid \<mapsto> p')" "\<not> committed p'"
  shows "results_wf L'"
  using assms(1,2)
proof (rule results_wf_plans)
  show "\<exists>q'. lg_plans L' qid = Some q' \<and> settles q q'"
    if "lg_plans L qid = Some q" "\<not> in_flight (plan_lifecycle q)" for qid q
    using that assms(3,4) by (cases "qid = pid") (auto simp: settles_def)
  show "\<exists>q. lg_plans L qid = Some q \<and> committed q" if "lg_plans L' qid = Some q'" "committed q'" for qid q'
    using that assms(4,5) by (auto split: if_splits)
qed

text \<open>Recording the completion of an executing plan.\<close>

lemma results_wf_record:
  assumes wf: "results_wf L" and p: "lg_plans L pid = Some p" "executing (plan_lifecycle p)"
    and l: "\<not> in_flight l" "res_committed r \<longleftrightarrow> l = ExecutionLifecycle.COMMITTED"
    and r: "records pid p (snap_epoch (pa_snapshot (plan_authority p))) r" "lg_results L rid = None"
    and L': "lg_plans L' = (lg_plans L)(pid \<mapsto> p\<lparr>plan_lifecycle := l\<rparr>)"
      "lg_results L' = (lg_results L)(rid \<mapsto> r)"
  shows "results_wf L'"
proof -
  let ?p = "p\<lparr>plan_lifecycle := l\<rparr>"
  have rp: "res_plan r = pid"
    using r(1) by (simp add: records_def)
  have new: "entry_ok L' r"
    unfolding entry_ok_def L' by (intro exI [of _ ?p]) (use l r(1) in \<open>simp add: rp records_def committed_def\<close>)
  have other: "res_plan r' \<noteq> pid \<and> entry_ok L' r'" if "lg_results L rid' = Some r'" for rid' r'
  proof -
    have "res_plan r' \<noteq> pid"
      using results_wfD(1) [OF wf that] p by (auto simp: entry_ok_def in_flight_def)
    with results_wfD(1) [OF wf that] show ?thesis
      by (simp add: entry_ok_def L')
  qed
  show ?thesis
  proof (rule results_wfI, unfold L'(2))
    show "entry_ok L' r'" if "((lg_results L)(rid \<mapsto> r)) rid' = Some r'" for rid' r'
      using that new other by (auto split: if_splits)
    show "rid1 = rid2" if "((lg_results L)(rid \<mapsto> r)) rid1 = Some r1"
      "((lg_results L)(rid \<mapsto> r)) rid2 = Some r2" "res_plan r1 = res_plan r2" for rid1 r1 rid2 r2
      using that rp other results_wfD(2) [OF wf] by (auto split: if_splits)
    show "\<exists>rid' r'. ((lg_results L)(rid \<mapsto> r)) rid' = Some r' \<and> res_plan r' = qid"
      if "lg_plans L' qid = Some q" "committed q" for qid q
    proof (cases "qid = pid")
      case True
      then show ?thesis by (intro exI [of _ rid] exI [of _ r]) (simp add: rp)
    next
      case False
      with that obtain rid' r' where "lg_results L rid' = Some r'" "res_plan r' = qid"
        using results_wfD(3) [OF wf, of qid q] by (auto simp: L')
      with r(2) show ?thesis by (intro exI [of _ rid'] exI [of _ r']) auto
    qed
  qed
qed

lemma results_wf_step:
  assumes step: "ledger_step mc kc L L'" and pwf: "plans_wf L" and wf: "results_wf L"
  shows "results_wf L'"
  using step
proof (cases rule: ledger_step.cases)
  case (idle cap)
  then show ?thesis
    by (intro results_wf_plans [OF wf]) (auto simp: settles_def)
next
  case (create p pid)
  then show ?thesis
    by (intro results_wf_in_flight [OF wf, of _ pid p]) (simp_all add: committed_def)
next
  case (admit pid p w)
  then show ?thesis
    by (intro results_wf_in_flight [OF wf, of _ pid])
      (simp, simp add: in_flight_def, simp, simp add: committed_def)
next
  case (bind pid p d a)
  then show ?thesis
    by (intro results_wf_in_flight [OF wf, of _ pid])
      (simp, simp add: in_flight_def, simp, simp add: committed_def)
next
  case (outdate pid p)
  then show ?thesis
    by (intro results_wf_in_flight [OF wf, of _ pid])
      (simp, simp add: in_flight_def, simp, simp add: committed_def)
next
  case (dispatch pid p)
  then show ?thesis
    by (intro results_wf_in_flight [OF wf, of _ pid])
      (simp, simp add: in_flight_def, simp, simp add: committed_def)
next
  case (finish pid p l r rid)
  have "snap_epoch (pa_snapshot (plan_authority p)) = lg_epoch L"
    using plans_wfD [OF pwf finish(2)] finish(3) by (simp add: plan_wf_def in_flight_def)
  with finish show ?thesis
    by (intro results_wf_record [OF wf finish(2,3), of l r rid]) (auto simp: lifecycle_defs)
next
  case (commit pid p r rid)
  have "snap_epoch (pa_snapshot (plan_authority p)) = lg_epoch L"
    using plans_wfD [OF pwf commit(2)] commit(3) by (simp add: plan_wf_def in_flight_def)
  with commit show ?thesis
    by (intro results_wf_record [OF wf commit(2,3), of _ r rid]) (auto simp: lifecycle_defs)
next
  case (cancel pid p)
  have "settles p (p\<lparr>plan_lifecycle := ExecutionLifecycle.CANCELLED\<rparr>)"
    using cancel(3) by (intro settles_lifecycle) (auto simp: lifecycle_defs committed_def)
  with cancel show ?thesis
    by (intro results_wf_plans [OF wf]) (auto simp: settles_def committed_def split: if_splits)
next
  case (sweep f active epoch)
  show ?thesis
  proof (rule results_wf_plans [OF wf])
    show "\<exists>p'. lg_plans L' pid = Some p' \<and> settles p p'"
      if "lg_plans L pid = Some p" "\<not> in_flight (plan_lifecycle p)" for pid p
      using that swept_settles [OF sweep(2)] sweep(1) by simp
    show "\<exists>p. lg_plans L pid = Some p \<and> committed p"
      if p': "lg_plans L' pid = Some p'" "committed p'" for pid p'
    proof -
      obtain p where "lg_plans L pid = Some p" "p' = f p"
        using p'(1) sweep(1) by auto
      moreover have "committed p"
        using p'(2) swept_lifecycle [OF sweep(2) [of p]] \<open>p' = f p\<close> by (auto simp: committed_def)
      ultimately show ?thesis by blast
    qed
  qed (use sweep(1) in simp)
qed

section \<open>One plan in flight per operation\<close>

lemma exclusiveI:
  assumes "\<And>pid p. lg_plans L pid = Some p \<Longrightarrow> in_flight (plan_lifecycle p) \<Longrightarrow>
      lg_active L (plan_operation p) \<noteq> None"
    and "\<And>pid p pid' p'. lg_plans L pid = Some p \<Longrightarrow> lg_plans L pid' = Some p' \<Longrightarrow>
      in_flight (plan_lifecycle p) \<Longrightarrow> in_flight (plan_lifecycle p') \<Longrightarrow>
      plan_operation p = plan_operation p' \<Longrightarrow> pid = pid'"
  shows "exclusive L"
  unfolding exclusive_def using assms by blast

lemma exclusiveD:
  assumes "exclusive L"
  shows "lg_plans L pid = Some p \<Longrightarrow> in_flight (plan_lifecycle p) \<Longrightarrow>
      lg_active L (plan_operation p) \<noteq> None"
    and "lg_plans L pid = Some p \<Longrightarrow> lg_plans L pid' = Some p' \<Longrightarrow>
      in_flight (plan_lifecycle p) \<Longrightarrow> in_flight (plan_lifecycle p') \<Longrightarrow>
      plan_operation p = plan_operation p' \<Longrightarrow> pid = pid'"
  using assms unfolding exclusive_def by blast+

text \<open>Moving one plan without creating a new one in flight; when it leaves the flight its operation
  may leave the index.\<close>

lemma exclusive_move:
  assumes ex: "exclusive L" and p: "lg_plans L pid = Some p"
    and op: "plan_operation p' = plan_operation p"
    and fl: "in_flight (plan_lifecycle p') \<Longrightarrow> in_flight (plan_lifecycle p)"
    and plans: "lg_plans L' = (lg_plans L)(pid \<mapsto> p')"
    and act: "lg_active L' = lg_active L \<or> lg_active L' = (lg_active L)(plan_operation p := None) \<and>
      in_flight (plan_lifecycle p) \<and> \<not> in_flight (plan_lifecycle p')"
  shows "exclusive L'"
proof (rule exclusiveI)
  show "qid = qid'" if "lg_plans L' qid = Some q" "lg_plans L' qid' = Some q'"
    "in_flight (plan_lifecycle q)" "in_flight (plan_lifecycle q')" "plan_operation q = plan_operation q'"
    for qid q qid' q'
    using that p op fl exclusiveD(2) [OF ex] by (auto simp: plans split: if_splits)
  show "lg_active L' (plan_operation q) \<noteq> None"
    if q: "lg_plans L' qid = Some q" "in_flight (plan_lifecycle q)" for qid q
  proof (cases "qid = pid")
    case True
    with q have [simp]: "q = p'" by (simp add: plans)
    show ?thesis
      using act exclusiveD(1) [OF ex p] fl q(2) op by auto
  next
    case False
    with q have L: "lg_plans L qid = Some q" by (simp add: plans)
    have "plan_operation q \<noteq> plan_operation p" if "in_flight (plan_lifecycle p)"
      using exclusiveD(2) [OF ex L p q(2) that] False by blast
    with act exclusiveD(1) [OF ex L q(2)] show ?thesis by auto
  qed
qed

lemma swept_in_flight:
  "swept p p' \<Longrightarrow> plan_operation p' = plan_operation p \<and>
     (in_flight (plan_lifecycle p') \<longrightarrow> in_flight (plan_lifecycle p))"
  using swept_lifecycle [of p p'] by (auto simp: lifecycle_defs)

lemma exclusive_step:
  assumes step: "ledger_step mc kc L L'" and pwf: "plans_wf L" and ex: "exclusive L"
    and mc: "\<And>p. mc p \<Longrightarrow> plan_lifecycle p \<noteq> ExecutionLifecycle.OUTCOME_UNKNOWN"
  shows "exclusive L'"
  using step
proof (cases rule: ledger_step.cases)
  case (idle cap)
  with ex show ?thesis by (simp add: exclusive_def)
next
  case (create p pid)
  have none: "\<not> in_flight (plan_lifecycle q)" if "lg_plans L qid = Some q" "plan_operation q = plan_operation p"
    for qid q
    using exclusiveD(1) [OF ex that(1)] that(2) create(2) by auto
  show ?thesis
  proof (rule exclusiveI)
    show "lg_active L' (plan_operation q) \<noteq> None"
      if "lg_plans L' qid = Some q" "in_flight (plan_lifecycle q)" for qid q
      using that exclusiveD(1) [OF ex] create(1) by (auto split: if_splits)
    show "qid = qid'" if "lg_plans L' qid = Some q" "lg_plans L' qid' = Some q'"
      "in_flight (plan_lifecycle q)" "in_flight (plan_lifecycle q')" "plan_operation q = plan_operation q'"
      for qid q qid' q'
      using that none [of qid q] none [of qid' q'] exclusiveD(2) [OF ex] create(1)
      by (auto split: if_splits)
  qed
next
  case (admit pid p w)
  then show ?thesis
    by (intro exclusive_move [OF ex admit(2)]) (auto simp: lifecycle_defs)
next
  case (bind pid p d a)
  then show ?thesis
    by (intro exclusive_move [OF ex bind(2)]) (auto simp: lifecycle_defs)
next
  case (outdate pid p)
  then show ?thesis
    by (intro exclusive_move [OF ex outdate(2)]) (auto simp: lifecycle_defs)
next
  case (dispatch pid p)
  then show ?thesis
    by (intro exclusive_move [OF ex dispatch(2)]) (auto simp: lifecycle_defs)
next
  case (finish pid p l r rid)
  then show ?thesis
    by (intro exclusive_move [OF ex finish(2)]) (auto simp: lifecycle_defs)
next
  case (commit pid p r rid)
  then show ?thesis
    by (intro exclusive_move [OF ex commit(2)]) (auto simp: lifecycle_defs)
next
  case (cancel pid p)
  have "in_flight (plan_lifecycle p)"
    using plans_wfD [OF pwf cancel(2)] cancel(3) mc [OF cancel(4)] by (simp add: plan_wf_def)
  with cancel show ?thesis
    by (intro exclusive_move [OF ex cancel(2)]) (auto simp: lifecycle_defs)
next
  case (sweep f active epoch)
  show ?thesis
  proof (rule exclusiveI)
    show "lg_active L' (plan_operation q) \<noteq> None"
      if "lg_plans L' qid = Some q" "in_flight (plan_lifecycle q)" for qid q
      using that sweep(1,3) terminal_not_in_flight by (auto simp: indexed_def)
    show "qid = qid'" if q: "lg_plans L' qid = Some q" "lg_plans L' qid' = Some q'"
      "in_flight (plan_lifecycle q)" "in_flight (plan_lifecycle q')" "plan_operation q = plan_operation q'"
      for qid q qid' q'
    proof -
      obtain p p' where "lg_plans L qid = Some p" "q = f p" "lg_plans L qid' = Some p'" "q' = f p'"
        using q(1,2) sweep(1) by auto
      with q(3-5) swept_in_flight [OF sweep(2)] show ?thesis
        using exclusiveD(2) [OF ex] by metis
    qed
  qed
qed

section \<open>Admission slots\<close>

lemma finite_holders: "plans_wf L \<Longrightarrow> finite (holders L t)"
  by (rule finite_subset [of _ "dom (lg_plans L)"]) (auto simp: holders_def plans_wf_def)

lemma holders_update:
  assumes "lg_plans L' = (lg_plans L)(pid \<mapsto> p')"
    and "\<And>p. lg_plans L pid = Some p \<Longrightarrow> plan_target p = plan_target p'"
  shows "holders L' t =
    (if t \<noteq> plan_target p' then holders L t
     else if holds_slot p' then insert pid (holders L t) else holders L t - {pid})"
  using assms by (auto simp: holders_def)

lemma slots_wf_shrink:
  assumes "slots_wf L" "plans_wf L" "lg_slots L' = lg_slots L" "\<And>t. holders L' t \<subseteq> holders L t"
  shows "slots_wf L'"
  unfolding slots_wf_def
proof
  fix t
  have "card (holders L' t) \<le> card (holders L t)"
    using assms(2,4) by (intro card_mono finite_holders)
  with assms(1,3) show "card (holders L' t) \<le> unat (lg_slots L' t)"
    by (metis order_trans slots_wf_def)
qed

text \<open>A plan that holds a slot gives it back.\<close>

lemma slots_wf_release:
  assumes wf: "slots_wf L" and pwf: "plans_wf L"
    and p: "lg_plans L pid = Some p" "holds_slot p" "\<not> holds_slot p'" "plan_target p' = plan_target p"
    and L': "lg_plans L' = (lg_plans L)(pid \<mapsto> p')" "lg_slots L' = release (plan_target p) (lg_slots L)"
  shows "slots_wf L'"
  unfolding slots_wf_def
proof
  fix t
  have upd: "holders L' t = (if t \<noteq> plan_target p then holders L t else holders L t - {pid})"
    using holders_update [OF L'(1), of t] p by simp
  show "card (holders L' t) \<le> unat (lg_slots L' t)"
  proof (cases "t = plan_target p")
    case True
    then have "pid \<in> holders L t"
      using p by (auto simp: holders_def)
    moreover have "holders L' t = holders L t - {pid}"
      using upd True by simp
    ultimately have card: "card (holders L' t) = card (holders L t) - 1" "0 < card (holders L t)"
      using finite_holders [OF pwf, of t] by (auto simp: card_gt_0_iff)
    have le: "card (holders L t) \<le> unat (lg_slots L t)"
      using wf by (simp add: slots_wf_def)
    then have "0 < lg_slots L t"
      using card(2) by (simp add: word_less_nat_alt)
    then have "unat (lg_slots L' t) = unat (lg_slots L t) - 1"
      using True by (simp add: L' release_def unat_minus_one word_greater_zero_iff)
    with card le show ?thesis by simp
  next
    case False
    with wf show ?thesis by (simp add: upd L' release_def slots_wf_def)
  qed
qed

lemma swept_holds: "swept p p' \<Longrightarrow> holds_slot p' \<Longrightarrow> plan_target p' = plan_target p \<and> holds_slot p"
  by (auto simp: swept_def holds_slot_def lifecycle_defs)

lemma slots_wf_admit:
  assumes wf: "slots_wf L" and pwf: "plans_wf L"
    and p: "lg_plans L pid = Some p" "plan_target p' = plan_target p"
    and room: "lg_slots L (plan_target p) < ucast (lg_capacity L (plan_target p))"
    and L': "lg_plans L' = (lg_plans L)(pid \<mapsto> p')"
      "lg_slots L' = (lg_slots L)(plan_target p := lg_slots L (plan_target p) + 1)"
  shows "slots_wf L' \<and> unat (lg_slots L' (plan_target p)) = unat (lg_slots L (plan_target p)) + 1"
proof
  have "unat (lg_slots L (plan_target p)) < unat (lg_capacity L (plan_target p))"
    using room by (simp add: word_less_nat_alt)
  moreover have "unat (lg_capacity L (plan_target p)) < 2 ^ 32"
    using unsigned_less [of "lg_capacity L (plan_target p)", where ?'a = nat] by simp
  ultimately show inc: "unat (lg_slots L' (plan_target p)) = unat (lg_slots L (plan_target p)) + 1"
    by (simp add: L' unat_add_u64)
  show "slots_wf L'"
    unfolding slots_wf_def
  proof
    fix t
    have old: "card (holders L t) \<le> unat (lg_slots L t)"
      using wf by (simp add: slots_wf_def)
    show "card (holders L' t) \<le> unat (lg_slots L' t)"
    proof (cases "t = plan_target p")
      case True
      have "holders L' t \<subseteq> insert pid (holders L t)"
        using holders_update [OF L'(1), of t] p by (auto split: if_splits)
      then have "card (holders L' t) \<le> card (insert pid (holders L t))"
        using finite_holders [OF pwf, of t] by (intro card_mono) simp_all
      also have "\<dots> \<le> card (holders L t) + 1"
        using finite_holders [OF pwf, of t] by (simp add: card_insert_if)
      finally show ?thesis
        using old inc True by simp
    next
      case False
      with old show ?thesis using holders_update [OF L'(1), of t] p by (simp add: L')
    qed
  qed
qed

lemma slots_wf_step:
  assumes step: "ledger_step mc kc L L'" and pwf: "plans_wf L" and wf: "slots_wf L"
    and mc: "\<And>p. mc p \<Longrightarrow> plan_reserved_slots p = 1"
  shows "slots_wf L'"
  using step
proof (cases rule: ledger_step.cases)
  case (idle cap)
  with wf show ?thesis by (simp add: slots_wf_def holders_def)
next
  case (create p pid)
  then have "holders L' t \<subseteq> holders L t" for t
    by (auto simp: holders_def holds_slot_def split: if_splits)
  with create show ?thesis
    by (intro slots_wf_shrink [OF wf pwf]) simp_all
next
  case (admit pid p w)
  then show ?thesis
    using slots_wf_admit [OF wf pwf admit(2), of
        "p\<lparr>plan_reserved_slots := 1, plan_reserved_workspace := w, plan_lifecycle := ExecutionLifecycle.RESERVED\<rparr>" L']
    by simp
next
  case (bind pid p d a)
  then have "holders L' t \<subseteq> holders L t" for t
    by (auto simp: holders_def holds_slot_def split: if_splits)
  with bind show ?thesis
    by (intro slots_wf_shrink [OF wf pwf]) simp_all
next
  case (outdate pid p)
  then have "holders L' t \<subseteq> holders L t" for t
    by (auto simp: holders_def holds_slot_def lifecycle_defs split: if_splits)
  with outdate show ?thesis
    by (intro slots_wf_shrink [OF wf pwf]) simp_all
next
  case (dispatch pid p)
  then have "holders L' t \<subseteq> holders L t" for t
    by (auto simp: holders_def holds_slot_def split: if_splits)
  with dispatch show ?thesis
    by (intro slots_wf_shrink [OF wf pwf]) simp_all
next
  case (finish pid p l r rid)
  then have "holders L' t \<subseteq> holders L t" for t
    by (auto simp: holders_def holds_slot_def split: if_splits)
  with finish show ?thesis
    by (intro slots_wf_shrink [OF wf pwf]) simp_all
next
  case (commit pid p r rid)
  have "holds_slot p"
    using plans_wfD [OF pwf commit(2)] commit(3) by (simp add: plan_wf_def holds_slot_def)
  with commit show ?thesis
    by (intro slots_wf_release [OF wf pwf commit(2)]) (auto simp: holds_slot_def lifecycle_defs)
next
  case (cancel pid p)
  have "holds_slot p"
    using plans_wfD [OF pwf cancel(2)] cancel(3) mc [OF cancel(4)]
    by (auto simp: plan_wf_def holds_slot_def in_flight_def)
  with cancel show ?thesis
    by (intro slots_wf_release [OF wf pwf cancel(2)]) (auto simp: holds_slot_def lifecycle_defs)
next
  case (sweep f active epoch)
  then have "holders L' t \<subseteq> holders L t" for t
    using swept_holds [OF sweep(2)] by (auto simp: holders_def)
  with sweep show ?thesis
    by (intro slots_wf_shrink [OF wf pwf]) simp_all
qed

lemma release_le: "unat (release t slots u) \<le> unat (slots u)"
  by (auto simp: release_def unat_minus_one word_greater_zero_iff)

lemma slots_bounded_step:
  assumes step: "ledger_step mc True L L'" and sb: "slots_bounded L"
  shows "slots_bounded L'"
  using step
proof (cases rule: ledger_step.cases)
  case (idle cap)
  then have "unat (lg_capacity L t) \<le> unat (cap t)" for t
    by (simp add: word_le_nat_alt)
  with idle sb show ?thesis
    by (auto simp: slots_bounded_def intro: order_trans)
next
  case (admit pid p w)
  have "unat (lg_slots L (plan_target p)) < unat (lg_capacity L (plan_target p))"
    using admit(4) by (simp add: word_less_nat_alt)
  moreover have "unat (lg_slots L (plan_target p) + 1) \<le> unat (lg_slots L (plan_target p)) + 1"
    using unat_word_ariths(1) [of "lg_slots L (plan_target p)" 1] by simp
  ultimately show ?thesis
    using sb admit(1) by (auto simp: slots_bounded_def)
next
  case (commit pid p r rid)
  with sb show ?thesis
    by (auto simp: slots_bounded_def intro: order_trans [OF release_le])
next
  case (cancel pid p)
  with sb show ?thesis
    by (auto simp: slots_bounded_def intro: order_trans [OF release_le])
qed (use sb in \<open>auto simp: slots_bounded_def\<close>)

section \<open>The life of a plan\<close>

text \<open>The lifecycles a plan may move to.  \<open>COMMITTED\<close> has no successor, and no settled lifecycle leads
  back into the flight.\<close>

definition successors :: "ExecutionLifecycle \<Rightarrow> ExecutionLifecycle list" where
  "successors l =
     (case l of
        ExecutionLifecycle.PLANNED \<Rightarrow>
          [ExecutionLifecycle.RESERVED, ExecutionLifecycle.CANCELLED, ExecutionLifecycle.FENCED,
           ExecutionLifecycle.SUPERSEDED]
      | ExecutionLifecycle.RESERVED \<Rightarrow>
          [ExecutionLifecycle.DISPATCHED, ExecutionLifecycle.CANCELLED, ExecutionLifecycle.FENCED,
           ExecutionLifecycle.SUPERSEDED]
      | ExecutionLifecycle.OUTCOME_UNKNOWN \<Rightarrow>
          [ExecutionLifecycle.CANCELLED, ExecutionLifecycle.FENCED, ExecutionLifecycle.SUPERSEDED]
      | ExecutionLifecycle.COMMITTED \<Rightarrow> []
      | _ \<Rightarrow>
          if executing l
          then [ExecutionLifecycle.OUTCOME_UNKNOWN, ExecutionLifecycle.FAILED,
                ExecutionLifecycle.COMMITTED, ExecutionLifecycle.CANCELLED, ExecutionLifecycle.FENCED]
          else [ExecutionLifecycle.SUPERSEDED])"

definition moves :: "ExecutionPlan \<Rightarrow> ExecutionPlan \<Rightarrow> bool" where
  "moves p p' \<longleftrightarrow>
     plan_authority p' = plan_authority p \<and> plan_operation p' = plan_operation p \<and>
     plan_target p' = plan_target p \<and> plan_id p' = plan_id p \<and>
     (plan_lifecycle p' = plan_lifecycle p \<or>
      plan_lifecycle p' \<in> set (successors (plan_lifecycle p)))"

lemma executing_successors:
  "executing l \<Longrightarrow> set (successors l) =
     {ExecutionLifecycle.OUTCOME_UNKNOWN, ExecutionLifecycle.FAILED, ExecutionLifecycle.COMMITTED,
      ExecutionLifecycle.CANCELLED, ExecutionLifecycle.FENCED}"
  by (auto simp: executing_def successors_def)

lemma successors_of:
  "l = ExecutionLifecycle.PLANNED \<or> l = ExecutionLifecycle.RESERVED \<or> executing l \<or>
     l = ExecutionLifecycle.OUTCOME_UNKNOWN \<Longrightarrow>
   ExecutionLifecycle.CANCELLED \<in> set (successors l) \<and> ExecutionLifecycle.FENCED \<in> set (successors l)"
  by (cases "executing l") (simp add: executing_successors, auto simp: successors_def)

lemma superseded_successor:
  "l \<noteq> ExecutionLifecycle.COMMITTED \<Longrightarrow> \<not> executing l \<Longrightarrow> ExecutionLifecycle.SUPERSEDED \<in> set (successors l)"
  by (cases l) (simp_all add: successors_def executing_def)

lemma moves_lifecycle:
  "l = plan_lifecycle p \<or> l \<in> set (successors (plan_lifecycle p)) \<Longrightarrow> moves p (p\<lparr>plan_lifecycle := l\<rparr>)"
  by (simp add: moves_def)

lemma swept_moves:
  assumes "swept p p'" "plan_wf e pid p"
  shows "moves p p'"
proof -
  have fenced: "\<not> terminal (plan_lifecycle p) \<Longrightarrow> ExecutionLifecycle.FENCED \<in> set (successors (plan_lifecycle p))"
    using assms(2) successors_of [of "plan_lifecycle p"] by (simp add: plan_wf_def in_flight_def)
  consider "p' = p"
    | "\<not> terminal (plan_lifecycle p)" "p' = p\<lparr>plan_lifecycle := ExecutionLifecycle.FENCED\<rparr>"
    | "plan_lifecycle p \<noteq> ExecutionLifecycle.COMMITTED" "\<not> executing (plan_lifecycle p)"
      "p' = p\<lparr>plan_lifecycle := ExecutionLifecycle.SUPERSEDED\<rparr>"
    | "executing (plan_lifecycle p)" "p' = p\<lparr>plan_lifecycle := ExecutionLifecycle.OUTCOME_UNKNOWN\<rparr>"
    using assms(1) unfolding swept_def by blast
  then show ?thesis
    by cases (simp_all add: moves_lifecycle fenced superseded_successor executing_successors moves_def)
qed

lemma moves_refl [simp]: "moves p p"
  by (simp add: moves_def)

lemma lifecycle_step:
  assumes step: "ledger_step mc kc L L'" and pwf: "plans_wf L" and q: "lg_plans L qid = Some q"
  shows "\<exists>q'. lg_plans L' qid = Some q' \<and> moves q q'"
  using step
proof (cases rule: ledger_step.cases)
  case (admit pid p w)
  with q show ?thesis by (cases "qid = pid") (auto simp: moves_def successors_def)
next
  case (outdate pid p)
  with q show ?thesis by (cases "qid = pid") (auto simp: moves_def successors_def)
next
  case (dispatch pid p)
  with q show ?thesis by (cases "qid = pid") (auto simp: moves_def successors_def)
next
  case (finish pid p l r rid)
  with q executing_successors [OF finish(3)] show ?thesis
    by (cases "qid = pid") (auto simp: moves_def)
next
  case (commit pid p r rid)
  with q executing_successors [OF commit(3)] show ?thesis
    by (cases "qid = pid") (auto simp: moves_def)
next
  case (cancel pid p)
  have "ExecutionLifecycle.CANCELLED \<in> set (successors (plan_lifecycle p))"
    using plans_wfD [OF pwf cancel(2)] cancel(3) successors_of [of "plan_lifecycle p"]
    by (auto simp: plan_wf_def in_flight_def)
  with cancel q show ?thesis by (cases "qid = pid") (auto simp: moves_def)
next
  case (sweep f active epoch)
  with q swept_moves [OF sweep(2) plans_wfD [OF pwf q]] show ?thesis by simp
qed (use q in \<open>auto simp: moves_def\<close>)

end
