(* ===== verification/Refinement.thy ===== *)
theory Refinement
  imports Ledger
begin

text \<open>
  The coordinator implements the ledger.  A command is a call of one public method; concurrent
  callers interleave whole methods, since each holds the lock from start to end; \<open>DrawIdentity\<close> is
  an identity drawn by another part of the process.  Every command
  is one step of the ledger of its state, so the ledger's invariants hold in every reachable
  state of the coordinator.  The guard names the two assumptions under which they are stated:
  drawn identities are new among the plans and results, and the restrictions on cancellation and
  re-registration that the ledger's parameters express.
\<close>

type_synonym CState = "RuntimeState \<times> UniqueIdSource"

datatype Command =
    AttachCoordinator CoordinatorId | AdvanceEpoch
  | RegisterMemoryDomain MemoryDomainDescriptor | RegisterDataset DatasetDescriptor
  | RegisterRegion DataRegionDescriptor | RegisterProgram Program | RegisterPolicy Policy
  | CreateOperation OperationSpec | BindWorker WorkerId WorkerBootId string
  | ApplyRegisterTarget RegisterTargetMsg | ApplyCapability CapabilityMsg
  | ApplyDataEvidence DataEvidenceMsg | ApplyHeartbeat HeartbeatMsg
  | PlanOp OperationId | Reserve ExecutionPlanId
  | PrepareDispatch ExecutionPlanId DispatchId AttemptId
  | ConfirmDispatched ExecutionPlanId DispatchId | ApplyResult ResultMsg
  | BeginDrain NearMemoryTargetId | CancelPlan ExecutionPlanId
  | FenceWorker WorkerBootId | WorkerDisconnected WorkerBootId
  | RetireTarget NearMemoryTargetId | DrawIdentity

fun exec :: "Command \<Rightarrow> CState \<Rightarrow> CState" where
  "exec (AttachCoordinator c) (st, ids) = (snd (attach_coordinator c st), ids)"
| "exec AdvanceEpoch (st, ids) = (advance_epoch st, ids)"
| "exec (RegisterMemoryDomain d) (st, ids) = (snd (register_memory_domain d st), ids)"
| "exec (RegisterDataset d) (st, ids) = (snd (register_dataset d st), ids)"
| "exec (RegisterRegion d) (st, ids) = (snd (register_region d st), ids)"
| "exec (RegisterProgram p) (st, ids) = (snd (register_program p st), ids)"
| "exec (RegisterPolicy p) (st, ids) = (snd (register_policy p st), ids)"
| "exec (CreateOperation p) (st, ids) = (snd (create_operation p st), ids)"
| "exec (BindWorker w b n) (st, ids) = (snd (bind_worker_session w b n st), ids)"
| "exec (ApplyRegisterTarget m) (st, ids) = (snd (apply_register_target m st), ids)"
| "exec (ApplyCapability m) (st, ids) = snd (apply_capability m st ids)"
| "exec (ApplyDataEvidence m) (st, ids) = (snd (apply_data_evidence m st), ids)"
| "exec (ApplyHeartbeat m) (st, ids) = (snd (apply_heartbeat m st), ids)"
| "exec (PlanOp oid) (st, ids) = snd (plan_op oid st ids)"
| "exec (Reserve pid) (st, ids) = (snd (reserve pid st), ids)"
| "exec (PrepareDispatch pid d a) (st, ids) = (snd (prepare_dispatch pid d a st), ids)"
| "exec (ConfirmDispatched pid d) (st, ids) = (snd (confirm_dispatched pid d st), ids)"
| "exec (ApplyResult m) (st, ids) = snd (apply_result m st ids)"
| "exec (BeginDrain t) (st, ids) = (snd (begin_drain t st), ids)"
| "exec (CancelPlan pid) (st, ids) = (snd (cancel_plan pid st), ids)"
| "exec (FenceWorker b) (st, ids) = (snd (fence_worker b st), ids)"
| "exec (WorkerDisconnected b) (st, ids) = (snd (on_worker_disconnected b st), ids)"
| "exec (RetireTarget t) (st, ids) = (snd (retire_target t st), ids)"
| "exec DrawIdentity (st, ids) = (st, snd (make_id ids))"

definition ledger :: "RuntimeState \<Rightarrow> Ledger" where
  "ledger st =
     \<lparr>lg_epoch = st_epoch st, lg_plans = map_of (st_plans st),
      lg_active = map_of (st_active_plans st), lg_results = map_of (st_results st),
      lg_slots = (\<lambda>t. rv_reserved_slots (om_ref ReservationState_default t (st_reservations st))),
      lg_capacity = (\<lambda>t. td_concurrency_capacity (om_ref TargetDefinition_default t (st_targets st)))\<rparr>"

fun guard :: "(ExecutionPlan \<Rightarrow> bool) \<Rightarrow> bool \<Rightarrow> Command \<Rightarrow> CState \<Rightarrow> bool" where
  "guard mc kc (PlanOp oid) (st, ids) \<longleftrightarrow> om_find (st_plans st) (fst (make_id ids)) = None"
| "guard mc kc (ApplyResult m) (st, ids) \<longleftrightarrow> om_find (st_results st) (fst (make_id ids)) = None"
| "guard mc kc (CancelPlan pid) (st, ids) \<longleftrightarrow>
     (case om_find (st_plans st) pid of
        None \<Rightarrow> True
      | Some p \<Rightarrow> terminal (plan_lifecycle p) \<or> mc p)"
| "guard mc kc (ApplyRegisterTarget m) (st, ids) \<longleftrightarrow>
     (kc \<longrightarrow> td_concurrency_capacity (om_ref TargetDefinition_default (rm_target m) (st_targets st))
               \<le> rm_concurrency m)"
| "guard mc kc c s \<longleftrightarrow> True"

definition initial :: "CState \<Rightarrow> bool" where
  "initial s \<longleftrightarrow> (\<exists>ids. s = Coordinator_new ids)"

section \<open>Each method is a step of the ledger\<close>

lemma ledger_sel [simp]:
  "lg_epoch (ledger st) = st_epoch st"
  "lg_plans (ledger st) = map_of (st_plans st)"
  "lg_active (ledger st) = map_of (st_active_plans st)"
  "lg_results (ledger st) = map_of (st_results st)"
  "lg_slots (ledger st) t = rv_reserved_slots (om_ref ReservationState_default t (st_reservations st))"
  "lg_capacity (ledger st) t = td_concurrency_capacity (om_ref TargetDefinition_default t (st_targets st))"
  by (simp_all add: ledger_def)

lemma ledger_step_refl: "ledger_step mc kc L L"
  using ledger_step.idle [of kc L "lg_capacity L"] by simp

text \<open>A method that leaves the bookkeeping alone.\<close>

lemma ledger_idle:
  assumes "st_epoch st' = st_epoch st" "st_plans st' = st_plans st"
    "st_active_plans st' = st_active_plans st" "st_results st' = st_results st"
    "st_reservations st' = st_reservations st" "st_targets st' = st_targets st"
  shows "ledger_step mc kc (ledger st) (ledger st')"
proof -
  have "ledger st' = ledger st"
    using assms by (simp add: ledger_def)
  then show ?thesis by (simp add: ledger_step_refl)
qed

lemma om_ref_ensure [simp]: "om_ref d k (om_ensure d j m) = om_ref d k m"
  by (simp add: om_ref_def om_ensure_def split: option.splits)

lemma om_ref_put: "om_ref d k (om_put j v m) = (if k = j then v else om_ref d k m)"
  by (simp add: om_ref_def)

text \<open>Registration.\<close>

lemma register_target_step:
  assumes "guard mc kc (ApplyRegisterTarget m) (st, ids)"
  shows "ledger_step mc kc (ledger st) (ledger (snd (apply_register_target m st)))"
proof (cases "is_null (rm_target m) \<or> is_null (rm_generation m)")
  case True
  then show ?thesis by (simp add: apply_register_target_def ledger_step_refl)
next
  case False
  let ?st = "snd (apply_register_target m st)"
  have "ledger ?st = (ledger st)\<lparr>lg_capacity := lg_capacity (ledger ?st)\<rparr>"
    using False by (simp add: apply_register_target_def ledger_def Let_def)
  moreover have "lg_capacity (ledger st) t \<le> lg_capacity (ledger ?st) t" if kc for t
    using False assms that
    by (simp add: apply_register_target_def Let_def om_ref_put TargetDefinition_default_def)
  ultimately show ?thesis
    using ledger_step.idle [of kc "ledger st" "lg_capacity (ledger ?st)" mc] by metis
qed

text \<open>Planning: either nothing changes or one fresh plan is created for an operation without an
  active plan.\<close>

lemma plan_candidates_not_created: "\<not> po_created (plan_candidates st op policy)"
proof -
  have "po_created (consider_target st op policy out t) = po_created out" for out t
    by (cases t) (simp add: consider_target_def Let_def split: option.split)
  then have "po_created (foldl (consider_target st op policy) out ts) = po_created out" for out ts
    by (induction ts arbitrary: out) simp_all
  then show ?thesis
    by (simp add: plan_candidates_def Let_def PlanOutput_default_def)
qed

definition planned_for ::
    "RuntimeState \<Rightarrow> OperationSpec \<Rightarrow> NearMemoryTargetId \<Rightarrow> ExecutionPlanId \<Rightarrow> ExecutionPlan" where
  "planned_for st op t pid =
     (let tdef = om_ref TargetDefinition_default t (st_targets st)
      in new_plan pid op t tdef
           (bind_authority st op t tdef (om_ref TargetRuntime_default t (st_target_runtime st))
              (om_ref CapabilitySet_default t (st_capabilities st))))"

lemma plan_op_cases:
  obtains (failed) e where "plan_op oid st ids = (Inl e, st, ids)"
  | (undecided) out where "plan_op oid st ids = (Inr out, st, ids)" "\<not> po_created out"
  | (created) op policy best rest out where
      "om_find (st_operations st) oid = Some op"
      "om_find (st_policies st) (op_policy op) = Some policy"
      "om_find (st_active_plans st) (op_id op) = None"
      "po_ranked (plan_candidates st op policy) = best # rest"
      "rc_decision best = Decision.NEAR_MEMORY_SELECTED"
      "plan_op oid st ids =
         (Inr out,
          st\<lparr>st_plans := om_put (fst (make_id ids)) (po_plan out) (st_plans st),
             st_active_plans := om_put (op_id op) (fst (make_id ids)) (st_active_plans st)\<rparr>,
          snd (make_id ids))"
      "po_created out" "po_plan out = planned_for st op (rc_target best) (fst (make_id ids))"
      "po_ranked out = best # rest"
proof (cases "om_find (st_operations st) oid")
  case None
  then have "\<exists>e. plan_op oid st ids = (Inl e, st, ids)" by (simp add: plan_op_def)
  then show ?thesis using failed by blast
next
  case op: (Some op)
  show ?thesis
  proof (cases "om_find (st_policies st) (op_policy op)")
    case None
    with op have "\<exists>e. plan_op oid st ids = (Inl e, st, ids)" by (simp add: plan_op_def)
    then show ?thesis using failed by blast
  next
    case pol: (Some policy)
    show ?thesis
    proof (cases "om_find (st_active_plans st) (op_id op)")
      case (Some pid)
      with op pol have "\<exists>e. plan_op oid st ids = (Inl e, st, ids)" by (simp add: plan_op_def om_count_def)
      then show ?thesis using failed by blast
    next
      case act: None
      note eval = plan_op_def op pol act om_count_def Let_def plan_candidates_not_created
      show ?thesis
      proof (cases "po_ranked (plan_candidates st op policy)")
        case Nil
        then have "\<exists>out. plan_op oid st ids = (Inr out, st, ids) \<and> \<not> po_created out"
          by (simp add: eval)
        then show ?thesis using undecided by blast
      next
        case (Cons best rest)
        show ?thesis
        proof (cases "rc_decision best = Decision.NEAR_MEMORY_SELECTED")
          case True
          with Cons have "\<exists>out. plan_op oid st ids =
              (Inr out,
               st\<lparr>st_plans := om_put (fst (make_id ids)) (po_plan out) (st_plans st),
                  st_active_plans := om_put (op_id op) (fst (make_id ids)) (st_active_plans st)\<rparr>,
               snd (make_id ids)) \<and>
              po_created out \<and> po_plan out = planned_for st op (rc_target best) (fst (make_id ids)) \<and>
              po_ranked out = best # rest"
            by (simp add: eval planned_for_def case_prod_beta)
          then show ?thesis using created [OF op pol act Cons True] by blast
        next
          case False
          with Cons have "\<exists>out. plan_op oid st ids = (Inr out, st, ids) \<and> \<not> po_created out"
            by (simp add: eval)
          then show ?thesis using undecided by blast
        qed
      qed
    qed
  qed
qed

lemma new_plan_sel [simp]:
  "plan_id (new_plan pid op t d s) = pid" "plan_operation (new_plan pid op t d s) = op_id op"
  "plan_target (new_plan pid op t d s) = t"
  "plan_lifecycle (new_plan pid op t d s) = ExecutionLifecycle.PLANNED"
  "plan_reserved_slots (new_plan pid op t d s) = 0"
  "plan_authority (new_plan pid op t d s) = \<lparr>pa_snapshot = s, pa_plan = pid, pa_plan_generation = 1\<rparr>"
  by (simp_all add: new_plan_def ExecutionPlan_default_def)

lemma plan_step:
  assumes "guard mc kc (PlanOp oid) (st, ids)"
  shows "ledger_step mc kc (ledger st) (ledger (fst (snd (plan_op oid st ids))))"
proof (cases rule: plan_op_cases [of oid st ids])
  case (created op policy best rest out)
  let ?pid = "fst (make_id ids)" and ?p = "planned_for st op (rc_target best) (fst (make_id ids))"
  have sel: "plan_id ?p = ?pid" "plan_operation ?p = op_id op" "pa_plan (plan_authority ?p) = ?pid"
    "plan_lifecycle ?p = ExecutionLifecycle.PLANNED" "plan_reserved_slots ?p = 0"
    "snap_epoch (pa_snapshot (plan_authority ?p)) = st_epoch st"
    by (simp_all add: planned_for_def Let_def bind_authority_def)
  have "ledger_step mc kc (ledger st)
      ((ledger st)\<lparr>lg_plans := (lg_plans (ledger st))(?pid \<mapsto> ?p),
        lg_active := (lg_active (ledger st))(plan_operation ?p \<mapsto> ?pid)\<rparr>)"
    by (rule ledger_step.create) (use assms created(3) in \<open>simp_all add: sel\<close>)
  then show ?thesis
    by (simp add: created(6,8) sel(2) ledger_def)
qed (simp_all add: ledger_step_refl)

text \<open>Admission and dispatch.\<close>

lemma ledger_set_plan: "ledger (set_plan pid p st) = (ledger st)\<lparr>lg_plans := (lg_plans (ledger st))(pid \<mapsto> p)\<rparr>"
  by (simp add: ledger_def set_plan_def)

lemma ledger_ensure [simp]:
  "ledger (st\<lparr>st_targets := om_ensure TargetDefinition_default t (st_targets st),
              st_reservations := om_ensure ReservationState_default t (st_reservations st)\<rparr>) = ledger st"
  by (simp add: ledger_def)

lemma reserve_cases:
  obtains (same) res where "fst (reserve pid st) = Inl res" "ledger (snd (reserve pid st)) = ledger st"
  | (admitted) p op_ws rs where "om_find (st_plans st) pid = Some p"
      "plan_lifecycle p = ExecutionLifecycle.PLANNED"
      "rv_reserved_slots (om_ref ReservationState_default (plan_target p) (st_reservations st))
         < ucast (td_concurrency_capacity (om_ref TargetDefinition_default (plan_target p) (st_targets st)))"
      "fst (reserve pid st) = Inr ()"
      "snd (reserve pid st) =
         set_plan pid (p\<lparr>plan_reserved_slots := 1, plan_reserved_workspace := op_ws,
                         plan_lifecycle := ExecutionLifecycle.RESERVED\<rparr>)
           (st\<lparr>st_targets := om_ensure TargetDefinition_default (plan_target p) (st_targets st),
               st_reservations := om_put (plan_target p) rs
                 (om_ensure ReservationState_default (plan_target p) (st_reservations st))\<rparr>)"
      "rv_reserved_slots rs =
         rv_reserved_slots (om_ref ReservationState_default (plan_target p) (st_reservations st)) + 1"
proof (cases "om_find (st_plans st) pid")
  case None
  then show ?thesis by (intro same) (simp_all add: reserve_def)
next
  case p: (Some p)
  show ?thesis
  proof (cases "plan_lifecycle p = ExecutionLifecycle.PLANNED")
    case False
    with p show ?thesis by (intro same) (simp_all add: reserve_def)
  next
    case planned: True
    show ?thesis
    proof (cases "om_find (st_target_runtime st) (plan_target p)")
      case None
      with p planned show ?thesis by (intro same) (simp_all add: reserve_def)
    next
      case rt: (Some trt)
      let ?t = "plan_target p"
      let ?d = "om_ref TargetDefinition_default ?t (st_targets st)"
      let ?rs = "om_ref ReservationState_default ?t (st_reservations st)"
      let ?ws = "case om_find (st_operations st) (plan_operation p) of None \<Rightarrow> 0 | Some op \<Rightarrow> op_workspace_bytes op"
      let ?full = "ucast (td_concurrency_capacity ?d) \<le> rv_reserved_slots ?rs"
      let ?over = "td_workspace_bytes ?d < rv_reserved_workspace ?rs"
      let ?closed = "rt_lifecycle trt = TargetLifecycle.DRAINING \<or> rt_lifecycle trt = TargetLifecycle.DEGRADED \<or>
        rt_lifecycle trt = TargetLifecycle.REVALIDATION_REQUIRED"
      let ?big = "td_workspace_bytes ?d < rv_reserved_workspace ?rs + ?ws"
      note eval = reserve_def p planned rt Let_def
      consider "?full" | "\<not> ?full" "?over" | "\<not> ?full" "\<not> ?over" "?closed"
        | "\<not> ?full" "\<not> ?over" "\<not> ?closed" "?big"
        | (ok) "\<not> ?full" "\<not> ?over" "\<not> ?closed" "\<not> ?big"
        by blast
      then show ?thesis
      proof cases
        case ok
        show ?thesis
          by (rule admitted [OF p planned, of ?ws "\<lparr>rv_reserved_slots = rv_reserved_slots ?rs + 1,
                rv_reserved_workspace = rv_reserved_workspace ?rs + ?ws\<rparr>"])
            (use ok in \<open>simp_all add: eval not_le\<close>)
      qed (rule same, simp add: eval, simp add: eval)+
    qed
  qed
qed

lemma reserve_step: "ledger_step mc kc (ledger st) (ledger (snd (reserve pid st)))"
proof (cases rule: reserve_cases [of pid st])
  case same
  then show ?thesis by (simp add: ledger_step_refl)
next
  case (admitted p op_ws rs)
  have "ledger_step mc kc (ledger st)
      ((ledger st)\<lparr>lg_plans := (lg_plans (ledger st))(pid \<mapsto> p\<lparr>plan_reserved_slots := 1,
           plan_reserved_workspace := op_ws, plan_lifecycle := ExecutionLifecycle.RESERVED\<rparr>),
         lg_slots := (lg_slots (ledger st))(plan_target p := lg_slots (ledger st) (plan_target p) + 1)\<rparr>)"
    by (rule ledger_step.admit) (use admitted(1-3) in simp_all)
  then show ?thesis
    unfolding admitted(5)
    by (simp add: ledger_def set_plan_def om_ref_put admitted(6) fun_upd_def
        if_distrib [of rv_reserved_slots] cong: if_cong)
qed

lemma find_SomeD: "find P xs = Some x \<Longrightarrow> x \<in> set xs \<and> P x"
  by (induction xs) (auto split: if_splits)

lemma prepare_dispatch_cases:
  obtains (same) res where "fst (prepare_dispatch pid d a st) = Inl res" "snd (prepare_dispatch pid d a st) = st"
  | (outdated) p res where "om_find (st_plans st) pid = Some p"
      "plan_lifecycle p = ExecutionLifecycle.RESERVED" "staleness st p \<noteq> []"
      "fst (prepare_dispatch pid d a st) = Inl res" "err_code res = ''E_STALE_PLAN''"
      "snd (prepare_dispatch pid d a st) =
         set_plan pid (p\<lparr>plan_lifecycle := ExecutionLifecycle.SUPERSEDED\<rparr>) st"
  | (bound) p out op rt where "om_find (st_plans st) pid = Some p"
      "plan_lifecycle p = ExecutionLifecycle.RESERVED" "staleness st p = []"
      "om_find (st_operations st) (plan_operation p) = Some op"
      "om_find (st_target_runtime st) (plan_target p) = Some rt"
      "fst (prepare_dispatch pid d a st) = Inr out"
      "dout_message out = dispatch_message st p op (rt_owner_boot rt) d a"
      "\<exists>ws. (dout_worker out, ws) \<in> set (st_workers st) \<and> ws_boot ws = rt_owner_boot rt"
      "snd (prepare_dispatch pid d a st) =
         set_plan pid (p\<lparr>plan_dispatch_id := Some d, plan_attempt_id := Some a\<rparr>) st"
proof (cases "om_find (st_plans st) pid")
  case None
  then show ?thesis by (intro same) (simp_all add: prepare_dispatch_def)
next
  case p: (Some p)
  show ?thesis
  proof (cases "plan_lifecycle p = ExecutionLifecycle.RESERVED")
    case False
    with p show ?thesis by (intro same) (simp_all add: prepare_dispatch_def)
  next
    case rsv: True
    show ?thesis
    proof (cases "staleness st p = []")
      case False
      show ?thesis
        by (rule outdated [OF p rsv False, of "make_error ''E_STALE_PLAN''
              (''plan stale before dispatch: '' @ stale_summary (staleness st p))"])
          (use p rsv False in \<open>simp_all add: prepare_dispatch_def Let_def\<close>)
    next
      case fresh: True
      note eval = prepare_dispatch_def p rsv fresh Let_def
      show ?thesis
      proof (cases "om_find (st_operations st) (plan_operation p)")
        case None
        then show ?thesis by (intro same) (simp_all add: eval)
      next
        case op: (Some op)
        show ?thesis
        proof (cases "om_find (st_target_runtime st) (plan_target p)")
          case None
          with op show ?thesis by (intro same) (simp_all add: eval)
        next
          case rt: (Some rt)
          show ?thesis
          proof (cases "find (\<lambda>(wid, ws). ws_boot ws = rt_owner_boot rt) (st_workers st)")
            case None
            with op rt show ?thesis by (intro same) (simp_all add: eval)
          next
            case w: (Some w)
            obtain wid ws where [simp]: "w = (wid, ws)" by (cases w)
            have "(wid, ws) \<in> set (st_workers st) \<and> ws_boot ws = rt_owner_boot rt"
              using find_SomeD [OF w] by simp
            with op rt w show ?thesis
              by (intro bound [OF p rsv fresh op rt, of "\<lparr>dout_ready = True,
                    dout_message = dispatch_message st p op (rt_owner_boot rt) d a, dout_worker = wid\<rparr>"])
                (auto simp: eval)
          qed
        qed
      qed
    qed
  qed
qed

lemma prepare_dispatch_step: "ledger_step mc kc (ledger st) (ledger (snd (prepare_dispatch pid d a st)))"
proof (cases rule: prepare_dispatch_cases [of pid d a st])
  case same
  then show ?thesis by (simp add: ledger_step_refl)
next
  case (outdated p res)
  then show ?thesis
    using ledger_step.outdate [of "ledger st" pid p mc kc] by (simp add: ledger_set_plan)
next
  case (bound p out op rt)
  then show ?thesis
    using ledger_step.bind [of "ledger st" pid p mc kc a d] by (simp add: ledger_set_plan)
qed

lemma confirm_step: "ledger_step mc kc (ledger st) (ledger (snd (confirm_dispatched pid d st)))"
proof (cases "om_find (st_plans st) pid")
  case None
  then show ?thesis by (simp add: confirm_dispatched_def ledger_step_refl)
next
  case (Some p)
  then show ?thesis
    using ledger_step.dispatch [of "ledger st" pid p mc kc]
    by (simp add: confirm_dispatched_def ledger_set_plan ledger_step_refl)
qed

text \<open>Completion.\<close>

lemma result_rejected_None:
  assumes "result_rejected msg p st = None"
  shows "executing (plan_lifecycle p)" "rs_epoch msg = st_epoch st"
    "validate_completion_against_plan (completion_authority msg) (plan_authority p) = []"
    "plan_dispatch_id p = Some (rs_dispatch msg)" "plan_attempt_id p = Some (rs_attempt msg)"
    "\<And>d. om_find (st_targets st) (rs_target msg) = Some d \<Longrightarrow> td_generation d = rs_target_gen msg"
    "\<And>rt. om_find (st_target_runtime st) (rs_target msg) = Some rt \<Longrightarrow> rt_owner_boot rt = rs_worker_boot msg"
  using assms
  by (simp_all add: result_rejected_def moved_def Let_def split: if_splits option.splits)

lemma result_rejected_iff:
  "result_rejected msg p st = None \<longleftrightarrow>
     executing (plan_lifecycle p) \<and> rs_epoch msg = st_epoch st \<and>
     validate_completion_against_plan (completion_authority msg) (plan_authority p) = [] \<and>
     plan_dispatch_id p = Some (rs_dispatch msg) \<and> plan_attempt_id p = Some (rs_attempt msg) \<and>
     \<not> moved (st_targets st) (rs_target msg) (\<lambda>d. td_generation d \<noteq> rs_target_gen msg) \<and>
     \<not> moved (st_target_runtime st) (rs_target msg) (\<lambda>rt. rt_owner_boot rt \<noteq> rs_worker_boot msg)"
  by (auto simp: result_rejected_def executing_def Let_def)

lemma accepted_records:
  assumes "result_rejected msg p st = None"
    and "res_plan r = rs_plan msg" "res_epoch r = rs_epoch msg" "res_dispatch r = rs_dispatch msg"
      "res_attempt r = rs_attempt msg" "res_worker_boot r = rs_worker_boot msg"
      "res_target_generation r = rs_target_gen msg" "res_dataset_generation r = rs_dataset_gen msg"
      "res_region_generation r = rs_region_gen msg" "res_operation_generation r = rs_operation_gen msg"
  shows "records (rs_plan msg) p (st_epoch st) r"
  using result_rejected_None [OF assms(1)] assms(2-)
  by (simp add: records_def validate_completion_Nil completion_authority_def)

text \<open>The three ways an accepted completion ends.\<close>

lemma apply_result_cases:
  obtains (failed) e where "apply_result msg st ids = (Inl e, st, ids)"
  | (uncommitted) p l r where
      "om_find (st_plans st) (rs_plan msg) = Some p" "result_rejected msg p st = None"
      "l = ExecutionLifecycle.OUTCOME_UNKNOWN \<and> rs_unknown msg \<or>
       l = ExecutionLifecycle.FAILED \<and> to_hex (content_digest (rs_output msg)) \<noteq> rs_output_digest msg"
      "\<not> res_committed r" "records (rs_plan msg) p (st_epoch st) r" "res_id r = fst (make_id ids)"
      "apply_result msg st ids = (Inr r, finish_plan (rs_plan msg) p l r st, snd (make_id ids))"
  | (committed) p r where
      "om_find (st_plans st) (rs_plan msg) = Some p" "result_rejected msg p st = None"
      "\<not> rs_unknown msg" "to_hex (content_digest (rs_output msg)) = rs_output_digest msg"
      "res_committed r" "records (rs_plan msg) p (st_epoch st) r" "res_id r = fst (make_id ids)"
      "res_output_digest r = rs_output_digest msg" "res_verification r = VerifyState.VERIFIED"
      "\<not> res_ambiguous r"
      "apply_result msg st ids =
         (Inr r, release_reservation p (finish_plan (rs_plan msg) p ExecutionLifecycle.COMMITTED r st),
          snd (make_id ids))"
proof (cases "om_find (st_plans st) (rs_plan msg)")
  case None
  then have "\<exists>e. apply_result msg st ids = (Inl e, st, ids)" by (simp add: apply_result_def)
  then show ?thesis using failed by blast
next
  case p: (Some p)
  show ?thesis
  proof (cases "result_rejected msg p st")
    case (Some e)
    with p have "apply_result msg st ids = (Inl e, st, ids)" by (simp add: apply_result_def)
    then show ?thesis by (rule failed)
  next
    case acc: None
    let ?r = "result_record (fst (make_id ids)) msg"
    note eval = apply_result_def p acc Let_def case_prod_beta
    note sel = result_record_def ExecutionResult_default_def
    consider (unk) "rs_unknown msg"
      | (bad) "\<not> rs_unknown msg" "to_hex (content_digest (rs_output msg)) \<noteq> rs_output_digest msg"
      | (ok) "\<not> rs_unknown msg" "to_hex (content_digest (rs_output msg)) = rs_output_digest msg"
      by blast
    then show ?thesis
    proof cases
      case unk
      then show ?thesis
        by (intro uncommitted [OF p acc, of _ "?r\<lparr>res_ambiguous := True, res_verification := VerifyState.UNKNOWN\<rparr>"]
              accepted_records [OF acc]) (auto simp: eval sel)
    next
      case bad
      then show ?thesis
        by (intro uncommitted [OF p acc, of _ "?r\<lparr>res_verification := VerifyState.MISMATCH,
              res_output_digest := rs_output_digest msg\<rparr>"] accepted_records [OF acc]) (auto simp: eval sel)
    next
      case ok
      then show ?thesis
        by (intro committed [OF p acc, of "?r\<lparr>res_verification := VerifyState.VERIFIED,
              res_output_digest := rs_output_digest msg, res_committed := True\<rparr>"] accepted_records [OF acc])
          (simp_all add: eval sel)
    qed
  qed
qed

lemma ledger_finish:
  "ledger (finish_plan pid p l r st) =
     (ledger st)\<lparr>lg_plans := (lg_plans (ledger st))(pid \<mapsto> p\<lparr>plan_lifecycle := l\<rparr>),
        lg_active := (lg_active (ledger st))(plan_operation p := None),
        lg_results := (lg_results (ledger st))(res_id r \<mapsto> r)\<rparr>"
  by (simp add: finish_plan_def set_plan_def ledger_def)

lemma ledger_release:
  "ledger (release_reservation p st) = (ledger st)\<lparr>lg_slots := release (plan_target p) (lg_slots (ledger st))\<rparr>"
proof (cases "om_find (st_reservations st) (plan_target p)")
  case None
  then have "lg_slots (ledger st) (plan_target p) = 0"
    by (simp add: om_ref_def ReservationState_default_def)
  then have "release (plan_target p) (lg_slots (ledger st)) = lg_slots (ledger st)"
    by (auto simp: release_def)
  with None show ?thesis by (simp add: release_reservation_def)
next
  case (Some rs)
  have "lg_slots (ledger (release_reservation p st)) t = release (plan_target p) (lg_slots (ledger st)) t" for t
    using Some by (simp add: release_reservation_def Let_def release_def om_ref_put)
  moreover have "ledger (release_reservation p st) =
      (ledger st)\<lparr>lg_slots := lg_slots (ledger (release_reservation p st))\<rparr>"
    using Some by (simp add: release_reservation_def Let_def ledger_def)
  ultimately show ?thesis
    by (metis ext)
qed

lemma result_step:
  assumes "guard mc kc (ApplyResult msg) (st, ids)"
  shows "ledger_step mc kc (ledger st) (ledger (fst (snd (apply_result msg st ids))))"
proof (cases rule: apply_result_cases [of msg st ids])
  case (failed e)
  then show ?thesis by (simp add: ledger_step_refl)
next
  case (uncommitted p l r)
  have "executing (plan_lifecycle p)"
    using uncommitted(2) by (rule result_rejected_None)
  with uncommitted assms show ?thesis
    by (simp only: uncommitted(7) fst_conv snd_conv ledger_finish) (rule ledger_step.finish, auto)
next
  case (committed p r)
  have "executing (plan_lifecycle p)"
    using committed(2) by (rule result_rejected_None)
  with committed assms have "ledger_step mc kc (ledger st)
      ((ledger st)\<lparr>lg_plans := (lg_plans (ledger st))(rs_plan msg \<mapsto> p\<lparr>plan_lifecycle := ExecutionLifecycle.COMMITTED\<rparr>),
        lg_active := (lg_active (ledger st))(plan_operation p := None),
        lg_results := (lg_results (ledger st))(res_id r \<mapsto> r),
        lg_slots := release (plan_target p) (lg_slots (ledger st))\<rparr>)"
    by (intro ledger_step.commit) simp_all
  then show ?thesis
    by (simp add: committed(11) ledger_release ledger_finish)
qed

lemma cancel_step:
  assumes "guard mc kc (CancelPlan pid) (st, ids)"
  shows "ledger_step mc kc (ledger st) (ledger (snd (cancel_plan pid st)))"
proof (cases "om_find (st_plans st) pid")
  case None
  then show ?thesis by (simp add: cancel_plan_def ledger_step_refl)
next
  case (Some p)
  have eq: "ledger (snd (cancel_plan pid st)) =
      (ledger st)\<lparr>lg_plans := (lg_plans (ledger st))(pid \<mapsto> p\<lparr>plan_lifecycle := ExecutionLifecycle.CANCELLED\<rparr>),
        lg_active := (lg_active (ledger st))(plan_operation p := None),
        lg_slots := release (plan_target p) (lg_slots (ledger st))\<rparr>"
    if "\<not> terminal (plan_lifecycle p)"
  proof -
    have frame: "st_plans (release_reservation p st) = st_plans st"
      "st_active_plans (release_reservation p st) = st_active_plans st"
      by (simp_all add: release_reservation_def Let_def split: option.split)
    have "ledger (snd (cancel_plan pid st)) =
        (ledger (release_reservation p st))
          \<lparr>lg_plans := (map_of (st_plans (release_reservation p st)))(pid \<mapsto> p\<lparr>plan_lifecycle := ExecutionLifecycle.CANCELLED\<rparr>),
           lg_active := (map_of (st_active_plans (release_reservation p st)))(plan_operation p := None)\<rparr>"
      using Some that by (simp add: cancel_plan_def Let_def set_plan_def ledger_def)
    then show ?thesis by (simp add: ledger_release frame)
  qed
  show ?thesis
  proof (cases "terminal (plan_lifecycle p)")
    case True
    with Some show ?thesis by (simp add: cancel_plan_def ledger_step_refl)
  next
    case False
    with Some assms show ?thesis
      by (simp only: eq [OF False]) (rule ledger_step.cancel, auto)
  qed
qed

text \<open>Epochs, fences and retirement.\<close>

lemma foldl_active:
  "om_find act o' \<noteq> None \<or> (\<exists>(pid, p) \<in> set ps. \<not> terminal (plan_lifecycle p) \<and> plan_operation p = o') \<Longrightarrow>
   om_find (foldl (\<lambda>act (_, plan). if terminal (plan_lifecycle plan) then act
      else om_put (plan_operation plan) (plan_id plan) act) act ps) o' \<noteq> None"
proof (induction ps arbitrary: act)
  case Nil
  then show ?case by simp
next
  case (Cons a ps)
  obtain pid p where [simp]: "a = (pid, p)" by (cases a)
  show ?case
  proof (cases "terminal (plan_lifecycle p)")
    case True
    with Cons show ?thesis by auto
  next
    case False
    with Cons.prems have "om_find (om_put (plan_operation p) (plan_id p) act) o' \<noteq> None \<or>
        (\<exists>(pid, p) \<in> set ps. \<not> terminal (plan_lifecycle p) \<and> plan_operation p = o')"
      by auto
    from Cons.IH [OF this] False show ?thesis by simp
  qed
qed

lemma rebuild_indexed: "indexed (om_find (st_plans st)) (om_find (st_active_plans (rebuild_active_plans st)))"
  unfolding indexed_def
proof (intro allI impI)
  fix pid p
  assume "om_find (st_plans st) pid = Some p" "\<not> terminal (plan_lifecycle p)"
  then have "(pid, p) \<in> set (st_plans st)"
    by (auto dest: map_of_SomeD)
  with \<open>\<not> terminal (plan_lifecycle p)\<close>
  have "\<exists>(qid, q) \<in> set (st_plans st). \<not> terminal (plan_lifecycle q) \<and> plan_operation q = plan_operation p"
    by blast
  from foldl_active [OF disjI2 [OF this], of "[]"]
  show "om_find (st_active_plans (rebuild_active_plans st)) (plan_operation p) \<noteq> None"
    by (simp add: rebuild_active_plans_def)
qed

lemma sweep_step:
  assumes plans: "st_plans st' = om_for_each f (st_plans st)"
    and swept: "\<And>p. swept p (f p)"
    and epoch: "st_epoch st' = st_epoch st \<or> (\<forall>p. \<not> in_flight (plan_lifecycle (f p)))"
    and frame: "st_results st' = st_results st" "st_reservations st' = st_reservations st"
      "st_targets st' = st_targets st"
  shows "ledger_step mc kc (ledger st) (ledger (rebuild_active_plans st'))"
proof -
  let ?act = "map_of (st_active_plans (rebuild_active_plans st'))"
  have "map_of (st_plans st') = map_option f \<circ> map_of (st_plans st)"
    by (simp add: plans fun_eq_iff)
  then have "ledger (rebuild_active_plans st') =
      (ledger st)\<lparr>lg_plans := map_option f \<circ> lg_plans (ledger st), lg_active := ?act, lg_epoch := st_epoch st'\<rparr>"
    using frame by (simp add: ledger_def rebuild_active_plans_def)
  moreover have "indexed (map_option f \<circ> lg_plans (ledger st)) ?act"
    using rebuild_indexed [of st'] by (simp add: comp_def plans)
  ultimately show ?thesis
    using ledger_step.sweep [of f "ledger st" ?act "st_epoch st'" mc kc] swept epoch by simp
qed

lemma supersede_swept: "swept p (supersede_plan p)" "\<not> in_flight (plan_lifecycle (supersede_plan p))"
  by (simp_all add: supersede_plan_def swept_def lifecycle_defs)

lemma fence_swept: "swept p (fence_plan b p)"
  by (auto simp: fence_plan_def swept_def terminal_def)

lemma retire_swept: "swept p (retire_plan t p)"
  by (auto simp: retire_plan_def swept_def terminal_def)

lemma advance_epoch_step: "ledger_step mc kc (ledger st) (ledger (advance_epoch st))"
  unfolding advance_epoch_def
  by (rule sweep_step [where f = supersede_plan]) (simp_all add: supersede_swept)

lemma fence_step: "ledger_step mc kc (ledger st) (ledger (fence_body b (st\<lparr>st_workers := ws\<rparr>)))"
  unfolding fence_body_def
  by (rule sweep_step [where f = "fence_plan b"]) (simp_all add: fence_swept)

lemma retire_step: "ledger_step mc kc (ledger st) (ledger (snd (retire_target t st)))"
proof (cases "om_find (st_target_runtime st) t")
  case None
  then show ?thesis by (simp add: retire_target_def ledger_step_refl)
next
  case (Some rt)
  then show ?thesis
    by (simp add: retire_target_def) (rule sweep_step [where f = "retire_plan t"], simp_all add: retire_swept)
qed

section \<open>Every command\<close>

theorem exec_simulates:
  assumes "guard mc kc c (st, ids)"
  shows "ledger_step mc kc (ledger st) (ledger (fst (exec c (st, ids))))"
proof (cases c)
  case (ApplyRegisterTarget m)
  with assms register_target_step show ?thesis by simp
next
  case (PlanOp oid)
  with assms plan_step show ?thesis by simp
next
  case (ApplyResult m)
  with assms result_step show ?thesis by simp
next
  case (CancelPlan pid)
  with assms cancel_step show ?thesis by simp
next
  case (FenceWorker b)
  then show ?thesis
    using fence_step [of mc kc st b "st_workers st"] by (simp add: fence_worker_def)
next
  case (WorkerDisconnected b)
  then show ?thesis
    by (simp add: on_worker_disconnected_def fence_step)
next
  case (ApplyCapability m)
  then show ?thesis
    by (simp, intro ledger_idle)
      (simp_all add: apply_capability_def Let_def case_prod_beta split: option.split)
qed (auto simp: reserve_step prepare_dispatch_step confirm_step advance_epoch_step retire_step
    attach_coordinator_def register_memory_domain_def register_dataset_def register_region_def
    register_program_def register_policy_def create_operation_def bind_worker_session_def
    apply_data_evidence_def apply_heartbeat_def begin_drain_def Let_def
    intro!: ledger_idle split: option.split)

section \<open>The candidates of a plan\<close>

text \<open>The candidates in the order of the loop: one per target with runtime, capabilities and no reason
  against it.\<close>

definition candidate ::
    "RuntimeState \<Rightarrow> OperationSpec \<Rightarrow> Policy \<Rightarrow> NearMemoryTargetId \<times> TargetDefinition \<Rightarrow> RankedCandidate list" where
  "candidate st op pol p =
     (case p of (t, d) \<Rightarrow>
      case (om_find (st_target_runtime st) t, om_find (st_capabilities st) t) of
        (Some rt, Some c) \<Rightarrow>
          if hard_filter (filter_input st op pol t d rt c) = [] then [make_candidate t d rt op] else []
      | _ \<Rightarrow> [])"

definition ranked_candidates :: "RuntimeState \<Rightarrow> OperationSpec \<Rightarrow> Policy \<Rightarrow> RankedCandidate list" where
  "ranked_candidates st op pol = concat (map (candidate st op pol) (st_targets st))"

lemma plan_candidates_ranked:
  "po_ranked (plan_candidates st op pol) = rank_candidates (ranked_candidates st op pol)"
proof -
  have "po_ranked (consider_target st op pol out p) = po_ranked out @ candidate st op pol p" for out p
    by (cases p) (simp add: consider_target_def candidate_def Let_def split: option.split)
  then have "po_ranked (foldl (consider_target st op pol) out ts) = po_ranked out @ concat (map (candidate st op pol) ts)"
    for out ts
    by (induction ts arbitrary: out) simp_all
  then show ?thesis
    by (simp add: plan_candidates_def ranked_candidates_def PlanOutput_default_def Let_def)
qed

lemma ranked_candidatesD:
  assumes "om_wf (st_targets st)" "x \<in> set (ranked_candidates st op pol)"
  shows "\<exists>t d rt c. om_find (st_targets st) t = Some d \<and> om_find (st_target_runtime st) t = Some rt \<and>
    om_find (st_capabilities st) t = Some c \<and> hard_filter (filter_input st op pol t d rt c) = [] \<and>
    x = make_candidate t d rt op"
proof -
  obtain t d where p: "(t, d) \<in> set (st_targets st)" "x \<in> set (candidate st op pol (t, d))"
    using assms(2) by (auto simp: ranked_candidates_def)
  have "om_find (st_targets st) t = Some d"
    using om_wf_distinct [OF assms(1)] p(1) by (rule map_of_is_SomeI)
  with p(2) show ?thesis
    by (simp add: candidate_def split: option.splits if_splits) metis
qed

lemma ranked_candidatesI:
  assumes "om_find (st_targets st) t = Some d" "om_find (st_target_runtime st) t = Some rt"
    "om_find (st_capabilities st) t = Some c" "hard_filter (filter_input st op pol t d rt c) = []"
  shows "make_candidate t d rt op \<in> set (ranked_candidates st op pol)"
  using assms map_of_SomeD [OF assms(1)]
  by (auto simp: ranked_candidates_def candidate_def intro!: bexI [of _ "(t, d)"])

end
