(* ===== verification/Invariants.thy ===== *)
theory Invariants
  imports Refinement
begin

text \<open>
  Invariants of the coordinator: the ledger's, carried over by the refinement, and the
  well-formedness of the maps of its state.  Each is an instance of \<open>inductive_invariant\<close>.
\<close>

section \<open>The bookkeeping invariants\<close>

definition books_wf :: "CState \<Rightarrow> bool" where
  "books_wf s \<longleftrightarrow> plans_wf (ledger (fst s)) \<and> results_wf (ledger (fst s))"

definition exclusive_books :: "CState \<Rightarrow> bool" where
  "exclusive_books s \<longleftrightarrow> plans_wf (ledger (fst s)) \<and> exclusive (ledger (fst s))"

definition bounded_books :: "CState \<Rightarrow> bool" where
  "bounded_books s \<longleftrightarrow>
     plans_wf (ledger (fst s)) \<and> slots_wf (ledger (fst s)) \<and> slots_bounded (ledger (fst s))"

text \<open>The two restrictions on cancellation.\<close>

definition outcome_known :: "ExecutionPlan \<Rightarrow> bool" where
  "outcome_known p \<longleftrightarrow> plan_lifecycle p \<noteq> ExecutionLifecycle.OUTCOME_UNKNOWN"

definition admitted :: "ExecutionPlan \<Rightarrow> bool" where
  "admitted p \<longleftrightarrow> plan_reserved_slots p = 1"

lemma initial_ledger:
  assumes "initial s"
  shows "lg_plans (ledger (fst s)) = Map.empty" "lg_results (ledger (fst s)) = Map.empty"
    "lg_slots (ledger (fst s)) t = 0"
  using assms
  by (auto simp: initial_def Coordinator_new_def RuntimeState_default_def om_ref_def
      ReservationState_default_def case_prod_beta)

lemma exec_step:
  "guard mc kc c s \<Longrightarrow> ledger_step mc kc (ledger (fst s)) (ledger (fst (exec c s)))"
  using exec_simulates [of mc kc c "fst s" "snd s"] by simp

interpretation books: inductive_invariant initial "guard mc kc" exec books_wf for mc kc
proof unfold_locales
  show "books_wf s" if "initial s" for s
    using initial_ledger [OF that] by (simp add: books_wf_def plans_wf_def results_wf_def)
  show "books_wf (exec c s)" if "books_wf s" "guard mc kc c s" for s c
    using that exec_step [OF that(2)] by (auto simp: books_wf_def intro: plans_wf_step results_wf_step)
qed

interpretation excl: inductive_invariant initial "guard outcome_known kc" exec exclusive_books for kc
proof unfold_locales
  show "exclusive_books s" if "initial s" for s
    using initial_ledger [OF that] by (simp add: exclusive_books_def plans_wf_def exclusive_def)
  show "exclusive_books (exec c s)" if "exclusive_books s" "guard outcome_known kc c s" for s c
    using that exec_step [OF that(2)]
    by (auto simp: exclusive_books_def outcome_known_def intro: plans_wf_step exclusive_step)
qed

interpretation bound: inductive_invariant initial "guard admitted True" exec bounded_books
proof unfold_locales
  show "bounded_books s" if "initial s" for s
    using initial_ledger [OF that]
    by (simp add: bounded_books_def plans_wf_def slots_wf_def slots_bounded_def holders_def)
  show "bounded_books (exec c s)" if "bounded_books s" "guard admitted True c s" for s c
    using that exec_step [OF that(2)]
    by (auto simp: bounded_books_def admitted_def intro: plans_wf_step slots_wf_step slots_bounded_step)
qed

section \<open>Well-formed maps\<close>

text \<open>A map from the identity of its values: sorted keys, each the identity of its value.\<close>

definition keyed :: "('v \<Rightarrow> 'k::linorder) \<Rightarrow> ('k, 'v) omap \<Rightarrow> bool" where
  "keyed key m \<longleftrightarrow> om_wf m \<and> (\<forall>k v. om_find m k = Some v \<longrightarrow> key v = k)"

lemma keyed_Nil [simp]: "keyed key []"
  by (simp add: keyed_def)

lemma keyed_put [simp, intro]: "keyed key m \<Longrightarrow> key v = k \<Longrightarrow> keyed key (om_put k v m)"
  by (simp add: keyed_def)

lemma keyed_for_each [simp, intro]: "keyed key m \<Longrightarrow> (\<And>v. key (f v) = key v) \<Longrightarrow> keyed key (om_for_each f m)"
  by (auto simp: keyed_def)

lemma keyed_find: "keyed key m \<Longrightarrow> om_find m k = Some v \<Longrightarrow> key v = k"
  by (simp add: keyed_def)

lemma keyed_wf: "keyed key m \<Longrightarrow> om_wf m"
  by (simp add: keyed_def)

definition state_wf :: "RuntimeState \<Rightarrow> bool" where
  "state_wf st \<longleftrightarrow>
     keyed md_id (st_memory_domains st) \<and> keyed ds_id (st_datasets st) \<and>
     keyed rg_id (st_regions st) \<and> keyed ev_region (st_data_evidence st) \<and>
     keyed td_id (st_targets st) \<and> keyed rt_id (st_target_runtime st) \<and>
     keyed cs_target (st_capabilities st) \<and> keyed op_id (st_operations st) \<and>
     keyed pg_id (st_programs st) \<and> keyed pol_id (st_policies st) \<and>
     keyed plan_id (st_plans st) \<and> om_wf (st_active_plans st) \<and>
     keyed res_id (st_results st) \<and> om_wf (st_reservations st) \<and>
     keyed ws_worker (st_workers st) \<and>
     (\<forall>t. om_find (st_target_runtime st) t \<noteq> None \<longrightarrow> om_find (st_targets st) t \<noteq> None)"

lemma om_wf_foldl_active:
  "om_wf act \<Longrightarrow> om_wf (foldl (\<lambda>act (_, plan). if terminal (plan_lifecycle plan) then act
      else om_put (plan_operation plan) (plan_id plan) act) act ps)"
  by (induction ps arbitrary: act) (simp_all add: case_prod_beta)

lemma sweep_plan_id [simp]:
  "plan_id (supersede_plan p) = plan_id p" "plan_id (fence_plan b p) = plan_id p"
  "plan_id (retire_plan t p) = plan_id p"
  by (simp_all add: supersede_plan_def fence_plan_def retire_plan_def)

lemma state_wf_rebuild: "state_wf st \<Longrightarrow> state_wf (rebuild_active_plans st)"
  by (simp add: state_wf_def rebuild_active_plans_def om_wf_foldl_active)

lemma state_wf_set_plan:
  "state_wf st \<Longrightarrow> plan_id p = pid \<Longrightarrow> state_wf (set_plan pid p st)"
  by (simp add: state_wf_def set_plan_def keyed_put)

lemma state_wf_release: "state_wf st \<Longrightarrow> state_wf (release_reservation p st)"
  by (simp add: release_reservation_def Let_def state_wf_def split: option.split)

lemma state_wf_plan_id: "state_wf st \<Longrightarrow> om_find (st_plans st) pid = Some p \<Longrightarrow> plan_id p = pid"
  by (simp add: state_wf_def keyed_def)

lemma state_wf_advance_epoch: "state_wf st \<Longrightarrow> state_wf (advance_epoch st)"
  unfolding advance_epoch_def
  by (rule state_wf_rebuild) (auto simp: state_wf_def revalidate_runtime_def)

lemma state_wf_fence: "state_wf st \<Longrightarrow> state_wf (fence_body b st)"
  unfolding fence_body_def
  by (rule state_wf_rebuild) (auto simp: state_wf_def revalidate_runtime_def)


lemma state_wf_finish:
  "state_wf st \<Longrightarrow> om_find (st_plans st) pid = Some p \<Longrightarrow> state_wf (finish_plan pid p l r st)"
  using state_wf_plan_id [of st pid p]
  by (simp add: state_wf_def finish_plan_def set_plan_def keyed_put)

lemma state_wf_reserve:
  assumes wf: "state_wf st"
  shows "state_wf (snd (reserve pid st))"
proof -
  have ens: "state_wf (st\<lparr>st_targets := om_ensure TargetDefinition_default t (st_targets st),
      st_reservations := om_put t rs (om_ensure ReservationState_default t (st_reservations st))\<rparr>)"
    "state_wf (st\<lparr>st_targets := om_ensure TargetDefinition_default t (st_targets st),
      st_reservations := om_ensure ReservationState_default t (st_reservations st)\<rparr>)"
    if rt: "om_find (st_target_runtime st) t = Some rt" for t rt rs
  proof -
    obtain d where "om_find (st_targets st) t = Some d"
      using wf rt by (auto simp: state_wf_def)
    with wf show "state_wf (st\<lparr>st_targets := om_ensure TargetDefinition_default t (st_targets st),
        st_reservations := om_put t rs (om_ensure ReservationState_default t (st_reservations st))\<rparr>)"
      "state_wf (st\<lparr>st_targets := om_ensure TargetDefinition_default t (st_targets st),
        st_reservations := om_ensure ReservationState_default t (st_reservations st)\<rparr>)"
      by (simp_all add: state_wf_def)
  qed
  show ?thesis
    using state_wf_plan_id [OF wf]
    by (simp add: reserve_def Let_def wf ens state_wf_set_plan split: option.split)
qed

lemma state_wf_plan_op:
  assumes wf: "state_wf st"
  shows "state_wf (fst (snd (plan_op oid st ids)))"
proof (cases rule: plan_op_cases [of oid st ids])
  case (created op policy best rest out)
  have "plan_id (po_plan out) = fst (make_id ids)"
    by (simp add: created(8) planned_for_def Let_def)
  with wf show ?thesis
    by (simp add: created(6) state_wf_def keyed_put)
qed (use wf in simp_all)

lemma state_wf_apply_result:
  assumes wf: "state_wf st"
  shows "state_wf (fst (snd (apply_result msg st ids)))"
  by (cases rule: apply_result_cases [of msg st ids])
    (simp_all add: wf state_wf_finish state_wf_release)

lemma state_wf_prepare:
  assumes wf: "state_wf st"
  shows "state_wf (snd (prepare_dispatch pid d a st))"
  by (cases rule: prepare_dispatch_cases [of pid d a st])
    (simp_all add: wf state_wf_set_plan state_wf_plan_id [OF wf])

lemma state_wf_cancel:
  assumes wf: "state_wf st"
  shows "state_wf (snd (cancel_plan pid st))"
proof (cases "om_find (st_plans st) pid")
  case (Some p)
  have "state_wf (set_plan pid (p\<lparr>plan_lifecycle := ExecutionLifecycle.CANCELLED\<rparr>) (release_reservation p st))"
    using state_wf_plan_id [OF wf Some] by (intro state_wf_set_plan state_wf_release wf) simp
  then have "state_wf ((set_plan pid (p\<lparr>plan_lifecycle := ExecutionLifecycle.CANCELLED\<rparr>) (release_reservation p st))
      \<lparr>st_active_plans := om_erase op (st_active_plans (set_plan pid (p\<lparr>plan_lifecycle := ExecutionLifecycle.CANCELLED\<rparr>) (release_reservation p st)))\<rparr>)" for op
    by (simp add: state_wf_def)
  with Some wf show ?thesis
    by (simp add: cancel_plan_def Let_def)
qed (use wf in \<open>simp add: cancel_plan_def\<close>)

lemma state_wf_confirm:
  assumes wf: "state_wf st"
  shows "state_wf (snd (confirm_dispatched pid d st))"
  using state_wf_plan_id [OF wf]
  by (simp add: confirm_dispatched_def wf state_wf_set_plan split: option.split)

lemma state_wf_retire:
  assumes wf: "state_wf st"
  shows "state_wf (snd (retire_target t st))"
proof (cases "om_find (st_target_runtime st) t")
  case (Some rt)
  have "rt_id rt = t"
    using wf Some by (simp add: state_wf_def keyed_def)
  with wf Some have "state_wf (st\<lparr>st_target_runtime :=
        om_put t (rt\<lparr>rt_lifecycle := TargetLifecycle.RETIRED, rt_reachable := False,
          rt_dynamic_current := False\<rparr>) (st_target_runtime st),
      st_plans := om_for_each (retire_plan t) (st_plans st)\<rparr>)"
    by (auto simp: state_wf_def)
  with Some show ?thesis
    by (simp add: retire_target_def state_wf_rebuild)
qed (use wf in \<open>simp add: retire_target_def\<close>)

lemma state_wf_heartbeat:
  assumes wf: "state_wf st"
  shows "state_wf (snd (apply_heartbeat m st))" "state_wf (snd (begin_drain t st))"
proof -
  have put: "state_wf (st\<lparr>st_target_runtime := om_put k rt' (st_target_runtime st)\<rparr>)"
    if "om_find (st_target_runtime st) k = Some rt" "rt_id rt' = rt_id rt" for k rt rt'
    using wf that by (auto simp: state_wf_def keyed_def)
  show "state_wf (snd (apply_heartbeat m st))" "state_wf (snd (begin_drain t st))"
    using wf put by (auto simp: apply_heartbeat_def begin_drain_def Let_def split: option.split)
qed

lemma state_wf_registration:
  assumes wf: "state_wf st"
  shows "state_wf (snd (register_memory_domain md st))" "state_wf (snd (register_dataset ds st))"
    "state_wf (snd (register_region rg st))" "state_wf (snd (register_program pg st))"
    "state_wf (snd (register_policy pl st))" "state_wf (snd (create_operation op st))"
    "state_wf (snd (bind_worker_session w b n st))" "state_wf (snd (apply_data_evidence de st))"
    "state_wf (snd (attach_coordinator c st))"
  using wf
  by (simp_all add: state_wf_def register_memory_domain_def register_dataset_def register_region_def
      register_program_def register_policy_def create_operation_def bind_worker_session_def
      apply_data_evidence_def attach_coordinator_def Let_def keyed_put)

lemma state_wf_register_target:
  "state_wf st \<Longrightarrow> state_wf (snd (apply_register_target m st))"
  by (simp add: state_wf_def apply_register_target_def Let_def keyed_put)

lemma state_wf_capability:
  "state_wf st \<Longrightarrow> state_wf (fst (snd (apply_capability m st ids)))"
  by (simp add: state_wf_def apply_capability_def Let_def keyed_put case_prod_beta split: option.split)

lemma state_wf_disconnect: "state_wf st \<Longrightarrow> state_wf (snd (on_worker_disconnected b st))"
  unfolding on_worker_disconnected_def snd_conv
  by (rule state_wf_fence) (simp add: state_wf_def keyed_for_each)

lemmas state_wf_intros =
  state_wf_registration state_wf_register_target state_wf_capability state_wf_heartbeat
  state_wf_plan_op state_wf_reserve state_wf_prepare state_wf_confirm state_wf_apply_result
  state_wf_cancel state_wf_retire state_wf_advance_epoch state_wf_fence state_wf_disconnect

lemma state_wf_new: "state_wf (fst (Coordinator_new ids))"
  by (simp add: state_wf_def Coordinator_new_def RuntimeState_default_def case_prod_beta keyed_def)

interpretation maps: inductive_invariant initial "guard mc kc" exec "\<lambda>s. state_wf (fst s)" for mc kc
proof unfold_locales
  show "state_wf (fst s)" if "initial s" for s
    using that state_wf_new by (auto simp: initial_def)
  show "state_wf (fst (exec c s))" if wf: "state_wf (fst s)" for s c
  proof -
    obtain st ids where [simp]: "s = (st, ids)" by (cases s)
    show ?thesis
      using wf by (cases c) (simp_all add: state_wf_intros fence_worker_def)
  qed
qed

lemma state_wf_targets: "state_wf st \<Longrightarrow> om_wf (st_targets st)"
  by (simp add: state_wf_def keyed_def)

end
