(* ===== verification/Delivery.thy ===== *)
theory Delivery
  imports Worker Invariants
begin

text \<open>
  A dispatch from the coordinator to a worker and back.  Every plan of a reachable state keeps the
  generations it was planned under (\<open>pinned\<close>); the message of a dispatch carries them; the worker
  copies them into its result; so the coordinator commits that result as long as the authority the
  plan was bound to is still current.
\<close>

section \<open>Plans keep the authority they were planned under\<close>

definition pinned :: "ExecutionPlan \<Rightarrow> bool" where
  "pinned p \<longleftrightarrow>
     (let s = pa_snapshot (plan_authority p) in
      pa_plan (plan_authority p) = plan_id p \<and>
      pa_plan_generation (plan_authority p) = plan_generation p \<and>
      snap_target s = plan_target p \<and> snap_target_generation s = plan_target_generation p \<and>
      snap_dataset_generation s = plan_dataset_generation p \<and>
      snap_region_generation s = plan_region_generation p)"

lemma pinned_update [simp]:
  "pinned (p\<lparr>plan_lifecycle := l\<rparr>) = pinned p"
  "pinned (p\<lparr>plan_reserved_slots := n, plan_reserved_workspace := w\<rparr>) = pinned p"
  "pinned (p\<lparr>plan_dispatch_id := d, plan_attempt_id := a\<rparr>) = pinned p"
  by (simp_all add: pinned_def)

lemma pinned_sweep [simp]:
  "pinned (supersede_plan p) = pinned p" "pinned (fence_plan b p) = pinned p"
  "pinned (retire_plan t p) = pinned p"
  by (simp_all add: supersede_plan_def fence_plan_def retire_plan_def)

lemma pinned_planned_for: "pinned (planned_for st op t pid)"
  by (simp add: planned_for_def new_plan_def bind_authority_def pinned_def Let_def ExecutionPlan_default_def)

definition plans_pinned :: "RuntimeState \<Rightarrow> bool" where
  "plans_pinned st \<longleftrightarrow> (\<forall>pid p. om_find (st_plans st) pid = Some p \<longrightarrow> pinned p)"

lemma plans_pinned_put:
  "plans_pinned st \<Longrightarrow> pinned p \<Longrightarrow> st_plans st' = om_put pid p (st_plans st) \<Longrightarrow> plans_pinned st'"
  by (simp add: plans_pinned_def)

lemma plans_pinned_same: "plans_pinned st \<Longrightarrow> st_plans st' = st_plans st \<Longrightarrow> plans_pinned st'"
  by (simp add: plans_pinned_def)

lemma plans_pinned_for_each:
  "plans_pinned st \<Longrightarrow> (\<And>p. pinned (f p) = pinned p) \<Longrightarrow> st_plans st' = om_for_each f (st_plans st) \<Longrightarrow>
     plans_pinned st'"
  by (auto simp: plans_pinned_def)

lemma plans_pinned_ledger: "plans_pinned st \<Longrightarrow> ledger st' = ledger st \<Longrightarrow> plans_pinned st'"
  by (metis ledger_sel(2) plans_pinned_def)

lemma registration_plans [simp]:
  "st_plans (snd (attach_coordinator c st)) = st_plans st"
  "st_plans (snd (register_memory_domain md st)) = st_plans st"
  "st_plans (snd (register_dataset ds st)) = st_plans st"
  "st_plans (snd (register_region rg st)) = st_plans st"
  "st_plans (snd (register_program pg st)) = st_plans st"
  "st_plans (snd (register_policy pl st)) = st_plans st"
  "st_plans (snd (create_operation op st)) = st_plans st"
  "st_plans (snd (bind_worker_session w b n st)) = st_plans st"
  "st_plans (snd (apply_register_target rm st)) = st_plans st"
  "st_plans (snd (apply_data_evidence de st)) = st_plans st"
  by (simp_all add: attach_coordinator_def register_memory_domain_def register_dataset_def
      register_region_def register_program_def register_policy_def create_operation_def
      bind_worker_session_def apply_register_target_def apply_data_evidence_def Let_def)

lemma evidence_plans [simp]:
  "st_plans (fst (snd (apply_capability cm st ids))) = st_plans st"
  "st_plans (snd (apply_heartbeat hb st)) = st_plans st"
  "st_plans (snd (begin_drain t st)) = st_plans st"
  by (simp_all add: apply_capability_def apply_heartbeat_def begin_drain_def Let_def case_prod_beta
      split: option.split)

lemma release_plans [simp]: "st_plans (release_reservation p st) = st_plans st"
  by (simp add: release_reservation_def Let_def split: option.split)

lemma sweep_plans [simp]:
  "st_plans (rebuild_active_plans st) = st_plans st"
  "st_plans (advance_epoch st) = om_for_each supersede_plan (st_plans st)"
  "st_plans (fence_body b st) = om_for_each (fence_plan b) (st_plans st)"
  by (simp_all add: rebuild_active_plans_def advance_epoch_def fence_body_def)

lemma plans_pinned_exec:
  assumes pinned: "plans_pinned st"
  shows "plans_pinned (fst (exec c (st, ids)))"
proof (cases c)
  case (PlanOp oid)
  show ?thesis
    by (cases rule: plan_op_cases [of oid st ids])
      (simp_all add: PlanOp pinned plans_pinned_put [OF pinned pinned_planned_for])
next
  case (Reserve pid)
  show ?thesis
  proof (cases rule: reserve_cases [of pid st])
    case same
    then show ?thesis
      using plans_pinned_ledger [OF pinned] by (simp add: Reserve)
  next
    case (admitted p op_ws rs)
    with pinned have "pinned p" by (simp add: plans_pinned_def)
    then show ?thesis
      by (intro plans_pinned_put [OF pinned]) (simp_all add: Reserve admitted(5) set_plan_def)
  qed
next
  case (PrepareDispatch pid d a)
  show ?thesis
  proof (cases rule: prepare_dispatch_cases [of pid d a st])
    case same
    then show ?thesis by (simp add: PrepareDispatch pinned)
  next
    case (outdated p)
    with pinned have "pinned p" by (simp add: plans_pinned_def)
    then show ?thesis
      by (intro plans_pinned_put [OF pinned]) (simp_all add: PrepareDispatch outdated(6) set_plan_def)
  next
    case (bound p)
    with pinned have "pinned p" by (simp add: plans_pinned_def)
    then show ?thesis
      by (intro plans_pinned_put [OF pinned]) (simp_all add: PrepareDispatch bound(9) set_plan_def)
  qed
next
  case (ConfirmDispatched pid d)
  then show ?thesis
    using pinned by (auto simp: confirm_dispatched_def plans_pinned_def set_plan_def split: option.split)
next
  case (ApplyResult m)
  show ?thesis
  proof (cases rule: apply_result_cases [of m st ids])
    case failed
    then show ?thesis by (simp add: ApplyResult pinned)
  next
    case (uncommitted p)
    with pinned have "pinned p" by (simp add: plans_pinned_def)
    then show ?thesis
      by (intro plans_pinned_put [OF pinned]) (simp_all add: ApplyResult uncommitted(7) finish_plan_def set_plan_def)
  next
    case (committed p)
    with pinned have "pinned p" by (simp add: plans_pinned_def)
    then show ?thesis
      by (intro plans_pinned_put [OF pinned]) (simp_all add: ApplyResult committed(11) finish_plan_def set_plan_def)
  qed
next
  case (CancelPlan pid)
  then show ?thesis
    using pinned by (auto simp: cancel_plan_def plans_pinned_def set_plan_def Let_def split: option.split)
next
  case (RetireTarget t)
  then show ?thesis
    using pinned by (auto simp: retire_target_def plans_pinned_def split: option.split)
qed (use pinned in \<open>auto simp: plans_pinned_def fence_worker_def on_worker_disconnected_def\<close>)

interpretation pins: inductive_invariant initial "guard mc kc" exec "\<lambda>s. plans_pinned (fst s)" for mc kc
proof unfold_locales
  show "plans_pinned (fst s)" if "initial s" for s
    using initial_ledger(1) [OF that] by (simp add: plans_pinned_def)
  show "plans_pinned (fst (exec c s))" if "plans_pinned (fst s)" for s c
    using plans_pinned_exec [OF that, of c "snd s"] by simp
qed

section \<open>The coordinator commits what the worker returns\<close>

text \<open>The dimensions of the staleness test that a completion is held against.\<close>

lemma staleness_NilD:
  assumes "staleness st p = []"
  shows "st_epoch st = snap_epoch (pa_snapshot (plan_authority p))"
    and "om_find (st_target_runtime st) (plan_target p) = Some rt \<Longrightarrow>
      rt_owner_boot rt = snap_worker_boot (pa_snapshot (plan_authority p))"
    and "om_find (st_targets st) (plan_target p) = Some d \<Longrightarrow>
      td_generation d = snap_target_generation (pa_snapshot (plan_authority p))"
    and "om_find (st_operations st) (plan_operation p) = Some op \<Longrightarrow>
      op_generation op = snap_operation_generation (pa_snapshot (plan_authority p))"
  using assms by (auto simp: staleness_def Let_def moved_def)

text \<open>A completion with the plan's own authority is accepted while the epoch, the target generation
  and the owning boot have not moved.\<close>

definition still_bound :: "RuntimeState \<Rightarrow> ExecutionPlan \<Rightarrow> bool" where
  "still_bound st p \<longleftrightarrow>
     (let s = pa_snapshot (plan_authority p) in
      st_epoch st = snap_epoch s \<and>
      \<not> moved (st_targets st) (plan_target p) (\<lambda>d. td_generation d \<noteq> snap_target_generation s) \<and>
      \<not> moved (st_target_runtime st) (plan_target p) (\<lambda>rt. rt_owner_boot rt \<noteq> snap_worker_boot s))"

lemma staleness_still_bound: "staleness st p = [] \<Longrightarrow> still_bound st p"
  by (auto simp: staleness_def still_bound_def Let_def)

definition carries :: "DispatchMsg \<Rightarrow> ExecutionPlan \<Rightarrow> bool" where
  "carries m p \<longleftrightarrow>
     (let s = pa_snapshot (plan_authority p) in
      dp_plan m = pa_plan (plan_authority p) \<and> dp_plan_gen m = pa_plan_generation (plan_authority p) \<and>
      dp_target m = plan_target p \<and> dp_target_gen m = snap_target_generation s \<and>
      dp_worker_boot m = snap_worker_boot s \<and> dp_epoch m = snap_epoch s \<and>
      dp_dataset_gen m = snap_dataset_generation s \<and> dp_region_gen m = snap_region_generation s \<and>
      dp_operation_gen m = snap_operation_generation s)"

lemma dispatch_carries:
  assumes "pinned p" "staleness st p = []"
    and "om_find (st_operations st) (plan_operation p) = Some op"
    and "om_find (st_target_runtime st) (plan_target p) = Some rt"
  shows "carries (dispatch_message st p op (rt_owner_boot rt) d a) p"
  using assms(1) staleness_NilD(1) [OF assms(2)] staleness_NilD(2) [OF assms(2) assms(4)]
    staleness_NilD(4) [OF assms(2) assms(3)]
  by (simp add: carries_def dispatch_message_def pinned_def Let_def)

lemma honest_result_accepted:
  assumes "carries m p" "executing (plan_lifecycle p)" "still_bound st p"
    and "plan_dispatch_id p = Some (dp_dispatch m)" "plan_attempt_id p = Some (dp_attempt m)"
  shows "result_rejected (worker_result m r) p st = None"
  using assms
  by (auto simp: result_rejected_def worker_result_def carries_def still_bound_def executing_def
      validate_completion_Nil completion_authority_def Let_def)

lemma honest_result_commits:
  assumes "om_find (st_plans st) (dp_plan m) = Some p" "carries m p" "executing (plan_lifecycle p)"
    and "still_bound st p" "plan_dispatch_id p = Some (dp_dispatch m)"
    and "plan_attempt_id p = Some (dp_attempt m)" "bk_ok (worker_execute syn t m)"
  shows "\<exists>res st' ids'. apply_result (worker_result m (worker_execute syn t m)) st ids = (Inr res, st', ids') \<and>
      res_committed res \<and> res_verification res = VerifyState.VERIFIED \<and>
      lifecycle_of (dp_plan m) st' = ExecutionLifecycle.COMMITTED \<and>
      om_find (st_results st') (res_id res) = Some res \<and>
      om_find (st_active_plans st') (plan_operation p) = None \<and> st_operations st' = st_operations st \<and>
      \<not> res_ambiguous res \<and> res_output_digest res = to_hex (content_digest (bk_output (worker_execute syn t m)))"
proof -
  let ?msg = "worker_result m (worker_execute syn t m)"
  have acc: "result_rejected ?msg p st = None"
    using assms(2-6) by (rule honest_result_accepted)
  have msg: "rs_plan ?msg = dp_plan m" "\<not> rs_unknown ?msg"
      "to_hex (content_digest (rs_output ?msg)) = rs_output_digest ?msg"
    using assms(7) worker_execute_digest [OF assms(7)] by (simp_all add: worker_result_def)
  show ?thesis
  proof (cases rule: apply_result_cases [of ?msg st ids])
    case (failed e)
    with acc assms(1) msg(1) show ?thesis
      by (auto simp: apply_result_def Let_def case_prod_beta split: if_splits)
  next
    case (uncommitted q l r)
    with msg show ?thesis by auto
  next
    case (committed q r)
    with assms(1) msg(1) have q: "q = p" by simp
    show ?thesis
      unfolding committed(11) using committed(4,5,7-10) msg(1)
      by (simp add: q lifecycle_of_def finish_plan_def set_plan_def release_reservation_def Let_def
          worker_result_def split: option.split)
  qed
qed

end
