(* ===== verification/State_Codec.thy ===== *)
theory State_Codec
  imports Persistence Delivery
begin

text \<open>
  The durable encoding of the coordinator's state, \<^verbatim>\<open>encode_state\<close> and \<^verbatim>\<open>decode_state\<close> of
  \<^verbatim>\<open>src/coordinator.cpp\<close>, and \<^verbatim>\<open>Coordinator::save\<close> and \<^verbatim>\<open>Coordinator::load\<close> on top of the persistent
  store.  Enumerations are written by name and read back through \<^verbatim>\<open>parse_enum\<close>.  Every entity is
  an instance of \<open>wire_codec\<close>; \<open>state_ok\<close> says which states the decoder reads back, and \<open>durable\<close>
  what it reads: the registered entities, the plans and the results, none of the dynamic evidence.
\<close>

section \<open>Fields\<close>

definition kMaxPersistCount :: nat where
  "kMaxPersistCount = 4096"

definition put_enum :: "('e \<Rightarrow> string) \<Rightarrow> 'e \<Rightarrow> u8 list" where
  "put_enum to_str e = write_string (to_str e)"

definition get_enum :: "(string \<Rightarrow> 'e option) \<Rightarrow> ByteReader \<Rightarrow> ('e \<times> ByteReader) option" where
  "get_enum parse r = do {
     (s, r) \<leftarrow> read_string r;
     e \<leftarrow> parse s;
     Some (e, r)
   }"

definition put_bool :: "bool \<Rightarrow> u8 list" where
  "put_bool b = write_u8 (if b then 1 else 0)"

definition get_bool :: "ByteReader \<Rightarrow> (bool \<times> ByteReader) option" where
  "get_bool r = do { (v, r) \<leftarrow> read_u8 r; Some (v \<noteq> 0, r) }"

text \<open>A flag, then the value if there is one.\<close>

definition put_optional :: "u64 option \<Rightarrow> u8 list" where
  "put_optional x = put_bool (x \<noteq> None) @ (case x of None \<Rightarrow> [] | Some v \<Rightarrow> write_u64 v)"

definition get_optional :: "ByteReader \<Rightarrow> (u64 option \<times> ByteReader) option" where
  "get_optional r = do {
     (has, r) \<leftarrow> get_bool r;
     if has then do { (v, r) \<leftarrow> read_u64 r; Some (Some v, r) } else Some (None, r)
   }"

locale named_enumeration = enumeration +
  assumes names_short: "list_all (\<lambda>e. length (to_str e) \<le> kMaxCodecBlobBytes) table"
begin

lemma get_put_enum: "e \<in> set table \<Longrightarrow> get_enum parse (put_enum to_str e @ r) = Some (e, r)"
  using names_short by (simp add: get_enum_def put_enum_def parse_to_str list_all_iff)

end

sublocale named_enumeration \<subseteq> named: wire_codec "put_enum to_str" "get_enum parse" "\<lambda>e. e \<in> set table"
  by unfold_locales (rule get_put_enum)

context named_enumeration
begin

lemma get_put_enums:
  "set es \<subseteq> set table \<Longrightarrow> length es \<le> 64 \<Longrightarrow>
     read_vec 64 (get_enum parse) (write_vec (put_enum to_str) es @ r) = Some (es, r)"
  by (intro named.read_write_vec) (auto simp: list_all_iff)

end

interpretation noc: named_enumeration kOperationClasses OperationClass_code OperationClass_other OperationClass_cast
    to_string_OperationClass parse_OperationClass
  by unfold_locales (simp add: kOperationClasses_def to_string_OperationClass_def OperationClass_names_def kMaxCodecBlobBytes_def contains_def)

interpretation ntk: named_enumeration kTargetKinds TargetKind_code TargetKind_other TargetKind_cast
    to_string_TargetKind parse_TargetKind
  by unfold_locales (simp add: kTargetKinds_def to_string_TargetKind_def TargetKind_names_def kMaxCodecBlobBytes_def contains_def)

interpretation npk: named_enumeration ProviderKind_table ProviderKind_code ProviderKind_other ProviderKind_cast
    to_string_ProviderKind parse_ProviderKind
  by unfold_locales (simp add: ProviderKind_table_def to_string_ProviderKind_def ProviderKind_names_def kMaxCodecBlobBytes_def contains_def)

interpretation nacs: named_enumeration AccessSemantics_table AccessSemantics_code AccessSemantics_other AccessSemantics_cast
    to_string_AccessSemantics parse_AccessSemantics
  by unfold_locales (simp add: AccessSemantics_table_def to_string_AccessSemantics_def AccessSemantics_names_def kMaxCodecBlobBytes_def contains_def)

interpretation npgl: named_enumeration ProgramLifecycle_table ProgramLifecycle_code ProgramLifecycle_other ProgramLifecycle_cast
    to_string_ProgramLifecycle parse_ProgramLifecycle
  by unfold_locales (simp add: ProgramLifecycle_table_def to_string_ProgramLifecycle_def ProgramLifecycle_names_def kMaxCodecBlobBytes_def contains_def)

interpretation nel: named_enumeration ExecutionLifecycle_table ExecutionLifecycle_code ExecutionLifecycle_other ExecutionLifecycle_cast
    to_string_ExecutionLifecycle parse_ExecutionLifecycle
  by unfold_locales (simp add: ExecutionLifecycle_table_def to_string_ExecutionLifecycle_def ExecutionLifecycle_names_def kMaxCodecBlobBytes_def contains_def)

interpretation ndcs: named_enumeration Decision_table Decision_code Decision_other Decision_cast
    to_string_Decision parse_Decision
  by unfold_locales (simp add: Decision_table_def to_string_Decision_def Decision_names_def kMaxCodecBlobBytes_def contains_def)

interpretation nrtc: named_enumeration RetryClass_table RetryClass_code RetryClass_other RetryClass_cast
    to_string_RetryClass parse_RetryClass
  by unfold_locales (simp add: RetryClass_table_def to_string_RetryClass_def RetryClass_names_def kMaxCodecBlobBytes_def contains_def)

interpretation nvst: named_enumeration VerifyState_table VerifyState_code VerifyState_other VerifyState_cast
    to_string_VerifyState parse_VerifyState
  by unfold_locales (simp add: VerifyState_table_def to_string_VerifyState_def VerifyState_names_def kMaxCodecBlobBytes_def contains_def)

interpretation ndty: named_enumeration DataType_table DataType_code DataType_other DataType_cast
    to_string_DataType parse_DataType
  by unfold_locales (simp add: DataType_table_def to_string_DataType_def DataType_names_def kMaxCodecBlobBytes_def contains_def)

interpretation nlay: named_enumeration Layout_table Layout_code Layout_other Layout_cast
    to_string_Layout parse_Layout
  by unfold_locales (simp add: Layout_table_def to_string_Layout_def Layout_names_def kMaxCodecBlobBytes_def contains_def)

interpretation nplo: named_enumeration PolicyOutcome_table PolicyOutcome_code PolicyOutcome_other PolicyOutcome_cast
    to_string_PolicyOutcome parse_PolicyOutcome
  by unfold_locales (simp add: PolicyOutcome_table_def to_string_PolicyOutcome_def PolicyOutcome_names_def kMaxCodecBlobBytes_def contains_def)

interpretation nits: named_enumeration IntegrityState_table IntegrityState_code IntegrityState_other IntegrityState_cast
    to_string_IntegrityState parse_IntegrityState
  by unfold_locales (simp add: IntegrityState_table_def to_string_IntegrityState_def IntegrityState_names_def kMaxCodecBlobBytes_def contains_def)

interpretation nirq: named_enumeration IntegrityRequirement_table IntegrityRequirement_code IntegrityRequirement_other IntegrityRequirement_cast
    to_string_IntegrityRequirement parse_IntegrityRequirement
  by unfold_locales (simp add: IntegrityRequirement_table_def to_string_IntegrityRequirement_def IntegrityRequirement_names_def kMaxCodecBlobBytes_def contains_def)

lemmas enum_name_simps =
  noc.get_put_enum ntk.get_put_enum npk.get_put_enum nacs.get_put_enum npgl.get_put_enum nel.get_put_enum ndcs.get_put_enum nrtc.get_put_enum nvst.get_put_enum ndty.get_put_enum nlay.get_put_enum nplo.get_put_enum nits.get_put_enum nirq.get_put_enum
  noc.get_put_enums ndcs.get_put_enums ndty.get_put_enums nlay.get_put_enums

lemma get_put_bool: "get_bool (put_bool b @ r) = Some (b, r)"
  by (simp add: get_bool_def put_bool_def)

lemma get_put_optional: "get_optional (put_optional x @ r) = Some (x, r)"
  by (cases x) (simp_all add: get_optional_def put_optional_def get_put_bool)

lemma read_write_ids: "length xs \<le> 64 \<Longrightarrow> read_vec 64 read_u64 (write_vec write_u64 xs @ r) = Some (xs, r)"
  by (intro u64.read_write_vec) (auto simp: list_all_iff)

lemma read_write_strings:
  "list_all (\<lambda>y. length y \<le> kMaxCodecBlobBytes) xs \<Longrightarrow> length xs \<le> 64 \<Longrightarrow>
     read_vec 64 read_string (write_vec write_string xs @ r) = Some (xs, r)"
  by (intro str.read_write_vec) (auto simp: list_all_iff)

definition put_shape :: "DataShape \<Rightarrow> u8 list" where
  "put_shape s =
     put_enum to_string_DataType (sh_data_type s) @ put_enum to_string_Layout (sh_layout s) @
     write_u64 (sh_element_count s) @ write_u64 (sh_alignment s)"

definition get_shape :: "ByteReader \<Rightarrow> (DataShape \<times> ByteReader) option" where
  "get_shape r = do {
     (dt, r) \<leftarrow> get_enum parse_DataType r;
     (layout, r) \<leftarrow> get_enum parse_Layout r;
     (count, r) \<leftarrow> read_u64 r;
     (alignment, r) \<leftarrow> read_u64 r;
     Some (\<lparr>sh_element_count = count, sh_data_type = dt, sh_layout = layout, sh_alignment = alignment\<rparr>, r)
   }"

definition shape_ok :: "DataShape \<Rightarrow> bool" where
  "shape_ok s \<longleftrightarrow> sh_data_type s \<in> set DataType_table \<and> sh_layout s \<in> set Layout_table"

interpretation shape: wire_codec put_shape get_shape shape_ok
  by unfold_locales (simp add: put_shape_def get_shape_def shape_ok_def enum_name_simps)

definition put_snapshot :: "AuthoritySnapshot \<Rightarrow> u8 list" where
  "put_snapshot s =
     write_u64 (snap_epoch s) @ write_u64 (snap_worker_boot s) @ write_u64 (snap_target s) @
     write_u64 (snap_target_generation s) @ write_u64 (snap_memory_domain_generation s) @
     write_u64 (snap_dataset_generation s) @ write_u64 (snap_region_generation s) @
     write_u64 (snap_operation_generation s) @ put_optional (snap_program_generation s) @
     write_u64 (snap_capability_generation s) @ write_u64 (snap_policy_generation s) @
     write_u64 (snap_evidence_generation s) @ write_u64 (snap_plan_generation s)"

definition get_snapshot :: "ByteReader \<Rightarrow> (AuthoritySnapshot \<times> ByteReader) option" where
  "get_snapshot r = do {
     (epoch, r) \<leftarrow> read_u64 r;
     (boot, r) \<leftarrow> read_u64 r;
     (target, r) \<leftarrow> read_u64 r;
     (tgen, r) \<leftarrow> read_u64 r;
     (mgen, r) \<leftarrow> read_u64 r;
     (dgen, r) \<leftarrow> read_u64 r;
     (rgen, r) \<leftarrow> read_u64 r;
     (ogen, r) \<leftarrow> read_u64 r;
     (pgen, r) \<leftarrow> get_optional r;
     (cgen, r) \<leftarrow> read_u64 r;
     (polgen, r) \<leftarrow> read_u64 r;
     (egen, r) \<leftarrow> read_u64 r;
     (plangen, r) \<leftarrow> read_u64 r;
     Some (\<lparr>snap_epoch = epoch, snap_worker_boot = boot, snap_target = target,
            snap_target_generation = tgen, snap_memory_domain_generation = mgen,
            snap_dataset_generation = dgen, snap_region_generation = rgen,
            snap_operation_generation = ogen, snap_program_generation = pgen,
            snap_capability_generation = cgen, snap_policy_generation = polgen,
            snap_evidence_generation = egen, snap_plan_generation = plangen\<rparr>, r)
   }"

interpretation snapshot: wire_codec put_snapshot get_snapshot "\<lambda>_. True"
  by unfold_locales (simp add: put_snapshot_def get_snapshot_def get_put_optional)

lemmas state_field_simps =
  enum_name_simps get_put_bool get_put_optional read_write_ids read_write_strings
  shape.dec_enc snapshot.dec_enc

section \<open>Entities\<close>

definition encode_memory_domain :: "MemoryDomainDescriptor \<Rightarrow> u8 list" where
  "encode_memory_domain v =
     write_u64 (md_id v) @ write_u64 (md_generation v) @ write_string (md_name v) @
     put_bool (md_durable v)"

definition decode_memory_domain :: "ByteReader \<Rightarrow> (MemoryDomainDescriptor \<times> ByteReader) option" where
  "decode_memory_domain r = do {
     (vid, r) \<leftarrow> read_u64 r;
     (gen, r) \<leftarrow> read_u64 r;
     (name, r) \<leftarrow> read_string r;
     (durable, r) \<leftarrow> get_bool r;
     Some (\<lparr>md_id = vid, md_generation = gen, md_name = name, md_durable = durable\<rparr>, r)
   }"

definition memory_domain_ok :: "MemoryDomainDescriptor \<Rightarrow> bool" where
  "memory_domain_ok v \<longleftrightarrow>
     length (md_name v) \<le> kMaxCodecBlobBytes"

interpretation memory_domain: wire_codec encode_memory_domain decode_memory_domain memory_domain_ok
  by unfold_locales (simp add: encode_memory_domain_def decode_memory_domain_def memory_domain_ok_def
      state_field_simps)

definition encode_dataset :: "DatasetDescriptor \<Rightarrow> u8 list" where
  "encode_dataset v =
     write_u64 (ds_id v) @ write_u64 (ds_generation v) @ write_string (ds_name v) @
     write_string (ds_producer v) @ put_bool (ds_durable v)"

definition decode_dataset :: "ByteReader \<Rightarrow> (DatasetDescriptor \<times> ByteReader) option" where
  "decode_dataset r = do {
     (vid, r) \<leftarrow> read_u64 r;
     (gen, r) \<leftarrow> read_u64 r;
     (name, r) \<leftarrow> read_string r;
     (producer, r) \<leftarrow> read_string r;
     (durable, r) \<leftarrow> get_bool r;
     Some (\<lparr>ds_id = vid, ds_generation = gen, ds_name = name, ds_producer = producer,
            ds_durable = durable\<rparr>, r)
   }"

definition dataset_ok :: "DatasetDescriptor \<Rightarrow> bool" where
  "dataset_ok v \<longleftrightarrow>
     length (ds_name v) \<le> kMaxCodecBlobBytes \<and>
     length (ds_producer v) \<le> kMaxCodecBlobBytes"

interpretation dataset: wire_codec encode_dataset decode_dataset dataset_ok
  by unfold_locales (simp add: encode_dataset_def decode_dataset_def dataset_ok_def
      state_field_simps)

definition encode_region :: "DataRegionDescriptor \<Rightarrow> u8 list" where
  "encode_region v =
     write_u64 (rg_id v) @ write_u64 (rg_generation v) @ write_u64 (rg_dataset v) @
     write_u64 (rg_dataset_generation v) @ write_u64 (rg_memory_domain v) @
     write_u64 (win_offset (rg_window v)) @ write_u64 (win_length (rg_window v)) @
     put_shape (rg_shape v) @ put_enum to_string_IntegrityState (rg_integrity v) @
     put_bool (rg_durable v)"

definition decode_region :: "ByteReader \<Rightarrow> (DataRegionDescriptor \<times> ByteReader) option" where
  "decode_region r = do {
     (vid, r) \<leftarrow> read_u64 r;
     (gen, r) \<leftarrow> read_u64 r;
     (dataset, r) \<leftarrow> read_u64 r;
     (dgen, r) \<leftarrow> read_u64 r;
     (domain, r) \<leftarrow> read_u64 r;
     (offset, r) \<leftarrow> read_u64 r;
     (len, r) \<leftarrow> read_u64 r;
     (shape, r) \<leftarrow> get_shape r;
     (integrity, r) \<leftarrow> get_enum parse_IntegrityState r;
     (durable, r) \<leftarrow> get_bool r;
     Some (\<lparr>rg_id = vid, rg_generation = gen, rg_dataset = dataset, rg_dataset_generation = dgen,
            rg_memory_domain = domain,
            rg_window = \<lparr>win_offset = offset, win_length = len\<rparr>, rg_shape = shape,
            rg_integrity = integrity, rg_durable = durable\<rparr>, r)
   }"

definition region_ok :: "DataRegionDescriptor \<Rightarrow> bool" where
  "region_ok v \<longleftrightarrow>
     shape_ok (rg_shape v) \<and> rg_integrity v \<in> set IntegrityState_table"

interpretation region: wire_codec encode_region decode_region region_ok
  by unfold_locales (simp add: encode_region_def decode_region_def region_ok_def
      state_field_simps)

definition encode_program :: "Program \<Rightarrow> u8 list" where
  "encode_program v =
     write_u64 (pg_id v) @ write_u64 (pg_generation v) @ write_string (pg_name v) @
     put_enum to_string_OperationClass (pg_op_class v) @
     put_enum to_string_TargetKind (pg_target_kind v) @ write_string (pg_digest v) @
     write_vec (put_enum to_string_DataType) (pg_data_types v) @
     write_vec (put_enum to_string_Layout) (pg_layouts v) @ write_u64 (pg_workspace_bytes v) @
     put_enum to_string_ProgramLifecycle (pg_lifecycle v) @ put_bool (pg_predefined v) @
     put_bool (pg_validated v)"

definition decode_program :: "ByteReader \<Rightarrow> (Program \<times> ByteReader) option" where
  "decode_program r = do {
     (vid, r) \<leftarrow> read_u64 r;
     (gen, r) \<leftarrow> read_u64 r;
     (name, r) \<leftarrow> read_string r;
     (oc, r) \<leftarrow> get_enum parse_OperationClass r;
     (kind, r) \<leftarrow> get_enum parse_TargetKind r;
     (digest, r) \<leftarrow> read_string r;
     (dts, r) \<leftarrow> read_vec 64 (get_enum parse_DataType) r;
     (layouts, r) \<leftarrow> read_vec 64 (get_enum parse_Layout) r;
     (workspace, r) \<leftarrow> read_u64 r;
     (lifecycle, r) \<leftarrow> get_enum parse_ProgramLifecycle r;
     (predefined, r) \<leftarrow> get_bool r;
     (validated, r) \<leftarrow> get_bool r;
     Some (\<lparr>pg_id = vid, pg_generation = gen, pg_name = name, pg_op_class = oc,
            pg_target_kind = kind, pg_digest = digest, pg_data_types = dts, pg_layouts = layouts,
            pg_workspace_bytes = workspace, pg_lifecycle = lifecycle, pg_predefined = predefined,
            pg_validated = validated\<rparr>, r)
   }"

definition program_ok :: "Program \<Rightarrow> bool" where
  "program_ok v \<longleftrightarrow>
     length (pg_name v) \<le> kMaxCodecBlobBytes \<and>
     pg_op_class v \<in> set kOperationClasses \<and>
     pg_target_kind v \<in> set kTargetKinds \<and>
     length (pg_digest v) \<le> kMaxCodecBlobBytes \<and>
     length (pg_data_types v) \<le> 64 \<and> set (pg_data_types v) \<subseteq> set DataType_table \<and>
     length (pg_layouts v) \<le> 64 \<and> set (pg_layouts v) \<subseteq> set Layout_table \<and>
     pg_lifecycle v \<in> set ProgramLifecycle_table"

interpretation program: wire_codec encode_program decode_program program_ok
  by unfold_locales (simp add: encode_program_def decode_program_def program_ok_def
      state_field_simps)

definition encode_policy :: "Policy \<Rightarrow> u8 list" where
  "encode_policy v =
     write_u64 (pol_id v) @ write_u64 (pol_generation v) @ write_string (pol_name v) @
     put_enum to_string_PolicyOutcome (pol_outcome v) @
     write_vec (put_enum to_string_Decision) (pol_permitted_fallbacks v) @
     write_f64 (pol_required_confidence v) @ write_f64 (pol_near_memory_bias v) @
     put_bool (pol_reject_on_stale v) @ write_u64 (pol_max_near_memory_input_bytes v) @
     put_bool (pol_require_verification v)"

definition decode_policy :: "ByteReader \<Rightarrow> (Policy \<times> ByteReader) option" where
  "decode_policy r = do {
     (vid, r) \<leftarrow> read_u64 r;
     (gen, r) \<leftarrow> read_u64 r;
     (name, r) \<leftarrow> read_string r;
     (outcome, r) \<leftarrow> get_enum parse_PolicyOutcome r;
     (fallbacks, r) \<leftarrow> read_vec 64 (get_enum parse_Decision) r;
     (confidence, r) \<leftarrow> read_f64 r;
     (bias, r) \<leftarrow> read_f64 r;
     (reject, r) \<leftarrow> get_bool r;
     (maxin, r) \<leftarrow> read_u64 r;
     (verify, r) \<leftarrow> get_bool r;
     Some (\<lparr>pol_id = vid, pol_generation = gen, pol_name = name, pol_outcome = outcome,
            pol_permitted_fallbacks = fallbacks, pol_required_confidence = confidence,
            pol_near_memory_bias = bias, pol_reject_on_stale = reject,
            pol_max_near_memory_input_bytes = maxin, pol_require_verification = verify\<rparr>, r)
   }"

definition policy_ok :: "Policy \<Rightarrow> bool" where
  "policy_ok v \<longleftrightarrow>
     length (pol_name v) \<le> kMaxCodecBlobBytes \<and>
     pol_outcome v \<in> set PolicyOutcome_table \<and>
     length (pol_permitted_fallbacks v) \<le> 64 \<and> set (pol_permitted_fallbacks v) \<subseteq> set Decision_table"

interpretation policy: wire_codec encode_policy decode_policy policy_ok
  by unfold_locales (simp add: encode_policy_def decode_policy_def policy_ok_def
      state_field_simps)

definition encode_target :: "TargetDefinition \<Rightarrow> u8 list" where
  "encode_target v =
     write_u64 (td_id v) @ write_u64 (td_generation v) @
     put_enum to_string_ProviderKind (td_provider v) @
     put_enum to_string_TargetKind (td_kind v) @ write_string (td_name v) @
     write_string (td_description v) @ write_u64 (td_failure_domain v) @
     write_vec write_u64 (td_memory_domains v) @
     write_vec (put_enum to_string_OperationClass) (td_supported_ops v) @
     write_vec (put_enum to_string_DataType) (td_supported_data_types v) @
     write_vec (put_enum to_string_Layout) (td_supported_layouts v) @
     write_u64 (td_max_input_bytes v) @ write_u64 (td_alignment_constraint v) @
     write_u32 (td_concurrency_capacity v) @ write_u64 (td_queue_depth v) @
     write_u64 (td_workspace_bytes v) @
     put_enum to_string_AccessSemantics (td_access_semantics v) @
     put_bool (td_requires_staging v) @ put_bool (td_synthetic v) @
     put_bool (td_supports_verification v) @ put_bool (td_supports_cancellation v) @
     put_bool (td_supports_drain v) @ write_string (td_authority_owner v)"

definition decode_target :: "ByteReader \<Rightarrow> (TargetDefinition \<times> ByteReader) option" where
  "decode_target r = do {
     (vid, r) \<leftarrow> read_u64 r;
     (gen, r) \<leftarrow> read_u64 r;
     (provider, r) \<leftarrow> get_enum parse_ProviderKind r;
     (kind, r) \<leftarrow> get_enum parse_TargetKind r;
     (name, r) \<leftarrow> read_string r;
     (description, r) \<leftarrow> read_string r;
     (fd, r) \<leftarrow> read_u64 r;
     (domains, r) \<leftarrow> read_vec 64 read_u64 r;
     (ops, r) \<leftarrow> read_vec 64 (get_enum parse_OperationClass) r;
     (dts, r) \<leftarrow> read_vec 64 (get_enum parse_DataType) r;
     (layouts, r) \<leftarrow> read_vec 64 (get_enum parse_Layout) r;
     (maxin, r) \<leftarrow> read_u64 r;
     (alignment, r) \<leftarrow> read_u64 r;
     (cc, r) \<leftarrow> read_u32 r;
     (queue, r) \<leftarrow> read_u64 r;
     (workspace, r) \<leftarrow> read_u64 r;
     (access, r) \<leftarrow> get_enum parse_AccessSemantics r;
     (staging, r) \<leftarrow> get_bool r;
     (synthetic, r) \<leftarrow> get_bool r;
     (sv, r) \<leftarrow> get_bool r;
     (sc, r) \<leftarrow> get_bool r;
     (sd, r) \<leftarrow> get_bool r;
     (owner, r) \<leftarrow> read_string r;
     Some (\<lparr>td_id = vid, td_generation = gen, td_provider = provider, td_kind = kind,
            td_name = name, td_description = description, td_failure_domain = fd,
            td_memory_domains = domains, td_supported_ops = ops, td_supported_data_types = dts,
            td_supported_layouts = layouts, td_max_input_bytes = maxin,
            td_alignment_constraint = alignment, td_concurrency_capacity = cc,
            td_queue_depth = queue, td_workspace_bytes = workspace, td_access_semantics = access,
            td_requires_staging = staging, td_synthetic = synthetic,
            td_supports_verification = sv, td_supports_cancellation = sc, td_supports_drain = sd,
            td_authority_owner = owner\<rparr>, r)
   }"

definition target_ok :: "TargetDefinition \<Rightarrow> bool" where
  "target_ok v \<longleftrightarrow>
     td_provider v \<in> set ProviderKind_table \<and> td_kind v \<in> set kTargetKinds \<and>
     length (td_name v) \<le> kMaxCodecBlobBytes \<and>
     length (td_description v) \<le> kMaxCodecBlobBytes \<and>
     length (td_memory_domains v) \<le> 64 \<and>
     length (td_supported_ops v) \<le> 64 \<and> set (td_supported_ops v) \<subseteq> set kOperationClasses \<and>
     length (td_supported_data_types v) \<le> 64 \<and> set (td_supported_data_types v) \<subseteq> set DataType_table \<and>
     length (td_supported_layouts v) \<le> 64 \<and> set (td_supported_layouts v) \<subseteq> set Layout_table \<and>
     td_access_semantics v \<in> set AccessSemantics_table \<and>
     length (td_authority_owner v) \<le> kMaxCodecBlobBytes"

interpretation target: wire_codec encode_target decode_target target_ok
  by unfold_locales (simp add: encode_target_def decode_target_def target_ok_def
      state_field_simps)

definition encode_plan :: "ExecutionPlan \<Rightarrow> u8 list" where
  "encode_plan v =
     write_u64 (plan_id v) @ write_u64 (plan_generation v) @
     put_snapshot (pa_snapshot (plan_authority v)) @ write_u64 (plan_target v) @
     write_u64 (plan_target_generation v) @ write_u64 (plan_operation v) @
     put_enum to_string_OperationClass (plan_op_class v) @ write_u64 (plan_dataset v) @
     write_u64 (plan_dataset_generation v) @ write_u64 (plan_region v) @
     write_u64 (plan_region_generation v) @
     put_enum to_string_ExecutionLifecycle (plan_lifecycle v) @
     write_u64 (plan_reserved_slots v) @ write_u64 (plan_reserved_workspace v) @
     put_optional (plan_dispatch_id v) @ put_optional (plan_attempt_id v) @
     put_enum to_string_RetryClass (plan_retry_class v) @
     put_enum to_string_Decision (plan_decision v) @ write_vec write_string (plan_notes v)"

definition decode_plan :: "ByteReader \<Rightarrow> (ExecutionPlan \<times> ByteReader) option" where
  "decode_plan r = do {
     (vid, r) \<leftarrow> read_u64 r;
     (gen, r) \<leftarrow> read_u64 r;
     (snapshot, r) \<leftarrow> get_snapshot r;
     (target, r) \<leftarrow> read_u64 r;
     (tgen, r) \<leftarrow> read_u64 r;
     (operation, r) \<leftarrow> read_u64 r;
     (oc, r) \<leftarrow> get_enum parse_OperationClass r;
     (dataset, r) \<leftarrow> read_u64 r;
     (dgen, r) \<leftarrow> read_u64 r;
     (region, r) \<leftarrow> read_u64 r;
     (rgen, r) \<leftarrow> read_u64 r;
     (lifecycle, r) \<leftarrow> get_enum parse_ExecutionLifecycle r;
     (slots, r) \<leftarrow> read_u64 r;
     (workspace, r) \<leftarrow> read_u64 r;
     (dispatch, r) \<leftarrow> get_optional r;
     (attempt, r) \<leftarrow> get_optional r;
     (retry, r) \<leftarrow> get_enum parse_RetryClass r;
     (decision, r) \<leftarrow> get_enum parse_Decision r;
     (notes, r) \<leftarrow> read_vec 64 read_string r;
     Some (\<lparr>plan_id = vid, plan_generation = gen,
            plan_authority = \<lparr>pa_snapshot = snapshot, pa_plan = vid, pa_plan_generation = gen\<rparr>,
            plan_target = target, plan_target_generation = tgen, plan_operation = operation,
            plan_op_class = oc, plan_dataset = dataset, plan_dataset_generation = dgen,
            plan_region = region, plan_region_generation = rgen, plan_lifecycle = lifecycle,
            plan_reserved_slots = slots, plan_reserved_workspace = workspace,
            plan_dispatch_id = dispatch, plan_attempt_id = attempt, plan_retry_class = retry,
            plan_decision = decision, plan_notes = notes\<rparr>, r)
   }"

definition plan_ok :: "ExecutionPlan \<Rightarrow> bool" where
  "plan_ok v \<longleftrightarrow>
     plan_op_class v \<in> set kOperationClasses \<and>
     plan_lifecycle v \<in> set ExecutionLifecycle_table \<and>
     plan_retry_class v \<in> set RetryClass_table \<and>
     plan_decision v \<in> set Decision_table \<and>
     length (plan_notes v) \<le> 64 \<and> list_all (\<lambda>y. length y \<le> kMaxCodecBlobBytes) (plan_notes v) \<and>
     pa_plan (plan_authority v) = plan_id v \<and> pa_plan_generation (plan_authority v) = plan_generation v"

interpretation plan: wire_codec encode_plan decode_plan plan_ok
  by unfold_locales (simp add: encode_plan_def decode_plan_def plan_ok_def
      state_field_simps)

definition encode_execution_result :: "ExecutionResult \<Rightarrow> u8 list" where
  "encode_execution_result v =
     write_u64 (res_id v) @ write_u64 (res_generation v) @ write_u64 (res_plan v) @
     write_u64 (res_plan_generation v) @ write_u64 (res_dispatch v) @ write_u64 (res_attempt v) @
     write_u64 (res_target v) @ write_u64 (res_target_generation v) @
     write_u64 (res_worker_boot v) @ write_u64 (res_epoch v) @
     write_u64 (res_dataset_generation v) @ write_u64 (res_region_generation v) @
     write_u64 (res_operation_generation v) @
     put_enum to_string_VerifyState (res_verification v) @ write_string (res_output_digest v) @
     write_u64 (res_output_bytes v) @ put_bool (res_committed v) @ put_bool (res_ambiguous v) @
     write_string (res_note v)"

definition decode_execution_result :: "ByteReader \<Rightarrow> (ExecutionResult \<times> ByteReader) option" where
  "decode_execution_result r = do {
     (vid, r) \<leftarrow> read_u64 r;
     (gen, r) \<leftarrow> read_u64 r;
     (plan, r) \<leftarrow> read_u64 r;
     (pgen, r) \<leftarrow> read_u64 r;
     (dispatch, r) \<leftarrow> read_u64 r;
     (attempt, r) \<leftarrow> read_u64 r;
     (target, r) \<leftarrow> read_u64 r;
     (tgen, r) \<leftarrow> read_u64 r;
     (boot, r) \<leftarrow> read_u64 r;
     (epoch, r) \<leftarrow> read_u64 r;
     (dgen, r) \<leftarrow> read_u64 r;
     (rgen, r) \<leftarrow> read_u64 r;
     (ogen, r) \<leftarrow> read_u64 r;
     (verification, r) \<leftarrow> get_enum parse_VerifyState r;
     (digest, r) \<leftarrow> read_string r;
     (bytes, r) \<leftarrow> read_u64 r;
     (committed, r) \<leftarrow> get_bool r;
     (ambiguous, r) \<leftarrow> get_bool r;
     (note, r) \<leftarrow> read_string r;
     Some (\<lparr>res_id = vid, res_generation = gen, res_plan = plan, res_plan_generation = pgen,
            res_dispatch = dispatch, res_attempt = attempt, res_target = target,
            res_target_generation = tgen, res_worker_boot = boot, res_epoch = epoch,
            res_dataset_generation = dgen, res_region_generation = rgen,
            res_operation_generation = ogen, res_verification = verification,
            res_output_digest = digest, res_output_bytes = bytes, res_committed = committed,
            res_ambiguous = ambiguous, res_note = note\<rparr>, r)
   }"

definition execution_result_ok :: "ExecutionResult \<Rightarrow> bool" where
  "execution_result_ok v \<longleftrightarrow>
     res_verification v \<in> set VerifyState_table \<and>
     length (res_output_digest v) \<le> kMaxCodecBlobBytes \<and>
     length (res_note v) \<le> kMaxCodecBlobBytes"

interpretation execution_result: wire_codec encode_execution_result decode_execution_result execution_result_ok
  by unfold_locales (simp add: encode_execution_result_def decode_execution_result_def execution_result_ok_def
      state_field_simps)

text \<open>Operations.  The writer puts the program before the description, the reader looks for it after
  the description.  A program without a generation makes \<^verbatim>\<open>program_generation.value()\<close> throw, which
  is \<^const>\<open>None\<close>.\<close>

definition encode_operation :: "OperationSpec \<Rightarrow> u8 list option" where
  "encode_operation v = do {
     prog \<leftarrow> (case op_program v of
                None \<Rightarrow> Some []
              | Some pid \<Rightarrow> do { g \<leftarrow> op_program_generation v; Some (write_u64 pid @ write_u64 g) });
     Some
       (write_u64 (op_id v) @ write_u64 (op_generation v) @
        put_enum to_string_OperationClass (op_op_class v) @
        write_u64 (op_dataset v) @ write_u64 (op_dataset_generation v) @
        write_u64 (op_region v) @ write_u64 (op_region_generation v) @
        put_shape (op_shape v) @ write_u64 (op_input_bytes v) @ write_u64 (op_output_bytes v) @
        write_u64 (op_workspace_bytes v) @ put_enum to_string_DataType (op_output_data_type v) @
        put_bool (op_determinism_required v) @ write_u64 (op_max_tolerated_latency_ns v) @
        write_u64 (op_required_throughput_bps v) @
        put_enum to_string_IntegrityRequirement (op_integrity v) @
        put_enum to_string_RetryClass (op_retry_class v) @
        write_u64 (op_policy v) @ write_u64 (op_policy_generation v) @
        put_bool (op_program v \<noteq> None) @ prog @ write_string (op_description v))
   }"

definition decode_operation :: "ByteReader \<Rightarrow> (OperationSpec \<times> ByteReader) option" where
  "decode_operation r = do {
     (vid, r) \<leftarrow> read_u64 r;
     (gen, r) \<leftarrow> read_u64 r;
     (oc, r) \<leftarrow> get_enum parse_OperationClass r;
     (dataset, r) \<leftarrow> read_u64 r;
     (dgen, r) \<leftarrow> read_u64 r;
     (region, r) \<leftarrow> read_u64 r;
     (rgen, r) \<leftarrow> read_u64 r;
     (shape, r) \<leftarrow> get_shape r;
     (inb, r) \<leftarrow> read_u64 r;
     (outb, r) \<leftarrow> read_u64 r;
     (wsp, r) \<leftarrow> read_u64 r;
     (odt, r) \<leftarrow> get_enum parse_DataType r;
     (det, r) \<leftarrow> get_bool r;
     (lat, r) \<leftarrow> read_u64 r;
     (thr, r) \<leftarrow> read_u64 r;
     (integrity, r) \<leftarrow> get_enum parse_IntegrityRequirement r;
     (retry, r) \<leftarrow> get_enum parse_RetryClass r;
     (policy, r) \<leftarrow> read_u64 r;
     (polgen, r) \<leftarrow> read_u64 r;
     (has_prog, r) \<leftarrow> get_bool r;
     (description, r) \<leftarrow> read_string r;
     (prog, r) \<leftarrow> (if has_prog then do {
                       (pid, r) \<leftarrow> read_u64 r;
                       (pg, r) \<leftarrow> read_u64 r;
                       Some ((Some pid, Some pg), r)
                     } else Some ((None, None), r));
     Some (\<lparr>op_id = vid, op_generation = gen, op_op_class = oc, op_dataset = dataset,
            op_dataset_generation = dgen, op_region = region, op_region_generation = rgen,
            op_shape = shape, op_input_bytes = inb, op_output_bytes = outb,
            op_workspace_bytes = wsp, op_output_data_type = odt, op_determinism_required = det,
            op_max_tolerated_latency_ns = lat, op_required_throughput_bps = thr,
            op_integrity = integrity, op_retry_class = retry, op_policy = policy,
            op_policy_generation = polgen, op_program = fst prog,
            op_program_generation = snd prog, op_description = description\<rparr>, r)
   }"

definition operation_ok :: "OperationSpec \<Rightarrow> bool" where
  "operation_ok v \<longleftrightarrow>
     op_op_class v \<in> set kOperationClasses \<and> shape_ok (op_shape v) \<and>
     op_output_data_type v \<in> set DataType_table \<and> op_integrity v \<in> set IntegrityRequirement_table \<and>
     op_retry_class v \<in> set RetryClass_table \<and> op_program v = None \<and> op_program_generation v = None \<and>
     length (op_description v) \<le> kMaxCodecBlobBytes"

interpretation operation: wire_codec "the \<circ> encode_operation" decode_operation operation_ok
  by unfold_locales
    (simp add: encode_operation_def decode_operation_def operation_ok_def state_field_simps)

lemma encode_operation_ok: "operation_ok v \<Longrightarrow> \<exists>bs. encode_operation v = Some bs"
  by (simp add: encode_operation_def operation_ok_def)

section \<open>The state\<close>

definition bounded_count :: "nat \<Rightarrow> nat" where
  "bounded_count n = (if n > kMaxPersistCount then kMaxPersistCount else n)"

definition write_map :: "('v \<Rightarrow> u8 list) \<Rightarrow> ('k, 'v) omap \<Rightarrow> u8 list" where
  "write_map enc m =
     write_u64 (word_of_nat (bounded_count (length m))) @ concat (map (\<lambda>(_, v). enc v) m)"

definition read_map ::
    "('v \<Rightarrow> 'k::linorder) \<Rightarrow> (ByteReader \<Rightarrow> ('v \<times> ByteReader) option) \<Rightarrow> ByteReader
     \<Rightarrow> (('k, 'v) omap \<times> ByteReader) option" where
  "read_map key dec r = do {
     (n, r) \<leftarrow> read_u64 r;
     if unat n > kMaxPersistCount then None
     else do {
       (vs, r) \<leftarrow> read_items (unat n) dec r;
       Some (foldl (\<lambda>m v. om_put (key v) v m) [] vs, r)
     }
   }"

primrec encode_operations :: "(OperationId, OperationSpec) omap \<Rightarrow> u8 list option" where
  "encode_operations [] = Some []"
| "encode_operations (p # ps) = do {
     bs \<leftarrow> encode_operation (snd p);
     rest \<leftarrow> encode_operations ps;
     Some (bs @ rest)
   }"

definition encode_state :: "RuntimeState \<Rightarrow> u8 list option" where
  "encode_state st = do {
     ops \<leftarrow> encode_operations (st_operations st);
     Some
       (write_u64 (st_coordinator_id st) @ write_u64 (st_epoch st) @
        write_map encode_memory_domain (st_memory_domains st) @
        write_map encode_dataset (st_datasets st) @
        write_map encode_region (st_regions st) @
        write_map encode_program (st_programs st) @
        write_map encode_policy (st_policies st) @
        write_u64 (word_of_nat (bounded_count (length (st_operations st)))) @ ops @
        write_map encode_target (st_targets st) @
        write_map encode_plan (st_plans st) @
        write_map encode_execution_result (st_results st))
   }"

definition decode_state :: "ByteReader \<Rightarrow> (RuntimeState \<times> ByteReader) option" where
  "decode_state r = do {
     (cid, r) \<leftarrow> read_u64 r;
     (epoch, r) \<leftarrow> read_u64 r;
     if is_null epoch then None
     else do {
       (mds, r) \<leftarrow> read_map md_id decode_memory_domain r;
       (dss, r) \<leftarrow> read_map ds_id decode_dataset r;
       (rgs, r) \<leftarrow> read_map rg_id decode_region r;
       (pgs, r) \<leftarrow> read_map pg_id decode_program r;
       (pols, r) \<leftarrow> read_map pol_id decode_policy r;
       (ops, r) \<leftarrow> read_map op_id decode_operation r;
       (tgs, r) \<leftarrow> read_map td_id decode_target r;
       (plans, r) \<leftarrow> read_map plan_id decode_plan r;
       (results, r) \<leftarrow> read_map res_id decode_execution_result r;
       Some (RuntimeState_default
          \<lparr>st_coordinator_id := cid, st_epoch := epoch, st_memory_domains := mds,
           st_datasets := dss, st_regions := rgs, st_programs := pgs, st_policies := pols,
           st_operations := ops, st_targets := tgs, st_plans := plans, st_results := results\<rparr>, r)
     }
   }"

section \<open>Save and load\<close>

text \<open>\<^const>\<open>None\<close> where the encoder throws, before any file is touched.\<close>

definition save_state ::
    "string \<Rightarrow> SaveCalls \<Rightarrow> RuntimeState \<Rightarrow> FileSystem \<Rightarrow> (unit Result \<times> FileSystem) option" where
  "save_state path calls st fs = do {
     payload \<leftarrow> encode_state st;
     Some (save_file path payload calls fs)
   }"

definition recover_state :: "RuntimeState \<Rightarrow> RuntimeState" where
  "recover_state loaded = (advance_epoch loaded)\<lparr>st_reservations := [], st_workers := []\<rparr>"

definition load_state ::
    "string \<Rightarrow> ReadCalls \<Rightarrow> FileSystem \<Rightarrow> RuntimeState \<Rightarrow> unit Result \<times> RuntimeState" where
  "load_state path calls fs st =
     (case load_file path decode_state calls fs of
        Inl e \<Rightarrow> (Inl e, st)
      | Inr loaded \<Rightarrow> (Inr (), recover_state loaded))"

section \<open>The state that is written is the state that is read\<close>

definition durable :: "RuntimeState \<Rightarrow> RuntimeState" where
  "durable st = st\<lparr>st_data_evidence := [], st_target_runtime := [], st_capabilities := [],
     st_active_plans := [], st_reservations := [], st_workers := []\<rparr>"

definition map_ok :: "('v \<Rightarrow> 'k::linorder) \<Rightarrow> ('v \<Rightarrow> bool) \<Rightarrow> ('k, 'v) omap \<Rightarrow> bool" where
  "map_ok key ok m \<longleftrightarrow> om_wf m \<and> length m \<le> kMaxPersistCount \<and> list_all (\<lambda>(k, v). key v = k \<and> ok v) m"

definition state_ok :: "RuntimeState \<Rightarrow> bool" where
  "state_ok st \<longleftrightarrow> st_epoch st \<noteq> 0 \<and>
     map_ok md_id memory_domain_ok (st_memory_domains st) \<and> map_ok ds_id dataset_ok (st_datasets st) \<and>
     map_ok rg_id region_ok (st_regions st) \<and> map_ok pg_id program_ok (st_programs st) \<and>
     map_ok pol_id policy_ok (st_policies st) \<and> map_ok op_id operation_ok (st_operations st) \<and>
     map_ok td_id target_ok (st_targets st) \<and> map_ok plan_id plan_ok (st_plans st) \<and>
     map_ok res_id execution_result_ok (st_results st)"

text \<open>Putting the entries of a sorted map back one by one rebuilds the map.\<close>

lemma om_put_last: "(\<And>x. x \<in> fst ` set m \<Longrightarrow> x < k) \<Longrightarrow> om_put k v m = m @ [(k, v)]"
proof (induction m)
  case (Cons p m)
  obtain k' v' where p: "p = (k', v')" by (cases p)
  have "k' < k" using Cons.prems p by simp
  then have "\<not> k < k'" "k \<noteq> k'" by auto
  moreover have "om_put k v m = m @ [(k, v)]"
    using Cons.prems by (intro Cons.IH) simp
  ultimately show ?case by (simp add: p)
qed simp

lemma foldl_put:
  assumes "om_wf (m @ ps)" "list_all (\<lambda>(k, v). key v = k) ps"
  shows "foldl (\<lambda>m v. om_put (key v) v m) m (map snd ps) = m @ ps"
  using assms
proof (induction ps arbitrary: m)
  case (Cons p ps)
  obtain k v where p: "p = (k, v)" by (cases p)
  have "x < k" if "x \<in> fst ` set m" for x
    using Cons.prems(1) that by (auto simp: p om_wf_def sorted_wrt_append)
  then have "om_put k v m = m @ [(k, v)]"
    by (rule om_put_last)
  moreover have "foldl (\<lambda>m v. om_put (key v) v m) (m @ [(k, v)]) (map snd ps) = (m @ [(k, v)]) @ ps"
    using Cons.prems by (intro Cons.IH) (simp_all add: p)
  ultimately show ?case
    using Cons.prems(2) by (simp add: p)
qed simp

lemma map_ok_keys: "map_ok key ok m \<Longrightarrow> foldl (\<lambda>m v. om_put (key v) v m) [] (map snd m) = m"
  using foldl_put [of "[]" m key] by (auto simp: map_ok_def list_all_iff)

lemma map_ok_values: "map_ok key ok m \<Longrightarrow> list_all ok (map snd m)"
  by (auto simp: map_ok_def list_all_iff)

lemma unat_bounded_count:
  "map_ok key ok m \<Longrightarrow> unat (word_of_nat (bounded_count (length m)) :: u64) = length m"
  by (simp add: map_ok_def bounded_count_def kMaxPersistCount_def unat_of_nat take_bit_nat_eq_self)

context wire_codec
begin

lemma read_map_items:
  assumes "map_ok key ok m" "items = concat (map enc (map snd m))"
  shows "read_map key dec (write_u64 (word_of_nat (bounded_count (length m))) @ items @ r) = Some (m, r)"
proof -
  have "length m \<le> kMaxPersistCount"
    using assms(1) by (simp add: map_ok_def)
  moreover have "read_items (length m) dec (items @ r) = Some (map snd m, r)"
    using read_items_enc [OF map_ok_values [OF assms(1)], of r] unfolding assms(2) length_map .
  ultimately show ?thesis
    by (simp add: read_map_def unat_bounded_count [OF assms(1)] map_ok_keys [OF assms(1)])
qed

lemma read_write_map: "map_ok key ok m \<Longrightarrow> read_map key dec (write_map enc m @ r) = Some (m, r)"
  using read_map_items [of key m "concat (map (\<lambda>(_, v). enc v) m)" r]
  by (simp add: write_map_def case_prod_unfold comp_def)

end

lemma encode_operations_ok:
  "list_all operation_ok (map snd m) \<Longrightarrow>
     encode_operations m = Some (concat (map (the \<circ> encode_operation) (map snd m)))"
proof (induction m)
  case (Cons p m)
  then show ?case
    using encode_operation_ok [of "snd p"] by auto
qed simp

lemma decode_encode_state:
  assumes "state_ok st"
  shows "\<exists>bs. encode_state st = Some bs \<and> decode_state (bs @ r) = Some (durable st, r)"
proof -
  have ops: "encode_operations (st_operations st) =
      Some (concat (map (the \<circ> encode_operation) (map snd (st_operations st))))"
    using assms map_ok_values by (intro encode_operations_ok) (auto simp: state_ok_def)
  have rd: "read_map op_id decode_operation (write_u64 (word_of_nat (bounded_count (length (st_operations st)))) @
      concat (map (the \<circ> encode_operation) (map snd (st_operations st))) @ r) = Some (st_operations st, r)" for r
    using assms by (intro operation.read_map_items) (simp_all add: state_ok_def)
  show ?thesis
    using assms
    by (simp add: encode_state_def ops decode_state_def rd state_ok_def is_null_def durable_def
        RuntimeState_default_def memory_domain.read_write_map dataset.read_write_map region.read_write_map
        program.read_write_map policy.read_write_map target.read_write_map plan.read_write_map
        execution_result.read_write_map del: map_map)
qed

section \<open>Recovery\<close>

lemma save_then_load:
  assumes "state_ok st" "save_state path calls st fs = Some (Inr (), fs')" "rd_size rc" "rd_read rc"
  shows "load_state path rc fs' st' = (Inr (), recover_state (durable st))"
proof -
  obtain bs where bs: "encode_state st = Some bs" "decode_state bs = Some (durable st, [])"
    using decode_encode_state [OF assms(1), of "[]"] by auto
  with assms(2) have "save_file path bs calls fs = (Inr (), fs')"
    by (simp add: save_state_def)
  from load_after_save [of path bs calls fs fs' decode_state, OF this bs(2) assms(3,4)] show ?thesis
    by (simp add: load_state_def)
qed

lemma supersede_lifecycle:
  "plan_lifecycle (supersede_plan p) \<in>
     {ExecutionLifecycle.COMMITTED, ExecutionLifecycle.OUTCOME_UNKNOWN, ExecutionLifecycle.SUPERSEDED}"
  by (simp add: supersede_plan_def)

lemma recover_plans: "st_plans (recover_state st) = om_for_each supersede_plan (st_plans st)"
  by (simp add: recover_state_def)

lemma recover_sel:
  "st_epoch (recover_state st) = st_epoch st + 1" "st_results (recover_state st) = st_results st"
  "st_reservations (recover_state st) = []" "st_workers (recover_state st) = []"
  "st_target_runtime (recover_state st) = om_for_each revalidate_runtime (st_target_runtime st)"
  "st_capabilities (recover_state st) = om_for_each (\<lambda>cs. cs\<lparr>cs_dynamic_current := False\<rparr>) (st_capabilities st)"
  "st_data_evidence (recover_state st) = om_for_each (\<lambda>ev. ev\<lparr>ev_dynamic_current := False\<rparr>) (st_data_evidence st)"
  by (simp_all add: recover_state_def advance_epoch_def rebuild_active_plans_def)

text \<open>No completion of a dispatch made before a recovery is accepted after it: no plan is executing.\<close>

lemma recovered_rejects:
  assumes "load_state path rc fs st = (Inr (), st')"
  shows "\<exists>e. apply_result msg st' ids = (Inl e, st', ids)"
proof -
  obtain loaded where st': "st' = recover_state loaded"
    using assms by (auto simp: load_state_def split: sum.splits)
  show ?thesis
  proof (cases "om_find (st_plans st') (rs_plan msg)")
    case None
    then show ?thesis by (simp add: apply_result_def)
  next
    case (Some p)
    then obtain q where "p = supersede_plan q"
      by (auto simp: st' recover_plans)
    then have "plan_lifecycle p \<in> {ExecutionLifecycle.COMMITTED, ExecutionLifecycle.OUTCOME_UNKNOWN,
        ExecutionLifecycle.SUPERSEDED}"
      using supersede_lifecycle by simp
    then have "\<exists>e. result_rejected msg p st' = Some e"
      by (auto simp: result_rejected_def executing_def)
    with Some show ?thesis
      by (auto simp: apply_result_def)
  qed
qed

section \<open>When saving throws, and what cannot be read back\<close>

definition versioned :: "OperationSpec \<Rightarrow> bool" where
  "versioned op \<longleftrightarrow> op_program op = None \<or> op_program_generation op \<noteq> None"

lemma encode_operation_defined: "(\<exists>bs. encode_operation op = Some bs) \<longleftrightarrow> versioned op"
  by (cases "op_program op"; cases "op_program_generation op")
    (simp_all add: encode_operation_def versioned_def)

lemma encode_operations_defined:
  "(\<exists>bs. encode_operations m = Some bs) \<longleftrightarrow> list_all (\<lambda>(_, op). versioned op) m"
proof (induction m)
  case (Cons p m)
  then show ?case
    using encode_operation_defined [of "snd p"]
    by (cases "encode_operation (snd p)"; cases "encode_operations m") (auto simp: case_prod_beta)
qed simp

lemma save_state_defined:
  "(\<exists>r. save_state path calls st fs = Some r) \<longleftrightarrow> list_all (\<lambda>(_, op). versioned op) (st_operations st)"
  unfolding encode_operations_defined [symmetric]
  by (cases "encode_operations (st_operations st)") (simp_all add: save_state_def encode_state_def)

section \<open>Properties\<close>



text \<open>C24: After a recovery no completion of an earlier dispatch is accepted: whatever file was loaded, every
  result message is rejected and changes nothing.\<close>

theorem recovery_rejects_completions:
  assumes "load_state path rc fs st = (Inr (), st')"
  shows "\<exists>e. apply_result msg st' ids = (Inl e, st', ids)"
  using assms by (rule recovered_rejects)

theorem recovery_rejects_completions_witness:
  "\<exists>fs st'. load_state ''s'' \<lparr>rd_size = True, rd_read = True\<rparr> fs RuntimeState_default = (Inr (), st') \<and>
     (\<forall>msg ids. \<exists>e. apply_result msg st' ids = (Inl e, st', ids))"
proof -
  let ?st = "RuntimeState_default\<lparr>st_epoch := 3\<rparr>"
  have ok: "state_ok ?st"
    by (simp add: state_ok_def map_ok_def RuntimeState_default_def)
  obtain bs where bs: "encode_state ?st = Some bs" "decode_state bs = Some (durable ?st, [])"
    using decode_encode_state [OF ok, of "[]"] by auto
  have "length bs = 88"
    using bs(1) by (auto simp: encode_state_def RuntimeState_default_def write_map_def bounded_count_def)
  with bs(2) have loaded: "load_state ''s'' \<lparr>rd_size = True, rd_read = True\<rparr> [''s'' \<mapsto> envelope bs] RuntimeState_default =
      (Inr (), recover_state (durable ?st))"
    by (simp add: load_state_def load_file_envelope [where payload = bs] kMaxPayload_def at_end_def)
  with recovery_rejects_completions [OF loaded] show ?thesis by blast
qed

text \<open>C26: Saving throws, ending the process, exactly when some operation names a program without its
  generation; otherwise it returns a result.\<close>

theorem save_throws_iff:
  "save_state path calls st fs = None \<longleftrightarrow> list_ex (\<lambda>(_, op). op_program op \<noteq> None \<and> op_program_generation op = None) (st_operations st)"
  using save_state_defined [of path calls st fs]
  by (cases "save_state path calls st fs") (auto simp: versioned_def list_all_iff list_ex_iff)

text \<open>C25: An operation that names a program is written in an order in which it cannot be read back: the writer
  puts the program before the description, the reader expects it after, takes the program's identity
  for the length of the description, and fails for every identity above the bound on strings.\<close>

theorem program_unreadable:
  assumes "operation_ok (op\<lparr>op_program := None, op_program_generation := None\<rparr>)"
    and "op_program op = Some pid" "op_program_generation op = Some g" "kMaxCodecBlobBytes < unat pid"
  shows "\<exists>bs. encode_operation op = Some bs \<and> decode_operation (bs @ r) = None"
  using assms
  by (simp add: encode_operation_def decode_operation_def operation_ok_def state_field_simps read_string_def)

theorem program_unreadable_witness:
  "\<exists>op bs. op_program op = Some 0x100000000 \<and> encode_operation op = Some bs \<and> decode_operation bs = None"
proof -
  let ?op = "\<lparr>op_id = 50, op_generation = 1, op_op_class = OperationClass.SUM, op_dataset = 1000,
      op_dataset_generation = 1, op_region = 1001, op_region_generation = 1,
      op_shape = \<lparr>sh_element_count = 4, sh_data_type = DataType.U8, sh_layout = Layout.CONTIGUOUS,
                  sh_alignment = 1\<rparr>,
      op_input_bytes = 4, op_output_bytes = 8, op_workspace_bytes = 0,
      op_output_data_type = DataType.U64, op_determinism_required = False,
      op_max_tolerated_latency_ns = 0, op_required_throughput_bps = 0,
      op_integrity = IntegrityRequirement.CHECKED, op_retry_class = RetryClass.IDEMPOTENT,
      op_policy = 1, op_policy_generation = 1, op_program = Some 0x100000000, op_program_generation = Some 1,
      op_description = ''sum''\<rparr>"
  have "operation_ok (?op\<lparr>op_program := None, op_program_generation := None\<rparr>)"
    by (simp add: operation_ok_def shape_ok_def kOperationClasses_def DataType_table_def Layout_table_def
        IntegrityRequirement_table_def RetryClass_table_def kMaxCodecBlobBytes_def)
  moreover have "op_program ?op = Some 0x100000000" "op_program_generation ?op = Some 1"
    "kMaxCodecBlobBytes < unat (0x100000000 :: u64)"
    by (simp_all add: kMaxCodecBlobBytes_def)
  ultimately have "\<exists>bs. encode_operation ?op = Some bs \<and> decode_operation (bs @ []) = None"
    by (rule program_unreadable)
  then show ?thesis
    by (intro exI [of _ ?op]) simp
qed

end
