(* ===== verification/Identities.thy ===== *)
theory Identities
  imports Delivery
begin

text \<open>
  The assumption on identities made concrete.  The guard of a run asks that an identity drawn for a
  plan or a result is not already one; this theory shows that a run meets it as soon as the
  identities the source yields during the run are distinct, whatever the commands are.  The
  restrictions on cancellation and re-registration are not needed for that.
\<close>

primrec draws :: "nat \<Rightarrow> UniqueIdSource \<Rightarrow> u64 list" where
  "draws 0 ids = []"
| "draws (Suc n) ids = fst (make_id ids) # draws n (snd (make_id ids))"

lemma length_draws [simp]: "length (draws n ids) = n"
  by (induction n arbitrary: ids) simp_all

lemma take_draws: "m \<le> n \<Longrightarrow> take m (draws n ids) = draws m ids"
proof (induction n arbitrary: m ids)
  case (Suc n)
  then show ?case by (cases m) simp_all
qed simp

definition fresh_for :: "nat \<Rightarrow> CState \<Rightarrow> bool" where
  "fresh_for n s \<longleftrightarrow>
     distinct (draws n (snd s)) \<and>
     (\<forall>x \<in> set (draws n (snd s)). om_find (st_plans (fst s)) x = None \<and> om_find (st_results (fst s)) x = None)"

text \<open>A command adds no plan or result but under identities it draws.\<close>

definition same_books :: "RuntimeState \<Rightarrow> RuntimeState \<Rightarrow> bool" where
  "same_books st st' \<longleftrightarrow> (\<forall>x. om_find (st_plans st') x = None \<longleftrightarrow> om_find (st_plans st) x = None) \<and>
     (\<forall>x. om_find (st_results st') x = None \<longleftrightarrow> om_find (st_results st) x = None)"

definition adds_at_most :: "u64 set \<Rightarrow> RuntimeState \<Rightarrow> RuntimeState \<Rightarrow> bool" where
  "adds_at_most new st st' \<longleftrightarrow> (\<forall>x. x \<notin> new \<longrightarrow>
     (om_find (st_plans st) x = None \<longrightarrow> om_find (st_plans st') x = None) \<and>
     (om_find (st_results st) x = None \<longrightarrow> om_find (st_results st') x = None))"

lemma same_books_refl [simp]: "same_books st st"
  by (simp add: same_books_def)

lemma same_books_adds: "same_books st st' \<Longrightarrow> adds_at_most new st st'"
  by (simp add: same_books_def adds_at_most_def)

lemma release_results [simp]: "st_results (release_reservation p st) = st_results st"
  by (simp add: release_reservation_def Let_def split: option.split)

lemma rebuild_results [simp]: "st_results (rebuild_active_plans st) = st_results st"
  by (simp add: rebuild_active_plans_def)

lemma plan_update_books:
  "om_find (st_plans st) pid = Some p \<Longrightarrow> st_plans st' = om_put pid p' (st_plans st) \<Longrightarrow>
     st_results st' = st_results st \<Longrightarrow> same_books st st'"
  by (auto simp: same_books_def)

lemma reserve_books: "same_books st (snd (reserve pid st))"
proof (cases rule: reserve_cases [of pid st])
  case same
  show ?thesis
    using arg_cong [OF same(2), of lg_plans] arg_cong [OF same(2), of lg_results]
    by (simp only: same_books_def ledger_sel simp_thms)
next
  case (admitted p op_ws rs)
  then show ?thesis by (auto intro!: plan_update_books simp: set_plan_def)
qed

lemma prepare_books: "same_books st (snd (prepare_dispatch pid d a st))"
  by (cases rule: prepare_dispatch_cases [of pid d a st])
    (auto intro!: plan_update_books simp: set_plan_def)

lemma sweep_books:
  "same_books st (advance_epoch st)" "same_books st (snd (fence_worker b st))"
  "same_books st (snd (on_worker_disconnected b st))" "same_books st (snd (retire_target t st))"
  by (auto simp: same_books_def advance_epoch_def fence_worker_def fence_body_def
      on_worker_disconnected_def retire_target_def rebuild_active_plans_def split: option.split)

lemma plan_moves_books:
  "same_books st (snd (confirm_dispatched pid d st))" "same_books st (snd (cancel_plan pid st))"
  by (auto simp: same_books_def confirm_dispatched_def cancel_plan_def set_plan_def Let_def
      split: option.split)

lemma registration_books:
  "same_books st (snd (attach_coordinator c st))" "same_books st (snd (register_memory_domain md st))"
  "same_books st (snd (register_dataset ds st))" "same_books st (snd (register_region rg st))"
  "same_books st (snd (register_program pg st))" "same_books st (snd (register_policy pl st))"
  "same_books st (snd (create_operation op st))" "same_books st (snd (bind_worker_session w b n st))"
  "same_books st (snd (apply_register_target rm st))" "same_books st (snd (apply_data_evidence de st))"
  "same_books st (snd (apply_heartbeat hb st))" "same_books st (snd (begin_drain t st))"
  by (simp_all add: same_books_def attach_coordinator_def register_memory_domain_def register_dataset_def
      register_region_def register_program_def register_policy_def create_operation_def
      bind_worker_session_def apply_register_target_def apply_data_evidence_def apply_heartbeat_def
      begin_drain_def Let_def split: option.split)

text \<open>How many identities a command may draw, and the source after some draws.\<close>

fun identities :: "Command \<Rightarrow> nat" where
  "identities (ApplyCapability m) = Suc (length (cm_entries m))"
| "identities c = 1"

primrec source_after :: "nat \<Rightarrow> UniqueIdSource \<Rightarrow> UniqueIdSource" where
  "source_after 0 ids = ids"
| "source_after (Suc k) ids = source_after k (snd (make_id ids))"

lemma draws_append: "draws (k + n) ids = draws k ids @ draws n (source_after k ids)"
  by (induction k arbitrary: ids) simp_all

lemma capability_entries_source: "snd (capability_entries t es m ids) = source_after (length es) ids"
  by (induction es arbitrary: m ids) (simp_all add: Let_def case_prod_beta)

lemma exec_identities:
  "\<exists>k \<le> identities c. snd (exec c (st, ids)) = source_after k ids \<and>
     adds_at_most (set (draws k ids)) st (fst (exec c (st, ids)))"
proof -
  have none: ?thesis if "snd (exec c (st, ids)) = ids" "same_books st (fst (exec c (st, ids)))"
    using that by (intro exI [of _ 0]) (simp add: same_books_adds)
  have one: ?thesis if "snd (exec c (st, ids)) = snd (make_id ids)" "0 < identities c"
    "adds_at_most {fst (make_id ids)} st (fst (exec c (st, ids)))"
    using that by (intro exI [of _ "Suc 0"]) simp
  show ?thesis
  proof (cases c)
    case (PlanOp oid)
    then show ?thesis
      by (cases rule: plan_op_cases [of oid st ids]; (intro none; simp; fail | intro one; simp add: adds_at_most_def)?)
  next
    case (ApplyResult m)
    then show ?thesis
      by (cases rule: apply_result_cases [of m st ids];
          (intro none; simp; fail | intro one; auto simp: adds_at_most_def finish_plan_def set_plan_def)?)
  next
    case (ApplyCapability m)
    show ?thesis
    proof (cases "is_null (cm_target m) \<or> om_find (st_targets st) (cm_target m) = None")
      case True
      then show ?thesis by (intro none) (auto simp: ApplyCapability apply_capability_def)
    next
      case False
      then show ?thesis
        by (intro exI [of _ "identities c"])
          (auto simp: ApplyCapability apply_capability_def adds_at_most_def Let_def case_prod_beta
            capability_entries_source)
    qed
  next
    case DrawIdentity
    then show ?thesis by (intro one) (simp_all add: adds_at_most_def)
  qed (intro none; simp add: registration_books sweep_books plan_moves_books reserve_books prepare_books)+
qed

lemma fresh_for_exec:
  assumes "fresh_for (identities c + n) s"
  shows "fresh_for n (exec c s)"
proof -
  obtain st ids where s: "s = (st, ids)" by (cases s)
  obtain k where k: "k \<le> identities c" "snd (exec c s) = source_after k ids"
    "adds_at_most (set (draws k ids)) st (fst (exec c s))"
    using exec_identities [of c st ids] s by auto
  have "draws (k + n) ids = take (k + n) (draws (identities c + n) ids)"
    using k(1) by (simp add: take_draws)
  then have "fresh_for (k + n) s"
    using assms unfolding fresh_for_def s snd_conv fst_conv
    by (metis distinct_take in_set_takeD)
  then have dist: "distinct (draws n (source_after k ids))"
    and disj: "set (draws k ids) \<inter> set (draws n (source_after k ids)) = {}"
    and none: "\<forall>x \<in> set (draws n (source_after k ids)).
      om_find (st_plans st) x = None \<and> om_find (st_results st) x = None"
    by (auto simp: fresh_for_def s draws_append)
  show ?thesis
    unfolding fresh_for_def k(2)
  proof (intro conjI ballI dist)
    fix x assume x: "x \<in> set (draws n (source_after k ids))"
    then have "x \<notin> set (draws k ids)" using disj by blast
    with none x k(3) show "om_find (st_plans (fst (exec c s))) x = None"
      "om_find (st_results (fst (exec c s))) x = None"
      by (simp_all add: adds_at_most_def)
  qed
qed

lemma fresh_guard:
  assumes "fresh_for (identities c + n) s"
  shows "guard (\<lambda>_. True) False c s"
  using assms by (cases s; cases c) (simp_all add: fresh_for_def split: option.split)

lemma fresh_admissible:
  "fresh_for (sum_list (map identities cs)) s \<Longrightarrow> admissible (guard (\<lambda>_. True) False) exec cs s"
proof (induction cs arbitrary: s)
  case (Cons c cs)
  then show ?case
    using fresh_guard [of c "sum_list (map identities cs)" s]
      fresh_for_exec [of c "sum_list (map identities cs)" s] by simp
qed simp

lemma fresh_for_new:
  assumes "distinct (draws (Suc n) ids)"
  shows "fresh_for n (Coordinator_new ids)"
  using assms by (simp add: fresh_for_def Coordinator_new_def RuntimeState_default_def case_prod_beta)

lemma reachable_fresh:
  assumes "distinct (draws (Suc (sum_list (map identities cs))) ids)"
  shows "reachable initial (guard (\<lambda>_. True) False) exec (run exec cs (Coordinator_new ids))"
proof -
  have "reachable initial (guard (\<lambda>_. True) False) exec (Coordinator_new ids)"
    by (rule reachable.initial) (auto simp: initial_def)
  then show ?thesis
    by (rule reachable_run [OF _ fresh_admissible [OF fresh_for_new [OF assms]]])
qed

end
