(* ===== verification/Node.thy ===== *)
theory Node
  imports State_Codec Identities
begin

text \<open>
  The coordinator process, \<^verbatim>\<open>apps/nmc_coordinator.cpp\<close>: what it does with each frame of a
  connection, with the end of a connection, and at startup.  Connections are numbers; a frame sent
  is an output with the number of its connection.  A client that waits for the future of a dispatch
  is the entry of \<open>nd_pending\<close> that says where and under which correlation it will be answered.  The
  outcomes of the system calls are arguments.  A handler that an exception leaves, which ends the
  process, is \<^const>\<open>None\<close>.  The handlers are the sequence of coordinator calls one thread makes; the
  lemma \<open>node_commands\<close> shows each is a run of coordinator commands, so what holds of every run,
  interleaved with other threads or not, holds of the process.
\<close>

section \<open>State\<close>

record Pending =
  pn_boot :: WorkerBootId
  pn_client :: nat
  pn_correlation :: u64

record NodeState =
  nd_coord :: RuntimeState
  nd_ids :: UniqueIdSource
  nd_workers :: "(WorkerBootId, nat) omap"
  nd_pending :: "(DispatchId, Pending) omap"
  nd_persist :: string
  nd_running :: bool
  nd_fs :: FileSystem

record Connection =
  cn_number :: nat
  cn_boot :: WorkerBootId
  cn_is_worker :: bool

record NodeCalls =
  nc_save :: SaveCalls
  nc_send_ok :: bool

type_synonym Output = "nat \<times> OutFrame"

definition ClientReplyMsg_default :: ClientReplyMsg where
  "ClientReplyMsg_default =
     \<lparr>cr_ok = False, cr_plan = 0, cr_decision = Decision.REJECT, cr_created = False,
      cr_committed = False, cr_ambiguous = False, cr_verification = VerifyState.UNVERIFIED,
      cr_output_bytes = 0, cr_output_digest = '''', cr_note = ''''\<rparr>"

definition reply_client :: "nat \<Rightarrow> ClientReplyMsg \<Rightarrow> u64 \<Rightarrow> Output" where
  "reply_client sock reply corr = (sock, FrameType.CLIENT_REPLY, encode_client_reply reply, corr)"

definition resolve_dispatch :: "DispatchId \<Rightarrow> ClientReplyMsg \<Rightarrow> NodeState \<Rightarrow> NodeState \<times> Output list" where
  "resolve_dispatch d reply node =
     (case om_find (nd_pending node) d of
        None \<Rightarrow> (node, [])
      | Some p \<Rightarrow>
          (node\<lparr>nd_pending := om_erase d (nd_pending node)\<rparr>,
           [reply_client (pn_client p) reply (pn_correlation p)]))"

definition disconnect_reply :: ClientReplyMsg where
  "disconnect_reply = ClientReplyMsg_default
     \<lparr>cr_ok := False, cr_ambiguous := True, cr_note := ''worker disconnected; outcome unknown''\<rparr>"

definition resolve_disconnect :: "WorkerBootId \<Rightarrow> NodeState \<Rightarrow> NodeState \<times> Output list" where
  "resolve_disconnect boot node =
     (node\<lparr>nd_pending := filter (\<lambda>(_, p). pn_boot p \<noteq> boot) (nd_pending node),
           nd_workers := om_erase boot (nd_workers node)\<rparr>,
      map (\<lambda>(_, p). reply_client (pn_client p) disconnect_reply (pn_correlation p))
        (filter (\<lambda>(_, p). pn_boot p = boot) (nd_pending node)))"

section \<open>Frames of a worker\<close>

definition on_hello :: "Connection \<Rightarrow> HelloMsg \<Rightarrow> NodeState \<Rightarrow> NodeState \<times> Connection" where
  "on_hello c m node =
     (let (_, st) = bind_worker_session (hm_worker m) (hm_worker_boot m) (hm_name m) (nd_coord node)
      in (node\<lparr>nd_coord := st, nd_workers := om_put (hm_worker_boot m) (cn_number c) (nd_workers node)\<rparr>,
          c\<lparr>cn_boot := hm_worker_boot m, cn_is_worker := True\<rparr>))"

definition on_register_target :: "Connection \<Rightarrow> RegisterTargetMsg \<Rightarrow> NodeState \<Rightarrow> NodeState" where
  "on_register_target c m node =
     node\<lparr>nd_coord := snd (apply_register_target (m\<lparr>rm_owner_boot := cn_boot c\<rparr>) (nd_coord node))\<rparr>"

definition on_capability :: "Connection \<Rightarrow> CapabilityMsg \<Rightarrow> NodeState \<Rightarrow> NodeState" where
  "on_capability c m node =
     (let m = (if is_null (cm_publisher m) then m\<lparr>cm_publisher := cn_boot c\<rparr> else m);
          (_, st, ids) = apply_capability m (nd_coord node) (nd_ids node)
      in node\<lparr>nd_coord := st, nd_ids := ids\<rparr>)"

definition on_data_evidence :: "Connection \<Rightarrow> DataEvidenceMsg \<Rightarrow> NodeState \<Rightarrow> NodeState" where
  "on_data_evidence c m node =
     (let m = (if is_null (dm_publisher m) then m\<lparr>dm_publisher := cn_boot c\<rparr> else m)
      in node\<lparr>nd_coord := snd (apply_data_evidence m (nd_coord node))\<rparr>)"

definition on_heartbeat :: "HeartbeatMsg \<Rightarrow> NodeState \<Rightarrow> NodeState" where
  "on_heartbeat m node = node\<lparr>nd_coord := snd (apply_heartbeat m (nd_coord node))\<rparr>"

definition result_reply :: "ResultMsg \<Rightarrow> ExecutionResult Result \<Rightarrow> ClientReplyMsg" where
  "result_reply m res =
     (let reply = ClientReplyMsg_default\<lparr>cr_plan := rs_plan m\<rparr> in
      case res of
        Inr v \<Rightarrow> reply\<lparr>cr_ok := True, cr_committed := res_committed v, cr_ambiguous := res_ambiguous v,
                      cr_verification := res_verification v, cr_output_bytes := res_output_bytes v,
                      cr_output_digest := res_output_digest v, cr_note := res_note v\<rparr>
      | Inl e \<Rightarrow> reply\<lparr>cr_ok := False, cr_note := err_message e\<rparr>)"

definition on_result :: "NodeCalls \<Rightarrow> ResultMsg \<Rightarrow> NodeState \<Rightarrow> (NodeState \<times> Output list) option" where
  "on_result calls m node = do {
     let (res, st, ids) = apply_result m (nd_coord node) (nd_ids node);
     let reply = result_reply m res;
     let node = node\<lparr>nd_coord := st, nd_ids := ids\<rparr>;
     fs \<leftarrow> (if cr_committed reply \<and> nd_persist node \<noteq> []
             then map_option snd (save_state (nd_persist node) (nc_save calls) st (nd_fs node))
             else Some (nd_fs node));
     Some (resolve_dispatch (rs_dispatch m) reply (node\<lparr>nd_fs := fs\<rparr>))
   }"

section \<open>Frames of a client\<close>

definition on_client_register_operation :: "OperationSpec option \<Rightarrow> NodeState \<Rightarrow> NodeState \<times> ClientReplyMsg" where
  "on_client_register_operation m node =
     (case m of
        None \<Rightarrow> (node, ClientReplyMsg_default)
      | Some op \<Rightarrow>
          let (r, st) = create_operation op (nd_coord node)
          in (node\<lparr>nd_coord := st\<rparr>, ClientReplyMsg_default\<lparr>cr_ok := has_value r\<rparr>))"

definition on_client_plan :: "ClientPlanMsg option \<Rightarrow> NodeState \<Rightarrow> NodeState \<times> ClientReplyMsg" where
  "on_client_plan m node =
     (case m of
        None \<Rightarrow> (node, ClientReplyMsg_default)
      | Some m \<Rightarrow>
          let (out, st, ids) = plan_op (cp_op m) (nd_coord node) (nd_ids node);
              reply = (case out of
                  Inl e \<Rightarrow> ClientReplyMsg_default\<lparr>cr_note := err_message e\<rparr>
                | Inr o1 \<Rightarrow> ClientReplyMsg_default
                    \<lparr>cr_ok := True, cr_created := po_created o1, cr_decision := po_decision o1,
                     cr_plan := (if po_created o1 then plan_id (po_plan o1) else 0),
                     cr_note := (if po_explanation o1 = [] then [] else last (po_explanation o1))\<rparr>)
          in (node\<lparr>nd_coord := st, nd_ids := ids\<rparr>, reply))"

text \<open>A dispatch request: the reply of the paths that answer at once, or none where the client waits
  for the worker's result.\<close>

definition on_client_dispatch ::
    "NodeCalls \<Rightarrow> Connection \<Rightarrow> u64 \<Rightarrow> ClientDispatchMsg option \<Rightarrow> NodeState \<Rightarrow> NodeState \<times> Output list" where
  "on_client_dispatch calls c corr md node =
     (let reply = ClientReplyMsg_default in
      case md of
        None \<Rightarrow> (node, [reply_client (cn_number c) (reply\<lparr>cr_note := ''bad dispatch request''\<rparr>) corr])
      | Some md \<Rightarrow>
        let plan_id = cd_plan md;
            reply = reply\<lparr>cr_plan := plan_id\<rparr>;
            (d, ids) = make_id (nd_ids node);
            (a, ids) = make_id ids;
            answer = (\<lambda>note. [reply_client (cn_number c) (reply\<lparr>cr_note := note\<rparr>) corr]);
            (reserved, st) = reserve plan_id (nd_coord node);
            node = node\<lparr>nd_ids := ids, nd_coord := st\<rparr>
        in if \<not> has_value reserved then (node, answer ''reserve failed'')
           else
             let (dop, st) = prepare_dispatch plan_id d a st; node = node\<lparr>nd_coord := st\<rparr> in
             case dop of
               Inl e \<Rightarrow> (node, answer ''dispatch not reserved / stale'')
             | Inr out \<Rightarrow>
               let dm = dout_message out in
               case om_find (nd_workers node) (dp_worker_boot dm) of
                 None \<Rightarrow> (node\<lparr>nd_coord := snd (cancel_plan plan_id st)\<rparr>, answer ''no worker connected'')
               | Some target_sock \<Rightarrow>
                 let (conf, st) = confirm_dispatched plan_id d st; node = node\<lparr>nd_coord := st\<rparr> in
                 if \<not> has_value conf then
                   (node\<lparr>nd_coord := snd (cancel_plan plan_id st)\<rparr>, answer ''confirm dispatched failed'')
                 else
                   let node = node\<lparr>nd_pending := om_put d
                         \<lparr>pn_boot = dp_worker_boot dm, pn_client = cn_number c, pn_correlation = corr\<rparr>
                         (nd_pending node)\<rparr>
                   in if nc_send_ok calls
                      then (node, [(target_sock, FrameType.DISPATCH, encode_dispatch dm, 0)])
                      else
                        let err = ClientReplyMsg_default\<lparr>cr_ok := False, cr_ambiguous := True,
                              cr_plan := plan_id, cr_note := ''send dispatch failed''\<rparr>;
                            (node, out) = resolve_dispatch d err node
                        in (node\<lparr>nd_coord := snd (cancel_plan plan_id st)\<rparr>, out))"

definition on_client_get_result :: "ClientGetResultMsg option \<Rightarrow> NodeState \<Rightarrow> ClientReplyMsg" where
  "on_client_get_result m node =
     (case m of
        None \<Rightarrow> ClientReplyMsg_default
      | Some m \<Rightarrow>
          if has_result (cg_plan m) (nd_coord node) then
            let res = result_of (cg_plan m) (nd_coord node)
            in ClientReplyMsg_default
                 \<lparr>cr_ok := True, cr_plan := res_plan res, cr_committed := res_committed res,
                  cr_ambiguous := res_ambiguous res, cr_verification := res_verification res,
                  cr_output_bytes := res_output_bytes res, cr_output_digest := res_output_digest res,
                  cr_note := res_note res\<rparr>
          else ClientReplyMsg_default\<lparr>cr_note := ''no result''\<rparr>)"

section \<open>Connections\<close>

text \<open>One frame of a connection.  The decoders ignore what follows the message in its payload.\<close>

definition node_frame ::
    "NodeCalls \<Rightarrow> Connection \<Rightarrow> FrameReceive \<Rightarrow> NodeState \<Rightarrow> (NodeState \<times> Connection \<times> Output list) option" where
  "node_frame calls c fr node =
     (let corr = fh_correlation (fr_header fr); pr = fr_payload fr;
          answer = (\<lambda>(n, reply). Some (n, c, [reply_client (cn_number c) reply corr])) in
      case fh_type (fr_header fr) of
        FrameType.HELLO \<Rightarrow>
          (case decode_hello pr of
             None \<Rightarrow> Some (node, c, [])
           | Some (m, _) \<Rightarrow> let (n, c) = on_hello c m node in Some (n, c, []))
      | FrameType.REGISTER_TARGET \<Rightarrow>
          (case decode_register_target pr of
             None \<Rightarrow> Some (node, c, []) | Some (m, _) \<Rightarrow> Some (on_register_target c m node, c, []))
      | FrameType.CAPABILITY \<Rightarrow>
          (case decode_capability pr of
             None \<Rightarrow> Some (node, c, []) | Some (m, _) \<Rightarrow> Some (on_capability c m node, c, []))
      | FrameType.DATA_EVIDENCE \<Rightarrow>
          (case decode_data_evidence pr of
             None \<Rightarrow> Some (node, c, []) | Some (m, _) \<Rightarrow> Some (on_data_evidence c m node, c, []))
      | FrameType.HEARTBEAT \<Rightarrow>
          (case decode_heartbeat pr of
             None \<Rightarrow> Some (node, c, []) | Some (m, _) \<Rightarrow> Some (on_heartbeat m node, c, []))
      | FrameType.PING \<Rightarrow> Some (node, c, [(cn_number c, FrameType.PONG, [], corr)])
      | FrameType.RESULT \<Rightarrow>
          (case decode_result pr of
             None \<Rightarrow> Some (node, c, [])
           | Some (m, _) \<Rightarrow> map_option (\<lambda>(n, out). (n, c, out)) (on_result calls m node))
      | FrameType.CLIENT_REGISTER_OPERATION \<Rightarrow>
          answer (on_client_register_operation (map_option fst (decode_operation_fields pr)) node)
      | FrameType.CLIENT_PLAN \<Rightarrow> answer (on_client_plan (map_option fst (decode_client_plan pr)) node)
      | FrameType.CLIENT_DISPATCH \<Rightarrow>
          (let (n, out) = on_client_dispatch calls c corr (map_option fst (decode_client_dispatch pr)) node
           in Some (n, c, out))
      | FrameType.CLIENT_GET_RESULT \<Rightarrow>
          answer (node, on_client_get_result (map_option fst (decode_client_get_result pr)) node)
      | FrameType.SHUTDOWN \<Rightarrow> Some (node\<lparr>nd_running := False\<rparr>, c, [])
      | _ \<Rightarrow> Some (node, c, []))"

definition node_closed :: "Connection \<Rightarrow> NodeState \<Rightarrow> NodeState \<times> Output list" where
  "node_closed c node =
     (if cn_is_worker c then
        resolve_disconnect (cn_boot c)
          (node\<lparr>nd_coord := snd (on_worker_disconnected (cn_boot c) (nd_coord node))\<rparr>)
      else (node, []))"

text \<open>The process with its open connections.  The thread of a connection takes one frame after
  another; while its client waits for the result of a dispatch it takes none.  A call of accept
  that was entered before a shutdown may still return a connection after it, so the rule for it has
  no guard.\<close>

type_synonym System = "NodeState \<times> (nat, Connection) omap"

definition waiting :: "nat \<Rightarrow> NodeState \<Rightarrow> bool" where
  "waiting n node \<longleftrightarrow> list_ex (\<lambda>(_, p). pn_client p = n) (nd_pending node)"

definition Connection_new :: "nat \<Rightarrow> Connection" where
  "Connection_new n = \<lparr>cn_number = n, cn_boot = 0, cn_is_worker = False\<rparr>"

inductive node_step :: "System \<Rightarrow> Output list \<Rightarrow> System \<Rightarrow> bool" where
  accept: "om_find conns n = None \<Longrightarrow>
    node_step (node, conns) [] (node, om_put n (Connection_new n) conns)"
| receive: "om_find conns n = Some c \<Longrightarrow> \<not> waiting n node \<Longrightarrow> fr_status fr = FrameStatus.Ok \<Longrightarrow>
    node_frame calls c fr node = Some (node', c', out) \<Longrightarrow>
    node_step (node, conns) out (node', om_put n c' conns)"
| close: "om_find conns n = Some c \<Longrightarrow> \<not> waiting n node \<Longrightarrow> node_closed c node = (node', out) \<Longrightarrow>
    node_step (node, conns) out (node', om_erase n conns)"

inductive_cases node_stepE: "node_step s out s'"

section \<open>Startup\<close>

text \<open>\<open>advance_to\<close> is the loop that advances the epoch until the one on the command line; its bound,
  the number of steps left, is reached exactly when the loop ends.\<close>

fun advance_to :: "nat \<Rightarrow> u64 \<Rightarrow> RuntimeState \<Rightarrow> RuntimeState" where
  "advance_to 0 epoch st = st"
| "advance_to (Suc n) epoch st =
     (if current_epoch st < epoch then advance_to n epoch (advance_epoch st) else st)"

definition node_start ::
    "string \<Rightarrow> u64 \<Rightarrow> ReadCalls \<Rightarrow> FileSystem \<Rightarrow> UniqueIdSource \<Rightarrow> NodeState" where
  "node_start persist epoch rc fs ids =
     (let (st, ids) = Coordinator_new ids;
          (cid, ids) = make_id ids;
          st = snd (attach_coordinator cid st);
          st = (if persist \<noteq> [] \<and> fs persist \<noteq> None then snd (load_state persist rc fs st) else st);
          st = (if epoch > 1 then advance_to (unat epoch - unat (current_epoch st)) epoch st else st)
      in \<lparr>nd_coord = st, nd_ids = ids, nd_workers = [], nd_pending = [], nd_persist = persist,
          nd_running = True, nd_fs = fs\<rparr>)"

section \<open>Handlers are runs of coordinator commands\<close>

definition runs_to :: "NodeState \<Rightarrow> NodeState \<Rightarrow> bool" where
  "runs_to node node' \<longleftrightarrow>
     (\<exists>cs. run exec cs (nd_coord node, nd_ids node) = (nd_coord node', nd_ids node'))"

lemma run_append: "run exec (cs @ ds) s = run exec ds (run exec cs s)"
  by (induction cs arbitrary: s) simp_all

lemma runs_to_refl: "nd_coord node' = nd_coord node \<Longrightarrow> nd_ids node' = nd_ids node \<Longrightarrow> runs_to node node'"
  unfolding runs_to_def by (rule exI [of _ "[]"]) simp

lemma runs_to_run:
  "run exec cs (nd_coord node, nd_ids node) = (nd_coord node', nd_ids node') \<Longrightarrow> runs_to node node'"
  unfolding runs_to_def by blast

lemma runs_to_trans: "runs_to a b \<Longrightarrow> runs_to b c \<Longrightarrow> runs_to a c"
  unfolding runs_to_def using run_append by metis

lemma resolve_dispatch_coord [simp]:
  "nd_coord (fst (resolve_dispatch d r node)) = nd_coord node"
  "nd_ids (fst (resolve_dispatch d r node)) = nd_ids node"
  by (simp_all add: resolve_dispatch_def split: option.split)

lemma resolve_disconnect_coord [simp]:
  "nd_coord (fst (resolve_disconnect b node)) = nd_coord node"
  "nd_ids (fst (resolve_disconnect b node)) = nd_ids node"
  by (simp_all add: resolve_disconnect_def)

lemma worker_frames_run:
  "runs_to node (fst (on_hello c hm node))" "runs_to node (on_register_target c rm node)"
  "runs_to node (on_capability c cm node)" "runs_to node (on_data_evidence c dm node)"
  "runs_to node (on_heartbeat hb node)"
proof -
  show "runs_to node (fst (on_hello c hm node))"
    by (rule runs_to_run [of "[BindWorker (hm_worker hm) (hm_worker_boot hm) (hm_name hm)]"])
      (simp add: on_hello_def case_prod_beta Let_def)
  show "runs_to node (on_register_target c rm node)"
    by (rule runs_to_run [of "[ApplyRegisterTarget (rm\<lparr>rm_owner_boot := cn_boot c\<rparr>)]"])
      (simp add: on_register_target_def)
  show "runs_to node (on_capability c cm node)"
    by (rule runs_to_run [of "[ApplyCapability (if is_null (cm_publisher cm) then cm\<lparr>cm_publisher := cn_boot c\<rparr> else cm)]"])
      (simp add: on_capability_def case_prod_beta Let_def)
  show "runs_to node (on_data_evidence c dm node)"
    by (rule runs_to_run [of "[ApplyDataEvidence (if is_null (dm_publisher dm) then dm\<lparr>dm_publisher := cn_boot c\<rparr> else dm)]"])
      (simp add: on_data_evidence_def Let_def)
  show "runs_to node (on_heartbeat hb node)"
    by (rule runs_to_run [of "[ApplyHeartbeat hb]"]) (simp add: on_heartbeat_def)
qed

lemma on_result_runs: "on_result calls m node = Some (node', out) \<Longrightarrow> runs_to node node'"
  by (rule runs_to_run [of "[ApplyResult m]"])
    (auto simp: on_result_def Let_def case_prod_beta bind_eq_Some_conv dest!: arg_cong [of _ _ fst])

lemma client_frames_run:
  "runs_to node (fst (on_client_register_operation op node))" "runs_to node (fst (on_client_plan m node))"
proof -
  show "runs_to node (fst (on_client_register_operation op node))"
  proof (cases op)
    case (Some spec)
    then show ?thesis
      by (intro runs_to_run [of "[CreateOperation spec]"])
        (simp add: on_client_register_operation_def case_prod_beta Let_def)
  qed (simp add: on_client_register_operation_def runs_to_refl)
  show "runs_to node (fst (on_client_plan m node))"
  proof (cases m)
    case (Some p)
    then show ?thesis
      by (intro runs_to_run [of "[PlanOp (cp_op p)]"])
        (simp add: on_client_plan_def case_prod_beta Let_def)
  qed (simp add: on_client_plan_def runs_to_refl)
qed

text \<open>The ways a dispatch request ends.  \<open>admit\<close> are the commands every request runs.\<close>

abbreviation dispatch_ids :: "NodeState \<Rightarrow> DispatchId \<times> AttemptId \<times> UniqueIdSource" where
  "dispatch_ids node \<equiv>
     (fst (make_id (nd_ids node)), fst (make_id (snd (make_id (nd_ids node)))),
      snd (make_id (snd (make_id (nd_ids node)))))"

lemma on_client_dispatch_cases:
  assumes "dispatch_ids node = (d, a, ids)" "reserve (cd_plan m) (nd_coord node) = (r1, st1)"
    and "prepare_dispatch (cd_plan m) d a st1 = (r2, st2)"
    and "confirm_dispatched (cd_plan m) d st2 = (r3, st3)"
  obtains (refused) reply where "\<not> has_value r1"
      "on_client_dispatch calls c corr (Some m) node = (node\<lparr>nd_ids := ids, nd_coord := st1\<rparr>, [reply_client (cn_number c) reply corr])"
  | (outdated) reply where "has_value r1" "\<not> has_value r2"
      "on_client_dispatch calls c corr (Some m) node = (node\<lparr>nd_ids := ids, nd_coord := st2\<rparr>, [reply_client (cn_number c) reply corr])"
  | (no_worker) reply dop where "has_value r1" "r2 = Inr dop"
      "om_find (nd_workers node) (dp_worker_boot (dout_message dop)) = None"
      "on_client_dispatch calls c corr (Some m) node =
         (node\<lparr>nd_ids := ids, nd_coord := snd (cancel_plan (cd_plan m) st2)\<rparr>, [reply_client (cn_number c) reply corr])"
  | (unconfirmed) reply dop sock where "has_value r1" "r2 = Inr dop"
      "om_find (nd_workers node) (dp_worker_boot (dout_message dop)) = Some sock" "\<not> has_value r3"
      "on_client_dispatch calls c corr (Some m) node =
         (node\<lparr>nd_ids := ids, nd_coord := snd (cancel_plan (cd_plan m) st3)\<rparr>, [reply_client (cn_number c) reply corr])"
  | (unsent) reply dop sock where "has_value r1" "r2 = Inr dop"
      "om_find (nd_workers node) (dp_worker_boot (dout_message dop)) = Some sock" "has_value r3"
      "\<not> nc_send_ok calls"
      "nd_coord (fst (on_client_dispatch calls c corr (Some m) node)) = snd (cancel_plan (cd_plan m) st3)"
      "nd_ids (fst (on_client_dispatch calls c corr (Some m) node)) = ids"
      "snd (on_client_dispatch calls c corr (Some m) node) = [reply_client (cn_number c) reply corr]"
  | (sent) dop sock where "has_value r1" "r2 = Inr dop"
      "om_find (nd_workers node) (dp_worker_boot (dout_message dop)) = Some sock" "has_value r3"
      "nc_send_ok calls"
      "on_client_dispatch calls c corr (Some m) node =
         (node\<lparr>nd_ids := ids, nd_coord := st3,
               nd_pending := om_put d \<lparr>pn_boot = dp_worker_boot (dout_message dop),
                 pn_client = cn_number c, pn_correlation = corr\<rparr> (nd_pending node)\<rparr>,
          [(sock, FrameType.DISPATCH, encode_dispatch (dout_message dop), 0)])"
proof -
  obtain ids1 where ids: "make_id (nd_ids node) = (d, ids1)" "make_id ids1 = (a, ids)"
    using assms(1) by (auto simp: prod_eq_iff)
  note eval = on_client_dispatch_def ids assms(2-4) Let_def
  consider "\<not> has_value r1" | "has_value r1" "\<not> has_value r2"
    | dop where "has_value r1" "r2 = Inr dop"
        "om_find (nd_workers node) (dp_worker_boot (dout_message dop)) = None"
    | dop sock where "has_value r1" "r2 = Inr dop"
        "om_find (nd_workers node) (dp_worker_boot (dout_message dop)) = Some sock" "\<not> has_value r3"
    | dop sock where "has_value r1" "r2 = Inr dop"
        "om_find (nd_workers node) (dp_worker_boot (dout_message dop)) = Some sock" "has_value r3"
        "\<not> nc_send_ok calls"
    | dop sock where "has_value r1" "r2 = Inr dop"
        "om_find (nd_workers node) (dp_worker_boot (dout_message dop)) = Some sock" "has_value r3"
        "nc_send_ok calls"
  proof (cases r2)
    case (Inr dop)
    then show ?thesis
      using that by (cases "om_find (nd_workers node) (dp_worker_boot (dout_message dop))") blast+
  qed (use that in \<open>simp add: has_value_def, blast\<close>)
  then show ?thesis
  proof cases
    case 1
    then show ?thesis by (intro refused) (simp_all add: eval)
  next
    case 2
    then obtain e where "r2 = Inl e" by (cases r2) (simp_all add: has_value_def)
    with 2 show ?thesis by (intro outdated) (simp_all add: eval)
  next
    case 3
    then show ?thesis by (intro no_worker) (simp_all add: eval)
  next
    case 4
    then show ?thesis by (intro unconfirmed) (simp_all add: eval)
  next
    case 5
    then show ?thesis by (intro unsent) (simp_all add: eval case_prod_beta resolve_dispatch_def)
  next
    case 6
    then show ?thesis by (intro sent) (simp_all add: eval)
  qed
qed

lemma on_client_dispatch_runs: "runs_to node (fst (on_client_dispatch calls c corr md node))"
proof (cases md)
  case None
  then show ?thesis by (simp add: on_client_dispatch_def runs_to_refl)
next
  case (Some m)
  obtain d a ids where ids: "dispatch_ids node = (d, a, ids)" by metis
  obtain r1 st1 where r1: "reserve (cd_plan m) (nd_coord node) = (r1, st1)" by force
  obtain r2 st2 where r2: "prepare_dispatch (cd_plan m) d a st1 = (r2, st2)" by force
  obtain r3 st3 where r3: "confirm_dispatched (cd_plan m) d st2 = (r3, st3)" by force
  let ?admit = "[DrawIdentity, DrawIdentity, Reserve (cd_plan m)]"
  let ?prepare = "?admit @ [PrepareDispatch (cd_plan m) d a]"
  let ?confirm = "?prepare @ [ConfirmDispatched (cd_plan m) d]"
  have fin: "snd (make_id (snd (make_id (nd_ids node)))) = ids"
    using ids by simp
  have "runs_to node (fst (on_client_dispatch calls c corr (Some m) node))"
    using ids r1 r2 r3
  proof (cases rule: on_client_dispatch_cases [where calls = calls and c = c and corr = corr])
    case refused
    then show ?thesis
      by (intro runs_to_run [of ?admit]) (simp add: fin r1)
  next
    case outdated
    then show ?thesis
      by (intro runs_to_run [of ?prepare]) (simp add: fin r1 r2)
  next
    case no_worker
    then show ?thesis
      by (intro runs_to_run [of "?prepare @ [CancelPlan (cd_plan m)]"]) (simp add: fin r1 r2)
  next
    case unconfirmed
    then show ?thesis
      by (intro runs_to_run [of "?confirm @ [CancelPlan (cd_plan m)]"]) (simp add: fin r1 r2 r3)
  next
    case unsent
    then show ?thesis
      by (intro runs_to_run [of "?confirm @ [CancelPlan (cd_plan m)]"]) (simp add: fin r1 r2 r3)
  next
    case sent
    then show ?thesis
      by (intro runs_to_run [of ?confirm]) (simp add: fin r1 r2 r3)
  qed
  with Some show ?thesis by simp
qed

lemma node_closed_runs: "runs_to node (fst (node_closed c node))"
proof (cases "cn_is_worker c")
  case True
  then show ?thesis
    by (intro runs_to_run [of "[WorkerDisconnected (cn_boot c)]"]) (simp add: node_closed_def)
qed (simp add: node_closed_def runs_to_refl)

lemma node_frame_runs:
  assumes "node_frame calls c fr node = Some (node', c', out)"
  shows "runs_to node node'"
proof -
  note simps = node_frame_def Let_def case_prod_beta
  show ?thesis
    using assms
    by (auto simp: simps runs_to_refl worker_frames_run client_frames_run on_client_dispatch_runs on_result_runs
        split: FrameType.splits option.splits)
qed

lemma node_step_runs: "node_step (node, conns) out (node', conns') \<Longrightarrow> runs_to node node'"
  by (erule node_stepE)
    (auto intro: runs_to_refl node_frame_runs simp: prod_eq_iff dest!: arg_cong [of _ _ fst],
      metis fst_conv node_closed_runs)

definition node_reaches :: "System \<Rightarrow> System \<Rightarrow> bool" where
  "node_reaches = (\<lambda>s s'. \<exists>out. node_step s out s')\<^sup>*\<^sup>*"

lemma node_reaches_runs: "node_reaches s s' \<Longrightarrow> runs_to (fst s) (fst s')"
  unfolding node_reaches_def
proof (induction rule: rtranclp_induct)
  case (step s' s'')
  then obtain out where "node_step (fst s', snd s') out (fst s'', snd s'')" by auto
  with step.IH show ?case
    by (blast intro: runs_to_trans node_step_runs)
qed (simp add: runs_to_refl)

text \<open>What every command keeps, whatever the identities are.\<close>

lemma run_keeps:
  "state_wf st \<Longrightarrow> state_wf (fst (run exec cs (st, ids)))"
  "plans_pinned st \<Longrightarrow> plans_pinned (fst (run exec cs (st, ids)))"
proof -
  have "state_wf (fst s) \<Longrightarrow> state_wf (fst (exec c s))" for c s
    by (cases s; cases c) (simp_all add: state_wf_intros fence_worker_def)
  then show "state_wf st \<Longrightarrow> state_wf (fst (run exec cs (st, ids)))"
    by (induction cs arbitrary: st ids) (simp_all, metis fst_conv prod.collapse)
  have "plans_pinned (fst s) \<Longrightarrow> plans_pinned (fst (exec c s))" for c s
    using plans_pinned_exec [of "fst s" c "snd s"] by simp
  then show "plans_pinned st \<Longrightarrow> plans_pinned (fst (run exec cs (st, ids)))"
    by (induction cs arbitrary: st ids) (simp_all, metis fst_conv prod.collapse)
qed

lemma runs_to_keeps:
  assumes "runs_to node node'"
  shows "state_wf (nd_coord node) \<Longrightarrow> state_wf (nd_coord node')"
    and "plans_pinned (nd_coord node) \<Longrightarrow> plans_pinned (nd_coord node')"
  using assms run_keeps [of "nd_coord node" _ "nd_ids node"] unfolding runs_to_def by (metis fst_conv)+

section \<open>Startup reaches the epoch it is given\<close>

lemma advance_to_epoch:
  assumes "unat epoch - unat (current_epoch st) \<le> n"
  shows "current_epoch (advance_to n epoch st) = max epoch (current_epoch st)"
  using assms
proof (induction n arbitrary: st)
  case 0
  then show ?case by (simp add: word_le_nat_alt max_def)
next
  case (Suc n)
  show ?case
  proof (cases "current_epoch st < epoch")
    case True
    then have "Suc (unat (current_epoch st)) < 2 ^ 64"
      using unsigned_less [of epoch, where ?'a = nat] by (simp add: word_less_nat_alt)
    then have next_epoch: "unat (current_epoch st + 1) = Suc (unat (current_epoch st))"
      by (simp add: unat_word_ariths)
    have st': "current_epoch (advance_epoch st) = current_epoch st + 1"
      by (simp add: current_epoch_def advance_epoch_def rebuild_active_plans_def)
    have "current_epoch st + 1 \<le> epoch"
      using True by (simp add: word_le_nat_alt word_less_nat_alt next_epoch)
    with True show ?thesis
      using Suc.IH [of "advance_epoch st"] Suc.prems by (simp add: st' next_epoch max_absorb1)
  next
    case False
    then show ?thesis by (simp add: max_absorb2)
  qed
qed

section \<open>A dispatch and its answer\<close>

text \<open>What the node knows once it has sent a dispatch: the frame carries the authority of its plan,
  which is dispatched and bound to the identities in the message.\<close>

definition dispatched :: "RuntimeState \<Rightarrow> DispatchMsg \<Rightarrow> bool" where
  "dispatched st dm \<longleftrightarrow> (\<exists>p. om_find (st_plans st) (dp_plan dm) = Some p \<and> carries dm p \<and>
     plan_lifecycle p = ExecutionLifecycle.DISPATCHED \<and> still_bound st p \<and>
     plan_dispatch_id p = Some (dp_dispatch dm) \<and> plan_attempt_id p = Some (dp_attempt dm))"

lemma still_bound_set_plan [simp]: "still_bound (set_plan pid q st) p = still_bound st p"
  by (simp add: still_bound_def set_plan_def)

lemma still_bound_update [simp]:
  "still_bound st (p\<lparr>plan_dispatch_id := d, plan_attempt_id := a\<rparr>) = still_bound st p"
  "still_bound st (p\<lparr>plan_lifecycle := l\<rparr>) = still_bound st p"
  by (simp_all add: still_bound_def)

lemma carries_update [simp]:
  "carries m (p\<lparr>plan_dispatch_id := d, plan_attempt_id := a\<rparr>) = carries m p"
  "carries m (p\<lparr>plan_lifecycle := l\<rparr>) = carries m p"
  by (simp_all add: carries_def)

lemma confirmed_dispatch:
  assumes wf: "state_wf st" "plans_pinned st"
    and prep: "prepare_dispatch pid d a st = (Inr dop, st2)"
    and conf: "confirm_dispatched pid d st2 = (r3, st3)" "has_value r3"
  shows "dispatched st3 (dout_message dop) \<and> dp_plan (dout_message dop) = pid \<and>
    dp_dispatch (dout_message dop) = d \<and> dp_attempt (dout_message dop) = a"
proof (cases rule: prepare_dispatch_cases [of pid d a st])
  case (bound p out op rt)
  let ?p = "p\<lparr>plan_dispatch_id := Some d, plan_attempt_id := Some a\<rparr>"
  let ?dm = "dispatch_message st p op (rt_owner_boot rt) d a"
  have st2: "st2 = set_plan pid ?p st" and dm: "dout_message dop = ?dm"
    using bound prep by simp_all
  have id: "plan_id p = pid"
    using wf(1) bound(1) by (rule state_wf_plan_id)
  have "pinned p"
    using wf(2) bound(1) by (simp add: plans_pinned_def)
  then have "carries ?dm p"
    using bound(3-5) by (rule dispatch_carries)
  moreover have "st3 = set_plan pid (?p\<lparr>plan_lifecycle := ExecutionLifecycle.DISPATCHED\<rparr>) st2"
    using conf bound(2) by (auto simp: confirm_dispatched_def st2 set_plan_def)
  moreover have "still_bound st p"
    using bound(3) by (rule staleness_still_bound)
  ultimately show ?thesis
    by (simp add: dispatched_def dm id dispatch_message_def set_plan_def st2 still_bound_def)
qed (use prep in simp_all)

text \<open>The request that was sent leaves the node with the client waiting under the dispatch.\<close>

lemma dispatch_sent:
  assumes "state_wf (nd_coord node)" "plans_pinned (nd_coord node)"
    and ids: "dispatch_ids node = (d, a, ids)"
    and message: "fst (prepare_dispatch (cd_plan m) d a (snd (reserve (cd_plan m) (nd_coord node)))) = Inr dop"
      "dm = dout_message dop"
    and sent: "on_client_dispatch calls c corr (Some m) node = (node', [(sock, FrameType.DISPATCH, payload, 0)])"
  shows "payload = encode_dispatch dm" "dispatched (nd_coord node') dm" "dp_plan dm = cd_plan m"
    "om_find (nd_workers node) (dp_worker_boot dm) = Some sock"
    "om_find (nd_pending node') (dp_dispatch dm) =
       Some \<lparr>pn_boot = dp_worker_boot dm, pn_client = cn_number c, pn_correlation = corr\<rparr>"
proof -
  obtain r1 st1 where r1: "reserve (cd_plan m) (nd_coord node) = (r1, st1)" by force
  obtain st2 where r2: "prepare_dispatch (cd_plan m) d a st1 = (Inr dop, st2)"
    using message(1) r1 by (metis prod.collapse snd_conv)
  obtain r3 st3 where r3: "confirm_dispatched (cd_plan m) d st2 = (r3, st3)" by force
  have st1: "st1 = fst (run exec [Reserve (cd_plan m)] (nd_coord node, nd_ids node))"
    using r1 by simp
  have wf: "state_wf st1" "plans_pinned st1"
    unfolding st1 by (rule run_keeps assms)+
  have "payload = encode_dispatch dm \<and> dispatched (nd_coord node') dm \<and> dp_plan dm = cd_plan m \<and>
    om_find (nd_workers node) (dp_worker_boot dm) = Some sock \<and>
    om_find (nd_pending node') (dp_dispatch dm) =
       Some \<lparr>pn_boot = dp_worker_boot dm, pn_client = cn_number c, pn_correlation = corr\<rparr>"
    using ids r1 r2 r3
  proof (cases rule: on_client_dispatch_cases [where calls = calls and c = c and corr = corr])
    case (sent dop' sock')
    note facts = confirmed_dispatch [OF wf r2 r3 sent(4)]
    show ?thesis
      using assms(6) sent facts message(2) by auto
  qed (use sent in \<open>auto simp: reply_client_def has_value_def\<close>)
  then show "payload = encode_dispatch dm" "dispatched (nd_coord node') dm" "dp_plan dm = cd_plan m"
    "om_find (nd_workers node) (dp_worker_boot dm) = Some sock"
    "om_find (nd_pending node') (dp_dispatch dm) =
       Some \<lparr>pn_boot = dp_worker_boot dm, pn_client = cn_number c, pn_correlation = corr\<rparr>"
    by simp_all
qed

text \<open>The worker's result for a dispatched message commits and answers the waiting client, as long as
  the state can be saved: there is no file, or every operation with a program has its generation.\<close>

definition savable :: "NodeState \<Rightarrow> bool" where
  "savable node \<longleftrightarrow> nd_persist node = [] \<or> list_all (\<lambda>(_, op). versioned op) (st_operations (nd_coord node))"

lemma result_answers:
  assumes "dispatched (nd_coord node) dm" "savable node" "bk_ok (worker_execute syn t dm)"
    and pending: "om_find (nd_pending node) (dp_dispatch dm) = Some p"
  shows "\<exists>node' reply. on_result calls (worker_result dm (worker_execute syn t dm)) node =
      Some (node', [reply_client (pn_client p) reply (pn_correlation p)]) \<and>
      cr_ok reply \<and> cr_committed reply \<and> \<not> cr_ambiguous reply \<and> cr_plan reply = dp_plan dm \<and>
      cr_verification reply = VerifyState.VERIFIED \<and>
      cr_output_digest reply = to_hex (content_digest (bk_output (worker_execute syn t dm))) \<and>
      lifecycle_of (dp_plan dm) (nd_coord node') = ExecutionLifecycle.COMMITTED \<and>
      nd_pending node' = om_erase (dp_dispatch dm) (nd_pending node)"
proof -
  let ?msg = "worker_result dm (worker_execute syn t dm)"
  obtain q where q: "om_find (st_plans (nd_coord node)) (dp_plan dm) = Some q" "carries dm q"
    "executing (plan_lifecycle q)" "still_bound (nd_coord node) q"
    "plan_dispatch_id q = Some (dp_dispatch dm)" "plan_attempt_id q = Some (dp_attempt dm)"
    using assms(1) by (auto simp: dispatched_def executing_def)
  obtain res st' ids' where res: "apply_result ?msg (nd_coord node) (nd_ids node) = (Inr res, st', ids')"
    "res_committed res" "res_verification res = VerifyState.VERIFIED"
    "lifecycle_of (dp_plan dm) st' = ExecutionLifecycle.COMMITTED" "\<not> res_ambiguous res"
    "st_operations st' = st_operations (nd_coord node)"
    "res_output_digest res = to_hex (content_digest (bk_output (worker_execute syn t dm)))"
    using honest_result_commits [OF q assms(3), of "nd_ids node"] by blast
  have "\<exists>fs. (if nd_persist node \<noteq> []
        then map_option snd (save_state (nd_persist node) (nc_save calls) st' (nd_fs node))
        else Some (nd_fs node)) = Some fs"
    using assms(2) save_state_defined [of "nd_persist node" "nc_save calls" st' "nd_fs node"]
    by (auto simp: savable_def res(6))
  then obtain fs where fs: "(if nd_persist node \<noteq> []
        then map_option snd (save_state (nd_persist node) (nc_save calls) st' (nd_fs node))
        else Some (nd_fs node)) = Some fs" ..
  have msg: "rs_dispatch ?msg = dp_dispatch dm" "rs_plan ?msg = dp_plan dm"
    by (simp_all add: worker_result_def)
  let ?reply = "result_reply ?msg (Inr res)"
  have reply: "cr_ok ?reply" "cr_committed ?reply" "\<not> cr_ambiguous ?reply" "cr_plan ?reply = dp_plan dm"
    "cr_verification ?reply = VerifyState.VERIFIED"
    "cr_output_digest ?reply = to_hex (content_digest (bk_output (worker_execute syn t dm)))"
    by (simp_all add: result_reply_def Let_def res msg)
  let ?node = "node\<lparr>nd_coord := st', nd_ids := ids', nd_fs := fs,
                 nd_pending := om_erase (dp_dispatch dm) (nd_pending node)\<rparr>"
  have "on_result calls ?msg node =
      Some (?node,
            [reply_client (pn_client p) ?reply (pn_correlation p)])"
    using fs pending
    by (cases "nd_persist node = []")
      (auto simp: on_result_def resolve_dispatch_def Let_def msg res(1) reply)
  then show ?thesis
    using reply res(4) by (intro exI [of _ ?node] exI [of _ ?reply]) simp
qed

section \<open>The end of a worker's connection\<close>

lemma node_closed_clients:
  assumes "cn_is_worker c" "node_closed c node = (node', out)"
  shows "(d, p) \<in> set (nd_pending node') \<longleftrightarrow> (d, p) \<in> set (nd_pending node) \<and> pn_boot p \<noteq> cn_boot c"
    and "(d, p) \<in> set (nd_pending node) \<Longrightarrow> pn_boot p = cn_boot c \<Longrightarrow>
      reply_client (pn_client p) disconnect_reply (pn_correlation p) \<in> set out"
    and "om_find (nd_workers node') (cn_boot c) = None"
  using assms by (force simp: node_closed_def resolve_disconnect_def)+

lemma disconnect_plan:
  assumes "om_find (st_plans st) pid = Some p" "snap_worker_boot (pa_snapshot (plan_authority p)) = boot"
  shows "om_find (st_plans (snd (on_worker_disconnected boot st))) pid = Some (fence_plan boot p)"
  using assms by (simp add: on_worker_disconnected_def)

end
