(* ===== verification/Scenario.thy ===== *)
theory Scenario
  imports Node
begin

text \<open>
  A concrete deployment, used to apply the properties to: one synthetic worker that registers one
  target, one operation over four bytes, its plan, reservation, dispatch and completion.  The
  identities come from a source whose \<^verbatim>\<open>k\<close>-th identity is \<^verbatim>\<open>100 + k\<close>.  Each stage is the state that
  the coordinator's own methods compute, by evaluation.
\<close>

unbundle bit_operations_syntax

named_theorems demo_simps

section \<open>Identities\<close>

definition demo_source :: "nat \<Rightarrow> UniqueIdSource" where
  "demo_source k =
     \<lparr>ids_counter = word_of_nat k,
      ids_prng = (\<lambda>n. (word_of_nat n * 0x9E3779B97F4A7C15) XOR word_of_nat (n + 100)),
      ids_drawn = k\<rparr>"

lemma make_id_demo [demo_simps]:
  assumes "k + 100 < 2 ^ 64"
  shows "make_id (demo_source k) = (word_of_nat (k + 100), demo_source (k + 1))"
proof -
  have "word_of_nat (k + 100) \<noteq> (0 :: u64)"
    using assms nat_dvd_not_less [of "k + 100" "2 ^ 64"] by (simp add: word_of_nat_eq_0_iff del: of_nat_add)
  moreover have "(x XOR y) XOR x = y" for x y :: u64
    by (simp add: xor.commute xor.left_commute)
  ultimately show ?thesis
    by (simp add: make_id_def demo_source_def Let_def add.commute)
qed

lemma draws_demo: "k + 100 + n < 2 ^ 64 \<Longrightarrow> draws n (demo_source k) = map word_of_nat [k + 100..<k + 100 + n]"
proof (induction n arbitrary: k)
  case (Suc n)
  have "[k + 100..<k + 100 + Suc n] = (k + 100) # [Suc k + 100..<Suc k + 100 + n]"
    by (simp add: upt_conv_Cons add.assoc)
  with Suc.IH [of "Suc k"] Suc.prems show ?case
    by (simp add: make_id_demo add.assoc del: upt_Suc)
qed simp

lemma distinct_demo:
  assumes "n < 1000"
  shows "distinct (draws n (demo_source 0))"
proof -
  have "inj_on (word_of_nat :: nat \<Rightarrow> u64) {100..<100 + n}"
    using assms by (intro inj_onI) (simp add: word_of_nat_eq_iff take_bit_nat_eq_self)
  then show ?thesis
    using assms by (simp add: draws_demo distinct_map)
qed

section \<open>The worker and its target\<close>

definition demo_cfg :: WorkerConfig where
  "demo_cfg =
     \<lparr>wk_host = ''127.0.0.1'', wk_port = 4000, wk_name = ''worker'', wk_target_name = ''nm-target'',
      wk_synthetic = True, wk_hold_result = False, wk_latency = 10, wk_throughput = 1000,
      wk_dataset_id = 1000, wk_region_id = 1001, wk_domain_id = 2000, wk_concurrency = 4\<rparr>"

definition demo_me :: WorkerIdentity where
  "demo_me = \<lparr>wi_worker = 10, wi_boot = 11, wi_target = 12\<rparr>"

definition demo_op :: OperationSpec where
  "demo_op =
     \<lparr>op_id = 50, op_generation = 1, op_op_class = OperationClass.SUM, op_dataset = 1000,
      op_dataset_generation = 1, op_region = 1001, op_region_generation = 1,
      op_shape = \<lparr>sh_element_count = 4, sh_data_type = DataType.U8, sh_layout = Layout.CONTIGUOUS,
                  sh_alignment = 1\<rparr>,
      op_input_bytes = 4, op_output_bytes = 8, op_workspace_bytes = 0,
      op_output_data_type = DataType.U64, op_determinism_required = False,
      op_max_tolerated_latency_ns = 0, op_required_throughput_bps = 0,
      op_integrity = IntegrityRequirement.CHECKED, op_retry_class = RetryClass.IDEMPOTENT,
      op_policy = 1, op_policy_generation = 1, op_program = None, op_program_generation = None,
      op_description = ''sum''\<rparr>"

definition demo_setup :: "Command list" where
  "demo_setup =
     [DrawIdentity, AttachCoordinator 101, BindWorker 10 11 ''worker'',
      ApplyRegisterTarget (worker_register_target demo_cfg demo_me),
      ApplyCapability (worker_capability demo_me),
      ApplyDataEvidence (worker_data_evidence demo_cfg demo_me),
      ApplyHeartbeat (worker_heartbeat demo_cfg demo_me), CreateOperation demo_op]"

definition demo_target :: TargetDefinition where
  "demo_target =
     TargetDefinition_default
       \<lparr>td_id := 12, td_generation := 1, td_provider := ProviderKind.SYNTHETIC,
        td_kind := TargetKind.SYNTHETIC, td_name := ''nm-target'', td_synthetic := True,
        td_supported_ops :=
          [OperationClass.SUM, OperationClass.MIN, OperationClass.COUNT, OperationClass.MAX,
           OperationClass.FILTER, OperationClass.CHECKSUM, OperationClass.HASH],
        td_supported_data_types := [DataType.U8], td_supported_layouts := [Layout.CONTIGUOUS],
        td_max_input_bytes := 8589934592, td_alignment_constraint := 1,
        td_concurrency_capacity := 4, td_workspace_bytes := 1048576,
        td_authority_owner := ''worker''\<rparr>"

definition demo_runtime :: TargetRuntime where
  "demo_runtime =
     TargetRuntime_default
       \<lparr>rt_id := 12, rt_owner_boot := 11, rt_lifecycle := TargetLifecycle.READY,
        rt_reachable := True, rt_current_queue_depth := 0,
        rt_performance := (rt_performance TargetRuntime_default)
          \<lparr>perf_latency_ns := 10, perf_throughput_bps := 1000,
           perf_confidence := worker_confidence, perf_measured := False\<rparr>,
        rt_dynamic_current := True\<rparr>"

definition demo_evidence :: DataEvidence where
  "demo_evidence =
     \<lparr>ev_region = 1001, ev_region_generation = 1, ev_dataset_generation = 1, ev_memory_domain = 2000,
      ev_memory_domain_generation = 1, ev_present = True, ev_current = True, ev_reachable = True,
      ev_integrity = IntegrityState.UNKNOWN, ev_mutable = False, ev_dynamic_current = True,
      ev_evidence_id = 0, ev_evidence_generation = 0, ev_publisher = 11, ev_location_note = ''''\<rparr>"

definition demo_caps :: CapabilitySet where
  "demo_caps =
     \<lparr>cs_target = 12, cs_target_generation = 1, cs_generation = 1,
      cs_entries = fst (capability_entries 12 (cm_entries (worker_capability demo_me)) Map.empty (demo_source 3)),
      cs_evidence_id = 102, cs_evidence_generation = 1, cs_publisher = 11, cs_dynamic_current = True\<rparr>"

definition demo_ready :: RuntimeState where
  "demo_ready =
     RuntimeState_default
       \<lparr>st_coordinator_id := 101, st_epoch := 1, st_policies := [(1, default_policy)],
        st_targets := [(12, demo_target)], st_target_runtime := [(12, demo_runtime)],
        st_capabilities := [(12, demo_caps)], st_data_evidence := [(1001, demo_evidence)],
        st_operations := [(50, demo_op)],
        st_workers := [(10, \<lparr>ws_worker = 10, ws_boot = 11, ws_name = ''worker'', ws_connected = True\<rparr>)]\<rparr>"

lemma demo_ready_sel [demo_simps]:
  "st_epoch demo_ready = 1" "st_policies demo_ready = [(1, default_policy)]"
  "st_targets demo_ready = [(12, demo_target)]" "st_target_runtime demo_ready = [(12, demo_runtime)]"
  "st_capabilities demo_ready = [(12, demo_caps)]" "st_data_evidence demo_ready = [(1001, demo_evidence)]"
  "st_operations demo_ready = [(50, demo_op)]" "st_plans demo_ready = []" "st_active_plans demo_ready = []"
  "st_results demo_ready = []" "st_reservations demo_ready = []" "st_datasets demo_ready = []"
  "st_regions demo_ready = []" "st_programs demo_ready = []" "st_memory_domains demo_ready = []"
  "st_workers demo_ready =
     [(10, \<lparr>ws_worker = 10, ws_boot = 11, ws_name = ''worker'', ws_connected = True\<rparr>)]"
  by (simp_all add: demo_ready_def RuntimeState_default_def)

lemma demo_setup_run: "run exec demo_setup (Coordinator_new (demo_source 0)) = (demo_ready, demo_source 10)"
  by (simp add: demo_setup_def Coordinator_new_def make_id_demo attach_coordinator_def bind_worker_session_def
      apply_register_target_def apply_capability_def apply_data_evidence_def apply_heartbeat_def
      create_operation_def worker_register_target_def worker_capability_def worker_data_evidence_def
      worker_heartbeat_def demo_cfg_def demo_me_def demo_op_def demo_ready_def demo_target_def
      demo_runtime_def demo_evidence_def demo_caps_def default_policy_def Policy_default_def RuntimeState_default_def is_null_def
      Let_def om_count_def del: One_nat_def, simp)

section \<open>Planning\<close>

lemma demo_eligible: "hard_filter (filter_input demo_ready demo_op default_policy 12 demo_target demo_runtime demo_caps) = []"
  by (simp add: hard_filter_def filter_input_def filter_reason_defs demo_simps push_if_def
      demo_target_def demo_runtime_def demo_caps_def demo_evidence_def demo_op_def demo_me_def
      default_policy_def Policy_default_def om_ref_def TargetDefinition_default_def TargetRuntime_default_def
      worker_capability_def op_workspace_required_def state_of_def Let_def to_string_OperationClass_def
      OperationClass_names_def kOperationClasses_def contains_def worker_confidence_def f64_lt_def f64_zero_def f64_is_nan_def f64_key_def
      f64_negative_def f64_exponent_def f64_fraction_def)

lemmas ld_eval_simps =
  transfer_time_ns_def ld_to_u64_def ld_divide_def ld_mult_def ld_of_u64_def ld_round_def
  ld_exponent_def flog2.simps ld_num_def ld_den_def round_half_even_def

lemma demo_decision: "rc_decision (make_candidate 12 demo_target demo_runtime demo_op) = Decision.NEAR_MEMORY_SELECTED"
  by (simp add: make_candidate_def candidate_economics_def choose_path_def evaluate_terms_def
      transfer_estimate_def conventional_cost_def near_cost_def near_memory_total_def conventional_total_def
      demo_op_def demo_runtime_def TargetRuntime_default_def PerfEstimate_default_def TransferEstimate_default_def
      ComputeCostEstimate_default_def kDefaultConventionalBandwidthBps_def
      kDefaultConventionalLatencyNs_def ld_eval_simps Let_def)

lemma demo_ranked:
  "po_ranked (plan_candidates demo_ready demo_op default_policy) = [make_candidate 12 demo_target demo_runtime demo_op]"
  by (simp add: plan_candidates_def consider_target_def demo_simps demo_eligible PlanOutput_default_def
      rank_candidates_def sort_by_def)

definition demo_snapshot :: AuthoritySnapshot where
  "demo_snapshot =
     \<lparr>snap_epoch = 1, snap_worker_boot = 11, snap_target = 12, snap_target_generation = 1,
      snap_memory_domain_generation = 1, snap_dataset_generation = 1, snap_region_generation = 1,
      snap_operation_generation = 1, snap_program_generation = None, snap_capability_generation = 1,
      snap_policy_generation = 1, snap_evidence_generation = 1, snap_plan_generation = 1\<rparr>"

definition demo_plan :: ExecutionPlan where
  "demo_plan =
     ExecutionPlan_default
       \<lparr>plan_id := 110, plan_generation := 1, plan_target := 12, plan_target_generation := 1,
        plan_operation := 50, plan_op_class := OperationClass.SUM, plan_dataset := 1000,
        plan_dataset_generation := 1, plan_region := 1001, plan_region_generation := 1,
        plan_lifecycle := ExecutionLifecycle.PLANNED, plan_retry_class := RetryClass.IDEMPOTENT,
        plan_decision := Decision.NEAR_MEMORY_SELECTED,
        plan_authority := \<lparr>pa_snapshot = demo_snapshot, pa_plan = 110, pa_plan_generation = 1\<rparr>\<rparr>"

definition demo_planned :: RuntimeState where
  "demo_planned = demo_ready\<lparr>st_plans := [(110, demo_plan)], st_active_plans := [(50, 110)]\<rparr>"

lemma demo_plan_op: "snd (plan_op 50 demo_ready (demo_source 10)) = (demo_planned, demo_source 11)"
proof -
  have "op_policy demo_op = 1" "op_id demo_op = 50"
    by (simp_all add: demo_op_def)
  then show ?thesis
    by (simp add: plan_op_def demo_ranked demo_decision demo_simps om_count_def Let_def case_prod_beta
        demo_planned_def)
      (simp add: demo_plan_def demo_snapshot_def new_plan_def bind_authority_def demo_op_def demo_simps
        om_ref_def demo_target_def demo_runtime_def demo_caps_def demo_evidence_def make_candidate_def Let_def)
qed

lemma demo_created:
  "\<exists>out. plan_op 50 demo_ready (demo_source 10) = (Inr out, demo_planned, demo_source 11) \<and> po_created out"
proof -
  have op: "op_policy demo_op = 1" "op_id demo_op = 50"
    by (simp_all add: demo_op_def)
  have "\<exists>out. fst (plan_op 50 demo_ready (demo_source 10)) = Inr out \<and> po_created out"
    by (simp add: plan_op_def demo_ranked demo_decision demo_simps om_count_def op Let_def case_prod_beta)
  then show ?thesis
    using demo_plan_op by (metis prod.collapse)
qed

section \<open>Reservation and dispatch\<close>

lemma demo_plan_sel [demo_simps]:
  "plan_id demo_plan = 110" "plan_generation demo_plan = 1" "plan_target demo_plan = 12"
  "plan_target_generation demo_plan = 1" "plan_operation demo_plan = 50" "plan_dataset demo_plan = 1000"
  "plan_dataset_generation demo_plan = 1" "plan_region demo_plan = 1001"
  "plan_region_generation demo_plan = 1" "plan_lifecycle demo_plan = ExecutionLifecycle.PLANNED"
  "plan_authority demo_plan = \<lparr>pa_snapshot = demo_snapshot, pa_plan = 110, pa_plan_generation = 1\<rparr>"
  by (simp_all add: demo_plan_def)

definition demo_reserved_plan :: ExecutionPlan where
  "demo_reserved_plan = demo_plan\<lparr>plan_reserved_slots := 1, plan_reserved_workspace := 0,
     plan_lifecycle := ExecutionLifecycle.RESERVED\<rparr>"

definition demo_bound_plan :: ExecutionPlan where
  "demo_bound_plan = demo_reserved_plan\<lparr>plan_dispatch_id := Some 111, plan_attempt_id := Some 112\<rparr>"

definition demo_admitted :: "ExecutionPlan \<Rightarrow> RuntimeState" where
  "demo_admitted p = demo_planned\<lparr>st_plans := [(110, p)],
     st_reservations := [(12, \<lparr>rv_reserved_slots = 1, rv_reserved_workspace = 0\<rparr>)]\<rparr>"

definition demo_message :: DispatchMsg where
  "demo_message = dispatch_message demo_ready demo_plan demo_op 11 111 112"

lemma demo_reserve: "reserve 110 demo_planned = (Inr (), demo_admitted demo_reserved_plan)"
  by (simp add: reserve_def demo_planned_def demo_simps demo_admitted_def demo_reserved_plan_def om_ref_def
      om_ensure_def ReservationState_default_def demo_target_def demo_runtime_def demo_op_def set_plan_def Let_def)

lemma demo_prepare:
  "\<exists>dop. prepare_dispatch 110 111 112 (demo_admitted demo_reserved_plan) =
     (Inr dop, demo_admitted demo_bound_plan) \<and> dout_message dop = demo_message"
  by (simp add: prepare_dispatch_def demo_admitted_def demo_planned_def demo_reserved_plan_def demo_bound_plan_def
      demo_simps staleness_def moved_def push_if_def demo_snapshot_def demo_target_def demo_runtime_def
      demo_caps_def demo_evidence_def demo_op_def default_policy_def Policy_default_def set_plan_def
      demo_message_def dispatch_message_def Let_def)

lemma demo_confirm:
  "confirm_dispatched 110 111 (demo_admitted demo_bound_plan) =
     (Inr (), demo_admitted (demo_bound_plan\<lparr>plan_lifecycle := ExecutionLifecycle.DISPATCHED\<rparr>))"
  by (simp add: confirm_dispatched_def demo_admitted_def demo_bound_plan_def demo_reserved_plan_def set_plan_def)

section \<open>Completion\<close>

abbreviation demo_dispatched_plan :: ExecutionPlan where
  "demo_dispatched_plan \<equiv> demo_bound_plan\<lparr>plan_lifecycle := ExecutionLifecycle.DISPATCHED\<rparr>"

abbreviation demo_dispatched :: RuntimeState where
  "demo_dispatched \<equiv> demo_admitted demo_dispatched_plan"

definition demo_completion :: ResultMsg where
  "demo_completion = worker_result demo_message (worker_execute True 0 demo_message)"

lemma demo_message_sel [demo_simps]:
  "dp_plan demo_message = 110" "dp_plan_gen demo_message = 1" "dp_dispatch demo_message = 111"
  "dp_attempt demo_message = 112" "dp_target demo_message = 12" "dp_target_gen demo_message = 1"
  "dp_worker_boot demo_message = 11" "dp_epoch demo_message = 1" "dp_dataset_gen demo_message = 1"
  "dp_region_gen demo_message = 1" "dp_operation_gen demo_message = 1"
  "dp_op_class demo_message = OperationClass.SUM" "dp_payload demo_message = build_sample_payload demo_op"
  by (simp_all add: demo_message_def dispatch_message_def demo_simps demo_op_def)

lemma demo_execute_ok: "bk_ok (worker_execute True 0 demo_message)"
proof -
  have "length (build_sample_payload demo_op) < 2 ^ 64"
    using length_build_sample_payload [of demo_op] by simp
  then show ?thesis
    by (simp add: worker_execute_def synthetic_execute_def worker_request_def size_mismatch_def
        synthetic_output_def demo_simps unat_of_nat take_bit_nat_eq_self Let_def)
qed

lemma demo_accepted: "result_rejected demo_completion demo_dispatched_plan demo_dispatched = None"
  by (simp add: result_rejected_def demo_completion_def worker_result_def demo_simps demo_admitted_def
      demo_planned_def demo_bound_plan_def demo_reserved_plan_def executing_def moved_def demo_target_def
      demo_runtime_def validate_completion_Nil completion_authority_def demo_snapshot_def Let_def)

text \<open>The whole run.\<close>

definition demo_run :: "Command list" where
  "demo_run = demo_setup @ [PlanOp 50, DrawIdentity, DrawIdentity, Reserve 110, PrepareDispatch 110 111 112,
     ConfirmDispatched 110 111]"

lemma demo_run_state:
  "run exec demo_run (Coordinator_new (demo_source 0)) = (demo_dispatched, demo_source 13)"
proof -
  have "exec (PlanOp 50) (demo_ready, demo_source 10) = (demo_planned, demo_source 11)"
    using demo_plan_op by simp
  moreover have "snd (prepare_dispatch 110 111 112 (demo_admitted demo_reserved_plan)) = demo_admitted demo_bound_plan"
    using demo_prepare by auto
  ultimately show ?thesis
    by (simp add: demo_run_def run_append demo_setup_run make_id_demo demo_reserve demo_confirm del: One_nat_def)
qed

lemma demo_identities: "sum_list (map identities demo_run) = 21"
  by (simp add: demo_run_def demo_setup_def worker_capability_def)

lemma demo_reachable: "reachable initial (guard (\<lambda>_. True) False) exec (demo_dispatched, demo_source 13)"
  using reachable_fresh [of demo_run "demo_source 0"] distinct_demo [of 22]
  by (simp add: demo_run_state demo_identities)

text \<open>The run cancels nothing and registers its target once, so it also meets the stricter guards.\<close>

lemma admissible_append:
  "admissible g exec (cs @ ds) s \<longleftrightarrow> admissible g exec cs s \<and> admissible g exec ds (run exec cs s)"
  by (induction cs arbitrary: s) auto

lemma demo_admissible: "admissible (guard mc True) exec demo_run (Coordinator_new (demo_source 0))"
proof -
  have "admissible (guard mc True) exec demo_setup (Coordinator_new (demo_source 0))"
    by (simp add: demo_setup_def Coordinator_new_def make_id_demo attach_coordinator_def
        bind_worker_session_def RuntimeState_default_def om_ref_def is_null_def Let_def
        TargetDefinition_default_def worker_register_target_def demo_cfg_def case_prod_beta split: prod.split)
  moreover have "exec (PlanOp 50) (demo_ready, demo_source 10) = (demo_planned, demo_source 11)"
    using demo_plan_op by simp
  ultimately show ?thesis
    by (simp add: demo_run_def admissible_append demo_setup_run demo_ready_sel del: exec.simps(14))
qed

lemma demo_reachable_strict: "reachable initial (guard mc True) exec (demo_dispatched, demo_source 13)"
proof -
  have "reachable initial (guard mc True) exec (Coordinator_new (demo_source 0))"
    by (rule reachable.initial) (auto simp: initial_def)
  from reachable_run [OF this demo_admissible] show ?thesis
    by (simp add: demo_run_state)
qed

lemma demo_reserved_reachable:
  "reachable initial (guard (\<lambda>_. True) False) exec (demo_admitted demo_reserved_plan, demo_source 13)"
proof -
  let ?cs = "demo_setup @ [PlanOp 50, DrawIdentity, DrawIdentity, Reserve 110]"
  have "Suc (sum_list (map identities ?cs)) < 1000"
    by (simp add: demo_setup_def worker_capability_def)
  note fresh = reachable_fresh [OF distinct_demo [OF this]]
  have "exec (PlanOp 50) (demo_ready, demo_source 10) = (demo_planned, demo_source 11)"
    using demo_plan_op by simp
  then have "run exec ?cs (Coordinator_new (demo_source 0)) = (demo_admitted demo_reserved_plan, demo_source 13)"
    by (simp add: run_append demo_setup_run make_id_demo demo_reserve del: One_nat_def)
  with fresh show ?thesis by simp
qed

text \<open>The completion commits.\<close>

lemma demo_applied:
  "\<exists>r st' ids'. apply_result demo_completion demo_dispatched (demo_source 13) = (Inr r, st', ids') \<and> res_committed r"
proof -
  have "om_find (st_plans demo_dispatched) (dp_plan demo_message) = Some demo_dispatched_plan"
    by (simp add: demo_admitted_def demo_message_sel)
  then show ?thesis
    using demo_accepted demo_execute_ok worker_execute_digest [OF demo_execute_ok]
    by (simp add: apply_result_def demo_completion_def worker_result_def Let_def case_prod_beta)
qed

lemma demo_committed:
  "\<exists>r st'. exec (ApplyResult demo_completion) (demo_dispatched, demo_source 13) = (st', demo_source 14) \<and>
     om_find (st_results st') 113 = Some r \<and> res_plan r = 110 \<and> res_committed r \<and>
     lifecycle_of 110 st' = ExecutionLifecycle.COMMITTED"
proof -
  let ?r = "(result_record 113 demo_completion)\<lparr>res_verification := VerifyState.VERIFIED,
      res_output_digest := rs_output_digest demo_completion, res_committed := True\<rparr>"
  have plan: "om_find (st_plans demo_dispatched) 110 = Some demo_dispatched_plan"
    by (simp add: demo_admitted_def)
  have msg: "rs_plan demo_completion = 110" "\<not> rs_unknown demo_completion"
    "to_hex (content_digest (rs_output demo_completion)) = rs_output_digest demo_completion"
    using demo_execute_ok worker_execute_digest [OF demo_execute_ok]
    by (simp_all add: demo_completion_def worker_result_def demo_message_sel)
  have "exec (ApplyResult demo_completion) (demo_dispatched, demo_source 13) =
      (release_reservation demo_dispatched_plan
         (finish_plan 110 demo_dispatched_plan ExecutionLifecycle.COMMITTED ?r demo_dispatched), demo_source 14)"
    using msg by (simp add: apply_result_def plan demo_accepted make_id_demo Let_def)
  then show ?thesis
    using msg by (simp add: finish_plan_def set_plan_def release_reservation_def lifecycle_of_def
        result_record_def Let_def split: option.split)
qed

section \<open>The process\<close>

text \<open>The node once the client on connection 2 has asked for the dispatch under correlation 9 and the frame
  has gone to the worker on connection 1.\<close>

definition demo_node :: NodeState where
  "demo_node =
     \<lparr>nd_coord = demo_planned, nd_ids = demo_source 11, nd_workers = [(11, 1)], nd_pending = [],
      nd_persist = [], nd_running = True, nd_fs = Map.empty\<rparr>"

definition demo_worker :: Connection where
  "demo_worker = \<lparr>cn_number = 1, cn_boot = 11, cn_is_worker = True\<rparr>"

definition demo_client :: Connection where
  "demo_client = \<lparr>cn_number = 2, cn_boot = 0, cn_is_worker = False\<rparr>"

definition demo_calls :: NodeCalls where
  "demo_calls = \<lparr>nc_save = \<lparr>sv_create = True, sv_write = True, sv_written = 0, sv_flush = True,
     sv_move = True, sv_delete = True\<rparr>, nc_send_ok = True\<rparr>"

definition demo_waiting :: NodeState where
  "demo_waiting = demo_node\<lparr>nd_ids := demo_source 13, nd_coord := demo_dispatched,
     nd_pending := [(111, \<lparr>pn_boot = 11, pn_client = 2, pn_correlation = 9\<rparr>)]\<rparr>"

lemma demo_request:
  "on_client_dispatch demo_calls demo_client 9 (Some \<lparr>cd_plan = 110\<rparr>) demo_node =
     (demo_waiting, [(1, FrameType.DISPATCH, encode_dispatch demo_message, 0)])"
proof -
  obtain dop where prep: "prepare_dispatch 110 111 112 (demo_admitted demo_reserved_plan) = (Inr dop, demo_admitted demo_bound_plan)"
    and msg: "dout_message dop = demo_message"
    using demo_prepare by blast
  show ?thesis
    by (simp add: on_client_dispatch_def demo_node_def demo_client_def demo_calls_def demo_waiting_def make_id_demo
        demo_reserve prep msg demo_confirm demo_message_sel has_value_def Let_def del: One_nat_def)
qed

lemma demo_planned_wf: "state_wf demo_planned" "plans_pinned demo_planned"
proof -
  have "exec (PlanOp 50) (demo_ready, demo_source 10) = (demo_planned, demo_source 11)"
    using demo_plan_op by simp
  then have "run exec (demo_setup @ [PlanOp 50]) (Coordinator_new (demo_source 0)) = (demo_planned, demo_source 11)"
    by (simp add: run_append demo_setup_run)
  moreover have "plans_pinned (fst (Coordinator_new (demo_source 0)))"
    by (simp add: plans_pinned_def Coordinator_new_def RuntimeState_default_def case_prod_beta)
  ultimately show "state_wf demo_planned" "plans_pinned demo_planned"
    using run_keeps [of "fst (Coordinator_new (demo_source 0))" "demo_setup @ [PlanOp 50]" "snd (Coordinator_new (demo_source 0))"]
      state_wf_new [of "demo_source 0"] by simp_all
qed

lemma demo_wire: "dispatch_ok demo_message" "result_ok demo_completion"
proof -
  have "length (build_sample_payload demo_op) \<le> kMaxCodecBlobBytes"
    using length_build_sample_payload [of demo_op] by (simp add: kMaxCodecBlobBytes_def)
  then show "dispatch_ok demo_message"
    by (simp add: dispatch_ok_def demo_message_def dispatch_message_def demo_op_def demo_simps
        kOperationClasses_def DataType_table_def RetryClass_table_def)
  have "length (build_sample_payload demo_op) < 2 ^ 64"
    using length_build_sample_payload [of demo_op] by simp
  then show "result_ok demo_completion"
    by (simp add: result_ok_def demo_completion_def worker_result_def worker_execute_def synthetic_execute_def
        worker_request_def size_mismatch_def synthetic_output_def demo_simps unat_of_nat take_bit_nat_eq_self
        kMaxCodecBlobBytes_def output_u64_def Let_def)
qed

end
