(* ===== verification/Discovery.thy ===== *)
theory Discovery
  imports Prelude "HOL-Library.Sublist"
begin

text \<open>
  Host discovery, \<^verbatim>\<open>include/nmc/system_discovery.hpp\<close> and \<^verbatim>\<open>src/system_discovery.cpp\<close>.  What the
  operating system answers is an argument: the processor count, the processor relationship records
  (none where the call fails or has none to give), the highest NUMA node, the memory status, and the
  graphics adapters in the order of their enumeration, each with its description if it has one.
\<close>

section \<open>Data\<close>

record CpuInfo =
  cpu_name :: string
  cpu_logical_processors :: u32
  cpu_physical_cores :: u32
  cpu_numa_nodes :: u32
  cpu_l2_cache_bytes :: u64
  cpu_l3_cache_bytes :: u64

record MemoryInfo =
  mem_total_bytes :: u64
  mem_available_bytes :: u64

record GpuInfo =
  gpu_name :: string
  gpu_present :: bool
  gpu_dedicated_memory_bytes :: u64
  gpu_cuda_capable :: bool

record NearMemoryHardwareInfo =
  nm_physical_pim :: bool
  nm_physical_cxl_adjacent_compute :: bool
  nm_physical_memory_side_processor :: bool
  nm_physical_storage_side_compute :: bool
  nm_physical_dpu_compute :: bool
  nm_synthetic_targets_available :: bool

record SystemDiscovery =
  sd_cpu :: CpuInfo
  sd_memory :: MemoryInfo
  sd_gpus :: "GpuInfo list"
  sd_near_memory :: NearMemoryHardwareInfo
  sd_summary :: string

section \<open>Answers of the operating system\<close>

datatype Relationship = RelationProcessorCore | RelationCache | OtherRelation nat

text \<open>One variable-sized record of \<^verbatim>\<open>GetLogicalProcessorInformationEx\<close>; the cache size means something
  for cache records only.\<close>

record ProcessorRecord =
  pr_relationship :: Relationship
  pr_cache_size :: u32

text \<open>The description of an adapter: the text of its name as converted to UTF-8, up to and including
  its terminator, if the conversion gave any, and its dedicated memory.\<close>

record AdapterDesc =
  ad_name :: "string option"
  ad_dedicated_video_memory :: u64

record OsAnswers =
  os_processors :: u32
  os_processor_info :: "Relationship \<Rightarrow> ProcessorRecord list option"
  os_highest_numa_node :: "u32 option"
  os_memory_status :: "MemoryInfo option"
  os_adapters :: "AdapterDesc option list option"

section \<open>Discovery\<close>

definition highest_numa_node :: "OsAnswers \<Rightarrow> u32" where
  "highest_numa_node os = (case os_highest_numa_node os of Some highest \<Rightarrow> highest + 1 | None \<Rightarrow> 1)"

definition get_cache_bytes :: "Relationship \<Rightarrow> OsAnswers \<Rightarrow> u64" where
  "get_cache_bytes rel os =
     (case os_processor_info os rel of
        None \<Rightarrow> 0
      | Some rs \<Rightarrow> foldl (\<lambda>bytes p. if pr_relationship p = rel \<and> ucast (pr_cache_size p) > bytes
                                  then ucast (pr_cache_size p) else bytes) 0 rs)"

definition physical_cores :: "OsAnswers \<Rightarrow> u32" where
  "physical_cores os =
     (case os_processor_info os RelationProcessorCore of
        None \<Rightarrow> 0
      | Some rs \<Rightarrow> foldl (\<lambda>count p. if pr_relationship p = RelationProcessorCore then count + 1 else count) 0 rs)"

definition discover_gpu :: "AdapterDesc \<Rightarrow> GpuInfo" where
  "discover_gpu desc =
     \<lparr>gpu_name = (case ad_name desc of None \<Rightarrow> '''' | Some tmp \<Rightarrow> takeWhile (\<lambda>c. c \<noteq> CHR 0x00) tmp),
      gpu_present = True, gpu_dedicated_memory_bytes = ad_dedicated_video_memory desc,
      gpu_cuda_capable = False\<rparr>"

definition discovery_summary :: "CpuInfo \<Rightarrow> MemoryInfo \<Rightarrow> GpuInfo list \<Rightarrow> string" where
  "discovery_summary cpu mem gpus =
     ''CPU='' @ nat_to_base 10 (unat (cpu_logical_processors cpu)) @ '' threads, '' @
     nat_to_base 10 (unat (cpu_physical_cores cpu)) @ '' cores, '' @
     nat_to_base 10 (unat (cpu_numa_nodes cpu)) @ '' NUMA node(s); memory='' @
     to_string_u64 (mem_total_bytes mem div (1024 * 1024)) @ '' MiB; gpus='' @
     nat_to_base 10 (length gpus) @
     (case gpus of
        [g] \<Rightarrow> if sublist ''RTX'' (gpu_name g) then ''; RTX CUDA-capable GPU detected'' else ''''
      | _ \<Rightarrow> '''') @
     ''; physical near-memory compute hardware: UNSUPPORTED (none present)''"

definition discover_system :: "OsAnswers \<Rightarrow> SystemDiscovery" where
  "discover_system os =
     (let cpu = \<lparr>cpu_name = '''', cpu_logical_processors = os_processors os,
                 cpu_physical_cores = physical_cores os, cpu_numa_nodes = highest_numa_node os,
                 cpu_l2_cache_bytes = get_cache_bytes RelationCache os, cpu_l3_cache_bytes = 0\<rparr>;
          mem = (case os_memory_status os of
                   Some m \<Rightarrow> m | None \<Rightarrow> \<lparr>mem_total_bytes = 0, mem_available_bytes = 0\<rparr>);
          gpus = (case os_adapters os of
                    None \<Rightarrow> [] | Some ads \<Rightarrow> map discover_gpu (List.map_filter id ads))
      in \<lparr>sd_cpu = cpu, sd_memory = mem, sd_gpus = gpus,
          sd_near_memory =
            \<lparr>nm_physical_pim = False, nm_physical_cxl_adjacent_compute = False,
             nm_physical_memory_side_processor = False, nm_physical_storage_side_compute = False,
             nm_physical_dpu_compute = False, nm_synthetic_targets_available = True\<rparr>,
          sd_summary = discovery_summary cpu mem gpus\<rparr>)"

section \<open>What is reported\<close>

text \<open>The cache size reported is the largest of all levels.\<close>

lemma foldl_largest:
  fixes f :: "'a \<Rightarrow> 'b::linorder"
  shows "foldl (\<lambda>m x. if P x \<and> f x > m then f x else m) a xs = Max (insert a (f ` {x \<in> set xs. P x}))"
proof (induction xs arbitrary: a)
  case (Cons x xs)
  let ?S = "f ` {y \<in> set xs. P y}"
  have step: "(if P x \<and> f x > a then f x else a) = (if P x then max a (f x) else a)"
    by (auto simp: max_def)
  have img: "f ` {y \<in> set (x # xs). P y} = (if P x then insert (f x) ?S else ?S)"
    by auto
  have "Max (insert (max u v) S) = Max (insert u (insert v S))" if "finite S" for u v :: 'b and S
    using that by (cases "S = {}") (simp_all add: max.assoc)
  from this [of ?S a "f x"] show ?case
    unfolding img foldl_Cons step using Cons.IH by (simp del: Max_insert)
qed simp

lemma get_cache_bytes_largest:
  "os_processor_info os RelationCache = Some rs \<Longrightarrow>
     get_cache_bytes RelationCache os =
       Max (insert 0 ((\<lambda>p. ucast (pr_cache_size p)) ` {p \<in> set rs. pr_relationship p = RelationCache}))"
  by (simp add: get_cache_bytes_def foldl_largest)

lemma no_near_memory_hardware:
  "\<not> nm_physical_pim (sd_near_memory (discover_system os)) \<and>
   \<not> nm_physical_cxl_adjacent_compute (sd_near_memory (discover_system os)) \<and>
   \<not> nm_physical_memory_side_processor (sd_near_memory (discover_system os)) \<and>
   \<not> nm_physical_storage_side_compute (sd_near_memory (discover_system os)) \<and>
   \<not> nm_physical_dpu_compute (sd_near_memory (discover_system os)) \<and>
   nm_synthetic_targets_available (sd_near_memory (discover_system os))"
  by (simp add: discover_system_def Let_def)

end
