(* ===== verification/Cli.thy ===== *)
theory Cli
  imports Worker Discovery
begin

text \<open>
  The command line tool, \<^verbatim>\<open>apps/nmc_cli.cpp\<close>: the demonstration deployment it sets up in a coordinator
  of its own, and what each command prints and returns.  The result of discovery and the source of
  identities are arguments.  The lemmas evaluate the demonstration for every source of identities:
  its operation is planned near memory, admitted and dispatched.
\<close>

section \<open>The demonstration\<close>

text \<open>\<^verbatim>\<open>parse\<close> is the same loop as in the worker; its result is not used by any command.\<close>

definition parse :: "string list \<Rightarrow> Args" where
  "parse argv = parse_arg_list (tl argv) Map.empty"

record DemoIds =
  demo_target_id :: NearMemoryTargetId
  demo_region_id :: DataRegionId
  demo_dataset_id :: DatasetId
  demo_op_id :: OperationId

definition cli_domain :: "MemoryDomainId \<Rightarrow> MemoryDomainDescriptor" where
  "cli_domain i = \<lparr>md_id = i, md_generation = 1, md_name = ''md0'', md_durable = True\<rparr>"

definition cli_dataset :: "DatasetId \<Rightarrow> DatasetDescriptor" where
  "cli_dataset i =
     \<lparr>ds_id = i, ds_generation = 1, ds_name = ''demo-ds'', ds_producer = ''cli'', ds_durable = True\<rparr>"

definition cli_region :: "DataRegionId \<Rightarrow> DatasetId \<Rightarrow> MemoryDomainId \<Rightarrow> DataRegionDescriptor" where
  "cli_region i dataset domain =
     \<lparr>rg_id = i, rg_generation = 1, rg_dataset = dataset, rg_dataset_generation = 1,
      rg_memory_domain = domain, rg_window = \<lparr>win_offset = 0, win_length = 64\<rparr>,
      rg_shape = \<lparr>sh_element_count = 4096, sh_data_type = DataType.U8, sh_layout = Layout.CONTIGUOUS,
                  sh_alignment = 1\<rparr>,
      rg_integrity = IntegrityState.INTACT, rg_durable = True\<rparr>"

definition cli_register_target :: "NearMemoryTargetId \<Rightarrow> WorkerBootId \<Rightarrow> RegisterTargetMsg" where
  "cli_register_target target boot =
     \<lparr>rm_target = target, rm_generation = 1, rm_provider = ProviderKind.SYNTHETIC,
      rm_kind = TargetKind.MEMORY_SIDE_PROCESSOR, rm_synthetic = True, rm_name = ''syn-reduce'',
      rm_ops = [OperationClass.SUM, OperationClass.MIN, OperationClass.COUNT],
      rm_data_types = [DataType.U8], rm_layouts = [Layout.CONTIGUOUS],
      rm_max_input_bytes = push_bit 30 8, rm_alignment = 1, rm_concurrency = 2,
      rm_workspace = push_bit 20 1, rm_owner_boot = boot\<rparr>"

definition cli_capability :: "NearMemoryTargetId \<Rightarrow> WorkerBootId \<Rightarrow> CapabilityMsg" where
  "cli_capability target boot =
     \<lparr>cm_target = target, cm_generation = 1,
      cm_entries = [\<lparr>cw_key = ''operation:SUM'', cw_state = CapabilityState.SUPPORTED\<rparr>,
                    \<lparr>cw_key = ''operation:MIN'', cw_state = CapabilityState.SUPPORTED\<rparr>,
                    \<lparr>cw_key = ''operation:COUNT'', cw_state = CapabilityState.SUPPORTED\<rparr>],
      cm_evidence_generation = 1, cm_publisher = boot\<rparr>"

definition cli_evidence :: "DataRegionId \<Rightarrow> DatasetId \<Rightarrow> MemoryDomainId \<Rightarrow> WorkerBootId \<Rightarrow> DataEvidenceMsg" where
  "cli_evidence region dataset domain boot =
     \<lparr>dm_region = region, dm_region_generation = 1, dm_dataset = dataset, dm_dataset_generation = 1,
      dm_memory_domain = domain, dm_memory_domain_generation = 1, dm_present = True,
      dm_current = True, dm_reachable = True, dm_publisher = boot\<rparr>"

text \<open>The confidence is \<^verbatim>\<open>0.95\<close>.\<close>

definition cli_heartbeat :: "NearMemoryTargetId \<Rightarrow> HeartbeatMsg" where
  "cli_heartbeat target =
     \<lparr>bm_target = target, bm_lifecycle = TargetLifecycle.READY, bm_reachable = True,
      bm_queue_depth = 0, bm_latency_ns = 12000000, bm_throughput_bps = push_bit 30 100,
      bm_confidence = 0x3FEE666666666666\<rparr>"

definition cli_operation :: "OperationId \<Rightarrow> DatasetId \<Rightarrow> DataRegionId \<Rightarrow> OperationSpec" where
  "cli_operation i dataset region =
     \<lparr>op_id = i, op_generation = 1, op_op_class = OperationClass.SUM, op_dataset = dataset,
      op_dataset_generation = 1, op_region = region, op_region_generation = 1,
      op_shape = \<lparr>sh_element_count = push_bit 30 8, sh_data_type = DataType.U8,
                  sh_layout = Layout.CONTIGUOUS, sh_alignment = 1\<rparr>,
      op_input_bytes = push_bit 30 8, op_output_bytes = 8, op_workspace_bytes = 0,
      op_output_data_type = DataType.U64, op_determinism_required = True,
      op_max_tolerated_latency_ns = 0, op_required_throughput_bps = 0,
      op_integrity = IntegrityRequirement.CHECKED, op_retry_class = RetryClass.REPLAY_SAFE,
      op_policy = 1, op_policy_generation = 1, op_program = None, op_program_generation = None,
      op_description = ''''\<rparr>"

definition setup_demo :: "RuntimeState \<Rightarrow> UniqueIdSource \<Rightarrow> DemoIds \<times> RuntimeState \<times> UniqueIdSource" where
  "setup_demo c ids =
     (let (boot, ids) = make_id ids;
          (worker, ids) = make_id ids;
          c = snd (bind_worker_session worker boot ''demo-worker'' c);
          (domain, ids) = make_id ids;
          c = snd (register_memory_domain (cli_domain domain) c);
          (dataset, ids) = make_id ids;
          c = snd (register_dataset (cli_dataset dataset) c);
          (region, ids) = make_id ids;
          c = snd (register_region (cli_region region dataset domain) c);
          (target, ids) = make_id ids;
          c = snd (apply_register_target (cli_register_target target boot) c);
          (_, c, ids) = apply_capability (cli_capability target boot) c ids;
          c = snd (apply_data_evidence (cli_evidence region dataset domain boot) c);
          c = snd (apply_heartbeat (cli_heartbeat target) c);
          (opid, ids) = make_id ids;
          c = snd (create_operation (cli_operation opid dataset region) c)
      in (\<lparr>demo_target_id = target, demo_region_id = region, demo_dataset_id = dataset, demo_op_id = opid\<rparr>,
          c, ids))"

section \<open>Commands\<close>

definition line :: "string \<Rightarrow> string" where
  "line s = s @ [CHR 0x0A]"

definition print_bool :: "bool \<Rightarrow> string" where
  "print_bool b = (if b then ''1'' else ''0'')"

definition cli_discover :: "SystemDiscovery \<Rightarrow> string" where
  "cli_discover d =
     line (''CPU '' @ nat_to_base 10 (unat (cpu_logical_processors (sd_cpu d))) @ '' logical / '' @
           nat_to_base 10 (unat (cpu_physical_cores (sd_cpu d))) @ '' physical cores, '' @
           nat_to_base 10 (unat (cpu_numa_nodes (sd_cpu d))) @ '' NUMA nodes'') @
     line (''Memory '' @ to_string_u64 (drop_bit 20 (mem_total_bytes (sd_memory d))) @ '' MiB total / '' @
           to_string_u64 (drop_bit 20 (mem_available_bytes (sd_memory d))) @ '' MiB available'') @
     concat (map (\<lambda>g. line (''GPU: '' @ gpu_name g @ '' (dedicated '' @
           to_string_u64 (drop_bit 20 (gpu_dedicated_memory_bytes g)) @ '' MiB)'')) (sd_gpus d)) @
     line (''Physical near-memory compute hardware: '' @
           (let n = sd_near_memory d in
            if nm_physical_pim n \<or> nm_physical_cxl_adjacent_compute n \<or>
               nm_physical_memory_side_processor n \<or> nm_physical_storage_side_compute n \<or>
               nm_physical_dpu_compute n
            then ''REAL'' else ''UNSUPPORTED (none present)'')) @
     line (''Synthetic near-memory targets available: '' @
           (if nm_synthetic_targets_available (sd_near_memory d) then ''SYNTHETIC'' else ''UNKNOWN''))"

definition cli_help :: string where
  "cli_help =
     line ''nmc-cli commands:'' @
     line (''  discover  targets  operations  datasets  evaluate  plan  dispatch  results  drain  audit  '' @
           ''inspect-state'')"

definition cli_operations :: "RuntimeState \<Rightarrow> string" where
  "cli_operations st =
     line (''operations='' @ nat_to_base 10 (length (st_operations st))) @
     concat (map (\<lambda>(i, op). line (''  op '' @ to_string_u64 i @ '' class='' @
       to_string_OperationClass (op_op_class op) @ '' dataset='' @ to_string_u64 (op_dataset op) @
       '' region='' @ to_string_u64 (op_region op) @ '' '')) (st_operations st))"

definition cli_results :: "RuntimeState \<Rightarrow> string" where
  "cli_results st =
     line (''results='' @ nat_to_base 10 (length (st_results st))) @
     concat (map (\<lambda>(i, r). line (''  result '' @ to_string_u64 i @ '' plan='' @ to_string_u64 (res_plan r) @
       '' committed='' @ print_bool (res_committed r) @ '' verification='' @
       to_string_VerifyState (res_verification r))) (st_results st))"

definition cli_plan :: "OperationId \<Rightarrow> RuntimeState \<Rightarrow> UniqueIdSource \<Rightarrow> nat \<times> string" where
  "cli_plan opid st ids =
     (case fst (plan_op opid st ids) of
        Inl e \<Rightarrow> (1, line (''plan failed: '' @ err_message e))
      | Inr out \<Rightarrow>
          (0, line (''decision='' @ to_string_Decision (po_decision out) @ '' created='' @
                    print_bool (po_created out)) @
              concat (map (\<lambda>l. line (''  '' @ l)) (po_explanation out))))"

definition cli_dispatch :: "OperationId \<Rightarrow> RuntimeState \<Rightarrow> UniqueIdSource \<Rightarrow> nat \<times> string" where
  "cli_dispatch opid st ids =
     (let (out, st, ids) = plan_op opid st ids in
      case out of
        Inl e \<Rightarrow> (1, line ''no near-memory plan to dispatch'')
      | Inr out \<Rightarrow>
        if \<not> po_created out then (1, line ''no near-memory plan to dispatch'')
        else
          let pid = plan_id (po_plan out); (r, st) = reserve pid st in
          if \<not> has_value r then (1, line ''reserve failed'')
          else
            let (d, ids) = make_id ids; (a, ids) = make_id ids;
                (dop, st) = prepare_dispatch pid d a st in
            case dop of
              Inl e \<Rightarrow> (1, line (''dispatch rejected (stale/unsupported): '' @ err_message e))
            | Inr _ \<Rightarrow>
                if \<not> has_value (fst (confirm_dispatched pid d st)) then (1, line ''confirm failed'')
                else (0, line (''dispatched plan '' @ to_string_u64 pid @ '' to worker; awaiting result'')))"

definition cli_main :: "string list \<Rightarrow> SystemDiscovery \<Rightarrow> UniqueIdSource \<Rightarrow> nat \<times> string" where
  "cli_main argv d ids =
     (let cmd = (if length argv > 1 then argv ! 1 else ''help'') in
      if cmd = ''discover'' then (0, cli_discover d)
      else if cmd = ''help'' then (0, cli_help)
      else
        let (c, ids) = Coordinator_new ids; (demo, c, ids) = setup_demo c ids in
        if cmd = ''targets'' \<or> cmd = ''inspect-state'' then (0, inspect_text c)
        else if cmd = ''operations'' then (0, cli_operations c)
        else if cmd = ''datasets'' then
          (0, line (''datasets='' @ nat_to_base 10 (length (st_datasets c)) @ '' regions='' @
                    nat_to_base 10 (length (st_regions c))))
        else if cmd = ''evaluate'' \<or> cmd = ''plan'' then cli_plan (demo_op_id demo) c ids
        else if cmd = ''dispatch'' then cli_dispatch (demo_op_id demo) c ids
        else if cmd = ''results'' then (0, cli_results c)
        else if cmd = ''drain'' then
          let r = fst (begin_drain (demo_target_id demo) c) in
          (if has_value r then 0 else 1,
           line (''drain target '' @ to_string_u64 (demo_target_id demo) @ '': '' @
                 (if has_value r then ''accepted'' else ''failed'')))
        else if cmd = ''audit'' then
          (0, line (''coordinator epoch='' @ to_string_u64 (current_epoch c) @ '' targets='' @
                    nat_to_base 10 (length (st_targets c)) @ '' plans='' @
                    nat_to_base 10 (length (st_plans c)) @ '' results='' @
                    nat_to_base 10 (length (st_results c))))
        else (1, line (''unknown command: '' @ cmd)))"

section \<open>The demonstration evaluated\<close>

text \<open>The state of the demonstration, over the identities it drew.\<close>

definition cli_target :: "NearMemoryTargetId \<Rightarrow> TargetDefinition" where
  "cli_target target =
     TargetDefinition_default
       \<lparr>td_id := target, td_generation := 1, td_provider := ProviderKind.SYNTHETIC,
        td_kind := TargetKind.MEMORY_SIDE_PROCESSOR, td_name := ''syn-reduce'', td_synthetic := True,
        td_supported_ops := [OperationClass.SUM, OperationClass.MIN, OperationClass.COUNT],
        td_supported_data_types := [DataType.U8], td_supported_layouts := [Layout.CONTIGUOUS],
        td_max_input_bytes := push_bit 30 8, td_alignment_constraint := 1,
        td_concurrency_capacity := 2, td_workspace_bytes := push_bit 20 1,
        td_authority_owner := ''worker''\<rparr>"

definition cli_runtime :: "NearMemoryTargetId \<Rightarrow> WorkerBootId \<Rightarrow> TargetRuntime" where
  "cli_runtime target boot =
     TargetRuntime_default
       \<lparr>rt_id := target, rt_owner_boot := boot, rt_lifecycle := TargetLifecycle.READY,
        rt_reachable := True, rt_current_queue_depth := 0,
        rt_performance := (rt_performance TargetRuntime_default)
          \<lparr>perf_latency_ns := 12000000, perf_throughput_bps := push_bit 30 100,
           perf_confidence := 0x3FEE666666666666, perf_measured := False\<rparr>,
        rt_dynamic_current := True\<rparr>"

definition cli_caps :: "NearMemoryTargetId \<Rightarrow> WorkerBootId \<Rightarrow> EvidenceId \<Rightarrow> (string \<rightharpoonup> CapabilityEntry) \<Rightarrow> CapabilitySet" where
  "cli_caps target boot eid es =
     \<lparr>cs_target = target, cs_target_generation = 1, cs_generation = 1, cs_entries = es, cs_evidence_id = eid,
      cs_evidence_generation = 1, cs_publisher = boot, cs_dynamic_current = True\<rparr>"

definition cli_data :: "DataRegionId \<Rightarrow> MemoryDomainId \<Rightarrow> WorkerBootId \<Rightarrow> DataEvidence" where
  "cli_data region domain boot =
     \<lparr>ev_region = region, ev_region_generation = 1, ev_dataset_generation = 1, ev_memory_domain = domain,
      ev_memory_domain_generation = 1, ev_present = True, ev_current = True, ev_reachable = True,
      ev_integrity = IntegrityState.UNKNOWN, ev_mutable = False, ev_dynamic_current = True,
      ev_evidence_id = 0, ev_evidence_generation = 0, ev_publisher = boot, ev_location_note = []\<rparr>"

record CliIds =
  ci_boot :: WorkerBootId
  ci_worker :: WorkerId
  ci_domain :: MemoryDomainId
  ci_evidence :: EvidenceId
  ci_entries :: "string \<rightharpoonup> CapabilityEntry"
  ci_demo :: DemoIds

abbreviation cli_op :: "CliIds \<Rightarrow> OperationSpec" where
  "cli_op i \<equiv> cli_operation (demo_op_id (ci_demo i)) (demo_dataset_id (ci_demo i)) (demo_region_id (ci_demo i))"

definition cli_ready :: "UniqueIdSource \<Rightarrow> CliIds \<Rightarrow> RuntimeState" where
  "cli_ready ids i =
     (let d = ci_demo i; target = demo_target_id d; region = demo_region_id d; dataset = demo_dataset_id d in
      (fst (Coordinator_new ids))
        \<lparr>st_workers := [(ci_worker i, \<lparr>ws_worker = ci_worker i, ws_boot = ci_boot i, ws_name = ''demo-worker'',
           ws_connected = True\<rparr>)],
         st_memory_domains := [(ci_domain i, cli_domain (ci_domain i))], st_datasets := [(dataset, cli_dataset dataset)],
         st_regions := [(region, cli_region region dataset (ci_domain i))],
         st_targets := [(target, cli_target target)], st_target_runtime := [(target, cli_runtime target (ci_boot i))],
         st_capabilities := [(target, cli_caps target (ci_boot i) (ci_evidence i) (ci_entries i))],
         st_data_evidence := [(region, cli_data region (ci_domain i) (ci_boot i))],
         st_operations := [(demo_op_id d, cli_op i)]\<rparr>)"

lemma Coordinator_new_sel:
  "st_workers (fst (Coordinator_new ids)) = []" "st_memory_domains (fst (Coordinator_new ids)) = []"
  "st_datasets (fst (Coordinator_new ids)) = []" "st_regions (fst (Coordinator_new ids)) = []"
  "st_targets (fst (Coordinator_new ids)) = []" "st_target_runtime (fst (Coordinator_new ids)) = []"
  "st_capabilities (fst (Coordinator_new ids)) = []" "st_data_evidence (fst (Coordinator_new ids)) = []"
  "st_operations (fst (Coordinator_new ids)) = []" "st_policies (fst (Coordinator_new ids)) = [(1, default_policy)]"
  "st_active_plans (fst (Coordinator_new ids)) = []" "st_plans (fst (Coordinator_new ids)) = []"
  "st_epoch (fst (Coordinator_new ids)) = 1" "st_programs (fst (Coordinator_new ids)) = []"
  "st_reservations (fst (Coordinator_new ids)) = []"
  by (simp_all add: Coordinator_new_def RuntimeState_default_def case_prod_beta default_policy_def)

lemma cli_ready_sel [simp]:
  "st_epoch (cli_ready ids i) = 1" "st_policies (cli_ready ids i) = [(1, default_policy)]"
  "st_plans (cli_ready ids i) = []" "st_active_plans (cli_ready ids i) = []" "st_programs (cli_ready ids i) = []"
  "st_reservations (cli_ready ids i) = []" "st_operations (cli_ready ids i) = [(demo_op_id (ci_demo i), cli_op i)]"
  "st_targets (cli_ready ids i) = [(demo_target_id (ci_demo i), cli_target (demo_target_id (ci_demo i)))]"
  "st_target_runtime (cli_ready ids i) =
     [(demo_target_id (ci_demo i), cli_runtime (demo_target_id (ci_demo i)) (ci_boot i))]"
  "st_capabilities (cli_ready ids i) =
     [(demo_target_id (ci_demo i), cli_caps (demo_target_id (ci_demo i)) (ci_boot i) (ci_evidence i) (ci_entries i))]"
  "st_data_evidence (cli_ready ids i) =
     [(demo_region_id (ci_demo i), cli_data (demo_region_id (ci_demo i)) (ci_domain i) (ci_boot i))]"
  "st_datasets (cli_ready ids i) = [(demo_dataset_id (ci_demo i), cli_dataset (demo_dataset_id (ci_demo i)))]"
  "st_regions (cli_ready ids i) =
     [(demo_region_id (ci_demo i), cli_region (demo_region_id (ci_demo i)) (demo_dataset_id (ci_demo i)) (ci_domain i))]"
  "st_workers (cli_ready ids i) =
     [(ci_worker i, \<lparr>ws_worker = ci_worker i, ws_boot = ci_boot i, ws_name = ''demo-worker'', ws_connected = True\<rparr>)]"
  by (simp_all add: cli_ready_def Let_def Coordinator_new_sel)

lemma setup_demo_ready:
  "\<exists>i ids''. setup_demo (fst (Coordinator_new ids)) ids' = (ci_demo i, cli_ready ids i, ids'') \<and>
     (\<exists>e. ci_entries i ''operation:SUM'' = Some e \<and> ce_state e = CapabilityState.SUPPORTED)"
proof -
  have draw: "\<exists>i s'. make_id s = (i, s') \<and> i \<noteq> 0" for s
    using make_id_nonnull [of s] by (metis prod.collapse)
  obtain boot s1 where boot: "make_id ids' = (boot, s1)" using draw by blast
  obtain worker s2 where worker: "make_id s1 = (worker, s2)" using draw by blast
  obtain domain s3 where domain: "make_id s2 = (domain, s3)" "domain \<noteq> 0" using draw by blast
  obtain dataset s4 where dataset: "make_id s3 = (dataset, s4)" "dataset \<noteq> 0" using draw by blast
  obtain region s5 where region: "make_id s4 = (region, s5)" "region \<noteq> 0" using draw by blast
  obtain target s6 where target: "make_id s5 = (target, s6)" "target \<noteq> 0" using draw by blast
  obtain eid s7 where eid: "make_id s6 = (eid, s7)" using draw by blast
  obtain es s8 where es: "capability_entries target (cm_entries (cli_capability target boot)) Map.empty s7 = (es, s8)"
    by force
  obtain opid s9 where opid: "make_id s8 = (opid, s9)" "opid \<noteq> 0" using draw by blast
  have sum: "\<exists>e. es ''operation:SUM'' = Some e \<and> ce_state e = CapabilityState.SUPPORTED"
    using es by (auto simp: cli_capability_def Let_def case_prod_beta)
  have msg: "cm_target (cli_capability target boot) = target" "cm_generation (cli_capability target boot) = 1"
    "cm_evidence_generation (cli_capability target boot) = 1" "cm_publisher (cli_capability target boot) = boot"
    by (simp_all add: cli_capability_def)
  let ?i = "\<lparr>ci_boot = boot, ci_worker = worker, ci_domain = domain, ci_evidence = eid, ci_entries = es,
      ci_demo = \<lparr>demo_target_id = target, demo_region_id = region, demo_dataset_id = dataset, demo_op_id = opid\<rparr>\<rparr>"
  have "setup_demo (fst (Coordinator_new ids)) ids' = (ci_demo ?i, cli_ready ids ?i, s9)"
    by (simp add: setup_demo_def boot worker domain dataset region target eid opid es msg Coordinator_new_sel
        Let_def bind_worker_session_def cli_ready_def cli_caps_def cli_data_def
        register_memory_domain_def register_dataset_def register_region_def apply_register_target_def
        apply_capability_def apply_data_evidence_def apply_heartbeat_def create_operation_def
        cli_domain_def cli_dataset_def cli_region_def cli_register_target_def cli_evidence_def cli_heartbeat_def
        cli_operation_def cli_target_def cli_runtime_def is_null_def om_count_def)
  with sum show ?thesis
    by (intro exI [of _ ?i] exI [of _ s9]) simp
qed

section \<open>Planning and dispatch of the demonstration\<close>

lemmas cli_field_simps =
  cli_operation_def cli_target_def cli_runtime_def cli_caps_def cli_data_def default_policy_def Policy_default_def
  cli_dataset_def cli_region_def TargetDefinition_default_def TargetRuntime_default_def PerfEstimate_default_def

lemma cli_eligible:
  assumes "\<exists>e. ci_entries i ''operation:SUM'' = Some e \<and> ce_state e = CapabilityState.SUPPORTED"
  shows "hard_filter (filter_input (cli_ready ids i) (cli_op i) default_policy (demo_target_id (ci_demo i))
      (cli_target (demo_target_id (ci_demo i))) (cli_runtime (demo_target_id (ci_demo i)) (ci_boot i))
      (cli_caps (demo_target_id (ci_demo i)) (ci_boot i) (ci_evidence i) (ci_entries i))) = []"
  using assms
  by (auto simp: hard_filter_def filter_input_def filter_reason_defs push_if_def cli_field_simps om_ref_def
      op_workspace_required_def state_of_def Let_def to_string_OperationClass_def OperationClass_names_def
      kOperationClasses_def contains_def f64_lt_def f64_zero_def f64_is_nan_def f64_key_def f64_negative_def
      f64_exponent_def f64_fraction_def)

lemma cli_beneficial:
  "rc_decision (make_candidate t (cli_target t) (cli_runtime t boot) (cli_operation k d r)) = Decision.NEAR_MEMORY_SELECTED"
  by (simp add: make_candidate_def candidate_economics_def choose_path_def evaluate_terms_def
      transfer_estimate_def conventional_cost_def near_cost_def near_memory_total_def conventional_total_def
      cli_operation_def cli_runtime_def TargetRuntime_default_def PerfEstimate_default_def TransferEstimate_default_def
      ComputeCostEstimate_default_def kDefaultConventionalBandwidthBps_def
      kDefaultConventionalLatencyNs_def transfer_time_ns_def ld_to_u64_def ld_divide_def ld_mult_def ld_of_u64_def
      ld_round_def ld_exponent_def flog2.simps ld_num_def ld_den_def round_half_even_def Let_def)

lemma cli_planned:
  assumes "\<exists>e. ci_entries i ''operation:SUM'' = Some e \<and> ce_state e = CapabilityState.SUPPORTED"
    and "make_id s = (pid, s')"
  shows "\<exists>out. plan_op (demo_op_id (ci_demo i)) (cli_ready ids i) s =
      (Inr out, (cli_ready ids i)\<lparr>st_plans := [(pid, po_plan out)], st_active_plans := [(demo_op_id (ci_demo i), pid)]\<rparr>, s') \<and>
    po_created out \<and> po_decision out = Decision.NEAR_MEMORY_SELECTED \<and>
    po_plan out = new_plan pid (cli_op i) (demo_target_id (ci_demo i)) (cli_target (demo_target_id (ci_demo i)))
      (bind_authority (cli_ready ids i) (cli_op i) (demo_target_id (ci_demo i)) (cli_target (demo_target_id (ci_demo i)))
        (cli_runtime (demo_target_id (ci_demo i)) (ci_boot i))
        (cli_caps (demo_target_id (ci_demo i)) (ci_boot i) (ci_evidence i) (ci_entries i)))"
proof -
  have ranked: "po_ranked (plan_candidates (cli_ready ids i) (cli_op i) default_policy) =
      [make_candidate (demo_target_id (ci_demo i)) (cli_target (demo_target_id (ci_demo i)))
        (cli_runtime (demo_target_id (ci_demo i)) (ci_boot i)) (cli_op i)]"
    by (simp add: plan_candidates_def consider_target_def cli_eligible [OF assms(1)] PlanOutput_default_def
        rank_candidates_def sort_by_def)
  have sel: "op_policy (cli_op i) = 1" "op_id (cli_op i) = demo_op_id (ci_demo i)"
    "rc_target (make_candidate t d rt op) = t" for t d rt op
    by (simp_all add: cli_operation_def make_candidate_def Let_def)
  show ?thesis
    by (simp add: plan_op_def ranked cli_beneficial sel assms(2) om_count_def om_ref_def Let_def)
qed

lemma cli_dispatched:
  assumes "\<exists>e. ci_entries i ''operation:SUM'' = Some e \<and> ce_state e = CapabilityState.SUPPORTED"
  shows "\<exists>pid. cli_dispatch (demo_op_id (ci_demo i)) (cli_ready ids i) s =
    (0, line (''dispatched plan '' @ to_string_u64 pid @ '' to worker; awaiting result''))"
proof -
  obtain pid s1 where pid: "make_id s = (pid, s1)" by force
  obtain d s2 where d: "make_id s1 = (d, s2)" by force
  obtain a s3 where a: "make_id s2 = (a, s3)" by force
  obtain out where out: "plan_op (demo_op_id (ci_demo i)) (cli_ready ids i) s =
      (Inr out, (cli_ready ids i)\<lparr>st_plans := [(pid, po_plan out)], st_active_plans := [(demo_op_id (ci_demo i), pid)]\<rparr>, s1)"
    "po_created out"
    and plan: "po_plan out = new_plan pid (cli_op i) (demo_target_id (ci_demo i)) (cli_target (demo_target_id (ci_demo i)))
      (bind_authority (cli_ready ids i) (cli_op i) (demo_target_id (ci_demo i)) (cli_target (demo_target_id (ci_demo i)))
        (cli_runtime (demo_target_id (ci_demo i)) (ci_boot i))
        (cli_caps (demo_target_id (ci_demo i)) (ci_boot i) (ci_evidence i) (ci_entries i)))"
    using cli_planned [OF assms pid] by blast
  let ?p = "po_plan out" and ?t = "demo_target_id (ci_demo i)"
  let ?r = "?p\<lparr>plan_reserved_slots := 1, plan_reserved_workspace := 0, plan_lifecycle := ExecutionLifecycle.RESERVED\<rparr>"
  define planned where "planned = (cli_ready ids i)\<lparr>st_plans := [(pid, ?p)], st_active_plans := [(demo_op_id (ci_demo i), pid)]\<rparr>"
  define reserved where "reserved = planned\<lparr>st_reservations := [(?t, \<lparr>rv_reserved_slots = 1, rv_reserved_workspace = 0\<rparr>)],
      st_plans := [(pid, ?r)]\<rparr>"
  have sel: "plan_id ?p = pid" "plan_target ?p = ?t" "plan_lifecycle ?p = ExecutionLifecycle.PLANNED"
    "plan_operation ?p = demo_op_id (ci_demo i)" "plan_dataset ?p = demo_dataset_id (ci_demo i)"
    "plan_region ?p = demo_region_id (ci_demo i)" "snap_program_generation (pa_snapshot (plan_authority ?p)) = None"
    "snap_epoch (pa_snapshot (plan_authority ?p)) = 1" "snap_worker_boot (pa_snapshot (plan_authority ?p)) = ci_boot i"
    "snap_target_generation (pa_snapshot (plan_authority ?p)) = 1"
    "snap_dataset_generation (pa_snapshot (plan_authority ?p)) = 1"
    "snap_region_generation (pa_snapshot (plan_authority ?p)) = 1"
    "snap_operation_generation (pa_snapshot (plan_authority ?p)) = 1"
    "snap_capability_generation (pa_snapshot (plan_authority ?p)) = 1"
    "snap_policy_generation (pa_snapshot (plan_authority ?p)) = 1"
    "snap_evidence_generation (pa_snapshot (plan_authority ?p)) = 1"
    by (simp_all add: plan new_plan_def bind_authority_def cli_field_simps)
  have reserve: "reserve pid planned = (Inr (), reserved)"
    by (simp add: reserve_def planned_def reserved_def sel om_ref_def om_ensure_def ReservationState_default_def
        set_plan_def Let_def cli_operation_def cli_target_def cli_runtime_def)
  have "staleness reserved ?r = []"
    by (simp add: staleness_def planned_def reserved_def moved_def push_if_def sel cli_field_simps Let_def)
  then obtain dop where prepare: "prepare_dispatch pid d a reserved =
      (Inr dop, set_plan pid (?r\<lparr>plan_dispatch_id := Some d, plan_attempt_id := Some a\<rparr>) reserved)"
    by (simp add: prepare_dispatch_def reserved_def planned_def sel Let_def cli_runtime_def)
  have "has_value (fst (confirm_dispatched pid d (set_plan pid (?r\<lparr>plan_dispatch_id := Some d, plan_attempt_id := Some a\<rparr>) reserved)))"
    by (simp add: confirm_dispatched_def set_plan_def has_value_def)
  with out show ?thesis
    by (intro exI [of _ pid]) (simp add: cli_dispatch_def d a reserve prepare sel(1) Let_def flip: planned_def)
qed

lemma cli_discover_unsupported:
  "\<exists>xs ys. cli_discover (discover_system os) =
     xs @ line (''Physical near-memory compute hardware: '' @ ''UNSUPPORTED (none present)'') @ ys"
  unfolding cli_discover_def Let_def using no_near_memory_hardware [of os]
  by (simp only: if_False simp_thms append_assoc [symmetric]) blast

section \<open>Properties\<close>


end
