(* ===== verification/Spec2Isabelle.thy ===== *)
theory Spec2Isabelle
  imports Scenario Cli
begin

text \<open>
  \<^bold>\<open>Near-Memory Compute: a verification development.\<close>

  The program is a control plane that runs bounded operations near the memory that holds their data.
  A coordinator process keeps memory domains, datasets, regions, programs, policies, operations and
  targets; it plans an operation on the best eligible target, reserves capacity, sends a dispatch to
  the worker that owns the target, validates the completion against the authority the plan was made
  under, and commits or rejects it.  Workers and clients talk to it in checksummed frames over TCP;
  the durable part of its state is saved in a checksummed file that is replaced atomically.

  \<^bold>\<open>Theories and what they model\<close> (paths are under \<^verbatim>\<open>src/\<close>).

  \<^item> \<open>Prelude\<close>: machine words, \<^verbatim>\<open>expected.hpp\<close> (a \<^verbatim>\<open>Result\<close> is \<^verbatim>\<open>Error + 'a\<close>), \<^verbatim>\<open>std::map\<close> as a
    list of pairs sorted by key (\<open>omap\<close>, with \<open>om_find\<close>, \<open>om_put\<close>, \<open>om_erase\<close>, \<open>om_for_each\<close>, and
    \<open>om_ref\<close> and \<open>om_ensure\<close> for \<^verbatim>\<open>operator[]\<close>), little-endian bytes, digits.
  \<^item> \<open>Enums\<close>: \<^verbatim>\<open>enums.hpp\<close>, every enumeration with its casts, names and parser; a value outside the
    enumerators is a constructor of its own, so an unchecked cast is visible.
  \<^item> \<open>Util\<close>: \<^verbatim>\<open>util.hpp\<close>, \<^verbatim>\<open>ids.hpp\<close>, \<^verbatim>\<open>dimension.hpp\<close>.  The identity source is explicit state.
  \<^item> \<open>Checksum\<close>: \<^verbatim>\<open>checksum.hpp\<close> (CRC) and \<^verbatim>\<open>digest.hpp\<close> (FNV-1a), both instances of \<open>byte_hash\<close>.
  \<^item> \<open>Codec\<close>, \<open>Protocol\<close>, \<open>Messages\<close>: \<^verbatim>\<open>codec.hpp\<close> and \<^verbatim>\<open>protocol.hpp\<close>.  Readers are partial functions
    on byte lists; every message is an instance of the locale \<open>wire_codec\<close>, whose laws give its
    round trip.
  \<^item> \<open>Float64\<close>, \<open>Economics\<close>, \<open>Planning\<close>: \<^verbatim>\<open>economics.hpp\<close>, \<^verbatim>\<open>planning.hpp\<close>.  A \<^verbatim>\<open>double\<close> is its bit
    pattern; \<^verbatim>\<open>long double\<close> has 53 bits and round-half-even, as with the compiler the build uses.
  \<^item> \<open>Authority\<close>, \<open>Entities\<close>: \<^verbatim>\<open>authority.hpp\<close> and the data model (\<^verbatim>\<open>target.hpp\<close>, \<^verbatim>\<open>operation.hpp\<close>,
    \<^verbatim>\<open>dataset.hpp\<close>, \<^verbatim>\<open>program.hpp\<close>, \<^verbatim>\<open>policy.hpp\<close>, \<^verbatim>\<open>capability.hpp\<close>, \<^verbatim>\<open>plan.hpp\<close>, \<^verbatim>\<open>result.hpp\<close>).
  \<^item> \<open>Coordinator\<close>: \<^verbatim>\<open>coordinator.hpp\<close> and the methods of \<^verbatim>\<open>src/coordinator.cpp\<close>; the state \<^verbatim>\<open>st_\<close> is
    the record \<open>RuntimeState\<close>, each public method one definition from state to result and state.
  \<^item> \<open>State_Codec\<close>: the encoding of the durable state and \<^verbatim>\<open>save\<close>/\<^verbatim>\<open>load\<close> of \<^verbatim>\<open>src/coordinator.cpp\<close>.
  \<^item> \<open>Persistence\<close>: \<^verbatim>\<open>src/persistence.cpp\<close> over a file system that maps paths to contents; the outcome
    of each system call is an argument.
  \<^item> \<open>Net\<close>: \<^verbatim>\<open>send_all\<close>, \<^verbatim>\<open>recv_all\<close>, \<^verbatim>\<open>send_frame\<close>, \<^verbatim>\<open>recv_frame\<close> of \<^verbatim>\<open>src/net.cpp\<close> over the list of
    results the operating system's calls yield.
  \<^item> \<open>Backend\<close>, \<open>Worker\<close>: \<^verbatim>\<open>src/backend.cpp\<close> and \<^verbatim>\<open>apps/nmc_worker.cpp\<close>.
  \<^item> \<open>Node\<close>: \<^verbatim>\<open>apps/nmc_coordinator.cpp\<close>, one definition per frame handler, and the step relation of
    the process with its connections.
  \<^item> \<open>Discovery\<close>, \<open>Cli\<close>: \<^verbatim>\<open>src/system_discovery.cpp\<close>, with the operating system's answers as an argument, and
    \<^verbatim>\<open>apps/nmc_cli.cpp\<close>.
  \<^item> \<open>Transition\<close>, \<open>Ledger\<close>, \<open>Refinement\<close>, \<open>Invariants\<close>, \<open>Identities\<close>, \<open>Delivery\<close>: the specification of
    the coordinator's bookkeeping and the proofs that the methods keep to it.
  \<^item> \<open>Scenario\<close>: one concrete deployment, to which the properties are applied.

  \<^bold>\<open>What is shown.\<close>  The bookkeeping of the coordinator refines a ledger: a transition system with one
  rule per event (create, admit, bind, dispatch, commit, and so on).  A command is one call of a public
  method; since every method holds the mutex from start to end, any interleaving of threads is a list
  of commands, and the process itself is such a list.  From the ledger follow the order of the
  results, the exclusion of two plans in flight, the capacity bound and the lifecycle.  Then, method by
  method: what planning selects, when a reservation is granted, what a dispatch carries, when a
  completion commits and that it is taken once, what a new epoch, a drain and a lost worker do.  For
  the formats: round trips and the detection of a changed byte or a cut file.  For the loops of sending and of startup: they end.
  And end to end: a client's request, through the worker, to its answer.

  \<^bold>\<open>Assumptions that appear as hypotheses.\<close>  Identities drawn in a run are distinct (\<open>draws\<close>); the
  source mixes a seeded random stream with a counter, which makes repetition improbable, not impossible.  The exclusion of two plans in flight
  needs that no plan with an unknown outcome is cancelled, and the capacity bound that only admitted
  plans are cancelled and capacities never shrink.  These are real restrictions, stated by the guards
  \<open>outcome_known\<close> and \<open>admitted\<close>: \<^verbatim>\<open>cancel_plan\<close> releases a slot also for a plan that holds none, and
  erases the operation's entry of the active index also where it names a newer plan.

  \<^bold>\<open>Bounds.\<close>  The startup loop takes as many steps as there are epochs left; \<open>advance_to\<close> is given that
  number, which is shown to be enough.  The transport loops recurse on the bytes left and on
  the list of system calls; not having returned yet is \<open>None\<close>, and it is shown how many calls suffice.
  Everything else is structural recursion.

  \<^bold>\<open>Not modelled.\<close>  Socket setup in \<^verbatim>\<open>net.cpp\<close> (listen, accept, connect, shutdown: calls of Winsock
  with no logic of their own), \<^verbatim>\<open>cuda_backend\<close> (a device kernel and the CUDA runtime), examples,
  benchmark and tests.  Threads are interleaved at the granularity of
  a frame handler; within one handler of the process the pending table and the coordinator have
  separate locks, and a disconnection between the two is outside the step relation.
\<close>

section \<open>The coordinator's bookkeeping\<close>





text \<open>C3: At most one plan of an operation is in flight, in every state reached by commands that cancel no
  plan whose outcome is unknown.\<close>

theorem one_plan_in_flight:
  assumes "reachable initial (guard outcome_known kc) exec (st, ids)"
    and "om_find (st_plans st) pid = Some p" "in_flight (plan_lifecycle p)"
    and "om_find (st_plans st) pid' = Some p'" "in_flight (plan_lifecycle p')"
    and "plan_operation p = plan_operation p'"
  shows "pid = pid' \<and> om_find (st_active_plans st) (plan_operation p) \<noteq> None"
proof -
  have "exclusive (ledger st)"
    using excl.inv_reachable [OF assms(1)] by (simp add: exclusive_books_def)
  with assms(2-) show ?thesis
    unfolding exclusive_def ledger_sel by blast
qed

theorem one_plan_in_flight_witness:
  "om_find (st_active_plans demo_dispatched) (plan_operation demo_dispatched_plan) \<noteq> None"
proof -
  have "om_find (st_plans demo_dispatched) 110 = Some demo_dispatched_plan"
    by (simp add: demo_admitted_def)
  moreover have "in_flight (plan_lifecycle demo_dispatched_plan)"
    by (simp add: in_flight_def executing_def)
  ultimately show ?thesis
    using one_plan_in_flight [OF demo_reachable_strict] by blast
qed



text \<open>C13: Every map of the coordinator's state stays well-formed: in every reachable state its keys are
  sorted and distinct, each entity is stored under its own identity, and a target with a runtime has
  a definition.\<close>

theorem state_well_formed:
  assumes "reachable initial (guard mc kc) exec (st, ids)"
  shows "state_wf st"
  using maps.inv_reachable [OF assms] by simp

theorem state_well_formed_witness: "state_wf demo_dispatched"
  using state_well_formed [OF demo_reachable] .



section \<open>Completions\<close>

text \<open>C2: Nothing is committed on the worker's word alone: when a completion commits, its plan was executing
  in the current epoch, the message carries the plan's own dispatch, attempt, worker boot and
  generations, and the digest it reports is the digest of the bytes it delivers.\<close>

theorem commit_is_authorized:
  assumes "apply_result msg st ids = (Inr r, st', ids')" "res_committed r"
  shows "\<exists>p. om_find (st_plans st) (rs_plan msg) = Some p \<and> executing (plan_lifecycle p) \<and>
    rs_epoch msg = st_epoch st \<and> plan_dispatch_id p = Some (rs_dispatch msg) \<and>
    plan_attempt_id p = Some (rs_attempt msg) \<and>
    rs_plan_gen msg = pa_plan_generation (plan_authority p) \<and>
    rs_worker_boot msg = snap_worker_boot (pa_snapshot (plan_authority p)) \<and>
    rs_target_gen msg = snap_target_generation (pa_snapshot (plan_authority p)) \<and>
    rs_dataset_gen msg = snap_dataset_generation (pa_snapshot (plan_authority p)) \<and>
    rs_region_gen msg = snap_region_generation (pa_snapshot (plan_authority p)) \<and>
    rs_operation_gen msg = snap_operation_generation (pa_snapshot (plan_authority p)) \<and>
    \<not> rs_unknown msg \<and> to_hex (content_digest (rs_output msg)) = rs_output_digest msg \<and>
    lifecycle_of (rs_plan msg) st' = ExecutionLifecycle.COMMITTED"
proof (cases rule: apply_result_cases [of msg st ids])
  case (committed p r')
  note acc = result_rejected_None [OF committed(2)]
  have "lifecycle_of (rs_plan msg) st' = ExecutionLifecycle.COMMITTED"
    using assms(1) committed(11) by (auto simp: lifecycle_of_def finish_plan_def set_plan_def)
  with committed(1,3,4) acc show ?thesis
    by (intro exI [of _ p]) (simp add: validate_completion_Nil completion_authority_def)
qed (use assms in simp_all)

theorem commit_is_authorized_witness:
  "to_hex (content_digest (rs_output demo_completion)) = rs_output_digest demo_completion \<and>
   rs_worker_boot demo_completion = 11"
proof -
  obtain r st' ids' where "apply_result demo_completion demo_dispatched (demo_source 13) = (Inr r, st', ids')" "res_committed r"
    using demo_applied by blast
  from commit_is_authorized [OF this] show ?thesis
    by (auto simp: demo_completion_def worker_result_def demo_message_sel)
qed

text \<open>C14: A completion that is not accepted changes nothing: when \<^verbatim>\<open>apply_result\<close> returns an error the
  state and the identities are what they were, and it does return one when the plan is unknown,
  already committed, not executing, of another epoch, or bound to another dispatch or attempt.\<close>

theorem rejected_completion_harmless:
  "(case fst (apply_result msg st ids) of Inl _ \<Rightarrow> snd (apply_result msg st ids) = (st, ids) | Inr _ \<Rightarrow> True) \<and>
   (has_value (fst (apply_result msg st ids)) \<longleftrightarrow>
      (\<exists>p. om_find (st_plans st) (rs_plan msg) = Some p \<and> executing (plan_lifecycle p) \<and>
        rs_epoch msg = st_epoch st \<and>
        validate_completion_against_plan (completion_authority msg) (plan_authority p) = [] \<and>
        plan_dispatch_id p = Some (rs_dispatch msg) \<and> plan_attempt_id p = Some (rs_attempt msg) \<and>
        \<not> moved (st_targets st) (rs_target msg) (\<lambda>d. td_generation d \<noteq> rs_target_gen msg) \<and>
        \<not> moved (st_target_runtime st) (rs_target msg) (\<lambda>rt. rt_owner_boot rt \<noteq> rs_worker_boot msg)))"
proof
  show "case fst (apply_result msg st ids) of Inl _ \<Rightarrow> snd (apply_result msg st ids) = (st, ids) | Inr _ \<Rightarrow> True"
    by (cases rule: apply_result_cases [of msg st ids]) simp_all
  have "has_value (fst (apply_result msg st ids)) \<longleftrightarrow>
      (\<exists>p. om_find (st_plans st) (rs_plan msg) = Some p \<and> result_rejected msg p st = None)"
    by (cases rule: apply_result_cases [of msg st ids])
      (auto simp: apply_result_def has_value_def Let_def case_prod_beta split: option.splits if_splits)
  then show "has_value (fst (apply_result msg st ids)) \<longleftrightarrow>
      (\<exists>p. om_find (st_plans st) (rs_plan msg) = Some p \<and> executing (plan_lifecycle p) \<and>
        rs_epoch msg = st_epoch st \<and>
        validate_completion_against_plan (completion_authority msg) (plan_authority p) = [] \<and>
        plan_dispatch_id p = Some (rs_dispatch msg) \<and> plan_attempt_id p = Some (rs_attempt msg) \<and>
        \<not> moved (st_targets st) (rs_target msg) (\<lambda>d. td_generation d \<noteq> rs_target_gen msg) \<and>
        \<not> moved (st_target_runtime st) (rs_target msg) (\<lambda>rt. rt_owner_boot rt \<noteq> rs_worker_boot msg))"
    by (simp only: result_rejected_iff)
qed

text \<open>C7: A completion is taken once: after one was accepted for a plan, committed or not, every further
  completion for that plan is rejected.\<close>

theorem completion_taken_once:
  assumes "apply_result msg st ids = (Inr r, st', ids')" "rs_plan msg' = rs_plan msg"
  shows "\<exists>e. apply_result msg' st' ids'' = (Inl e, st', ids'')"
proof -
  obtain p l where "om_find (st_plans st') (rs_plan msg) = Some (p\<lparr>plan_lifecycle := l\<rparr>)"
    "l \<in> {ExecutionLifecycle.COMMITTED, ExecutionLifecycle.FAILED, ExecutionLifecycle.OUTCOME_UNKNOWN}"
    using assms(1)
    by (cases rule: apply_result_cases [of msg st ids]) (auto simp: finish_plan_def set_plan_def)
  then have "\<exists>p. om_find (st_plans st') (rs_plan msg') = Some p \<and> \<not> executing (plan_lifecycle p)"
    using assms(2) by (auto simp: executing_def)
  then show ?thesis
    by (auto simp: apply_result_def result_rejected_def Let_def)
qed

theorem completion_taken_once_witness:
  "\<exists>st'. fst (exec (ApplyResult demo_completion) (demo_dispatched, demo_source 13)) = st' \<and>
     (\<exists>e. apply_result demo_completion st' (demo_source 14) = (Inl e, st', demo_source 14))"
proof -
  obtain r st' ids' where a: "apply_result demo_completion demo_dispatched (demo_source 13) = (Inr r, st', ids')"
    using demo_applied by blast
  from completion_taken_once [OF a refl] a show ?thesis
    by simp
qed

section \<open>Planning, admission and dispatch\<close>






section \<open>Epochs, disconnections and drains\<close>

text \<open>C15: A new epoch ends everything that was pending: every plan that was executing has an unknown
  outcome, every other uncommitted plan is superseded, committed plans and results stay, no dynamic
  evidence is current, and every completion of the old epoch is rejected.\<close>

theorem new_epoch_ends_plans:
  "st_epoch (advance_epoch st) = st_epoch st + 1 \<and> st_results (advance_epoch st) = st_results st \<and>
   st_plans (advance_epoch st) = om_for_each (\<lambda>p.
     if plan_lifecycle p = ExecutionLifecycle.COMMITTED then p
     else p\<lparr>plan_lifecycle := if executing (plan_lifecycle p) then ExecutionLifecycle.OUTCOME_UNKNOWN
                              else ExecutionLifecycle.SUPERSEDED\<rparr>) (st_plans st) \<and>
   list_all (\<lambda>(_, rt). \<not> rt_dynamic_current rt \<and> \<not> rt_reachable rt) (st_target_runtime (advance_epoch st)) \<and>
   list_all (\<lambda>(_, c). \<not> cs_dynamic_current c) (st_capabilities (advance_epoch st)) \<and>
   list_all (\<lambda>(_, ev). \<not> ev_dynamic_current ev) (st_data_evidence (advance_epoch st)) \<and>
   \<not> has_value (fst (apply_result msg (advance_epoch st) ids))"
proof -
  have frame: "st_epoch (advance_epoch st) = st_epoch st + 1" "st_results (advance_epoch st) = st_results st"
    "st_target_runtime (advance_epoch st) = om_for_each revalidate_runtime (st_target_runtime st)"
    "st_capabilities (advance_epoch st) = om_for_each (\<lambda>cs. cs\<lparr>cs_dynamic_current := False\<rparr>) (st_capabilities st)"
    "st_data_evidence (advance_epoch st) = om_for_each (\<lambda>ev. ev\<lparr>ev_dynamic_current := False\<rparr>) (st_data_evidence st)"
    by (simp_all add: advance_epoch_def rebuild_active_plans_def)
  have plans: "supersede_plan = (\<lambda>p. if plan_lifecycle p = ExecutionLifecycle.COMMITTED then p
      else p\<lparr>plan_lifecycle := if executing (plan_lifecycle p) then ExecutionLifecycle.OUTCOME_UNKNOWN
                               else ExecutionLifecycle.SUPERSEDED\<rparr>)"
    by (auto simp: supersede_plan_def)
  have "\<not> executing (plan_lifecycle p)" if found: "om_find (st_plans (advance_epoch st)) pid = Some p" for pid p
  proof -
    obtain q where "p = supersede_plan q"
      using found by (auto simp: advance_epoch_def rebuild_active_plans_def)
    then show ?thesis
      using supersede_lifecycle [of q] by (auto simp: executing_def)
  qed
  then have "\<not> has_value (fst (apply_result msg (advance_epoch st) ids))"
    by (cases rule: apply_result_cases [of msg "advance_epoch st" ids])
      (auto simp: has_value_def dest: result_rejected_None(1))
  then show ?thesis
    by (simp add: frame plans om_for_each_def list_all_iff revalidate_runtime_def case_prod_beta)
qed

text \<open>C16: When a worker's connection ends, its executing plans have an unknown outcome and its other
  unfinished plans are fenced, its connection is forgotten, no client waits on it any more, and each
  client that did is told that the worker disconnected; the clients of other workers keep waiting.\<close>

theorem disconnect_answers_clients:
  assumes "cn_is_worker c" "node_closed c node = (node', out)"
  shows "(\<forall>d p. (d, p) \<in> set (nd_pending node') \<longleftrightarrow> (d, p) \<in> set (nd_pending node) \<and> pn_boot p \<noteq> cn_boot c) \<and>
    (\<forall>d p. (d, p) \<in> set (nd_pending node) \<and> pn_boot p = cn_boot c \<longrightarrow>
       reply_client (pn_client p) disconnect_reply (pn_correlation p) \<in> set out) \<and>
    om_find (nd_workers node') (cn_boot c) = None \<and>
    (\<forall>pid p. om_find (st_plans (nd_coord node)) pid = Some p \<and>
         snap_worker_boot (pa_snapshot (plan_authority p)) = cn_boot c \<and> \<not> terminal (plan_lifecycle p) \<longrightarrow>
       lifecycle_of pid (nd_coord node') =
         (if executing (plan_lifecycle p) then ExecutionLifecycle.OUTCOME_UNKNOWN else ExecutionLifecycle.FENCED))"
proof -
  have coord: "nd_coord node' = snd (on_worker_disconnected (cn_boot c) (nd_coord node))"
    using assms by (auto simp: node_closed_def prod_eq_iff dest!: arg_cong [of _ _ nd_coord])
  have "lifecycle_of pid (nd_coord node') =
      (if executing (plan_lifecycle p) then ExecutionLifecycle.OUTCOME_UNKNOWN else ExecutionLifecycle.FENCED)"
    if "om_find (st_plans (nd_coord node)) pid = Some p" "snap_worker_boot (pa_snapshot (plan_authority p)) = cn_boot c"
      "\<not> terminal (plan_lifecycle p)" for pid p
    using disconnect_plan [OF that(1,2)] that(2,3) by (simp add: coord lifecycle_of_def fence_plan_def)
  then show ?thesis
    using node_closed_clients [OF assms] by blast
qed

theorem disconnect_answers_clients_witness:
  "reply_client 2 disconnect_reply 9 \<in> set (snd (node_closed demo_worker demo_waiting)) \<and>
   lifecycle_of 110 (nd_coord (fst (node_closed demo_worker demo_waiting))) =
     ExecutionLifecycle.OUTCOME_UNKNOWN"
proof -
  obtain node' out where closed: "node_closed demo_worker demo_waiting = (node', out)" by force
  have pend: "(111, \<lparr>pn_boot = 11, pn_client = 2, pn_correlation = 9\<rparr>) \<in> set (nd_pending demo_waiting)"
    by (simp add: demo_waiting_def)
  have plan: "om_find (st_plans (nd_coord demo_waiting)) 110 = Some demo_dispatched_plan"
    "snap_worker_boot (pa_snapshot (plan_authority demo_dispatched_plan)) = 11"
    "\<not> terminal (plan_lifecycle demo_dispatched_plan)" "executing (plan_lifecycle demo_dispatched_plan)"
    by (simp_all add: demo_waiting_def demo_worker_def demo_admitted_def demo_bound_plan_def demo_reserved_plan_def demo_plan_sel
        demo_snapshot_def terminal_def executing_def)
  have worker: "cn_is_worker demo_worker" "cn_boot demo_worker = 11"
    by (simp_all add: demo_worker_def)
  note facts = disconnect_answers_clients [OF worker(1) closed, unfolded worker(2)]
  have "reply_client 2 disconnect_reply 9 \<in> set out"
    using facts pend by fastforce
  moreover have "lifecycle_of 110 (nd_coord node') = ExecutionLifecycle.OUTCOME_UNKNOWN"
    using facts [THEN conjunct2, THEN conjunct2, THEN conjunct2, rule_format, OF conjI [OF plan(1) conjI [OF plan(2,3)]]] plan(4)
    by simp
  ultimately show ?thesis
    by (simp add: closed)
qed

text \<open>C37: A draining target admits no work: in the state a drain leaves, a reservation for any plan on the
  target is refused, and the drain itself changed neither plans nor reservations.\<close>

theorem drain_refuses_admission:
  assumes "begin_drain t st = (Inr (), st')" "om_find (st_plans st') pid = Some p" "plan_target p = t"
  shows "\<not> has_value (fst (reserve pid st')) \<and> st_plans st' = st_plans st \<and> st_reservations st' = st_reservations st"
proof -
  obtain rt where "om_find (st_target_runtime st') t = Some (rt\<lparr>rt_lifecycle := TargetLifecycle.DRAINING\<rparr>)"
    "st_plans st' = st_plans st" "st_reservations st' = st_reservations st"
    using assms(1) by (auto simp: begin_drain_def split: option.splits if_splits)
  with assms(2,3) show ?thesis
    by (simp add: reserve_def has_value_def Let_def)
qed

theorem drain_refuses_admission_witness:
  "\<exists>st'. begin_drain 12 demo_planned = (Inr (), st') \<and> \<not> has_value (fst (reserve 110 st'))"
proof -
  obtain st' where drained: "begin_drain 12 demo_planned = (Inr (), st')" "st_plans st' = [(110, demo_plan)]"
    by (simp add: begin_drain_def demo_planned_def demo_ready_sel demo_runtime_def)
  have "om_find (st_plans st') 110 = Some demo_plan"
    by (simp add: drained(2))
  from drain_refuses_admission [OF drained(1) this demo_plan_sel(3)] drained(1) show ?thesis
    by blast
qed

section \<open>The coordinator process\<close>



text \<open>C4: A dispatch request of a client ends in an answer: when the node sends the dispatch to the worker,
  the worker runs it and its result frame arrives, the node commits the plan, answers the client that
  asked, under the request's correlation, with the verified digest of the worker's output, and the
  client waits no longer.\<close>

theorem dispatch_end_to_end:
  assumes "state_wf (nd_coord node)" "plans_pinned (nd_coord node)"
    and "dispatch_ids node = (d, a, ids)"
    and "fst (prepare_dispatch (cd_plan m) d a (snd (reserve (cd_plan m) (nd_coord node)))) = Inr dop"
    and "dm = dout_message dop" "dispatch_ok dm"
    and "on_client_dispatch calls c corr (Some m) node = (node1, [(sock, FrameType.DISPATCH, payload, 0)])"
    and "savable node1" "\<not> wk_hold_result cfg"
    and "r = worker_execute (wk_synthetic cfg) t dm" "bk_ok r" "result_ok (worker_result dm r)"
  shows "om_find (nd_workers node) (dp_worker_boot dm) = Some sock \<and>
    (\<exists>bytes node2 reply.
       worker_round cfg t True k \<lparr>fr_status = FrameStatus.Ok, fr_header = frame_header FrameType.DISPATCH payload 0,
           fr_payload = payload\<rparr> = (Some (FrameType.RESULT, bytes, k), Continue (k + 1)) \<and>
       node_frame calls wc \<lparr>fr_status = FrameStatus.Ok, fr_header = frame_header FrameType.RESULT bytes k,
           fr_payload = bytes\<rparr> node1 = Some (node2, wc, [reply_client (cn_number c) reply corr]) \<and>
       cr_ok reply \<and> cr_committed reply \<and> cr_plan reply = cd_plan m \<and>
       cr_verification reply = VerifyState.VERIFIED \<and>
       cr_output_digest reply = to_hex (content_digest (bk_output r)) \<and>
       lifecycle_of (cd_plan m) (nd_coord node2) = ExecutionLifecycle.COMMITTED \<and>
       om_find (nd_pending node2) (dp_dispatch dm) = None)"
proof -
  note sent = dispatch_sent [OF assms(1-5,7)]
  have "worker_round cfg t True k \<lparr>fr_status = FrameStatus.Ok,
      fr_header = frame_header FrameType.DISPATCH payload 0, fr_payload = payload\<rparr> =
      (Some (FrameType.RESULT, encode_result (worker_result dm r), k), Continue (k + 1))"
    using dispatch.dec_enc [OF assms(6), of "[]"] assms(9) by (simp add: worker_round_def sent(1) assms(10) Let_def)
  moreover obtain node2 reply where "on_result calls (worker_result dm r) node1 =
      Some (node2, [reply_client (cn_number c) reply corr])"
    and reply: "cr_ok reply" "cr_committed reply" "cr_plan reply = cd_plan m" "cr_verification reply = VerifyState.VERIFIED"
      "cr_output_digest reply = to_hex (content_digest (bk_output r))"
      "lifecycle_of (cd_plan m) (nd_coord node2) = ExecutionLifecycle.COMMITTED"
      "nd_pending node2 = om_erase (dp_dispatch dm) (nd_pending node1)"
    using result_answers [OF sent(2) assms(8) assms(11) [unfolded assms(10)] sent(5), of calls]
    by (auto simp: sent(3) assms(10))
  then have "node_frame calls wc \<lparr>fr_status = FrameStatus.Ok,
      fr_header = frame_header FrameType.RESULT (encode_result (worker_result dm r)) k,
      fr_payload = encode_result (worker_result dm r)\<rparr> node1 = Some (node2, wc, [reply_client (cn_number c) reply corr])"
    using result.dec_enc [OF assms(12), of "[]"] by (simp add: node_frame_def Let_def)
  ultimately show ?thesis
    using sent(4) reply
    by (intro conjI exI [of _ "encode_result (worker_result dm r)"] exI [of _ node2] exI [of _ reply]) simp_all
qed

theorem dispatch_end_to_end_witness:
  "\<exists>bytes node2 reply.
     worker_round demo_cfg 0 True 6 \<lparr>fr_status = FrameStatus.Ok,
         fr_header = frame_header FrameType.DISPATCH (encode_dispatch demo_message) 0,
         fr_payload = encode_dispatch demo_message\<rparr> = (Some (FrameType.RESULT, bytes, 6), Continue 7) \<and>
     node_frame demo_calls demo_worker \<lparr>fr_status = FrameStatus.Ok, fr_header = frame_header FrameType.RESULT bytes 6,
         fr_payload = bytes\<rparr> demo_waiting = Some (node2, demo_worker, [reply_client 2 reply 9]) \<and>
     cr_committed reply"
proof -
  have node: "state_wf (nd_coord demo_node)" "plans_pinned (nd_coord demo_node)" "savable demo_waiting" "\<not> wk_hold_result demo_cfg"
    using demo_planned_wf by (simp_all add: demo_node_def demo_waiting_def savable_def demo_cfg_def)
  have ids: "dispatch_ids demo_node = (111, 112, demo_source 13)"
    by (simp add: demo_node_def make_id_demo del: One_nat_def)
  obtain dop where dop: "fst (prepare_dispatch (cd_plan \<lparr>cd_plan = 110\<rparr>) 111 112
      (snd (reserve (cd_plan \<lparr>cd_plan = 110\<rparr>) (nd_coord demo_node)))) = Inr dop" "demo_message = dout_message dop"
    using demo_prepare by (auto simp: demo_node_def demo_reserve)
  have worker: "worker_execute True 0 demo_message = worker_execute (wk_synthetic demo_cfg) 0 demo_message"
    "cn_number demo_client = 2"
    by (simp_all add: demo_cfg_def demo_client_def)
  from dispatch_end_to_end [OF node(1,2) ids dop demo_wire(1) demo_request node(3,4) worker(1) demo_execute_ok
      demo_wire(2) [unfolded demo_completion_def], of 6 demo_worker] show ?thesis
    unfolding worker(2) by (elim conjE exE) (intro exI conjI; simp)
qed



end
